(* ===== verification/Prelude.thy ===== *)
theory Prelude
  imports Main "HOL-Library.Product_Lexorder" "HOL-Library.List_Lexorder" "HOL-Library.Char_ord" "HOL-Library.Code_Target_Nat"
begin

text \<open>
  Shared ground of the development: the types that name the program's identifiers and
  instants, the result type of a service call with its sequencing combinator, the table
  operations that stand for the SQL statements the services issue, and the generic lemmas
  the component theories use.

  A service method of the backend runs inside one transaction of
  \<^verbatim>\<open>core/database.py:get_db_session\<close>: it commits when the method returns and rolls back
  when the method raises. An operation of the model is therefore a function from a world to
  \<open>app_error + (result \<times> world)\<close>: the error carries no world, because the writes of a raising
  call are rolled back.
\<close>

section \<open>Types and collections of simplification rules\<close>

type_synonym uuid = nat
type_synonym timestamp = int

named_theorems result_simps \<open>inversion of the sequencing combinators\<close>
named_theorems table_simps \<open>reads of a table after a write\<close>
named_theorems frame_simps \<open>fields an operation does not write\<close>

section \<open>Time\<close>

text \<open>
  \<^verbatim>\<open>core/time.py\<close>: a \<^verbatim>\<open>datetime\<close> is naive or carries an offset from UTC; both readings
  are microseconds. \<open>as_utc\<close> reads a naive value as UTC and moves an aware one to offset 0.
  Everywhere else an instant is the microsecond count of its UTC reading (\<open>timestamp\<close>).
\<close>

datatype datetime = Naive int | Aware int int

fun as_utc :: "datetime \<Rightarrow> datetime" where
  "as_utc (Naive local) = Aware local 0"
| "as_utc (Aware local offset) = Aware (local - offset) 0"

fun instant :: "datetime \<Rightarrow> timestamp" where
  "instant (Naive local) = local"
| "instant (Aware local offset) = local - offset"

definition at_or_after_dt :: "datetime \<Rightarrow> datetime \<Rightarrow> bool" where
  "at_or_after_dt now deadline \<longleftrightarrow> instant (as_utc now) \<ge> instant (as_utc deadline)"

definition at_or_after :: "timestamp \<Rightarrow> timestamp \<Rightarrow> bool" where
  "at_or_after now deadline \<longleftrightarrow> now \<ge> deadline"

lemma instant_as_utc [simp]: "instant (as_utc d) = instant d"
  by (cases d) simp_all

lemma as_utc_idem [simp]: "as_utc (as_utc d) = as_utc d"
  by (cases d) simp_all

lemma at_or_after_dt_instant: "at_or_after_dt a b \<longleftrightarrow> at_or_after (instant a) (instant b)"
  by (simp add: at_or_after_dt_def at_or_after_def)

section \<open>Results of calls that may raise\<close>

definition bindE :: "'e + 'a \<Rightarrow> ('a \<Rightarrow> 'e + 'b) \<Rightarrow> 'e + 'b" where
  "bindE m f = (case m of Inl e \<Rightarrow> Inl e | Inr x \<Rightarrow> f x)"

definition requireE :: "'e \<Rightarrow> bool \<Rightarrow> 'e + unit" where
  "requireE e b = (if b then Inr () else Inl e)"

definition someE :: "'e \<Rightarrow> 'a option \<Rightarrow> 'e + 'a" where
  "someE e x = (case x of None \<Rightarrow> Inl e | Some y \<Rightarrow> Inr y)"

text \<open>The state after a call: its own when it returned, the state before when it raised.\<close>

definition world_after :: "'e + 'a \<times> 'w \<Rightarrow> 'w \<Rightarrow> 'w" where
  "world_after r w = (case r of Inl _ \<Rightarrow> w | Inr (_, w') \<Rightarrow> w')"

definition returned :: "'e + 'a \<times> 'w \<Rightarrow> 'a" where
  "returned r = fst (projr r)"

lemma returned_world: "\<not> isl r \<Longrightarrow> r = Inr (returned r, world_after r w)"
  by (cases r) (auto simp: world_after_def returned_def)

lemma bindE_Inl [simp]: "bindE (Inl e) f = Inl e"
  by (simp add: bindE_def)

lemma bindE_Inr [simp]: "bindE (Inr x) f = f x"
  by (simp add: bindE_def)

lemma bindE_cong [fundef_cong]:
  "m = m' \<Longrightarrow> (\<And>x. m' = Inr x \<Longrightarrow> f x = f' x) \<Longrightarrow> bindE m f = bindE m' f'"
  by (cases m') simp_all

lemma bindE_eq_Inr [result_simps]: "bindE m f = Inr y \<longleftrightarrow> (\<exists>x. m = Inr x \<and> f x = Inr y)"
  by (cases m) simp_all

lemma bindE_eq_Inl [result_simps]:
  "bindE m f = Inl e \<longleftrightarrow> m = Inl e \<or> (\<exists>x. m = Inr x \<and> f x = Inl e)"
  by (cases m) simp_all

lemma requireE_simps [simp]:
  "requireE e True = Inr ()" "requireE e False = Inl e"
  by (simp_all add: requireE_def)

lemma requireE_eq_Inr [result_simps]: "requireE e b = Inr u \<longleftrightarrow> b"
  by (simp add: requireE_def)

lemma requireE_eq_Inl [result_simps]: "requireE e b = Inl e' \<longleftrightarrow> \<not> b \<and> e' = e"
  by (auto simp: requireE_def)

lemma someE_simps [simp]: "someE e None = Inl e" "someE e (Some x) = Inr x"
  by (simp_all add: someE_def)

lemma someE_eq_Inr [result_simps]: "someE e x = Inr y \<longleftrightarrow> x = Some y"
  by (cases x) simp_all

lemma someE_eq_Inl [result_simps]: "someE e x = Inl e' \<longleftrightarrow> x = None \<and> e' = e"
  by (cases x) auto

section \<open>Tables\<close>

text \<open>
  A table is the list of its rows in insertion order. \<open>row_get\<close> is \<^verbatim>\<open>session.get\<close>,
  \<open>row_find\<close> is \<^verbatim>\<open>session.scalar(select(...).where(...))\<close>, \<open>row_put\<close> writes the mutated row
  object back at flush, \<open>row_add\<close> is \<^verbatim>\<open>session.add\<close> of a new row.
\<close>

definition row_find :: "('r \<Rightarrow> bool) \<Rightarrow> 'r list \<Rightarrow> 'r option" where
  "row_find P rows = find P rows"

definition row_get :: "('r \<Rightarrow> uuid) \<Rightarrow> uuid \<Rightarrow> 'r list \<Rightarrow> 'r option" where
  "row_get key k rows = find (\<lambda>r. key r = k) rows"

definition row_put :: "('r \<Rightarrow> uuid) \<Rightarrow> 'r \<Rightarrow> 'r list \<Rightarrow> 'r list" where
  "row_put key r rows = map (\<lambda>x. if key x = key r then r else x) rows"

definition row_add :: "'r \<Rightarrow> 'r list \<Rightarrow> 'r list" where
  "row_add r rows = rows @ [r]"

definition unique_keys :: "('r \<Rightarrow> uuid) \<Rightarrow> 'r list \<Rightarrow> bool" where
  "unique_keys key rows \<longleftrightarrow> distinct (map key rows)"

text \<open>Every key of a table was drawn from the identifier supply before \<open>n\<close>.\<close>

definition keys_below :: "('r \<Rightarrow> uuid) \<Rightarrow> uuid \<Rightarrow> 'r list \<Rightarrow> bool" where
  "keys_below key n rows \<longleftrightarrow> (\<forall>r \<in> set rows. key r < n)"

lemma find_append:
  "find P (xs @ ys) = (case find P xs of None \<Rightarrow> find P ys | Some x \<Rightarrow> Some x)"
  by (induction xs) simp_all

lemma find_mem: "find P xs = Some x \<Longrightarrow> x \<in> set xs \<and> P x"
  by (auto simp: find_Some_iff)

lemma row_find_Some: "row_find P rows = Some r \<Longrightarrow> r \<in> set rows \<and> P r"
  by (simp add: row_find_def find_mem)

lemma row_find_None: "row_find P rows = None \<longleftrightarrow> (\<forall>r \<in> set rows. \<not> P r)"
  by (auto simp: row_find_def find_None_iff)

lemma row_get_Some: "row_get key k rows = Some r \<Longrightarrow> r \<in> set rows \<and> key r = k"
  by (auto simp: row_get_def dest: find_mem)

lemma row_get_None: "row_get key k rows = None \<longleftrightarrow> k \<notin> key ` set rows"
  by (auto simp: row_get_def find_None_iff)

lemma row_put_mem: "x \<in> set (row_put key r rows) \<Longrightarrow> x = r \<or> x \<in> set rows \<and> key x \<noteq> key r"
  by (auto simp: row_put_def split: if_splits)

lemma row_put_intro: "r0 \<in> set rows \<Longrightarrow> key r0 = key r \<Longrightarrow> r \<in> set (row_put key r rows)"
  by (auto simp: row_put_def)

lemma row_put_keep: "x \<in> set rows \<Longrightarrow> key x \<noteq> key r \<Longrightarrow> x \<in> set (row_put key r rows)"
  by (force simp: row_put_def)

lemma row_put_subset: "set (row_put key r rows) \<subseteq> insert r (set rows)"
  by (auto simp: row_put_def)

lemma map_key_row_put [table_simps]: "map key (row_put key r rows) = map key rows"
  by (simp add: row_put_def)

lemma length_row_put [table_simps]: "length (row_put key r rows) = length rows"
  by (simp add: row_put_def)

lemma row_put_map_cong:
  "(\<And>x. x \<in> set rows \<Longrightarrow> key x = key r \<Longrightarrow> f r = f x) \<Longrightarrow> map f (row_put key r rows) = map f rows"
  by (auto simp: row_put_def)

lemma set_row_add [table_simps]: "set (row_add r rows) = insert r (set rows)"
  by (simp add: row_add_def)

lemma row_get_unique:
  "unique_keys key rows \<Longrightarrow> r \<in> set rows \<Longrightarrow> row_get key (key r) rows = Some r"
proof (induction rows)
  case Nil
  then show ?case by simp
next
  case (Cons x rows)
  then show ?case
    by (cases "x = r") (auto simp: row_get_def unique_keys_def)
qed

lemma row_get_iff:
  "unique_keys key rows \<Longrightarrow> row_get key k rows = Some r \<longleftrightarrow> r \<in> set rows \<and> key r = k"
  by (auto dest: row_get_Some intro: row_get_unique)

text \<open>The contract of a keyed table, which the list tables provide for every key function.\<close>

locale keyed_table =
  fixes key :: "'r \<Rightarrow> uuid"
    and get :: "uuid \<Rightarrow> 't \<Rightarrow> 'r option"
    and put :: "'r \<Rightarrow> 't \<Rightarrow> 't"
    and add :: "'r \<Rightarrow> 't \<Rightarrow> 't"
    and keys :: "'t \<Rightarrow> uuid set"
  assumes get_key: "get k t = Some r \<Longrightarrow> key r = k"
    and get_dom: "get k t = None \<longleftrightarrow> k \<notin> keys t"
    and get_put: "get k (put r t) = (if k = key r \<and> k \<in> keys t then Some r else get k t)"
    and get_add: "key r \<notin> keys t \<Longrightarrow> get k (add r t) = (if k = key r then Some r else get k t)"
    and keys_put: "keys (put r t) = keys t"
    and keys_add: "keys (add r t) = insert (key r) (keys t)"
begin

lemma get_put_same: "get (key r) t = Some r0 \<Longrightarrow> get (key r) (put r t) = Some r"
  using get_dom get_put by (metis option.distinct(1))

lemma get_put_other: "k \<noteq> key r \<Longrightarrow> get k (put r t) = get k t"
  by (simp add: get_put)

lemma get_add_fresh: "key r \<notin> keys t \<Longrightarrow> get (key r) (add r t) = Some r"
  by (simp add: get_add)

lemma get_add_kept:
  assumes "get k t = Some r0" and "key r \<notin> keys t"
  shows "get k (add r t) = Some r0"
proof -
  from assms(1) have "k \<in> keys t" using get_dom by (metis option.distinct(1))
  with assms show ?thesis by (auto simp: get_add)
qed

text \<open>Two writes of the same row keep the last; writes of different rows commute.\<close>

lemma put_put_same: "key r = key r' \<Longrightarrow> get k (put r' (put r t)) = get k (put r' t)"
  by (auto simp: get_put keys_put)

lemma put_put_swap: "key r \<noteq> key r' \<Longrightarrow> get k (put r (put r' t)) = get k (put r' (put r t))"
  by (auto simp: get_put keys_put)

end

interpretation rows: keyed_table key "row_get key" "row_put key" row_add "\<lambda>t. key ` set t"
  for key :: "'r \<Rightarrow> uuid"
proof unfold_locales
  show "row_get key k t = Some r \<Longrightarrow> key r = k" for k t r
    by (auto dest: row_get_Some)
  show "(row_get key k t = None) = (k \<notin> key ` set t)" for k t
    by (rule row_get_None)
  show "row_get key k (row_put key r t) =
      (if k = key r \<and> k \<in> key ` set t then Some r else row_get key k t)" for k r t
    by (induction t) (auto simp: row_get_def row_put_def)
  show "key r \<notin> key ` set t \<Longrightarrow>
      row_get key k (row_add r t) = (if k = key r then Some r else row_get key k t)" for r t k
    by (induction t) (auto simp: row_get_def row_add_def)
  show "key ` set (row_put key r t) = key ` set t" for r t
    by (metis list.set_map map_key_row_put)
  show "key ` set (row_add r t) = insert (key r) (key ` set t)" for r t
    by (auto simp: row_add_def)
qed

lemma unique_keys_put [table_simps]: "unique_keys key (row_put key r rows) = unique_keys key rows"
  by (simp add: unique_keys_def table_simps)

lemma unique_keys_add [table_simps]:
  "unique_keys key (row_add r rows) \<longleftrightarrow> unique_keys key rows \<and> key r \<notin> key ` set rows"
  by (auto simp: unique_keys_def row_add_def)

lemma keys_below_image: "keys_below key n rows \<longleftrightarrow> (\<forall>k \<in> key ` set rows. k < n)"
  by (simp add: keys_below_def)

lemma keys_below_put [table_simps]: "keys_below key n (row_put key r rows) = keys_below key n rows"
  by (simp only: keys_below_image rows.keys_put)

lemma keys_below_add [table_simps]:
  "keys_below key n (row_add r rows) \<longleftrightarrow> keys_below key n rows \<and> key r < n"
  by (auto simp: keys_below_def row_add_def)

lemma keys_below_mono: "keys_below key n rows \<Longrightarrow> n \<le> m \<Longrightarrow> keys_below key m rows"
  by (auto simp: keys_below_def)

lemma keys_below_Suc [intro]: "keys_below key n rows \<Longrightarrow> keys_below key (Suc n) rows"
  by (auto simp: keys_below_def)

lemma keys_below_fresh: "keys_below key n rows \<Longrightarrow> n \<le> k \<Longrightarrow> k \<notin> key ` set rows"
  by (auto simp: keys_below_def)

lemma row_get_fresh: "keys_below key n rows \<Longrightarrow> n \<le> k \<Longrightarrow> row_get key k rows = None"
  by (simp add: row_get_None keys_below_fresh)

lemma distinct_map_add [table_simps]:
  "distinct (map f (row_add r rows)) \<longleftrightarrow> distinct (map f rows) \<and> f r \<notin> f ` set rows"
  by (auto simp: row_add_def)

lemma list_all_add [table_simps]: "list_all P (row_add r rows) \<longleftrightarrow> list_all P rows \<and> P r"
  by (auto simp: row_add_def)

lemma list_all_put: "list_all P rows \<Longrightarrow> P r \<Longrightarrow> list_all P (row_put key r rows)"
  by (auto simp: list_all_iff dest: row_put_mem)

lemma unique_keys_eq:
  "unique_keys key rows \<Longrightarrow> x \<in> set rows \<Longrightarrow> y \<in> set rows \<Longrightarrow> key x = key y \<Longrightarrow> x = y"
  by (auto simp: unique_keys_def distinct_map inj_on_def)

lemma map_row_put_same:
  assumes "unique_keys key rows" and "r0 \<in> set rows" and "key r0 = key r" and "f r = f r0"
  shows "map f (row_put key r rows) = map f rows"
proof (rule row_put_map_cong)
  fix x
  assume "x \<in> set rows" and "key x = key r"
  with assms have "x = r0" by (auto intro!: unique_keys_eq [of key rows x r0])
  with assms show "f r = f x" by simp
qed

lemma unique_keys_map: "(\<And>x. key (f x) = key x) \<Longrightarrow> unique_keys key (map f rows) = unique_keys key rows"
  by (simp add: unique_keys_def comp_def)

lemma keys_below_map: "(\<And>x. key (f x) = key x) \<Longrightarrow> keys_below key n (map f rows) = keys_below key n rows"
  by (simp add: keys_below_def)

end
