(* ===== verification/Core_Errors.thy ===== *)
theory Core_Errors
  imports Prelude
begin

text \<open>
  \<^verbatim>\<open>core/errors.py\<close>: the exception classes of the application with the stable error code and
  the HTTP status each carries, grouped by the component that raises them, and the exceptions
  of the language itself that a service can let escape. A class \<open>XError\<close> of the source is the
  constructor \<open>X\<close> of its group, with an abbreviation under the source's name. An \<^verbatim>\<open>ErrorCode\<close>
  is the string it is serialized to. The message texts are not modelled.
\<close>

section \<open>Exception classes\<close>

text \<open>Raised by authentication, identity and the database session.\<close>

datatype auth_error =
    AuthenticationRequired | InvalidToken | ExpiredToken | AuthVerificationUnavailable
    | UserDisabled | SessionRevoked | DeviceNotFound | DeviceRevoked | IdentityConflict
    | DatabaseUnavailable

text \<open>Raised by permissions, confirmations and audit.\<close>

datatype authority_error =
    PermissionNotFound | CapabilityNotFound | CapabilityDisabled | ActionNotAllowed
    | ConfirmationNotFound | ConfirmationExpired | ConfirmationRejected
    | StepUpAuthenticationRequired | AuthorizationUnavailable | InvalidPermissionData
    | AuditUnavailable

text \<open>Raised by the Task Engine.\<close>

datatype task_error =
    TaskNotFound | TaskAlreadyTerminal | InvalidTaskTransition | TaskIdempotencyConflict
    | TaskExpired | TaskNotClaimable | TaskConcurrentModification | TaskDeviceInvalid
    | TaskAuthorizationDenied

text \<open>Raised by Memory and the AI Router.\<close>

datatype memory_error =
    InvalidMemoryData | MemoryConcurrentModification | MemoryDuplicateConflict
    | MemoryImmutable | AIRoutingDenied | AIProviderExecution

text \<open>Raised by the Orchestrator.\<close>

datatype orchestration_error =
    InvalidOrchestrationData | OrchestrationNotFound | InvalidOrchestrationTransition
    | OrchestrationAlreadyTerminal | OrchestrationConcurrentModification
    | OrchestrationIdempotencyConflict

text \<open>Raised by conversations and voice sessions.\<close>

datatype conversation_error =
    ConversationNotFound | ConversationConcurrentModification | MessageIdempotencyConflict
    | VoiceSessionNotFound | VoiceSessionAuthFailed | VoiceSessionExpired
    | VoiceSessionConflict | InvalidVoiceTransitionApplication | RealtimeModelUnavailable
    | VoiceTurnIdempotencyConflict | VoiceReconnectExhausted

text \<open>Exceptions that are not an \<^verbatim>\<open>ApplicationError\<close> and are answered as a server error.\<close>

datatype python_error = ValueError | RuntimeError | KeyError | IndexError | IntegrityError

datatype app_error =
    Auth_Error auth_error
  | Authority_Error authority_error
  | Task_Error task_error
  | Memory_Error memory_error
  | Orchestration_Error orchestration_error
  | Conversation_Error conversation_error
  | Python_Error python_error

abbreviation AuthenticationRequiredError :: app_error where
  "AuthenticationRequiredError \<equiv> Auth_Error AuthenticationRequired"

abbreviation InvalidTokenError :: app_error where
  "InvalidTokenError \<equiv> Auth_Error InvalidToken"

abbreviation ExpiredTokenError :: app_error where
  "ExpiredTokenError \<equiv> Auth_Error ExpiredToken"

abbreviation AuthVerificationUnavailableError :: app_error where
  "AuthVerificationUnavailableError \<equiv> Auth_Error AuthVerificationUnavailable"

abbreviation UserDisabledError :: app_error where
  "UserDisabledError \<equiv> Auth_Error UserDisabled"

abbreviation SessionRevokedError :: app_error where
  "SessionRevokedError \<equiv> Auth_Error SessionRevoked"

abbreviation DeviceNotFoundError :: app_error where
  "DeviceNotFoundError \<equiv> Auth_Error DeviceNotFound"

abbreviation DeviceRevokedError :: app_error where
  "DeviceRevokedError \<equiv> Auth_Error DeviceRevoked"

abbreviation IdentityConflictError :: app_error where
  "IdentityConflictError \<equiv> Auth_Error IdentityConflict"

abbreviation DatabaseUnavailableError :: app_error where
  "DatabaseUnavailableError \<equiv> Auth_Error DatabaseUnavailable"

abbreviation PermissionNotFoundError :: app_error where
  "PermissionNotFoundError \<equiv> Authority_Error PermissionNotFound"

abbreviation CapabilityNotFoundError :: app_error where
  "CapabilityNotFoundError \<equiv> Authority_Error CapabilityNotFound"

abbreviation CapabilityDisabledError :: app_error where
  "CapabilityDisabledError \<equiv> Authority_Error CapabilityDisabled"

abbreviation ActionNotAllowedError :: app_error where
  "ActionNotAllowedError \<equiv> Authority_Error ActionNotAllowed"

abbreviation ConfirmationNotFoundError :: app_error where
  "ConfirmationNotFoundError \<equiv> Authority_Error ConfirmationNotFound"

abbreviation ConfirmationExpiredError :: app_error where
  "ConfirmationExpiredError \<equiv> Authority_Error ConfirmationExpired"

abbreviation ConfirmationRejectedError :: app_error where
  "ConfirmationRejectedError \<equiv> Authority_Error ConfirmationRejected"

abbreviation StepUpAuthenticationRequiredError :: app_error where
  "StepUpAuthenticationRequiredError \<equiv> Authority_Error StepUpAuthenticationRequired"

abbreviation AuthorizationUnavailableError :: app_error where
  "AuthorizationUnavailableError \<equiv> Authority_Error AuthorizationUnavailable"

abbreviation InvalidPermissionDataError :: app_error where
  "InvalidPermissionDataError \<equiv> Authority_Error InvalidPermissionData"

abbreviation AuditUnavailableError :: app_error where
  "AuditUnavailableError \<equiv> Authority_Error AuditUnavailable"

abbreviation TaskNotFoundError :: app_error where
  "TaskNotFoundError \<equiv> Task_Error TaskNotFound"

abbreviation TaskAlreadyTerminalError :: app_error where
  "TaskAlreadyTerminalError \<equiv> Task_Error TaskAlreadyTerminal"

abbreviation InvalidTaskTransitionError :: app_error where
  "InvalidTaskTransitionError \<equiv> Task_Error InvalidTaskTransition"

abbreviation TaskIdempotencyConflictError :: app_error where
  "TaskIdempotencyConflictError \<equiv> Task_Error TaskIdempotencyConflict"

abbreviation TaskExpiredError :: app_error where
  "TaskExpiredError \<equiv> Task_Error TaskExpired"

abbreviation TaskNotClaimableError :: app_error where
  "TaskNotClaimableError \<equiv> Task_Error TaskNotClaimable"

abbreviation TaskConcurrentModificationError :: app_error where
  "TaskConcurrentModificationError \<equiv> Task_Error TaskConcurrentModification"

abbreviation TaskDeviceInvalidError :: app_error where
  "TaskDeviceInvalidError \<equiv> Task_Error TaskDeviceInvalid"

abbreviation TaskAuthorizationDeniedError :: app_error where
  "TaskAuthorizationDeniedError \<equiv> Task_Error TaskAuthorizationDenied"

abbreviation InvalidMemoryDataError :: app_error where
  "InvalidMemoryDataError \<equiv> Memory_Error InvalidMemoryData"

abbreviation MemoryConcurrentModificationError :: app_error where
  "MemoryConcurrentModificationError \<equiv> Memory_Error MemoryConcurrentModification"

abbreviation MemoryDuplicateConflictError :: app_error where
  "MemoryDuplicateConflictError \<equiv> Memory_Error MemoryDuplicateConflict"

abbreviation MemoryImmutableError :: app_error where
  "MemoryImmutableError \<equiv> Memory_Error MemoryImmutable"

abbreviation AIRoutingDeniedError :: app_error where
  "AIRoutingDeniedError \<equiv> Memory_Error AIRoutingDenied"

abbreviation AIProviderExecutionError :: app_error where
  "AIProviderExecutionError \<equiv> Memory_Error AIProviderExecution"

abbreviation InvalidOrchestrationDataError :: app_error where
  "InvalidOrchestrationDataError \<equiv> Orchestration_Error InvalidOrchestrationData"

abbreviation OrchestrationNotFoundError :: app_error where
  "OrchestrationNotFoundError \<equiv> Orchestration_Error OrchestrationNotFound"

abbreviation InvalidOrchestrationTransitionError :: app_error where
  "InvalidOrchestrationTransitionError \<equiv> Orchestration_Error InvalidOrchestrationTransition"

abbreviation OrchestrationAlreadyTerminalError :: app_error where
  "OrchestrationAlreadyTerminalError \<equiv> Orchestration_Error OrchestrationAlreadyTerminal"

abbreviation OrchestrationConcurrentModificationError :: app_error where
  "OrchestrationConcurrentModificationError \<equiv> Orchestration_Error OrchestrationConcurrentModification"

abbreviation OrchestrationIdempotencyConflictError :: app_error where
  "OrchestrationIdempotencyConflictError \<equiv> Orchestration_Error OrchestrationIdempotencyConflict"

abbreviation ConversationNotFoundError :: app_error where
  "ConversationNotFoundError \<equiv> Conversation_Error ConversationNotFound"

abbreviation ConversationConcurrentModificationError :: app_error where
  "ConversationConcurrentModificationError \<equiv> Conversation_Error ConversationConcurrentModification"

abbreviation MessageIdempotencyConflictError :: app_error where
  "MessageIdempotencyConflictError \<equiv> Conversation_Error MessageIdempotencyConflict"

abbreviation VoiceSessionNotFoundError :: app_error where
  "VoiceSessionNotFoundError \<equiv> Conversation_Error VoiceSessionNotFound"

abbreviation VoiceSessionAuthFailedError :: app_error where
  "VoiceSessionAuthFailedError \<equiv> Conversation_Error VoiceSessionAuthFailed"

abbreviation VoiceSessionExpiredError :: app_error where
  "VoiceSessionExpiredError \<equiv> Conversation_Error VoiceSessionExpired"

abbreviation VoiceSessionConflictError :: app_error where
  "VoiceSessionConflictError \<equiv> Conversation_Error VoiceSessionConflict"

abbreviation InvalidVoiceTransitionApplicationError :: app_error where
  "InvalidVoiceTransitionApplicationError \<equiv> Conversation_Error InvalidVoiceTransitionApplication"

abbreviation RealtimeModelUnavailableError :: app_error where
  "RealtimeModelUnavailableError \<equiv> Conversation_Error RealtimeModelUnavailable"

abbreviation VoiceTurnIdempotencyConflictError :: app_error where
  "VoiceTurnIdempotencyConflictError \<equiv> Conversation_Error VoiceTurnIdempotencyConflict"

abbreviation VoiceReconnectExhaustedError :: app_error where
  "VoiceReconnectExhaustedError \<equiv> Conversation_Error VoiceReconnectExhausted"

abbreviation PyValueError :: app_error where
  "PyValueError \<equiv> Python_Error ValueError"

abbreviation PyRuntimeError :: app_error where
  "PyRuntimeError \<equiv> Python_Error RuntimeError"

abbreviation PyKeyError :: app_error where
  "PyKeyError \<equiv> Python_Error KeyError"

abbreviation PyIndexError :: app_error where
  "PyIndexError \<equiv> Python_Error IndexError"

text \<open>The \<^verbatim>\<open>IntegrityError\<close> of SQLAlchemy, where no handler of the service catches it.\<close>

abbreviation PyIntegrityError :: app_error where
  "PyIntegrityError \<equiv> Python_Error IntegrityError"

section \<open>Error codes and HTTP statuses\<close>

primrec auth_error_code :: "auth_error \<Rightarrow> string" where
  "auth_error_code AuthenticationRequired = ''AUTHENTICATION_REQUIRED''"
| "auth_error_code InvalidToken = ''INVALID_TOKEN''"
| "auth_error_code ExpiredToken = ''EXPIRED_TOKEN''"
| "auth_error_code AuthVerificationUnavailable = ''AUTH_VERIFICATION_UNAVAILABLE''"
| "auth_error_code UserDisabled = ''USER_DISABLED''"
| "auth_error_code SessionRevoked = ''SESSION_REVOKED''"
| "auth_error_code DeviceNotFound = ''DEVICE_NOT_FOUND''"
| "auth_error_code DeviceRevoked = ''DEVICE_REVOKED''"
| "auth_error_code IdentityConflict = ''IDENTITY_CONFLICT''"
| "auth_error_code DatabaseUnavailable = ''DATABASE_UNAVAILABLE''"

primrec auth_error_status :: "auth_error \<Rightarrow> nat" where
  "auth_error_status AuthenticationRequired = 401"
| "auth_error_status InvalidToken = 401"
| "auth_error_status ExpiredToken = 401"
| "auth_error_status AuthVerificationUnavailable = 503"
| "auth_error_status UserDisabled = 403"
| "auth_error_status SessionRevoked = 401"
| "auth_error_status DeviceNotFound = 404"
| "auth_error_status DeviceRevoked = 403"
| "auth_error_status IdentityConflict = 409"
| "auth_error_status DatabaseUnavailable = 503"

primrec authority_error_code :: "authority_error \<Rightarrow> string" where
  "authority_error_code PermissionNotFound = ''PERMISSION_NOT_FOUND''"
| "authority_error_code CapabilityNotFound = ''CAPABILITY_NOT_FOUND''"
| "authority_error_code CapabilityDisabled = ''CAPABILITY_DISABLED''"
| "authority_error_code ActionNotAllowed = ''ACTION_NOT_ALLOWED''"
| "authority_error_code ConfirmationNotFound = ''CONFIRMATION_NOT_FOUND''"
| "authority_error_code ConfirmationExpired = ''CONFIRMATION_EXPIRED''"
| "authority_error_code ConfirmationRejected = ''CONFIRMATION_REJECTED''"
| "authority_error_code StepUpAuthenticationRequired = ''STEP_UP_AUTHENTICATION_REQUIRED''"
| "authority_error_code AuthorizationUnavailable = ''AUTHORIZATION_UNAVAILABLE''"
| "authority_error_code InvalidPermissionData = ''INVALID_PERMISSION_DATA''"
| "authority_error_code AuditUnavailable = ''AUDIT_UNAVAILABLE''"

primrec authority_error_status :: "authority_error \<Rightarrow> nat" where
  "authority_error_status PermissionNotFound = 404"
| "authority_error_status CapabilityNotFound = 404"
| "authority_error_status CapabilityDisabled = 409"
| "authority_error_status ActionNotAllowed = 422"
| "authority_error_status ConfirmationNotFound = 404"
| "authority_error_status ConfirmationExpired = 409"
| "authority_error_status ConfirmationRejected = 409"
| "authority_error_status StepUpAuthenticationRequired = 403"
| "authority_error_status AuthorizationUnavailable = 503"
| "authority_error_status InvalidPermissionData = 422"
| "authority_error_status AuditUnavailable = 503"

primrec task_error_code :: "task_error \<Rightarrow> string" where
  "task_error_code TaskNotFound = ''TASK_NOT_FOUND''"
| "task_error_code TaskAlreadyTerminal = ''TASK_ALREADY_TERMINAL''"
| "task_error_code InvalidTaskTransition = ''INVALID_TASK_TRANSITION''"
| "task_error_code TaskIdempotencyConflict = ''TASK_IDEMPOTENCY_CONFLICT''"
| "task_error_code TaskExpired = ''TASK_EXPIRED''"
| "task_error_code TaskNotClaimable = ''TASK_NOT_CLAIMABLE''"
| "task_error_code TaskConcurrentModification = ''TASK_CONCURRENT_MODIFICATION''"
| "task_error_code TaskDeviceInvalid = ''TASK_DEVICE_INVALID''"
| "task_error_code TaskAuthorizationDenied = ''TASK_AUTHORIZATION_DENIED''"

primrec task_error_status :: "task_error \<Rightarrow> nat" where
  "task_error_status TaskNotFound = 404"
| "task_error_status TaskAlreadyTerminal = 409"
| "task_error_status InvalidTaskTransition = 409"
| "task_error_status TaskIdempotencyConflict = 409"
| "task_error_status TaskExpired = 409"
| "task_error_status TaskNotClaimable = 409"
| "task_error_status TaskConcurrentModification = 409"
| "task_error_status TaskDeviceInvalid = 422"
| "task_error_status TaskAuthorizationDenied = 403"

primrec memory_error_code :: "memory_error \<Rightarrow> string" where
  "memory_error_code InvalidMemoryData = ''INVALID_MEMORY_DATA''"
| "memory_error_code MemoryConcurrentModification = ''MEMORY_CONCURRENT_MODIFICATION''"
| "memory_error_code MemoryDuplicateConflict = ''MEMORY_DUPLICATE_CONFLICT''"
| "memory_error_code MemoryImmutable = ''MEMORY_IMMUTABLE''"
| "memory_error_code AIRoutingDenied = ''AI_ROUTING_DENIED''"
| "memory_error_code AIProviderExecution = ''AI_PROVIDER_FAILURE''"

primrec memory_error_status :: "memory_error \<Rightarrow> nat" where
  "memory_error_status InvalidMemoryData = 422"
| "memory_error_status MemoryConcurrentModification = 409"
| "memory_error_status MemoryDuplicateConflict = 409"
| "memory_error_status MemoryImmutable = 409"
| "memory_error_status AIRoutingDenied = 503"
| "memory_error_status AIProviderExecution = 503"

primrec orchestration_error_code :: "orchestration_error \<Rightarrow> string" where
  "orchestration_error_code InvalidOrchestrationData = ''INVALID_ORCHESTRATION_DATA''"
| "orchestration_error_code OrchestrationNotFound = ''ORCHESTRATION_NOT_FOUND''"
| "orchestration_error_code InvalidOrchestrationTransition = ''INVALID_ORCHESTRATION_TRANSITION''"
| "orchestration_error_code OrchestrationAlreadyTerminal = ''ORCHESTRATION_ALREADY_TERMINAL''"
| "orchestration_error_code OrchestrationConcurrentModification = ''ORCHESTRATION_CONCURRENT_MODIFICATION''"
| "orchestration_error_code OrchestrationIdempotencyConflict = ''ORCHESTRATION_IDEMPOTENCY_CONFLICT''"

primrec orchestration_error_status :: "orchestration_error \<Rightarrow> nat" where
  "orchestration_error_status InvalidOrchestrationData = 422"
| "orchestration_error_status OrchestrationNotFound = 404"
| "orchestration_error_status InvalidOrchestrationTransition = 409"
| "orchestration_error_status OrchestrationAlreadyTerminal = 409"
| "orchestration_error_status OrchestrationConcurrentModification = 409"
| "orchestration_error_status OrchestrationIdempotencyConflict = 409"

primrec conversation_error_code :: "conversation_error \<Rightarrow> string" where
  "conversation_error_code ConversationNotFound = ''CONVERSATION_NOT_FOUND''"
| "conversation_error_code ConversationConcurrentModification = ''CONVERSATION_CONCURRENT_MODIFICATION''"
| "conversation_error_code MessageIdempotencyConflict = ''MESSAGE_IDEMPOTENCY_CONFLICT''"
| "conversation_error_code VoiceSessionNotFound = ''VOICE_SESSION_NOT_FOUND''"
| "conversation_error_code VoiceSessionAuthFailed = ''VOICE_SESSION_AUTH_FAILED''"
| "conversation_error_code VoiceSessionExpired = ''VOICE_SESSION_EXPIRED''"
| "conversation_error_code VoiceSessionConflict = ''VOICE_SESSION_CONFLICT''"
| "conversation_error_code InvalidVoiceTransitionApplication = ''INVALID_VOICE_TRANSITION''"
| "conversation_error_code RealtimeModelUnavailable = ''REALTIME_MODEL_UNAVAILABLE''"
| "conversation_error_code VoiceTurnIdempotencyConflict = ''VOICE_TURN_IDEMPOTENCY_CONFLICT''"
| "conversation_error_code VoiceReconnectExhausted = ''VOICE_RECONNECT_EXHAUSTED''"

primrec conversation_error_status :: "conversation_error \<Rightarrow> nat" where
  "conversation_error_status ConversationNotFound = 404"
| "conversation_error_status ConversationConcurrentModification = 409"
| "conversation_error_status MessageIdempotencyConflict = 409"
| "conversation_error_status VoiceSessionNotFound = 404"
| "conversation_error_status VoiceSessionAuthFailed = 401"
| "conversation_error_status VoiceSessionExpired = 401"
| "conversation_error_status VoiceSessionConflict = 409"
| "conversation_error_status InvalidVoiceTransitionApplication = 409"
| "conversation_error_status RealtimeModelUnavailable = 503"
| "conversation_error_status VoiceTurnIdempotencyConflict = 409"
| "conversation_error_status VoiceReconnectExhausted = 409"

text \<open>The code of the response body; \<open>None\<close> for an exception that carries none.\<close>

primrec error_code :: "app_error \<Rightarrow> string option" where
  "error_code (Auth_Error e) = Some (auth_error_code e)"
| "error_code (Authority_Error e) = Some (authority_error_code e)"
| "error_code (Task_Error e) = Some (task_error_code e)"
| "error_code (Memory_Error e) = Some (memory_error_code e)"
| "error_code (Orchestration_Error e) = Some (orchestration_error_code e)"
| "error_code (Conversation_Error e) = Some (conversation_error_code e)"
| "error_code (Python_Error e) = None"

primrec error_status :: "app_error \<Rightarrow> nat" where
  "error_status (Auth_Error e) = auth_error_status e"
| "error_status (Authority_Error e) = authority_error_status e"
| "error_status (Task_Error e) = task_error_status e"
| "error_status (Memory_Error e) = memory_error_status e"
| "error_status (Orchestration_Error e) = orchestration_error_status e"
| "error_status (Conversation_Error e) = conversation_error_status e"
| "error_status (Python_Error e) = 500"

section \<open>Statuses are errors\<close>

lemma auth_error_status_range: "400 \<le> auth_error_status e \<and> auth_error_status e < 600"
  by (cases e) simp_all

lemma authority_error_status_range: "400 \<le> authority_error_status e \<and> authority_error_status e < 600"
  by (cases e) simp_all

lemma task_error_status_range: "400 \<le> task_error_status e \<and> task_error_status e < 600"
  by (cases e) simp_all

lemma memory_error_status_range: "400 \<le> memory_error_status e \<and> memory_error_status e < 600"
  by (cases e) simp_all

lemma orchestration_error_status_range: "400 \<le> orchestration_error_status e \<and> orchestration_error_status e < 600"
  by (cases e) simp_all

lemma conversation_error_status_range: "400 \<le> conversation_error_status e \<and> conversation_error_status e < 600"
  by (cases e) simp_all

lemma error_status_range: "400 \<le> error_status e \<and> error_status e < 600"
  by (cases e) (simp_all add: auth_error_status_range authority_error_status_range task_error_status_range memory_error_status_range orchestration_error_status_range conversation_error_status_range)

end
