(* ===== verification/Metadata.thy ===== *)
theory Metadata
  imports Core_Errors
begin

text \<open>
  \<^verbatim>\<open>core/redaction.py\<close> and \<^verbatim>\<open>core/metadata.py\<close>: JSON values, the recognition of secret-bearing
  keys, the redaction of text and of nested values, and the bounded sanitizer every metadata
  payload passes before it is stored. The two regular expressions are terms of a small
  backtracking matcher whose list of matches is ordered as Python's \<^verbatim>\<open>re\<close> tries them, so its
  first element is the match \<^verbatim>\<open>re\<close> returns. A string is a list of code points below 256.
\<close>

section \<open>Strings of the language\<close>

definition py_isspace :: "char \<Rightarrow> bool" where
  "py_isspace c =
     (let n = of_char c :: nat in 9 \<le> n \<and> n \<le> 13 \<or> 28 \<le> n \<and> n \<le> 32 \<or> n = 133 \<or> n = 160)"

definition py_lower_char :: "char \<Rightarrow> char" where
  "py_lower_char c =
     (let n = of_char c :: nat
      in if 65 \<le> n \<and> n \<le> 90 \<or> 192 \<le> n \<and> n \<le> 214 \<or> 216 \<le> n \<and> n \<le> 222 then char_of (n + 32) else c)"

definition py_lower :: "string \<Rightarrow> string" where
  "py_lower s = map py_lower_char s"

definition py_replace_char :: "char \<Rightarrow> string \<Rightarrow> string \<Rightarrow> string" where
  "py_replace_char c r s = concat (map (\<lambda>x. if x = c then r else [x]) s)"

fun is_prefix :: "string \<Rightarrow> string \<Rightarrow> bool" where
  "is_prefix [] s = True"
| "is_prefix (p # ps) [] = False"
| "is_prefix (p # ps) (c # s) = (p = c \<and> is_prefix ps s)"

text \<open>\<^verbatim>\<open>needle in haystack\<close>.\<close>

fun py_in :: "string \<Rightarrow> string \<Rightarrow> bool" where
  "py_in needle [] = (needle = [])"
| "py_in needle (c # s) = (is_prefix needle (c # s) \<or> py_in needle s)"

definition py_strip :: "string \<Rightarrow> string" where
  "py_strip s = rev (dropWhile py_isspace (rev (dropWhile py_isspace s)))"

text \<open>\<^verbatim>\<open>\w\<close> of a \<^verbatim>\<open>str\<close> pattern on the code points below 256.\<close>

definition re_isword :: "char \<Rightarrow> bool" where
  "re_isword c =
     (let n = of_char c :: nat
      in 48 \<le> n \<and> n \<le> 57 \<or> 65 \<le> n \<and> n \<le> 90 \<or> 97 \<le> n \<and> n \<le> 122 \<or> n = 95 \<or>
         n \<in> {170, 178, 179, 181, 185, 186, 188, 189, 190} \<or>
         192 \<le> n \<and> n \<le> 214 \<or> 216 \<le> n \<and> n \<le> 246 \<or> 248 \<le> n)"

section \<open>Regular expressions\<close>

datatype regex =
    Cls "char \<Rightarrow> bool"
  | Seq regex regex
  | Alt regex regex
  | Opt regex
  | Star "char \<Rightarrow> bool"
  | Grp nat regex
  | Ref nat
  | WordB
  | NotBehind "char \<Rightarrow> bool"
  | NotAhead "char \<Rightarrow> bool"
  | Eps

text \<open>
  A matcher state: the captured groups, the last character before the position, the rest of
  the subject. \<open>rx\<close> lists the states in which an expression can end, in the order in which the
  backtracking engine tries them (greedy repetition: longest first).
\<close>

type_synonym rx_state = "(nat \<times> string) list \<times> char option \<times> string"

fun star_states :: "(char \<Rightarrow> bool) \<Rightarrow> rx_state \<Rightarrow> rx_state list" where
  "star_states P (g, p, []) = [(g, p, [])]"
| "star_states P (g, p, c # s) =
     (if P c then star_states P (g, Some c, s) @ [(g, p, c # s)] else [(g, p, c # s)])"

definition consumed :: "string \<Rightarrow> string \<Rightarrow> string" where
  "consumed input after = take (length input - length after) input"

definition rx_group :: "(nat \<times> string) list \<Rightarrow> nat \<Rightarrow> string" where
  "rx_group g n = (case map_of g n of None \<Rightarrow> [] | Some x \<Rightarrow> x)"

fun rx :: "regex \<Rightarrow> rx_state \<Rightarrow> rx_state list" where
  "rx (Cls P) (g, p, s) = (case s of [] \<Rightarrow> [] | c # s' \<Rightarrow> if P c then [(g, Some c, s')] else [])"
| "rx (Seq a b) st = concat (map (rx b) (rx a st))"
| "rx (Alt a b) st = rx a st @ rx b st"
| "rx (Opt a) st = rx a st @ [st]"
| "rx (Star P) st = star_states P st"
| "rx (Grp n a) (g, p, s) = map (\<lambda>(g', p', s'). ((n, consumed s s') # g', p', s')) (rx a (g, p, s))"
| "rx (Ref n) (g, p, s) =
     (let x = rx_group g n
      in if is_prefix x s
         then [(g, if x = [] then p else Some (last x), drop (length x) s)] else [])"
| "rx WordB (g, p, s) =
     (let left = (case p of None \<Rightarrow> False | Some c \<Rightarrow> re_isword c);
          after = (case s of [] \<Rightarrow> False | c # _ \<Rightarrow> re_isword c)
      in if left \<noteq> after then [(g, p, s)] else [])"
| "rx (NotBehind P) (g, p, s) = (case p of None \<Rightarrow> [(g, p, s)] | Some c \<Rightarrow> if P c then [] else [(g, p, s)])"
| "rx (NotAhead P) (g, p, s) = (case s of [] \<Rightarrow> [(g, p, s)] | c # _ \<Rightarrow> if P c then [] else [(g, p, s)])"
| "rx Eps st = [st]"

text \<open>\<^verbatim>\<open>pattern.sub\<close>: leftmost matches, left to right, each replaced by a function of its groups.\<close>

function re_sub ::
  "regex \<Rightarrow> ((nat \<times> string) list \<Rightarrow> string) \<Rightarrow> char option \<Rightarrow> string \<Rightarrow> string" where
  "re_sub r f p s =
     (case s of
        [] \<Rightarrow> []
      | c # s' \<Rightarrow>
          (case rx r ([], p, s) of
             [] \<Rightarrow> c # re_sub r f (Some c) s'
           | (g, p', rest) # _ \<Rightarrow>
               if length rest < length s then f g @ re_sub r f p' rest
               else c # re_sub r f (Some c) s'))"
  by pat_completeness auto
termination
  by (relation "measure (\<lambda>(r, f, p, s). length s)") auto

declare re_sub.simps [simp del]

definition lit_rx :: "char \<Rightarrow> regex" where
  "lit_rx c = Cls (\<lambda>x. py_lower_char x = c)"

definition word_rx :: "string \<Rightarrow> regex" where
  "word_rx w = foldr (\<lambda>c r. Seq (lit_rx c) r) w Eps"

definition quote_char :: "char \<Rightarrow> bool" where
  "quote_char c \<longleftrightarrow> c = CHR 0x22 \<or> c = CHR 0x27"

definition sep_rx :: regex where
  "sep_rx = Opt (Cls (\<lambda>c. c = CHR ''_'' \<or> c = CHR ''-''))"

definition key_words :: regex where
  "key_words =
     Alt (Seq (word_rx ''access'') (Seq sep_rx (word_rx ''token'')))
    (Alt (Seq (word_rx ''refresh'') (Seq sep_rx (word_rx ''token'')))
    (Alt (word_rx ''password'')
    (Alt (word_rx ''token'')
    (Alt (word_rx ''jwt'')
    (Alt (Seq (word_rx ''api'') (Seq sep_rx (word_rx ''key'')))
    (Alt (word_rx ''authorization'')
    (Alt (word_rx ''secret'')
    (Alt (Seq (word_rx ''service'') (Seq sep_rx (Seq (word_rx ''role'') (Opt (Seq sep_rx (word_rx ''key''))))))
         (Seq (word_rx ''private'') (Seq sep_rx (word_rx ''key'')))))))))))"

text \<open>\<^verbatim>\<open>_KEY_VALUE_PATTERN\<close> and \<^verbatim>\<open>_BEARER_PATTERN\<close>.\<close>

definition value_char :: "char \<Rightarrow> bool" where
  "value_char c \<longleftrightarrow> \<not> (quote_char c \<or> py_isspace c \<or> c = CHR '','' \<or> c = CHR ''}'' \<or> c = CHR '']'')"

definition key_value_pattern :: regex where
  "key_value_pattern =
     Seq (Grp 1 (Seq (Opt (Cls quote_char)) (Seq key_words (Seq (Opt (Cls quote_char))
           (Seq (Star py_isspace) (Seq (Cls (\<lambda>c. c = CHR '':'' \<or> c = CHR ''='')) (Star py_isspace)))))))
    (Seq (Grp 2 (Opt (Cls quote_char)))
    (Seq (Grp 3 (Seq (Cls value_char) (Star value_char)))
         (Grp 4 (Ref 2))))"

definition token_char :: "char \<Rightarrow> bool" where
  "token_char c =
     (let n = of_char c :: nat
      in 48 \<le> n \<and> n \<le> 57 \<or> 65 \<le> n \<and> n \<le> 90 \<or> 97 \<le> n \<and> n \<le> 122 \<or> c \<in> set ''._~+/=-'')"

definition bearer_pattern :: regex where
  "bearer_pattern =
     Seq WordB (Seq (word_rx ''bearer'') (Seq (Seq (Cls py_isspace) (Star py_isspace))
       (Seq (Cls token_char) (Star token_char))))"

section \<open>Redaction\<close>

text \<open>Values of a decoded JSON document. \<open>JFloat\<close> holds the text \<^verbatim>\<open>json.dumps\<close> writes.\<close>

datatype json =
    JNull | JBool bool | JInt int | JFloat string | JStr string
  | JList "json list" | JObj "(string \<times> json) list"

definition REDACTED :: string where
  "REDACTED = ''***REDACTED***''"

definition SENSITIVE_KEY_FRAGMENTS :: "string list" where
  "SENSITIVE_KEY_FRAGMENTS =
     [''access_token'', ''refresh_token'', ''password'', ''token'', ''jwt'', ''api_key'',
      ''authorization'', ''secret'', ''service_role'', ''private_key'']"

definition is_sensitive_key :: "string \<Rightarrow> bool" where
  "is_sensitive_key key =
     (let normalized = py_replace_char (CHR ''-'') ''_'' (py_lower key);
          collapsed = py_replace_char (CHR ''_'') [] normalized
      in list_ex (\<lambda>fragment. py_in (py_replace_char (CHR ''_'') [] fragment) collapsed)
           SENSITIVE_KEY_FRAGMENTS)"

definition redact_text :: "string \<Rightarrow> string" where
  "redact_text v =
     re_sub bearer_pattern (\<lambda>_. ''Bearer '' @ REDACTED) None
       (re_sub key_value_pattern (\<lambda>g. rx_group g 1 @ rx_group g 2 @ REDACTED @ rx_group g 4) None v)"

fun redact_secrets :: "json \<Rightarrow> json" where
  "redact_secrets (JObj fields) =
     JObj (map (\<lambda>(key, item). (key, if is_sensitive_key key then JStr REDACTED else redact_secrets item)) fields)"
| "redact_secrets (JList items) = JList (map redact_secrets items)"
| "redact_secrets (JStr v) = JStr (redact_text v)"
| "redact_secrets v = v"

section \<open>Size and shape\<close>

fun json_children :: "json \<Rightarrow> json list" where
  "json_children (JObj fields) = map snd fields"
| "json_children (JList items) = items"
| "json_children _ = []"

text \<open>
  The worklist of \<^verbatim>\<open>_validate_json_shape\<close>; the head of the list is the end of the Python list,
  where \<^verbatim>\<open>pop\<close> takes and \<^verbatim>\<open>extend\<close> puts.
\<close>

function validate_loop :: "nat \<Rightarrow> nat \<Rightarrow> nat \<Rightarrow> (json \<times> nat) list \<Rightarrow> app_error + unit" where
  "validate_loop max_depth max_nodes nodes [] = Inr ()"
| "validate_loop max_depth max_nodes nodes ((item, depth) # pending) =
     (if nodes + 1 > max_nodes then Inl PyValueError
      else if depth > max_depth then Inl PyValueError
      else validate_loop max_depth max_nodes (nodes + 1)
             (rev (map (\<lambda>child. (child, depth + 1)) (json_children item)) @ pending))"
  by pat_completeness auto
termination
  by (relation "measure (\<lambda>(d, n, k, p). n - k)") auto

definition validate_json_shape :: "json \<Rightarrow> nat \<Rightarrow> nat \<Rightarrow> app_error + unit" where
  "validate_json_shape v max_depth max_nodes = validate_loop max_depth max_nodes 0 [(v, 0)]"

text \<open>\<^verbatim>\<open>json.dumps(..., separators=(",", ":"), sort_keys=True, ensure_ascii=True)\<close>.\<close>

definition digit_char :: "nat \<Rightarrow> char" where
  "digit_char n = char_of (48 + n)"

fun show_nat :: "nat \<Rightarrow> string" where
  "show_nat n = (if n < 10 then [digit_char n] else show_nat (n div 10) @ [digit_char (n mod 10)])"

declare show_nat.simps [simp del]

definition show_int :: "int \<Rightarrow> string" where
  "show_int i = (if i < 0 then CHR ''-'' # show_nat (nat (- i)) else show_nat (nat i))"

definition hex_char :: "nat \<Rightarrow> char" where
  "hex_char n = (if n < 10 then char_of (48 + n) else char_of (87 + n))"

definition escape_char :: "char \<Rightarrow> string" where
  "escape_char c =
     (let n = of_char c :: nat
      in if n = 34 then [CHR 0x5C, CHR 0x22]
         else if n = 92 then [CHR 0x5C, CHR 0x5C]
         else if n = 10 then CHR 0x5C # ''n''
         else if n = 13 then CHR 0x5C # ''r''
         else if n = 9 then CHR 0x5C # ''t''
         else if n = 12 then CHR 0x5C # ''f''
         else if n = 8 then CHR 0x5C # ''b''
         else if 32 \<le> n \<and> n \<le> 126 then [c]
         else CHR 0x5C # ''u00'' @ [hex_char (n div 16), hex_char (n mod 16)])"

definition dump_string :: "string \<Rightarrow> string" where
  "dump_string s = CHR 0x22 # concat (map escape_char s) @ [CHR 0x22]"

fun join_with :: "string \<Rightarrow> string list \<Rightarrow> string" where
  "join_with glue [] = []"
| "join_with glue [x] = x"
| "join_with glue (x # y # xs) = x @ glue @ join_with glue (y # xs)"

fun json_dumps :: "json \<Rightarrow> string" where
  "json_dumps JNull = ''null''"
| "json_dumps (JBool b) = (if b then ''true'' else ''false'')"
| "json_dumps (JInt i) = show_int i"
| "json_dumps (JFloat t) = t"
| "json_dumps (JStr s) = dump_string s"
| "json_dumps (JList items) = ''['' @ join_with '','' (map json_dumps items) @ '']''"
| "json_dumps (JObj fields) =
     ''{'' @ join_with '',''
       (map (\<lambda>(k, t). dump_string k @ '':'' @ t)
         (sort_key fst (map (\<lambda>(k, v). (k, json_dumps v)) fields))) @ ''}''"

type_synonym metadata = "(string \<times> json) list"

definition sanitize_metadata :: "nat \<Rightarrow> metadata \<Rightarrow> app_error + metadata" where
  "sanitize_metadata max_bytes v =
     bindE (requireE PyValueError (length v \<le> 32)) (\<lambda>_.
     bindE (validate_json_shape (JObj v) 5 128) (\<lambda>_.
     case redact_secrets (JObj v) of
       JObj sanitized \<Rightarrow>
         if length (json_dumps (JObj sanitized)) > max_bytes then Inl PyValueError else Inr sanitized
     | _ \<Rightarrow> Inl PyValueError))"

text \<open>Number of values and nesting depth of a document: the reference for the worklist.\<close>

fun json_nodes :: "json \<Rightarrow> nat" where
  "json_nodes (JObj fields) = Suc (sum_list (map (\<lambda>(k, v). json_nodes v) fields))"
| "json_nodes (JList items) = Suc (sum_list (map json_nodes items))"
| "json_nodes _ = 1"

fun json_depth_le :: "nat \<Rightarrow> json \<Rightarrow> bool" where
  "json_depth_le 0 v = (json_children v = [])"
| "json_depth_le (Suc n) v = list_all (json_depth_le n) (json_children v)"

text \<open>A field \<open>k\<close> with value \<open>v\<close> occurs in a document at some depth.\<close>

inductive field_in :: "string \<Rightarrow> json \<Rightarrow> json \<Rightarrow> bool" for k v where
  here: "(k, v) \<in> set fields \<Longrightarrow> field_in k v (JObj fields)"
| in_obj: "(k', x) \<in> set fields \<Longrightarrow> field_in k v x \<Longrightarrow> field_in k v (JObj fields)"
| in_list: "x \<in> set items \<Longrightarrow> field_in k v x \<Longrightarrow> field_in k v (JList items)"

text \<open>Every match of the expression reads a character that satisfies \<open>P\<close>.\<close>

fun reads :: "(char \<Rightarrow> bool) \<Rightarrow> regex \<Rightarrow> bool" where
  "reads P (Cls Q) = (\<forall>c. Q c \<longrightarrow> P c)"
| "reads P (Seq a b) = (reads P a \<or> reads P b)"
| "reads P (Alt a b) = (reads P a \<and> reads P b)"
| "reads P (Grp n a) = reads P a"
| "reads P _ = False"

inductive_simps field_in_simps:
  "field_in k v (JObj fields)" "field_in k v (JList items)" "field_in k v JNull"
  "field_in k v (JBool b)" "field_in k v (JInt i)" "field_in k v (JFloat t)" "field_in k v (JStr s)"

lemma json_nodes_children: "json_nodes v = Suc (sum_list (map json_nodes (json_children v)))"
  by (cases v) (auto intro!: arg_cong [where f = sum_list])

lemma validate_loop_result: "validate_loop d n k p = Inr () \<or> validate_loop d n k p = Inl PyValueError"
  by (induction d n k p rule: validate_loop.induct) auto

lemma json_depth_le_children:
  assumes "e \<le> d"
  shows "json_depth_le (d - e) v \<longleftrightarrow>
    (\<forall>c \<in> set (json_children v). e + 1 \<le> d \<and> json_depth_le (d - (e + 1)) c)"
proof (cases "d - e")
  case 0
  with assms show ?thesis by (cases "json_children v") auto
next
  case (Suc m)
  with assms have "d - (e + 1) = m" and "e + 1 \<le> d" by simp_all
  with Suc show ?thesis by (auto simp: list_all_iff)
qed

lemma validate_loop_iff:
  "validate_loop d n k p = Inr () \<longleftrightarrow>
     (p = [] \<or> k + sum_list (map (\<lambda>(v, e). json_nodes v) p) \<le> n) \<and>
     (\<forall>(v, e) \<in> set p. e \<le> d \<and> json_depth_le (d - e) v)"
proof (induction d n k p rule: validate_loop.induct)
  case (1 d n k)
  then show ?case by simp
next
  case (2 d n k v e p)
  let ?cs = "rev (map (\<lambda>child. (child, e + 1)) (json_children v)) @ p"
  let ?sum = "\<lambda>p. sum_list (map (\<lambda>(v, e). json_nodes v) p)"
  have sum: "?sum ?cs + 1 = ?sum ((v, e) # p)"
    by (simp add: json_nodes_children [of v] rev_map [symmetric] comp_def del: rev_map)
  show ?case
  proof (cases "k + 1 > n \<or> e > d")
    case True
    have "1 \<le> ?sum ((v, e) # p)" using sum by simp
    with True show ?thesis by auto
  next
    case False
    then have ok: "k + 1 \<le> n" "e \<le> d" by auto
    with 2 have "validate_loop d n k ((v, e) # p) = Inr () \<longleftrightarrow>
       (?cs = [] \<or> k + 1 + ?sum ?cs \<le> n) \<and> (\<forall>(v, e) \<in> set ?cs. e \<le> d \<and> json_depth_le (d - e) v)"
      by simp
    also have "(?cs = [] \<or> k + 1 + ?sum ?cs \<le> n) \<longleftrightarrow> k + ?sum ((v, e) # p) \<le> n"
      using ok sum by (cases "?cs = []") auto
    also have "(\<forall>(v, e) \<in> set ?cs. e \<le> d \<and> json_depth_le (d - e) v) \<longleftrightarrow>
        (\<forall>(v, e) \<in> set ((v, e) # p). e \<le> d \<and> json_depth_le (d - e) v)"
      using ok json_depth_le_children [of e d v] by auto
    finally show ?thesis by simp
  qed
qed

lemma validate_json_shape_iff:
  "validate_json_shape v d n = Inr () \<longleftrightarrow> json_nodes v \<le> n \<and> json_depth_le d v"
  unfolding validate_json_shape_def by (subst validate_loop_iff) simp

lemma redact_secrets_hides:
  "field_in k v (redact_secrets j) \<Longrightarrow> is_sensitive_key k \<Longrightarrow> v = JStr REDACTED"
proof (induction j rule: redact_secrets.induct)
  case (1 fields)
  from "1.prems"(1) show ?case
    unfolding redact_secrets.simps field_in_simps
  proof (elim disjE exE conjE)
    assume "(k, v) \<in> set (map (\<lambda>(key, item). (key, if is_sensitive_key key then JStr REDACTED else redact_secrets item)) fields)"
    with "1.prems"(2) show ?thesis by auto
  next
    fix k' x
    assume "(k', x) \<in> set (map (\<lambda>(key, item). (key, if is_sensitive_key key then JStr REDACTED else redact_secrets item)) fields)"
      and f: "field_in k v x"
    then obtain item where item: "(k', item) \<in> set fields" and x: "x = (if is_sensitive_key k' then JStr REDACTED else redact_secrets item)"
      by auto
    with f have "\<not> is_sensitive_key k'" by (auto simp: field_in_simps)
    with "1.IH" [OF item refl] item x f "1.prems" show ?thesis by auto
  qed
next
  case (2 items)
  then show ?case by (auto simp: field_in_simps)
qed (auto simp: field_in_simps)

lemma sanitize_metadata_Inr:
  assumes "sanitize_metadata n m = Inr m'"
  shows "length m \<le> 32 \<and> json_nodes (JObj m) \<le> 128 \<and> json_depth_le 5 (JObj m) \<and>
    JObj m' = redact_secrets (JObj m) \<and> length (json_dumps (JObj m')) \<le> n"
proof -
  obtain r where r: "redact_secrets (JObj m) = JObj r" by simp
  have "validate_json_shape (JObj m) 5 128 = Inr u \<longleftrightarrow> json_nodes (JObj m) \<le> 128 \<and> json_depth_le 5 (JObj m)" for u
    using validate_json_shape_iff by simp
  with assms show ?thesis
    unfolding sanitize_metadata_def r result_simps by (auto simp del: redact_secrets.simps json_nodes.simps json_dumps.simps simp: r split: if_splits)
qed

lemma sanitize_metadata_Nil [simp]: "2 \<le> n \<Longrightarrow> sanitize_metadata n [] = Inr []"
  by (simp add: sanitize_metadata_def validate_json_shape_def)

lemma star_states_suffix: "st \<in> set (star_states P (g, p, s)) \<Longrightarrow> set (snd (snd st)) \<subseteq> set s"
  by (induction P "(g, p, s)" arbitrary: g p s rule: star_states.induct) (auto split: if_splits)

lemma rx_suffix: "(g', p', s') \<in> set (rx r (g, p, s)) \<Longrightarrow> set s' \<subseteq> set s"
proof (induction r arbitrary: g p s g' p' s')
  case (Star P)
  then show ?case using star_states_suffix [of "(g', p', s')"] by simp
next
  case (Seq a b)
  then show ?case by fastforce
next
  case (Alt a b)
  from Alt.prems consider "(g', p', s') \<in> set (rx a (g, p, s))" | "(g', p', s') \<in> set (rx b (g, p, s))" by auto
  then show ?case using Alt.IH by cases blast+
next
  case (Opt a)
  then show ?case by fastforce
next
  case (Grp n a)
  then show ?case by fastforce
next
  case (Ref n)
  then show ?case by (auto simp: Let_def split: if_splits dest: in_set_dropD)
qed (auto split: list.splits option.splits if_splits simp: Let_def)

lemma rx_reads: "reads P r \<Longrightarrow> (g', p', s') \<in> set (rx r (g, p, s)) \<Longrightarrow> \<exists>c \<in> set s. P c"
proof (induction r arbitrary: g p s g' p' s')
  case (Seq a b)
  from Seq.prems obtain g1 p1 s1 where 1: "(g1, p1, s1) \<in> set (rx a (g, p, s))"
    and 2: "(g', p', s') \<in> set (rx b (g1, p1, s1))" by auto
  show ?case
  proof (cases "reads P a")
    case True
    with Seq.IH(1) 1 show ?thesis by blast
  next
    case False
    with Seq.prems Seq.IH(2) 2 have "\<exists>c \<in> set s1. P c" by auto
    with rx_suffix [OF 1] show ?thesis by blast
  qed
next
  case (Alt a b)
  from Alt.prems consider "(g', p', s') \<in> set (rx a (g, p, s))" | "(g', p', s') \<in> set (rx b (g, p, s))" by auto
  then show ?case using Alt.IH Alt.prems by cases auto
qed (auto split: list.splits if_splits)

lemma re_sub_id: "reads P r \<Longrightarrow> \<forall>c \<in> set s. \<not> P c \<Longrightarrow> re_sub r f p s = s"
proof (induction s arbitrary: p)
  case Nil
  then show ?case by (simp add: re_sub.simps)
next
  case (Cons c s)
  have "rx r ([], p, c # s) = []"
    using rx_reads [OF Cons.prems(1), of _ _ _ "[]" p "c # s"] Cons.prems(2)
    by (metis list.set_intros(1) neq_Nil_conv prod_cases3)
  with Cons show ?case by (simp add: re_sub.simps [of r f p "c # s"])
qed

text \<open>Text with no space, no \<^verbatim>\<open>:\<close> and no \<^verbatim>\<open>=\<close> is left as it is.\<close>

lemma redact_text_plain:
  assumes "\<forall>c \<in> set s. \<not> py_isspace c \<and> c \<noteq> CHR '':'' \<and> c \<noteq> CHR ''=''"
  shows "redact_text s = s"
proof -
  have "re_sub key_value_pattern f p s = s" for f p
    by (rule re_sub_id [where P = "\<lambda>c. c = CHR '':'' \<or> c = CHR ''=''"])
       (use assms in \<open>auto simp: key_value_pattern_def\<close>)
  moreover have "re_sub bearer_pattern f p s = s" for f p
    by (rule re_sub_id [where P = py_isspace]) (use assms in \<open>auto simp: bearer_pattern_def\<close>)
  ultimately show ?thesis by (simp add: redact_text_def)
qed

text \<open>Evaluation need not run the matchers on such text.\<close>

lemma redact_text_code [code]:
  "redact_text v =
     (if list_all (\<lambda>c. \<not> py_isspace c \<and> c \<noteq> CHR '':'' \<and> c \<noteq> CHR ''='') v then v
      else re_sub bearer_pattern (\<lambda>_. ''Bearer '' @ REDACTED) None
        (re_sub key_value_pattern (\<lambda>g. rx_group g 1 @ rx_group g 2 @ REDACTED @ rx_group g 4) None v))"
  using redact_text_plain [of v] by (simp add: list_all_iff redact_text_def)

text \<open>
  The worklist traversal of _validate_json_shape accepts exactly the values within the node
  count and the nesting depth, and raises ValueError on every other.
\<close>

theorem validate_json_shape_correct:
  "validate_json_shape v d n = (if json_nodes v \<le> n \<and> json_depth_le d v then Inr () else Inl PyValueError)"
  using validate_json_shape_iff [of v d n] validate_loop_result [of d n 0 "[(v, 0)]"]
  by (auto simp: validate_json_shape_def)

text \<open>
  C12: Accepted metadata is within the entry, node, depth and byte limits, and every field whose
  key is sensitive holds the redaction marker at any nesting depth.
\<close>

theorem sanitize_metadata_safe:
  assumes "sanitize_metadata n m = Inr m'"
  shows "length m \<le> 32 \<and> json_nodes (JObj m) \<le> 128 \<and> json_depth_le 5 (JObj m) \<and>
    length (json_dumps (JObj m')) \<le> n \<and>
    (\<forall>k v. field_in k v (JObj m') \<longrightarrow> is_sensitive_key k \<longrightarrow> v = JStr REDACTED)"
  using sanitize_metadata_Inr [OF assms] redact_secrets_hides [of _ _ "JObj m"] by metis

theorem sanitize_metadata_safe_witness:
  "map_of (projr (sanitize_metadata 4096 [(''password'', JStr ''hunter2'')])) ''password'' = Some (JStr REDACTED) \<and>
   length (json_dumps (JObj (projr (sanitize_metadata 4096 [(''password'', JStr ''hunter2'')])))) \<le> 4096"
proof -
  let ?r = "sanitize_metadata 4096 [(''password'', JStr ''hunter2'')]"
  have ok: "\<not> isl ?r \<and> is_sensitive_key ''password'' \<and> map_of (projr ?r) ''password'' \<noteq> None" by code_simp
  then have "?r = Inr (projr ?r)" by (simp add: sum.expand)
  note safe = sanitize_metadata_safe [OF this]
  from ok obtain v where v: "map_of (projr ?r) ''password'' = Some v" by blast
  then have "field_in ''password'' v (JObj (projr ?r))" by (auto simp: field_in_simps dest: map_of_SomeD)
  with safe ok v show ?thesis by blast
qed

end
