(* ===== verification/Identity.thy ===== *)
theory Identity
  imports Metadata
begin

text \<open>
  \<^verbatim>\<open>identity/\<close> and \<^verbatim>\<open>auth/claims.py\<close>: the users, devices and observed authentication sessions,
  and the service that maps verified token claims to a request identity. The tables are fields
  of the record \<open>id_world\<close>; later components extend that record, so every operation here is
  polymorphic in the extension and applies to their worlds unchanged.
\<close>

section \<open>The world every component shares\<close>

text \<open>
  \<open>w_now\<close> is what \<^verbatim>\<open>utc_now()\<close> returns: one service call is one transaction and reads the
  clock at one instant. \<open>w_next\<close> supplies the values of \<^verbatim>\<open>uuid4()\<close>: each draw is a number no
  earlier draw returned. \<open>w_sha256\<close> is the hexadecimal digest of \<^verbatim>\<open>hashlib.sha256\<close>, a
  parameter of the model.
\<close>

record core_world =
  w_now :: timestamp
  w_next :: uuid
  w_sha256 :: "string \<Rightarrow> string"

definition draw :: "'z core_world_scheme \<Rightarrow> 'z core_world_scheme" where
  "draw w = w\<lparr>w_next := Suc (w_next w)\<rparr>"

section \<open>Text helpers of the schemas\<close>

text \<open>\<^verbatim>\<open>str.split()\<close>: the maximal runs of non-space characters.\<close>

fun py_split_aux :: "string \<Rightarrow> string \<Rightarrow> string list" where
  "py_split_aux acc [] = (if acc = [] then [] else [rev acc])"
| "py_split_aux acc (c # cs) =
     (if py_isspace c then (if acc = [] then py_split_aux [] cs else rev acc # py_split_aux [] cs)
      else py_split_aux (c # acc) cs)"

definition py_split :: "string \<Rightarrow> string list" where
  "py_split s = py_split_aux [] s"

fun display_name_from :: "(string \<times> json) list \<Rightarrow> string list \<Rightarrow> string option" where
  "display_name_from metadata [] = None"
| "display_name_from metadata (key # keys) =
     (case map_of metadata key of
        Some (JStr candidate) \<Rightarrow>
          (let normalized = join_with '' '' (py_split candidate)
           in if 1 \<le> length normalized \<and> length normalized \<le> 100 then Some normalized
              else display_name_from metadata keys)
      | _ \<Rightarrow> display_name_from metadata keys)"

definition safe_display_name :: "(string \<times> json) list \<Rightarrow> string option" where
  "safe_display_name metadata = display_name_from metadata [''display_name'', ''full_name'', ''name'']"

section \<open>Data\<close>

datatype user_status = US_ACTIVE | US_DISABLED

datatype device_type = DT_ANDROID | DT_IOS | DT_WEB | DT_DESKTOP | DT_WATCH | DT_UNKNOWN

datatype authentication_level = AAL1 | AAL2 | AAL_UNKNOWN

record user =
  u_id :: uuid
  u_auth_user_id :: uuid
  u_display_name :: "string option"
  u_status :: user_status
  u_last_seen_at :: timestamp
  u_created_at :: timestamp
  u_updated_at :: timestamp

record device =
  d_id :: uuid
  d_user_id :: uuid
  d_device_name :: string
  d_device_type :: device_type
  d_platform :: string
  d_device_identifier :: string
  d_trusted :: bool
  d_public_key :: "string option"
  d_capabilities :: "(string \<times> bool) list"
  d_last_seen_at :: timestamp
  d_revoked_at :: "timestamp option"
  d_created_at :: timestamp
  d_updated_at :: timestamp

record auth_session =
  s_id :: uuid
  s_user_id :: uuid
  s_device_id :: "uuid option"
  s_identifier :: string
  s_last_seen_at :: timestamp
  s_expires_at :: timestamp
  s_revoked_at :: "timestamp option"
  s_created_at :: timestamp
  s_updated_at :: timestamp

record identity_context =
  ic_user_id :: uuid
  ic_auth_user_id :: uuid
  ic_device_id :: "uuid option"
  ic_session_id :: "uuid option"
  ic_display_name :: "string option"
  ic_authentication_level :: authentication_level
  ic_token_expiry :: timestamp

text \<open>The claims of a signature-verified token; \<open>c_exp\<close> counts seconds.\<close>

record claims =
  c_sub :: uuid
  c_iss :: string
  c_aud :: "string list"
  c_exp :: int
  c_session_id :: "string option"
  c_aal :: "string option"
  c_user_metadata :: "(string \<times> json) list"

definition claims_authentication_level :: "claims \<Rightarrow> authentication_level" where
  "claims_authentication_level c =
     (if c_aal c = Some ''aal1'' then AAL1
      else if c_aal c = Some ''aal2'' then AAL2
      else AAL_UNKNOWN)"

definition claims_token_expiry :: "claims \<Rightarrow> timestamp" where
  "claims_token_expiry c = c_exp c * 1000000"

record device_registration =
  dr_device_name :: string
  dr_device_type :: device_type
  dr_platform :: string
  dr_device_identifier :: string
  dr_capabilities :: "(string \<times> bool) list"
  dr_public_key :: "string option"

record id_world = core_world +
  w_users :: "user list"
  w_devices :: "device list"
  w_sessions :: "auth_session list"

section \<open>Row insertion under the table constraints\<close>

text \<open>
  Each function is the flush of a new row inside \<^verbatim>\<open>begin_nested\<close>: \<open>None\<close> stands for the
  \<^verbatim>\<open>IntegrityError\<close> of a violated unique or check constraint (the savepoint is rolled back and
  the table is unchanged), \<open>Some\<close> for the table with the row.
\<close>

definition user_row_ok :: "user \<Rightarrow> bool" where
  "user_row_ok u = (case u_display_name u of None \<Rightarrow> True | Some n \<Rightarrow> 1 \<le> length n \<and> length n \<le> 100)"

definition insert_user :: "user \<Rightarrow> user list \<Rightarrow> user list option" where
  "insert_user u rows =
     (if user_row_ok u \<and> row_find (\<lambda>x. u_auth_user_id x = u_auth_user_id u) rows = None
      then Some (row_add u rows) else None)"

definition device_row_ok :: "device \<Rightarrow> bool" where
  "device_row_ok d =
     (1 \<le> length (d_device_name d) \<and> length (d_device_name d) \<le> 100 \<and>
      1 \<le> length (d_platform d) \<and> length (d_platform d) \<le> 64 \<and>
      8 \<le> length (d_device_identifier d) \<and> length (d_device_identifier d) \<le> 128 \<and>
      (case d_public_key d of None \<Rightarrow> True | Some k \<Rightarrow> length k \<le> 4096))"

definition insert_device :: "device \<Rightarrow> device list \<Rightarrow> device list option" where
  "insert_device d rows =
     (if device_row_ok d \<and>
         row_find (\<lambda>x. d_user_id x = d_user_id d \<and> d_device_identifier x = d_device_identifier d) rows = None
      then Some (row_add d rows) else None)"

definition session_row_ok :: "auth_session \<Rightarrow> bool" where
  "session_row_ok s = (1 \<le> length (s_identifier s) \<and> length (s_identifier s) \<le> 255)"

definition insert_session :: "auth_session \<Rightarrow> auth_session list \<Rightarrow> auth_session list option" where
  "insert_session s rows =
     (if session_row_ok s \<and> row_find (\<lambda>x. s_identifier x = s_identifier s) rows = None
      then Some (row_add s rows) else None)"

section \<open>\<open>IdentityService\<close>\<close>

definition get_or_create_user ::
  "claims \<Rightarrow> 'z id_world_scheme \<Rightarrow> app_error + user \<times> 'z id_world_scheme" where
  "get_or_create_user c w =
     (case row_find (\<lambda>u. u_auth_user_id u = c_sub c) (w_users w) of
        Some u \<Rightarrow> Inr (u, w)
      | None \<Rightarrow>
          (let u = \<lparr>u_id = w_next w, u_auth_user_id = c_sub c,
                    u_display_name = safe_display_name (c_user_metadata c),
                    u_status = US_ACTIVE, u_last_seen_at = w_now w,
                    u_created_at = w_now w, u_updated_at = w_now w\<rparr>;
               w1 = draw w
           in case insert_user u (w_users w1) of
                Some rows \<Rightarrow> Inr (u, w1\<lparr>w_users := rows\<rparr>)
              | None \<Rightarrow>
                  (case row_find (\<lambda>x. u_auth_user_id x = c_sub c) (w_users w1) of
                     None \<Rightarrow> Inl IdentityConflictError
                   | Some existing \<Rightarrow> Inr (existing, w1))))"

definition owned_device ::
  "uuid \<Rightarrow> uuid option \<Rightarrow> 'z id_world_scheme \<Rightarrow> app_error + device option" where
  "owned_device user_id requested w =
     (case requested of
        None \<Rightarrow> Inr None
      | Some i \<Rightarrow>
          (case row_find (\<lambda>d. d_id d = i \<and> d_user_id d = user_id) (w_devices w) of
             None \<Rightarrow> Inl DeviceNotFoundError
           | Some d \<Rightarrow> if d_revoked_at d \<noteq> None then Inl DeviceRevokedError else Inr (Some d)))"

text \<open>The session row for the claims' session identifier, created when it is not known yet.\<close>

definition get_or_create_session ::
  "claims \<Rightarrow> string \<Rightarrow> user \<Rightarrow> device option \<Rightarrow> 'z id_world_scheme \<Rightarrow>
     app_error + auth_session \<times> 'z id_world_scheme" where
  "get_or_create_session c sid u requested w =
     (case row_find (\<lambda>s. s_identifier s = sid) (w_sessions w) of
        Some s \<Rightarrow> Inr (s, w)
      | None \<Rightarrow>
          (let s = \<lparr>s_id = w_next w, s_user_id = u_id u, s_device_id = map_option d_id requested,
                    s_identifier = sid, s_last_seen_at = w_now w,
                    s_expires_at = claims_token_expiry c, s_revoked_at = None,
                    s_created_at = w_now w, s_updated_at = w_now w\<rparr>;
               w1 = draw w
           in case insert_session s (w_sessions w1) of
                Some rows \<Rightarrow> Inr (s, w1\<lparr>w_sessions := rows\<rparr>)
              | None \<Rightarrow>
                  (case row_find (\<lambda>x. s_identifier x = sid) (w_sessions w1) of
                     None \<Rightarrow> Inl IdentityConflictError
                   | Some existing \<Rightarrow> Inr (existing, w1))))"

definition map_session ::
  "claims \<Rightarrow> user \<Rightarrow> device option \<Rightarrow> 'z id_world_scheme \<Rightarrow>
     app_error + (auth_session option \<times> device option) \<times> 'z id_world_scheme" where
  "map_session c u requested w =
     (case c_session_id c of
        None \<Rightarrow> Inr ((None, requested), w)
      | Some sid \<Rightarrow>
          bindE (get_or_create_session c sid u requested w) (\<lambda>(s, w1).
          bindE (requireE IdentityConflictError (s_user_id s = u_id u)) (\<lambda>_.
          bindE (requireE SessionRevokedError (s_revoked_at s = None)) (\<lambda>_.
          bindE (case s_device_id s of
                   Some bound \<Rightarrow>
                     bindE (requireE IdentityConflictError
                              (case requested of None \<Rightarrow> True | Some d \<Rightarrow> d_id d = bound)) (\<lambda>_.
                     bindE (owned_device (u_id u) (Some bound) w1) (\<lambda>effective. Inr (s, effective)))
                 | None \<Rightarrow>
                     (case requested of
                        Some d \<Rightarrow> Inr (s\<lparr>s_device_id := Some (d_id d)\<rparr>, requested)
                      | None \<Rightarrow> Inr (s, requested))) (\<lambda>(s1, effective).
          let s2 = s1\<lparr>s_last_seen_at := w_now w1, s_expires_at := claims_token_expiry c,
                      s_updated_at := w_now w1\<rparr>
          in Inr ((Some s2, effective), w1\<lparr>w_sessions := row_put s_id s2 (w_sessions w1)\<rparr>))))))"

definition request_identity ::
  "claims \<Rightarrow> user \<Rightarrow> auth_session option \<Rightarrow> device option \<Rightarrow> identity_context" where
  "request_identity c u s effective =
     \<lparr>ic_user_id = u_id u, ic_auth_user_id = u_auth_user_id u,
      ic_device_id = map_option d_id effective, ic_session_id = map_option s_id s,
      ic_display_name = u_display_name u,
      ic_authentication_level = claims_authentication_level c,
      ic_token_expiry = claims_token_expiry c\<rparr>"

definition seen_user :: "timestamp \<Rightarrow> user \<Rightarrow> user" where
  "seen_user t u = u\<lparr>u_last_seen_at := t, u_updated_at := t\<rparr>"

definition resolve_identity ::
  "claims \<Rightarrow> uuid option \<Rightarrow> 'z id_world_scheme \<Rightarrow>
     app_error + identity_context \<times> 'z id_world_scheme" where
  "resolve_identity c requested_device_id w =
     bindE (get_or_create_user c w) (\<lambda>(u, w1).
     bindE (requireE UserDisabledError (u_status u \<noteq> US_DISABLED)) (\<lambda>_.
     bindE (owned_device (u_id u) requested_device_id w1) (\<lambda>requested.
     bindE (map_session c u requested w1) (\<lambda>((s, effective), w2).
     Inr (request_identity c u s effective,
          w2\<lparr>w_users := row_put u_id (seen_user (w_now w2) u) (w_users w2)\<rparr>)))))"

text \<open>\<^verbatim>\<open>register_device\<close>: the row is found or created, then overwritten by the registration.\<close>

definition find_or_create_device ::
  "identity_context \<Rightarrow> device_registration \<Rightarrow> 'z id_world_scheme \<Rightarrow>
     app_error + device \<times> 'z id_world_scheme" where
  "find_or_create_device i r w =
     (let here = (\<lambda>d. d_user_id d = ic_user_id i \<and> d_device_identifier d = dr_device_identifier r)
      in case row_find here (w_devices w) of
           Some d \<Rightarrow> Inr (d, w)
         | None \<Rightarrow>
             (let d = \<lparr>d_id = w_next w, d_user_id = ic_user_id i, d_device_name = dr_device_name r,
                       d_device_type = dr_device_type r, d_platform = dr_platform r,
                       d_device_identifier = dr_device_identifier r, d_trusted = False,
                       d_public_key = dr_public_key r, d_capabilities = dr_capabilities r,
                       d_last_seen_at = w_now w, d_revoked_at = None,
                       d_created_at = w_now w, d_updated_at = w_now w\<rparr>;
                  w1 = draw w
              in case insert_device d (w_devices w1) of
                   Some rows \<Rightarrow> Inr (d, w1\<lparr>w_devices := rows\<rparr>)
                 | None \<Rightarrow>
                     (case row_find here (w_devices w1) of
                        None \<Rightarrow> Inl IdentityConflictError
                      | Some existing \<Rightarrow> Inr (existing, w1))))"

definition bind_session_device ::
  "identity_context \<Rightarrow> uuid \<Rightarrow> 'z id_world_scheme \<Rightarrow> app_error + 'z id_world_scheme" where
  "bind_session_device i did w =
     (case ic_session_id i of
        None \<Rightarrow> Inr w
      | Some sid \<Rightarrow>
          (case row_get s_id sid (w_sessions w) of
             None \<Rightarrow> Inl IdentityConflictError
           | Some s \<Rightarrow>
               if s_user_id s \<noteq> ic_user_id i then Inl IdentityConflictError
               else if s_device_id s \<notin> {None, Some did} then Inl IdentityConflictError
               else Inr (w\<lparr>w_sessions := row_put s_id
                            (s\<lparr>s_device_id := Some did, s_last_seen_at := w_now w,
                               s_updated_at := w_now w\<rparr>) (w_sessions w)\<rparr>)))"

definition register_device ::
  "identity_context \<Rightarrow> device_registration \<Rightarrow> 'z id_world_scheme \<Rightarrow>
     app_error + device \<times> 'z id_world_scheme" where
  "register_device i r w =
     bindE (find_or_create_device i r w) (\<lambda>(d, w1).
     bindE (requireE DeviceRevokedError (d_revoked_at d = None)) (\<lambda>_.
     let d' = d\<lparr>d_device_name := dr_device_name r, d_device_type := dr_device_type r,
                d_platform := dr_platform r, d_capabilities := dr_capabilities r,
                d_public_key := (if dr_public_key r \<noteq> None then dr_public_key r else d_public_key d),
                d_last_seen_at := w_now w1, d_updated_at := w_now w1\<rparr>;
         w2 = w1\<lparr>w_devices := row_put d_id d' (w_devices w1)\<rparr>
     in bindE (bind_session_device i (d_id d') w2) (\<lambda>w3. Inr (d', w3))))"

definition list_devices :: "identity_context \<Rightarrow> 'z id_world_scheme \<Rightarrow> device list" where
  "list_devices i w =
     sort_key (\<lambda>d. (d_created_at d, d_id d)) (filter (\<lambda>d. d_user_id d = ic_user_id i) (w_devices w))"

text \<open>The bulk \<^verbatim>\<open>UPDATE\<close> of \<^verbatim>\<open>revoke_device\<close> on one session row.\<close>

definition revoke_bound_session :: "uuid \<Rightarrow> timestamp \<Rightarrow> auth_session \<Rightarrow> auth_session" where
  "revoke_bound_session did t s =
     (if s_device_id s = Some did \<and> s_revoked_at s = None
      then s\<lparr>s_revoked_at := Some t, s_updated_at := t\<rparr> else s)"

definition revoke_device ::
  "identity_context \<Rightarrow> uuid \<Rightarrow> 'z id_world_scheme \<Rightarrow> app_error + device \<times> 'z id_world_scheme" where
  "revoke_device i did w =
     (case row_find (\<lambda>d. d_id d = did \<and> d_user_id d = ic_user_id i) (w_devices w) of
        None \<Rightarrow> Inl DeviceNotFoundError
      | Some d \<Rightarrow>
          if d_revoked_at d = None then
            (let d' = d\<lparr>d_revoked_at := Some (w_now w), d_updated_at := w_now w\<rparr>
             in Inr (d', w\<lparr>w_devices := row_put d_id d' (w_devices w),
                           w_sessions := map (revoke_bound_session (d_id d) (w_now w)) (w_sessions w)\<rparr>))
          else Inr (d, w))"

section \<open>Invariant and steps\<close>

text \<open>
  The invariant: the primary keys are unique and drawn from the supply; the unique constraints
  on \<^verbatim>\<open>auth_user_id\<close>, on the pair of owner and device identifier, and on the session identifier hold;
  a session is bound only to a device of its own user, and the sessions of a revoked device are
  revoked.
\<close>

definition session_bound_ok :: "device list \<Rightarrow> auth_session \<Rightarrow> bool" where
  "session_bound_ok devices s = (case s_device_id s of
     None \<Rightarrow> True
   | Some b \<Rightarrow> (\<exists>d \<in> set devices. d_id d = b \<and> d_user_id d = s_user_id s \<and>
                  (d_revoked_at d \<noteq> None \<longrightarrow> s_revoked_at s \<noteq> None)))"

definition id_inv :: "'z id_world_scheme \<Rightarrow> bool" where
  "id_inv w \<longleftrightarrow>
     unique_keys u_id (w_users w) \<and> keys_below u_id (w_next w) (w_users w) \<and>
     unique_keys d_id (w_devices w) \<and> keys_below d_id (w_next w) (w_devices w) \<and>
     unique_keys s_id (w_sessions w) \<and> keys_below s_id (w_next w) (w_sessions w) \<and>
     distinct (map u_auth_user_id (w_users w)) \<and>
     distinct (map (\<lambda>d. (d_user_id d, d_device_identifier d)) (w_devices w)) \<and>
     distinct (map s_identifier (w_sessions w)) \<and>
     list_all (session_bound_ok (w_devices w)) (w_sessions w)"

text \<open>One committed call of the service, or the passing of time.\<close>

inductive id_step :: "'z id_world_scheme \<Rightarrow> 'z id_world_scheme \<Rightarrow> bool" where
  resolve: "resolve_identity c did w = Inr (i, w') \<Longrightarrow> id_step w w'"
| register: "register_device i r w = Inr (d, w') \<Longrightarrow> id_step w w'"
| revoke: "revoke_device i did w = Inr (d, w') \<Longrightarrow> id_step w w'"
| tick: "w_now w \<le> t \<Longrightarrow> id_step w (w\<lparr>w_now := t\<rparr>)"

definition device_revoked :: "uuid \<Rightarrow> 'z id_world_scheme \<Rightarrow> bool" where
  "device_revoked did w \<longleftrightarrow> (\<exists>d \<in> set (w_devices w). d_id d = did \<and> d_revoked_at d \<noteq> None)"

definition sample_claims :: claims where
  "sample_claims = \<lparr>c_sub = 101, c_iss = ''iss'', c_aud = [''authenticated''], c_exp = 9, c_session_id = Some ''s1'',
     c_aal = Some ''aal2'', c_user_metadata = []\<rparr>"

definition sample_registration :: device_registration where
  "sample_registration = \<lparr>dr_device_name = ''phone'', dr_device_type = DT_ANDROID, dr_platform = ''android'',
     dr_device_identifier = ''device-identifier-1'', dr_capabilities = [], dr_public_key = None\<rparr>"

definition empty_id_world :: id_world where
  "empty_id_world = \<lparr>w_now = 1000, w_next = 0, w_sha256 = (\<lambda>s. s), w_users = [], w_devices = [], w_sessions = []\<rparr>"

definition sample_login :: "app_error + identity_context \<times> id_world" where
  "sample_login = resolve_identity sample_claims None empty_id_world"

definition sample_device :: "app_error + device \<times> id_world" where
  "sample_device = register_device ((returned sample_login)\<lparr>ic_session_id := None\<rparr>) sample_registration (world_after sample_login empty_id_world)"

definition sample_device_revocation :: "app_error + device \<times> id_world" where
  "sample_device_revocation =
     (let w = world_after sample_device empty_id_world
      in revoke_device (returned sample_login) (d_id (returned sample_device)) w)"

lemma draw_simps [simp]:
  "w_now (draw w) = w_now w" "w_next (draw w) = Suc (w_next w)" "w_sha256 (draw w) = w_sha256 w"
  by (simp_all add: draw_def)

lemma draw_tables [simp]:
  "w_users (draw w) = w_users w" "w_devices (draw w) = w_devices w" "w_sessions (draw w) = w_sessions w"
  by (simp_all add: draw_def)

lemma seen_user_simps [simp]:
  "u_id (seen_user t u) = u_id u" "u_auth_user_id (seen_user t u) = u_auth_user_id u"
  "u_status (seen_user t u) = u_status u"
  by (simp_all add: seen_user_def)

lemma display_name_from_bounds:
  "display_name_from m ks = Some n \<Longrightarrow> 1 \<le> length n \<and> length n \<le> 100"
  by (induction ks) (auto simp: Let_def split: option.splits json.splits if_splits)

lemma safe_display_name_bounds: "safe_display_name m = Some n \<Longrightarrow> 1 \<le> length n \<and> length n \<le> 100"
  unfolding safe_display_name_def by (rule display_name_from_bounds)

lemma get_or_create_user_spec:
  assumes "get_or_create_user c w = Inr (u, w')"
  shows "u \<in> set (w_users w') \<and> u_auth_user_id u = c_sub c \<and>
    (w' = w \<or> u_id u = w_next w \<and> w' = (draw w)\<lparr>w_users := row_add u (w_users w)\<rparr> \<and>
       u_auth_user_id u \<notin> u_auth_user_id ` set (w_users w))"
  using assms
  by (auto simp: get_or_create_user_def Let_def insert_user_def draw_def row_add_def row_find_None
      split: option.splits if_splits dest: row_find_Some)

lemma get_or_create_user_total: "\<exists>u w'. get_or_create_user c w = Inr (u, w')"
  by (auto simp: get_or_create_user_def Let_def insert_user_def draw_def user_row_ok_def
      split: option.splits dest: safe_display_name_bounds row_find_Some)

lemma owned_device_Some:
  assumes "owned_device uid req w = Inr (Some d)"
  shows "req = Some (d_id d) \<and> d \<in> set (w_devices w) \<and> d_user_id d = uid \<and> d_revoked_at d = None"
  using assms by (auto simp: owned_device_def split: option.splits if_splits dest: row_find_Some)

lemma owned_device_None: "owned_device uid req w = Inr None \<longleftrightarrow> req = None"
  by (auto simp: owned_device_def split: option.splits if_splits)

lemma get_or_create_session_spec:
  assumes "get_or_create_session c sid u req w = Inr (s, w')"
  shows "s \<in> set (w_sessions w') \<and> s_identifier s = sid \<and>
    (w' = w \<or>
     s_id s = w_next w \<and> s_user_id s = u_id u \<and> s_device_id s = map_option d_id req \<and>
     s_revoked_at s = None \<and> session_row_ok s \<and>
     w' = (draw w)\<lparr>w_sessions := row_add s (w_sessions w)\<rparr> \<and>
     s_identifier s \<notin> s_identifier ` set (w_sessions w))"
  using assms
  by (auto simp: get_or_create_session_def Let_def insert_session_def draw_def row_add_def row_find_None
      split: option.splits if_splits dest: row_find_Some)

lemma map_session_Some:
  assumes "map_session c u req w = Inr ((Some s, eff), w')"
  shows "\<exists>sid s0 w1. c_session_id c = Some sid \<and> get_or_create_session c sid u req w = Inr (s0, w1) \<and>
    s_user_id s0 = u_id u \<and> s_revoked_at s0 = None \<and>
    (case s_device_id s0 of
       Some b \<Rightarrow> (case req of None \<Rightarrow> True | Some d \<Rightarrow> d_id d = b) \<and> owned_device (u_id u) (Some b) w1 = Inr eff
     | None \<Rightarrow> eff = req) \<and>
    s_id s = s_id s0 \<and> s_user_id s = s_user_id s0 \<and> s_identifier s = s_identifier s0 \<and>
    s_revoked_at s = None \<and>
    s_device_id s = (case s_device_id s0 of Some b \<Rightarrow> Some b | None \<Rightarrow> map_option d_id req) \<and>
    w' = w1\<lparr>w_sessions := row_put s_id s (w_sessions w1)\<rparr>"
proof -
  from assms obtain sid where sid: "c_session_id c = Some sid"
    by (cases "c_session_id c") (simp_all add: map_session_def)
  with assms obtain s0 w1 s1 where g: "get_or_create_session c sid u req w = Inr (s0, w1)"
    and s0: "s_user_id s0 = u_id u" "s_revoked_at s0 = None"
    and s1: "(case s_device_id s0 of
                Some b \<Rightarrow> bindE (requireE IdentityConflictError
                              (case req of None \<Rightarrow> True | Some d \<Rightarrow> d_id d = b)) (\<lambda>_.
                           bindE (owned_device (u_id u) (Some b) w1) (\<lambda>e. Inr (s0, e)))
              | None \<Rightarrow> (case req of Some d \<Rightarrow> Inr (s0\<lparr>s_device_id := Some (d_id d)\<rparr>, req)
                          | None \<Rightarrow> Inr (s0, req))) = Inr (s1, eff)"
    and s: "s = s1\<lparr>s_last_seen_at := w_now w1, s_expires_at := claims_token_expiry c, s_updated_at := w_now w1\<rparr>"
    and w': "w' = w1\<lparr>w_sessions := row_put s_id s (w_sessions w1)\<rparr>"
    by (auto simp: map_session_def result_simps Let_def)
  from s1 s0 sid g w' show ?thesis
    by (intro exI [of _ sid] exI [of _ s0] exI [of _ w1], cases "s_device_id s0"; cases req)
       (auto simp: s result_simps)
qed

lemma map_session_None:
  assumes "map_session c u req w = Inr ((None, eff), w')"
  shows "c_session_id c = None \<and> eff = req \<and> w' = w"
  using assms
  by (auto simp: map_session_def result_simps Let_def split: option.splits)

lemma resolve_identity_parts:
  assumes "resolve_identity c did w = Inr (i, w')"
  shows "\<exists>u w1 req s eff w2.
    get_or_create_user c w = Inr (u, w1) \<and> u_status u = US_ACTIVE \<and>
    owned_device (u_id u) did w1 = Inr req \<and> map_session c u req w1 = Inr ((s, eff), w2) \<and>
    i = request_identity c u s eff \<and>
    w' = w2\<lparr>w_users := row_put u_id (seen_user (w_now w2) u) (w_users w2)\<rparr>"
proof -
  from assms obtain u w1 req s eff w2 where
    parts: "get_or_create_user c w = Inr (u, w1)" "u_status u \<noteq> US_DISABLED"
      "owned_device (u_id u) did w1 = Inr req" "map_session c u req w1 = Inr ((s, eff), w2)"
      "i = request_identity c u s eff"
      "w' = w2\<lparr>w_users := row_put u_id (seen_user (w_now w2) u) (w_users w2)\<rparr>"
    by (auto simp: resolve_identity_def result_simps)
  from parts(2) have "u_status u = US_ACTIVE" by (cases "u_status u") simp_all
  with parts show ?thesis by blast
qed

lemma get_or_create_session_frame:
  assumes "get_or_create_session c sid u req w = Inr (s, w')"
  shows "w_users w' = w_users w \<and> w_devices w' = w_devices w \<and> w_now w' = w_now w \<and>
    (w_next w' = w_next w \<or> w_next w' = Suc (w_next w))"
  using get_or_create_session_spec [OF assms] by (auto simp: draw_def)

lemma map_session_frame:
  assumes "map_session c u req w = Inr ((s, eff), w')"
  shows "w_users w' = w_users w \<and> w_devices w' = w_devices w \<and> w_now w' = w_now w \<and>
    (w_next w' = w_next w \<or> w_next w' = Suc (w_next w))"
proof (cases s)
  case None
  with map_session_None assms show ?thesis by blast
next
  case (Some s1)
  with map_session_Some assms obtain sid s0 w1 where
    g: "get_or_create_session c sid u req w = Inr (s0, w1)"
    and w': "w' = w1\<lparr>w_sessions := row_put s_id s1 (w_sessions w1)\<rparr>" by blast
  from get_or_create_session_frame [OF g] show ?thesis by (simp add: w')
qed

lemma map_session_effective:
  assumes "map_session c u req w = Inr ((s, eff), w')"
    and req: "\<And>d. req = Some d \<Longrightarrow> d \<in> set (w_devices w) \<and> d_user_id d = u_id u \<and> d_revoked_at d = None"
    and "eff = Some d"
  shows "d \<in> set (w_devices w) \<and> d_user_id d = u_id u \<and> d_revoked_at d = None"
proof (cases s)
  case None
  with map_session_None assms show ?thesis by blast
next
  case (Some s1)
  with map_session_Some assms(1) obtain sid s0 w1 where
    g: "get_or_create_session c sid u req w = Inr (s0, w1)"
    and eff: "case s_device_id s0 of
       Some b \<Rightarrow> (case req of None \<Rightarrow> True | Some d \<Rightarrow> d_id d = b) \<and> owned_device (u_id u) (Some b) w1 = Inr eff
     | None \<Rightarrow> eff = req" by blast
  from get_or_create_session_frame [OF g] have "w_devices w1 = w_devices w" by simp
  with eff assms(3) req show ?thesis
    by (auto split: option.splits dest: owned_device_Some)
qed

lemma map_session_session:
  assumes "map_session c u req w = Inr ((Some s, eff), w')"
  shows "s \<in> set (w_sessions w') \<and> s_user_id s = u_id u \<and> Some (s_identifier s) = c_session_id c \<and>
    s_revoked_at s = None \<and> s_device_id s = map_option d_id eff"
proof -
  from map_session_Some [OF assms] obtain sid s0 w1 where sid: "c_session_id c = Some sid"
    and g: "get_or_create_session c sid u req w = Inr (s0, w1)"
    and s0: "s_user_id s0 = u_id u" "s_revoked_at s0 = None"
    and eff: "case s_device_id s0 of
       Some b \<Rightarrow> (case req of None \<Rightarrow> True | Some d \<Rightarrow> d_id d = b) \<and> owned_device (u_id u) (Some b) w1 = Inr eff
     | None \<Rightarrow> eff = req"
    and s: "s_id s = s_id s0" "s_user_id s = s_user_id s0" "s_identifier s = s_identifier s0"
      "s_revoked_at s = None"
      "s_device_id s = (case s_device_id s0 of Some b \<Rightarrow> Some b | None \<Rightarrow> map_option d_id req)"
    and w': "w' = w1\<lparr>w_sessions := row_put s_id s (w_sessions w1)\<rparr>" by blast
  from get_or_create_session_spec [OF g] have "s0 \<in> set (w_sessions w1)" "s_identifier s0 = sid" by blast+
  with s0 sid have "s \<in> set (w_sessions w')" "s_user_id s = u_id u" "s_identifier s = sid" "s_revoked_at s = None"
    by (simp_all add: w' s row_put_intro [where ?r0.0 = s0])
  moreover have "s_device_id s = map_option d_id eff"
  proof (cases "s_device_id s0")
    case None
    with eff show ?thesis by (simp add: s)
  next
    case (Some b)
    with eff owned_device_None obtain d where "eff = Some d" "owned_device (u_id u) (Some b) w1 = Inr (Some d)"
      by (cases eff) auto
    with Some show ?thesis by (auto simp: s dest: owned_device_Some)
  qed
  ultimately show ?thesis by (simp add: sid)
qed

lemma resolve_identity_facts:
  assumes "resolve_identity c did w = Inr (i, w')"
  shows "ic_auth_user_id i = c_sub c \<and>
    (\<exists>u \<in> set (w_users w'). u_id u = ic_user_id i \<and> u_auth_user_id u = c_sub c \<and> u_status u = US_ACTIVE) \<and>
    (\<forall>d. ic_device_id i = Some d \<longrightarrow>
       (\<exists>x \<in> set (w_devices w'). d_id x = d \<and> d_user_id x = ic_user_id i \<and> d_revoked_at x = None)) \<and>
    (\<forall>sid. ic_session_id i = Some sid \<longrightarrow>
       (\<exists>s \<in> set (w_sessions w'). s_id s = sid \<and> s_user_id s = ic_user_id i \<and>
          Some (s_identifier s) = c_session_id c \<and> s_revoked_at s = None \<and> s_device_id s = ic_device_id i))"
proof -
  from resolve_identity_parts [OF assms] obtain u w1 req s eff w2 where
    u: "get_or_create_user c w = Inr (u, w1)" and act: "u_status u = US_ACTIVE"
    and od: "owned_device (u_id u) did w1 = Inr req" and ms: "map_session c u req w1 = Inr ((s, eff), w2)"
    and i: "i = request_identity c u s eff"
    and w': "w' = w2\<lparr>w_users := row_put u_id (seen_user (w_now w2) u) (w_users w2)\<rparr>" by blast
  note u_spec = get_or_create_user_spec [OF u]
  note fr = map_session_frame [OF ms]
  have "seen_user (w_now w2) u \<in> set (w_users w')"
    using u_spec fr by (auto simp: w' intro: row_put_intro [where ?r0.0 = u])
  then have U: "\<exists>x \<in> set (w_users w'). u_id x = u_id u \<and> u_auth_user_id x = c_sub c \<and> u_status x = US_ACTIVE"
    by (rule bexI [rotated]) (simp add: u_spec act)
  have D: "d \<in> set (w_devices w') \<and> d_user_id d = u_id u \<and> d_revoked_at d = None" if "eff = Some d" for d
  proof -
    have "\<And>d. req = Some d \<Longrightarrow> d \<in> set (w_devices w1) \<and> d_user_id d = u_id u \<and> d_revoked_at d = None"
      using od by (auto dest: owned_device_Some)
    from map_session_effective [OF ms this that] fr show ?thesis by (simp add: w')
  qed
  have S: "s1 \<in> set (w_sessions w') \<and> s_user_id s1 = u_id u \<and> Some (s_identifier s1) = c_session_id c \<and>
      s_revoked_at s1 = None \<and> s_device_id s1 = map_option d_id eff" if "s = Some s1" for s1
    using map_session_session [of c u req w1 s1 eff w2] ms by (simp add: w' that)
  show ?thesis
    using U D S u_spec by (auto simp: i request_identity_def)
qed

lemma get_or_create_user_inv:
  assumes "id_inv w" and "get_or_create_user c w = Inr (u, w')"
  shows "id_inv w'"
  using get_or_create_user_spec [OF assms(2)] assms(1)
  by (auto simp: id_inv_def draw_def table_simps dest: keys_below_fresh)

lemma get_or_create_session_inv:
  assumes inv: "id_inv w" and g: "get_or_create_session c sid u req w = Inr (s, w')"
    and req: "\<And>d. req = Some d \<Longrightarrow> d \<in> set (w_devices w) \<and> d_user_id d = u_id u \<and> d_revoked_at d = None"
  shows "id_inv w'"
proof (cases "w' = w")
  case True
  with inv show ?thesis by simp
next
  case False
  note spec = get_or_create_session_spec [OF g]
  have "session_bound_ok (w_devices w) s"
  proof (cases req)
    case None
    with spec False show ?thesis by (simp add: session_bound_ok_def)
  next
    case (Some d)
    with spec False req [OF Some] show ?thesis by (auto simp: session_bound_ok_def)
  qed
  with spec False inv show ?thesis
    by (auto simp: id_inv_def draw_def table_simps dest: keys_below_fresh)
qed

lemma session_put_inv:
  assumes "id_inv w" and "s0 \<in> set (w_sessions w)" and "s_id s = s_id s0"
    and "s_identifier s = s_identifier s0" and "session_bound_ok (w_devices w) s"
  shows "id_inv (w\<lparr>w_sessions := row_put s_id s (w_sessions w)\<rparr>)"
proof -
  have "map s_identifier (row_put s_id s (w_sessions w)) = map s_identifier (w_sessions w)"
    using assms by (intro map_row_put_same) (auto simp: id_inv_def)
  with assms show ?thesis
    by (auto simp: id_inv_def table_simps list_all_iff dest: row_put_mem)
qed

lemma user_put_inv:
  assumes "id_inv w" and "u0 \<in> set (w_users w)" and "u_id u = u_id u0" and "u_auth_user_id u = u_auth_user_id u0"
  shows "id_inv (w\<lparr>w_users := row_put u_id u (w_users w)\<rparr>)"
proof -
  have "map u_auth_user_id (row_put u_id u (w_users w)) = map u_auth_user_id (w_users w)"
    using assms by (intro map_row_put_same) (auto simp: id_inv_def)
  with assms show ?thesis by (auto simp: id_inv_def table_simps)
qed

lemma device_put_inv:
  assumes "id_inv w" and "d0 \<in> set (w_devices w)" and "d_id d = d_id d0" and "d_user_id d = d_user_id d0"
    and "d_device_identifier d = d_device_identifier d0" and "d_revoked_at d = d_revoked_at d0"
  shows "id_inv (w\<lparr>w_devices := row_put d_id d (w_devices w)\<rparr>)"
proof -
  let ?ds = "row_put d_id d (w_devices w)"
  have m: "map (\<lambda>d. (d_user_id d, d_device_identifier d)) ?ds =
      map (\<lambda>d. (d_user_id d, d_device_identifier d)) (w_devices w)"
    using assms by (intro map_row_put_same) (auto simp: id_inv_def)
  have "session_bound_ok ?ds s" if s: "session_bound_ok (w_devices w) s" for s
  proof (cases "s_device_id s")
    case (Some b)
    with s obtain x where x: "x \<in> set (w_devices w)" "d_id x = b" "d_user_id x = s_user_id s"
      "d_revoked_at x \<noteq> None \<longrightarrow> s_revoked_at s \<noteq> None" by (auto simp: session_bound_ok_def)
    show ?thesis
    proof (cases "d_id x = d_id d")
      case True
      with assms x have "x = d0" by (metis id_inv_def unique_keys_eq)
      with x assms Some show ?thesis
        by (auto simp: session_bound_ok_def intro!: bexI [of _ d] row_put_intro [of d0])
    next
      case False
      with x Some show ?thesis
        by (auto simp: session_bound_ok_def intro!: bexI [of _ x] row_put_keep)
    qed
  qed (simp add: session_bound_ok_def)
  with m assms(1) show ?thesis by (auto simp: id_inv_def table_simps list_all_iff)
qed

lemma device_put_new_inv:
  assumes "id_inv w" and "d_id d = w_next w"
    and "(d_user_id d, d_device_identifier d) \<notin> (\<lambda>d. (d_user_id d, d_device_identifier d)) ` set (w_devices w)"
  shows "id_inv ((draw w)\<lparr>w_devices := row_add d (w_devices w)\<rparr>)"
proof -
  have "session_bound_ok (row_add d (w_devices w)) s" if "session_bound_ok (w_devices w) s" for s
    using that by (auto simp: session_bound_ok_def table_simps split: option.splits)
  with assms show ?thesis
    by (auto simp: id_inv_def draw_def table_simps list_all_iff dest: keys_below_fresh)
qed

lemma map_session_inv:
  assumes inv: "id_inv w" and ms: "map_session c u req w = Inr ((s, eff), w')"
    and req: "\<And>d. req = Some d \<Longrightarrow> d \<in> set (w_devices w) \<and> d_user_id d = u_id u \<and> d_revoked_at d = None"
  shows "id_inv w'"
proof (cases s)
  case None
  with ms map_session_None inv show ?thesis by blast
next
  case (Some s1)
  with ms map_session_Some obtain sid s0 w1 where
    g: "get_or_create_session c sid u req w = Inr (s0, w1)"
    and s0: "s_user_id s0 = u_id u" "s_revoked_at s0 = None"
    and s: "s_id s1 = s_id s0" "s_user_id s1 = s_user_id s0" "s_identifier s1 = s_identifier s0"
      "s_revoked_at s1 = None"
      "s_device_id s1 = (case s_device_id s0 of Some b \<Rightarrow> Some b | None \<Rightarrow> map_option d_id req)"
    and w': "w' = w1\<lparr>w_sessions := row_put s_id s1 (w_sessions w1)\<rparr>" by blast
  have inv1: "id_inv w1" by (rule get_or_create_session_inv [OF inv g req])
  have mem: "s0 \<in> set (w_sessions w1)" using get_or_create_session_spec [OF g] by blast
  have dev: "w_devices w1 = w_devices w" using get_or_create_session_frame [OF g] by blast
  from inv1 mem have "session_bound_ok (w_devices w1) s0" by (auto simp: id_inv_def list_all_iff)
  with s s0 req dev have "session_bound_ok (w_devices w1) s1"
    by (auto simp: session_bound_ok_def split: option.splits)
  with session_put_inv [OF inv1 mem s(1) s(3)] show ?thesis by (simp add: w')
qed

lemma resolve_identity_inv:
  assumes inv: "id_inv w" and r: "resolve_identity c did w = Inr (i, w')"
  shows "id_inv w'"
proof -
  from resolve_identity_parts [OF r] obtain u w1 req s eff w2 where
    u: "get_or_create_user c w = Inr (u, w1)"
    and od: "owned_device (u_id u) did w1 = Inr req" and ms: "map_session c u req w1 = Inr ((s, eff), w2)"
    and w': "w' = w2\<lparr>w_users := row_put u_id (seen_user (w_now w2) u) (w_users w2)\<rparr>" by blast
  have "id_inv w2"
    using od by (intro map_session_inv [OF get_or_create_user_inv [OF inv u] ms]) (auto dest: owned_device_Some)
  moreover have "u \<in> set (w_users w2)"
    using get_or_create_user_spec [OF u] map_session_frame [OF ms] by auto
  ultimately show ?thesis unfolding w' by (rule user_put_inv) simp_all
qed

lemma find_or_create_device_spec:
  assumes "find_or_create_device i r w = Inr (d, w')"
  shows "d \<in> set (w_devices w') \<and> d_user_id d = ic_user_id i \<and> d_device_identifier d = dr_device_identifier r \<and>
    (w' = w \<or> d_id d = w_next w \<and> d_revoked_at d = None \<and> w' = (draw w)\<lparr>w_devices := row_add d (w_devices w)\<rparr> \<and>
      (d_user_id d, d_device_identifier d) \<notin> (\<lambda>d. (d_user_id d, d_device_identifier d)) ` set (w_devices w))"
  using assms
  by (auto simp: find_or_create_device_def Let_def insert_device_def draw_def row_add_def row_find_None
      split: option.splits if_splits dest: row_find_Some)

lemma bind_session_device_spec:
  assumes "bind_session_device i did w = Inr w'"
  shows "ic_session_id i = None \<and> w' = w \<or>
    (\<exists>s0 s. s0 \<in> set (w_sessions w) \<and> ic_session_id i = Some (s_id s0) \<and> s_id s = s_id s0 \<and>
       s_identifier s = s_identifier s0 \<and> s_user_id s0 = ic_user_id i \<and> s_user_id s = s_user_id s0 \<and>
       s_revoked_at s = s_revoked_at s0 \<and> s_device_id s0 \<in> {None, Some did} \<and> s_device_id s = Some did \<and>
       w' = w\<lparr>w_sessions := row_put s_id s (w_sessions w)\<rparr>)"
proof (cases "ic_session_id i")
  case None
  with assms show ?thesis by (simp add: bind_session_device_def)
next
  case (Some sid)
  with assms obtain s0 where g: "row_get s_id sid (w_sessions w) = Some s0"
    by (auto simp: bind_session_device_def split: option.splits)
  let ?s = "s0\<lparr>s_device_id := Some did, s_last_seen_at := w_now w, s_updated_at := w_now w\<rparr>"
  from g assms Some have ok: "s_user_id s0 = ic_user_id i" "s_device_id s0 \<in> {None, Some did}"
    and w': "w' = w\<lparr>w_sessions := row_put s_id ?s (w_sessions w)\<rparr>"
    by (auto simp: bind_session_device_def split: if_splits)
  have "s_id ?s = s_id s0 \<and> s_identifier ?s = s_identifier s0 \<and> s_user_id ?s = s_user_id s0 \<and>
      s_revoked_at ?s = s_revoked_at s0 \<and> s_device_id ?s = Some did" by simp
  with row_get_Some [OF g] Some ok w' show ?thesis by blast
qed

lemma register_device_parts:
  assumes "register_device i r w = Inr (d', w')"
  shows "\<exists>d w1. find_or_create_device i r w = Inr (d, w1) \<and> d_revoked_at d = None \<and>
    d_id d' = d_id d \<and> d_user_id d' = d_user_id d \<and> d_device_identifier d' = d_device_identifier d \<and>
    d_revoked_at d' = None \<and>
    bind_session_device i (d_id d) (w1\<lparr>w_devices := row_put d_id d' (w_devices w1)\<rparr>) = Inr w'"
  using assms by (auto simp: register_device_def result_simps Let_def)

lemma register_device_inv:
  assumes inv: "id_inv w" and r: "register_device i r w = Inr (d', w')"
  shows "id_inv w'"
proof -
  from register_device_parts [OF r] obtain d w1 where
    f: "find_or_create_device i r w = Inr (d, w1)" and d: "d_revoked_at d = None"
    "d_id d' = d_id d" "d_user_id d' = d_user_id d" "d_device_identifier d' = d_device_identifier d"
    "d_revoked_at d' = None"
    and b: "bind_session_device i (d_id d) (w1\<lparr>w_devices := row_put d_id d' (w_devices w1)\<rparr>) = Inr w'" by blast
  let ?w2 = "w1\<lparr>w_devices := row_put d_id d' (w_devices w1)\<rparr>"
  note f_spec = find_or_create_device_spec [OF f]
  have inv1: "id_inv w1" using f_spec inv device_put_new_inv by blast
  have inv2: "id_inv ?w2" using f_spec d by (intro device_put_inv [OF inv1, of d]) simp_all
  have d'_mem: "d' \<in> set (w_devices ?w2)" using f_spec d by (simp add: row_put_intro [of d])
  from bind_session_device_spec [OF b] show ?thesis
  proof (elim disjE exE conjE)
    assume "w' = ?w2" with inv2 show ?thesis by simp
  next
    fix s0 s
    assume s0: "s0 \<in> set (w_sessions ?w2)" and s: "s_id s = s_id s0" "s_identifier s = s_identifier s0"
      "s_user_id s = s_user_id s0" "s_user_id s0 = ic_user_id i" "s_device_id s = Some (d_id d)"
      and w': "w' = ?w2\<lparr>w_sessions := row_put s_id s (w_sessions ?w2)\<rparr>"
    have "session_bound_ok (w_devices ?w2) s"
      using d'_mem d f_spec s unfolding session_bound_ok_def by (auto intro!: bexI [of _ d'])
    from session_put_inv [OF inv2 s0 s(1,2) this] show ?thesis by (simp add: w')
  qed
qed

lemma revoke_bound_session_simps [simp]:
  "s_id (revoke_bound_session did t s) = s_id s"
  "s_identifier (revoke_bound_session did t s) = s_identifier s"
  "s_user_id (revoke_bound_session did t s) = s_user_id s"
  "s_device_id (revoke_bound_session did t s) = s_device_id s"
  "s_revoked_at s \<noteq> None \<Longrightarrow> s_revoked_at (revoke_bound_session did t s) = s_revoked_at s"
  "s_device_id s = Some did \<Longrightarrow> s_revoked_at (revoke_bound_session did t s) \<noteq> None"
  by (auto simp: revoke_bound_session_def)

lemma revoke_device_parts:
  assumes "revoke_device i did w = Inr (d', w')"
  shows "\<exists>d \<in> set (w_devices w). d_id d = did \<and> d_user_id d = ic_user_id i \<and>
    (d_revoked_at d \<noteq> None \<and> d' = d \<and> w' = w \<or>
     d_revoked_at d = None \<and> d' = d\<lparr>d_revoked_at := Some (w_now w), d_updated_at := w_now w\<rparr> \<and>
     w' = w\<lparr>w_devices := row_put d_id d' (w_devices w),
            w_sessions := map (revoke_bound_session did (w_now w)) (w_sessions w)\<rparr>)"
proof -
  from assms obtain d where d: "row_find (\<lambda>d. d_id d = did \<and> d_user_id d = ic_user_id i) (w_devices w) = Some d"
    by (auto simp: revoke_device_def split: option.splits)
  from row_find_Some [OF d] assms d show ?thesis
    by (intro bexI [of _ d]) (auto simp: revoke_device_def Let_def split: if_splits)
qed

lemma revoke_device_inv:
  assumes inv: "id_inv w" and r: "revoke_device i did w = Inr (d', w')"
  shows "id_inv w'"
proof -
  from revoke_device_parts [OF r] obtain d where d: "d \<in> set (w_devices w)" "d_id d = did"
    and cases: "w' = w \<or> d' = d\<lparr>d_revoked_at := Some (w_now w), d_updated_at := w_now w\<rparr> \<and>
     w' = w\<lparr>w_devices := row_put d_id d' (w_devices w),
            w_sessions := map (revoke_bound_session did (w_now w)) (w_sessions w)\<rparr>" by blast
  show ?thesis
  proof (cases "w' = w")
    case True
    with inv show ?thesis by simp
  next
    case False
    let ?rev = "revoke_bound_session (d_id d) (w_now w)"
    let ?d = "d\<lparr>d_revoked_at := Some (w_now w), d_updated_at := w_now w\<rparr>"
    from cases False d have w': "w' = w\<lparr>w_devices := row_put d_id ?d (w_devices w), w_sessions := map ?rev (w_sessions w)\<rparr>"
      by simp
    have m: "map (\<lambda>d. (d_user_id d, d_device_identifier d)) (row_put d_id ?d (w_devices w)) =
        map (\<lambda>d. (d_user_id d, d_device_identifier d)) (w_devices w)"
      using inv d by (intro map_row_put_same [of _ _ d]) (auto simp: id_inv_def)
    have b: "session_bound_ok (row_put d_id ?d (w_devices w)) (?rev s)" if s: "session_bound_ok (w_devices w) s" for s
    proof (cases "s_device_id s")
      case (Some b)
      with s obtain x where x: "x \<in> set (w_devices w)" "d_id x = b" "d_user_id x = s_user_id s"
        "d_revoked_at x \<noteq> None \<longrightarrow> s_revoked_at s \<noteq> None" by (auto simp: session_bound_ok_def)
      show ?thesis
      proof (cases "b = d_id d")
        case True
        with x inv d have "x = d" by (metis id_inv_def unique_keys_eq)
        with x Some True d show ?thesis
          by (auto simp: session_bound_ok_def intro!: bexI [of _ ?d] row_put_intro [of d])
      next
        case False
        with x Some show ?thesis
          by (auto simp: session_bound_ok_def intro!: bexI [of _ x] row_put_keep)
      qed
    qed (simp add: session_bound_ok_def)
    from inv m b show ?thesis
      unfolding id_inv_def w' by (simp add: table_simps list_all_iff unique_keys_map keys_below_map comp_def)
  qed
qed

lemma id_step_inv: "id_step w w' \<Longrightarrow> id_inv w \<Longrightarrow> id_inv w'"
  by (induction rule: id_step.induct)
     (auto intro: resolve_identity_inv register_device_inv revoke_device_inv, auto simp: id_inv_def)

lemma resolve_identity_devices:
  assumes "resolve_identity c did w = Inr (i, w')"
  shows "w_devices w' = w_devices w"
proof -
  from resolve_identity_parts [OF assms] obtain u w1 req s eff w2 where
    u: "get_or_create_user c w = Inr (u, w1)" and ms: "map_session c u req w1 = Inr ((s, eff), w2)"
    and w': "w' = w2\<lparr>w_users := row_put u_id (seen_user (w_now w2) u) (w_users w2)\<rparr>" by blast
  from get_or_create_user_spec [OF u] have "w_devices w1 = w_devices w" by (auto simp: draw_def)
  with map_session_frame [OF ms] show ?thesis by (simp add: w')
qed

lemma bind_session_device_devices: "bind_session_device i did w = Inr w' \<Longrightarrow> w_devices w' = w_devices w"
  by (auto dest: bind_session_device_spec)

lemma register_device_revoked:
  assumes inv: "id_inv w" and r: "register_device i r w = Inr (d', w')" and rev: "device_revoked did w"
  shows "device_revoked did w'"
proof -
  from register_device_parts [OF r] obtain d w1 where
    f: "find_or_create_device i r w = Inr (d, w1)" and d: "d_revoked_at d = None" "d_id d' = d_id d"
    and b: "bind_session_device i (d_id d) (w1\<lparr>w_devices := row_put d_id d' (w_devices w1)\<rparr>) = Inr w'" by blast
  from rev obtain x where x: "x \<in> set (w_devices w)" "d_id x = did" "d_revoked_at x \<noteq> None"
    by (auto simp: device_revoked_def)
  note f_spec = find_or_create_device_spec [OF f]
  have "x \<in> set (w_devices w1)" using f_spec x by (auto simp: table_simps)
  moreover have "d_id x \<noteq> d_id d"
  proof
    assume "d_id x = d_id d"
    moreover have "id_inv w1" using f_spec inv device_put_new_inv by blast
    ultimately have "x = d" using f_spec \<open>x \<in> set (w_devices w1)\<close> by (auto simp: id_inv_def intro: unique_keys_eq)
    with d x show False by simp
  qed
  ultimately have "x \<in> set (row_put d_id d' (w_devices w1))" by (simp add: row_put_keep d)
  with x bind_session_device_devices [OF b] show ?thesis by (auto simp: device_revoked_def)
qed

lemma revoke_device_revoked:
  assumes "revoke_device i did' w = Inr (d', w')" and "device_revoked did w \<or> did = did'"
  shows "device_revoked did w'"
proof -
  from revoke_device_parts [OF assms(1)] obtain d where d: "d \<in> set (w_devices w)" "d_id d = did'"
    and cases: "d_revoked_at d \<noteq> None \<and> w' = w \<or>
     d' = d\<lparr>d_revoked_at := Some (w_now w), d_updated_at := w_now w\<rparr> \<and>
     w' = w\<lparr>w_devices := row_put d_id d' (w_devices w),
            w_sessions := map (revoke_bound_session did' (w_now w)) (w_sessions w)\<rparr>" by blast
  then consider "d_revoked_at d \<noteq> None" "w' = w" | "d_id d' = d_id d" "d_revoked_at d' \<noteq> None"
    "w_devices w' = row_put d_id d' (w_devices w)" by fastforce
  then show ?thesis
  proof cases
    case 1
    with d assms(2) show ?thesis by (auto simp: device_revoked_def)
  next
    case 2
    show ?thesis
    proof (cases "did = did'")
      case True
      with 2 d have "d' \<in> set (w_devices w')" by (simp add: row_put_intro [of d])
      with 2 d True show ?thesis by (auto simp: device_revoked_def)
    next
      case False
      with assms(2) obtain x where "x \<in> set (w_devices w)" "d_id x = did" "d_revoked_at x \<noteq> None"
        by (auto simp: device_revoked_def)
      with False 2 d show ?thesis by (auto simp: device_revoked_def intro!: bexI [of _ x] row_put_keep)
    qed
  qed
qed

lemma id_step_device_revoked:
  "id_step w w' \<Longrightarrow> id_inv w \<Longrightarrow> device_revoked did w \<Longrightarrow> device_revoked did w'"
proof (induction rule: id_step.induct)
  case (resolve c did' w i w')
  then show ?case by (simp add: device_revoked_def resolve_identity_devices)
next
  case (register i r w d w')
  then show ?case by (blast intro: register_device_revoked)
next
  case (revoke i did' w d w')
  then show ?case by (blast intro: revoke_device_revoked)
next
  case (tick w t)
  then show ?case by (simp add: device_revoked_def)
qed

lemma id_steps_keep:
  "id_step\<^sup>*\<^sup>* w w' \<Longrightarrow> id_inv w \<Longrightarrow> device_revoked did w \<Longrightarrow> id_inv w' \<and> device_revoked did w'"
  by (induction rule: rtranclp_induct) (auto intro: id_step_inv id_step_device_revoked)

text \<open>
  C10: After a device is revoked, no later token, request or registration resolves to an identity
  on that device.
\<close>

theorem revoked_device_never_resolved:
  assumes inv: "id_inv w" and rev: "revoke_device i did w = Inr (d, w1)" and steps: "id_step\<^sup>*\<^sup>* w1 w2"
    and res: "resolve_identity c req w2 = Inr (ctx, w3)"
  shows "ic_device_id ctx \<noteq> Some did"
proof
  assume "ic_device_id ctx = Some did"
  with resolve_identity_facts [OF res] obtain x where
    x: "x \<in> set (w_devices w3)" "d_id x = did" "d_revoked_at x = None" by blast
  from revoke_device_inv [OF inv rev] revoke_device_revoked [OF rev, of did] id_steps_keep [OF steps]
  have w2: "id_inv w2" "device_revoked did w2" by blast+
  then obtain y where y: "y \<in> set (w_devices w2)" "d_id y = did" "d_revoked_at y \<noteq> None"
    by (auto simp: device_revoked_def)
  from x y w2 resolve_identity_devices [OF res] have "x = y"
    by (auto simp: id_inv_def intro: unique_keys_eq)
  with x y show False by simp
qed

text \<open>
  C9: A resolved identity names an enabled local user of the token's subject, a device owned by
  the user and not revoked, and an unrevoked session of the token bound to that device.
\<close>

theorem resolve_identity_sound:
  assumes "resolve_identity c did w = Inr (i, w')"
  shows "ic_auth_user_id i = c_sub c \<and>
    (\<exists>u \<in> set (w_users w'). u_id u = ic_user_id i \<and> u_auth_user_id u = c_sub c \<and> u_status u = US_ACTIVE) \<and>
    (\<forall>d. ic_device_id i = Some d \<longrightarrow>
       (\<exists>x \<in> set (w_devices w'). d_id x = d \<and> d_user_id x = ic_user_id i \<and> d_revoked_at x = None)) \<and>
    (\<forall>sid. ic_session_id i = Some sid \<longrightarrow>
       (\<exists>s \<in> set (w_sessions w'). s_id s = sid \<and> s_user_id s = ic_user_id i \<and>
          Some (s_identifier s) = c_session_id c \<and> s_revoked_at s = None \<and> s_device_id s = ic_device_id i))"
  using assms by (rule resolve_identity_facts)

theorem resolve_identity_sound_witness:
  "\<exists>s \<in> set (w_sessions (world_after sample_login empty_id_world)).
     ic_session_id (returned sample_login) = Some (s_id s) \<and> s_identifier s = ''s1'' \<and> s_revoked_at s = None"
proof -
  have ok: "\<not> isl sample_login \<and> ic_session_id (returned sample_login) = Some 1" by code_simp
  then have "resolve_identity sample_claims None empty_id_world = Inr (returned sample_login, world_after sample_login empty_id_world)"
    using returned_world [of sample_login] by (simp add: sample_login_def)
  from resolve_identity_sound [OF this] ok obtain s where "s \<in> set (w_sessions (world_after sample_login empty_id_world))"
    "s_id s = 1" "Some (s_identifier s) = c_session_id sample_claims" "s_revoked_at s = None" by blast
  with ok show ?thesis by (intro bexI [of _ s]) (simp_all add: sample_claims_def)
qed

text \<open>
  C11: The identity tables keep unique primary keys, unique natural keys and sessions bound to
  devices of their user across every call of the service.
\<close>

theorem id_step_keeps_invariant:
  assumes "id_step\<^sup>*\<^sup>* w w'" and "id_inv w"
  shows "id_inv w'"
  using assms by (induction rule: rtranclp_induct) (auto intro: id_step_inv)

theorem id_step_keeps_invariant_witness: "id_inv (empty_id_world\<lparr>w_now := 2000\<rparr>)"
proof (rule id_step_keeps_invariant)
  show "id_step\<^sup>*\<^sup>* empty_id_world (empty_id_world\<lparr>w_now := 2000\<rparr>)"
    by (rule r_into_rtranclp, rule id_step.tick) (simp add: empty_id_world_def)
  show "id_inv empty_id_world" by code_simp
qed

theorem revoked_device_never_resolved_witness:
  "ic_device_id (returned (resolve_identity (sample_claims\<lparr>c_session_id := Some ''s2''\<rparr>) None
     (world_after sample_device_revocation empty_id_world))) \<noteq> Some (d_id (returned sample_device))"
proof (rule revoked_device_never_resolved)
  let ?w = "world_after sample_device empty_id_world"
  let ?w1 = "world_after sample_device_revocation empty_id_world"
  let ?r = "resolve_identity (sample_claims\<lparr>c_session_id := Some ''s2''\<rparr>) None ?w1"
  have ok: "\<not> isl sample_device_revocation \<and> \<not> isl ?r \<and> id_inv ?w" by code_simp
  then show "id_inv ?w" by blast
  show "revoke_device (returned sample_login) (d_id (returned sample_device)) ?w = Inr (returned sample_device_revocation, ?w1)"
    using ok returned_world [of sample_device_revocation] by (simp add: sample_device_revocation_def Let_def)
  show "id_step\<^sup>*\<^sup>* ?w1 ?w1" by simp
  show "?r = Inr (returned ?r, world_after ?r ?w1)" using ok by (intro returned_world) blast
qed

end
