(* ===== verification/Authority_Model.thy ===== *)
theory Authority_Model
  imports Identity
begin

text \<open>
  \<^verbatim>\<open>permissions/enums.py\<close>, \<^verbatim>\<open>permissions/models.py\<close>, \<^verbatim>\<open>permissions/schemas.py\<close>,
  \<^verbatim>\<open>permissions/risk.py\<close>, \<^verbatim>\<open>permissions/financial.py\<close> and \<^verbatim>\<open>audit/\<close>: the vocabulary of authority
  decisions, the rows of the authority tables, the scope language with its validation and its
  subsumption test, the risk classifier, the financial guard and the audit writer. Constructors
  carry a prefix where the source uses the same name in several enumerations.
\<close>

section \<open>Enumerations\<close>

datatype risk_level = NEGLIGIBLE | LOW | MODERATE | ELEVATED | HIGH | CRITICAL

primrec risk_int :: "risk_level \<Rightarrow> int" where
  "risk_int NEGLIGIBLE = 0"
| "risk_int LOW = 1"
| "risk_int MODERATE = 2"
| "risk_int ELEVATED = 3"
| "risk_int HIGH = 4"
| "risk_int CRITICAL = 5"

text \<open>\<^verbatim>\<open>RiskLevel\<close> is an \<^verbatim>\<open>IntEnum\<close>: its members compare by value.\<close>

instantiation risk_level :: linorder
begin

definition less_eq_risk_level :: "risk_level \<Rightarrow> risk_level \<Rightarrow> bool" where
  "less_eq_risk_level a b \<longleftrightarrow> risk_int a \<le> risk_int b"

definition less_risk_level :: "risk_level \<Rightarrow> risk_level \<Rightarrow> bool" where
  "less_risk_level a b \<longleftrightarrow> risk_int a < risk_int b"

instance
proof
  fix a b :: risk_level
  show "a \<le> b \<Longrightarrow> b \<le> a \<Longrightarrow> a = b"
    by (cases a; cases b) (simp_all add: less_eq_risk_level_def)
qed (auto simp: less_eq_risk_level_def less_risk_level_def)

end

primrec risk_name :: "risk_level \<Rightarrow> string" where
  "risk_name NEGLIGIBLE = ''NEGLIGIBLE''"
| "risk_name LOW = ''LOW''"
| "risk_name MODERATE = ''MODERATE''"
| "risk_name ELEVATED = ''ELEVATED''"
| "risk_name HIGH = ''HIGH''"
| "risk_name CRITICAL = ''CRITICAL''"

text \<open>\<^verbatim>\<open>RiskLevel(n)\<close>, which raises \<^verbatim>\<open>ValueError\<close> outside 0..5.\<close>

definition risk_of :: "int \<Rightarrow> app_error + risk_level" where
  "risk_of n =
     (if n = 0 then Inr NEGLIGIBLE else if n = 1 then Inr LOW else if n = 2 then Inr MODERATE
      else if n = 3 then Inr ELEVATED else if n = 4 then Inr HIGH else if n = 5 then Inr CRITICAL
      else Inl PyValueError)"

datatype permission_status = PS_ACTIVE | PS_REVOKED | PS_EXPIRED

datatype confirmation_policy = CP_NEVER | CP_ONCE | CP_EVERY_TIME | CP_HIGH_RISK_ONLY

datatype grant_source = GS_USER_EXPLICIT | GS_SYSTEM_DEFAULT | GS_MIGRATION

datatype decision_type = ALLOW | DENY | REQUIRE_CONFIRMATION

datatype decision_reason =
    DR_AUTHORIZED | DR_NO_PERMISSION | DR_PERMISSION_REVOKED | DR_PERMISSION_EXPIRED
  | DR_SCOPE_MISMATCH | DR_DEVICE_SCOPE_MISMATCH | DR_DEVICE_REVOKED | DR_CAPABILITY_DISABLED
  | DR_CAPABILITY_NOT_FOUND | DR_ACTION_NOT_ALLOWED | DR_CONFIRMATION_REQUIRED
  | DR_CONFIRMATION_EXPIRED | DR_CONFIRMATION_REJECTED | DR_CONFIRMATION_MISMATCH
  | DR_CONFIRMATION_REPLAYED | DR_RISK_TOO_HIGH | DR_FINANCIAL_EXECUTION_BLOCKED
  | DR_USER_DISABLED | DR_INVALID_IDENTITY | DR_AUTHORIZATION_EVALUATION_FAILED

primrec reason_value :: "decision_reason \<Rightarrow> string" where
  "reason_value DR_AUTHORIZED = ''AUTHORIZED''"
| "reason_value DR_NO_PERMISSION = ''NO_PERMISSION''"
| "reason_value DR_PERMISSION_REVOKED = ''PERMISSION_REVOKED''"
| "reason_value DR_PERMISSION_EXPIRED = ''PERMISSION_EXPIRED''"
| "reason_value DR_SCOPE_MISMATCH = ''SCOPE_MISMATCH''"
| "reason_value DR_DEVICE_SCOPE_MISMATCH = ''DEVICE_SCOPE_MISMATCH''"
| "reason_value DR_DEVICE_REVOKED = ''DEVICE_REVOKED''"
| "reason_value DR_CAPABILITY_DISABLED = ''CAPABILITY_DISABLED''"
| "reason_value DR_CAPABILITY_NOT_FOUND = ''CAPABILITY_NOT_FOUND''"
| "reason_value DR_ACTION_NOT_ALLOWED = ''ACTION_NOT_ALLOWED''"
| "reason_value DR_CONFIRMATION_REQUIRED = ''CONFIRMATION_REQUIRED''"
| "reason_value DR_CONFIRMATION_EXPIRED = ''CONFIRMATION_EXPIRED''"
| "reason_value DR_CONFIRMATION_REJECTED = ''CONFIRMATION_REJECTED''"
| "reason_value DR_CONFIRMATION_MISMATCH = ''CONFIRMATION_MISMATCH''"
| "reason_value DR_CONFIRMATION_REPLAYED = ''CONFIRMATION_REPLAYED''"
| "reason_value DR_RISK_TOO_HIGH = ''RISK_TOO_HIGH''"
| "reason_value DR_FINANCIAL_EXECUTION_BLOCKED = ''FINANCIAL_EXECUTION_BLOCKED''"
| "reason_value DR_USER_DISABLED = ''USER_DISABLED''"
| "reason_value DR_INVALID_IDENTITY = ''INVALID_IDENTITY''"
| "reason_value DR_AUTHORIZATION_EVALUATION_FAILED = ''AUTHORIZATION_EVALUATION_FAILED''"

definition all_reasons :: "decision_reason list" where
  "all_reasons =
     [DR_AUTHORIZED, DR_NO_PERMISSION, DR_PERMISSION_REVOKED, DR_PERMISSION_EXPIRED,
      DR_SCOPE_MISMATCH, DR_DEVICE_SCOPE_MISMATCH, DR_DEVICE_REVOKED, DR_CAPABILITY_DISABLED,
      DR_CAPABILITY_NOT_FOUND, DR_ACTION_NOT_ALLOWED, DR_CONFIRMATION_REQUIRED,
      DR_CONFIRMATION_EXPIRED, DR_CONFIRMATION_REJECTED, DR_CONFIRMATION_MISMATCH,
      DR_CONFIRMATION_REPLAYED, DR_RISK_TOO_HIGH, DR_FINANCIAL_EXECUTION_BLOCKED,
      DR_USER_DISABLED, DR_INVALID_IDENTITY, DR_AUTHORIZATION_EVALUATION_FAILED]"

text \<open>\<^verbatim>\<open>DecisionReason(code)\<close>: the member with that value, or \<^verbatim>\<open>ValueError\<close>.\<close>

definition reason_of :: "string \<Rightarrow> app_error + decision_reason" where
  "reason_of code = someE PyValueError (find (\<lambda>r. reason_value r = code) all_reasons)"

fun reasons_of :: "string list \<Rightarrow> app_error + decision_reason list" where
  "reasons_of [] = Inr []"
| "reasons_of (c # cs) = bindE (reason_of c) (\<lambda>r. bindE (reasons_of cs) (\<lambda>rs. Inr (r # rs)))"

datatype confirmation_status = CS_PENDING | CS_APPROVED | CS_REJECTED | CS_EXPIRED

datatype actor_type = AT_USER | AT_SYSTEM | AT_AI | AT_AUTOMATION | AT_DEVICE

datatype audit_event_type =
    AE_PERMISSION_GRANTED | AE_PERMISSION_REVOKED | AE_PERMISSION_EXPIRED_OBSERVED
  | AE_AUTHORIZATION_ALLOWED | AE_AUTHORIZATION_DENIED | AE_CONFIRMATION_REQUESTED
  | AE_CONFIRMATION_APPROVED | AE_CONFIRMATION_REJECTED | AE_FINANCIAL_GUARD_TRIGGERED
  | AE_TASK_CREATED | AE_TASK_CANCELLED | AE_TASK_CLAIMED | AE_MEMORY_CREATED
  | AE_MEMORY_UPDATED | AE_MEMORY_ARCHIVED | AE_MEMORY_DELETED | AE_AI_ROUTING_DENIED
  | AE_ORCHESTRATION_DENIED | AE_ORCHESTRATION_CONFIRMATION_REQUIRED | AE_ORCHESTRATION_READY
  | AE_ORCHESTRATION_SECURITY_REJECTED | AE_ORCHESTRATION_CANCELLED

datatype audit_result = AR_RECORDED | AR_ALLOWED | AR_DENIED | AR_REQUESTED | AR_APPROVED | AR_REJECTED

section \<open>Scopes and requests\<close>

definition is_lower_alpha :: "char \<Rightarrow> bool" where
  "is_lower_alpha c = (let n = of_char c :: nat in 97 \<le> n \<and> n \<le> 122)"

definition is_digit_char :: "char \<Rightarrow> bool" where
  "is_digit_char c = (let n = of_char c :: nat in 48 \<le> n \<and> n \<le> 57)"

definition is_upper_alpha :: "char \<Rightarrow> bool" where
  "is_upper_alpha c = (let n = of_char c :: nat in 65 \<le> n \<and> n \<le> 90)"

text \<open>\<^verbatim>\<open>^[a-z][a-z0-9_]*$\<close> and \<^verbatim>\<open>^[A-Za-z0-9][A-Za-z0-9._:-]*$\<close>.\<close>

definition ident_pattern :: "string \<Rightarrow> bool" where
  "ident_pattern s =
     (case s of [] \<Rightarrow> False
      | c # cs \<Rightarrow> is_lower_alpha c \<and>
          list_all (\<lambda>x. is_lower_alpha x \<or> is_digit_char x \<or> x = CHR ''_'') cs)"

definition resource_id_pattern :: "string \<Rightarrow> bool" where
  "resource_id_pattern s =
     (case s of [] \<Rightarrow> False
      | c # cs \<Rightarrow> (is_lower_alpha c \<or> is_upper_alpha c \<or> is_digit_char c) \<and>
          list_all (\<lambda>x. is_lower_alpha x \<or> is_upper_alpha x \<or> is_digit_char x \<or> x \<in> set ''._:-'') cs)"

text \<open>The segments between dots; \<^verbatim>\<open>^[a-z][a-z0-9_]*(?:\.[a-z][a-z0-9_]*)+$\<close>.\<close>

fun dot_segments :: "string \<Rightarrow> string list" where
  "dot_segments [] = [[]]"
| "dot_segments (c # cs) =
     (if c = CHR ''.'' then [] # dot_segments cs
      else (case dot_segments cs of [] \<Rightarrow> [[c]] | x # xs \<Rightarrow> (c # x) # xs))"

definition capability_key_pattern :: "string \<Rightarrow> bool" where
  "capability_key_pattern s = (2 \<le> length (dot_segments s) \<and> list_all ident_pattern (dot_segments s))"

definition bounded :: "nat \<Rightarrow> nat \<Rightarrow> string \<Rightarrow> bool" where
  "bounded lo hi s = (lo \<le> length s \<and> length s \<le> hi)"

definition parse_capability_key :: "string \<Rightarrow> app_error + string" where
  "parse_capability_key raw =
     (let s = py_strip raw
      in bindE (requireE PyValueError (bounded 3 128 s \<and> capability_key_pattern s)) (\<lambda>_. Inr s))"

definition parse_action_name :: "string \<Rightarrow> app_error + string" where
  "parse_action_name raw =
     (let s = py_lower (py_strip raw)
      in bindE (requireE PyValueError (bounded 1 64 s \<and> ident_pattern s)) (\<lambda>_. Inr s))"

definition parse_resource_id :: "string \<Rightarrow> app_error + string" where
  "parse_resource_id raw =
     (let s = py_strip raw
      in bindE (requireE PyValueError (bounded 1 128 s \<and> resource_id_pattern s)) (\<lambda>_. Inr s))"

fun parse_all :: "('a \<Rightarrow> 'e + 'b) \<Rightarrow> 'a list \<Rightarrow> 'e + 'b list" where
  "parse_all f [] = Inr []"
| "parse_all f (x # xs) = bindE (f x) (\<lambda>y. bindE (parse_all f xs) (\<lambda>ys. Inr (y # ys)))"

definition normalize_unique_values :: "string list \<Rightarrow> app_error + string list" where
  "normalize_unique_values v =
     bindE (requireE PyValueError (length (remdups v) = length v)) (\<lambda>_. Inr (sort v))"

record permission_scope =
  sc_resource_type :: string
  sc_resource_ids :: "string list"
  sc_operations :: "string list"

text \<open>\<^verbatim>\<open>PermissionScope(...)\<close>: the validated and normalized scope of raw input.\<close>

definition make_scope :: "string \<Rightarrow> string list \<Rightarrow> string list \<Rightarrow> app_error + permission_scope" where
  "make_scope resource_type resource_ids operations =
     bindE (parse_action_name resource_type) (\<lambda>rt.
     bindE (requireE PyValueError (length resource_ids \<le> 32)) (\<lambda>_.
     bindE (parse_all parse_resource_id resource_ids) (\<lambda>ids.
     bindE (normalize_unique_values ids) (\<lambda>ids'.
     bindE (requireE PyValueError (1 \<le> length operations \<and> length operations \<le> 32)) (\<lambda>_.
     bindE (parse_all parse_action_name operations) (\<lambda>ops.
     bindE (normalize_unique_values ops) (\<lambda>ops'.
     Inr \<lparr>sc_resource_type = rt, sc_resource_ids = ids', sc_operations = ops'\<rparr>)))))))"

definition scope_json :: "permission_scope \<Rightarrow> json" where
  "scope_json sc =
     JObj [(''operations'', JList (map JStr (sc_operations sc))),
           (''resource_ids'', JList (map JStr (sc_resource_ids sc))),
           (''resource_type'', JStr (sc_resource_type sc))]"

definition scope_digest :: "'z core_world_scheme \<Rightarrow> permission_scope \<Rightarrow> string" where
  "scope_digest w sc = w_sha256 w (json_dumps (scope_json sc))"

definition scope_authorizes :: "permission_scope \<Rightarrow> permission_scope \<Rightarrow> bool" where
  "scope_authorizes granted requested =
     (if sc_resource_type granted \<noteq> sc_resource_type requested then False
      else if \<not> set (sc_operations requested) \<subseteq> set (sc_operations granted) then False
      else if sc_resource_ids requested = [] then sc_resource_ids granted = []
      else sc_resource_ids granted \<noteq> [] \<and> set (sc_resource_ids requested) \<subseteq> set (sc_resource_ids granted))"

record resource_reference =
  rr_resource_type :: string
  rr_resource_id :: "string option"

record authorization_request =
  rq_capability_key :: string
  rq_action :: string
  rq_scope :: permission_scope
  rq_resource :: "resource_reference option"
  rq_context :: metadata
  rq_confirmation_id :: "uuid option"

text \<open>\<^verbatim>\<open>validate_action_and_resource\<close>, the model validator of a request.\<close>

definition valid_request :: "authorization_request \<Rightarrow> bool" where
  "valid_request r \<longleftrightarrow>
     rq_action r \<in> set (sc_operations (rq_scope r)) \<and>
     (case rq_resource r of
        None \<Rightarrow> True
      | Some res \<Rightarrow>
          rr_resource_type res = sc_resource_type (rq_scope r) \<and>
          (case rr_resource_id res of None \<Rightarrow> True | Some i \<Rightarrow> i \<in> set (sc_resource_ids (rq_scope r))))"

record risk_assessment =
  ra_risk_level :: risk_level
  ra_reversible :: bool
  ra_financial :: bool
  ra_external_side_effect :: bool
  ra_data_destructive :: bool
  ra_privacy_impact :: bool
  ra_reasons :: "string list"

record authorization_decision =
  dc_decision_id :: uuid
  dc_decision :: decision_type
  dc_reason_codes :: "decision_reason list"
  dc_permission_id :: "uuid option"
  dc_risk_level :: risk_level
  dc_confirmation_required :: bool
  dc_confirmation_id :: "uuid option"
  dc_scope_match :: bool
  dc_financial_guard_triggered :: bool
  dc_created_at :: timestamp

record permission_grant_request =
  gr_capability_key :: string
  gr_scope :: permission_scope
  gr_device_id :: "uuid option"
  gr_confirmation_policy :: confirmation_policy
  gr_auto_execute :: bool
  gr_expires_at :: "timestamp option"
  gr_reason :: "string option"

section \<open>Rows\<close>

record capability =
  cap_id :: uuid
  cap_key :: string
  cap_name :: string
  cap_description :: string
  cap_category :: string
  cap_default_risk_level :: int
  cap_allowed_actions :: json
  cap_external_side_effect :: bool
  cap_financial :: bool
  cap_data_destructive :: bool
  cap_privacy_impact :: bool
  cap_enabled :: bool

record permission =
  p_id :: uuid
  p_user_id :: uuid
  p_capability_id :: uuid
  p_device_id :: "uuid option"
  p_scope :: permission_scope
  p_scope_digest :: string
  p_status :: permission_status
  p_confirmation_policy :: confirmation_policy
  p_auto_execute :: bool
  p_grant_source :: grant_source
  p_granted_at :: timestamp
  p_expires_at :: "timestamp option"
  p_revoked_at :: "timestamp option"
  p_confirmed_once_at :: "timestamp option"
  p_last_used_at :: "timestamp option"
  p_reason :: "string option"
  p_created_at :: timestamp
  p_updated_at :: timestamp

record decision_record =
  ad_id :: uuid
  ad_user_id :: uuid
  ad_device_id :: "uuid option"
  ad_permission_id :: "uuid option"
  ad_capability_key :: string
  ad_action :: string
  ad_scope :: permission_scope
  ad_scope_digest :: string
  ad_decision :: decision_type
  ad_reason_codes :: "string list"
  ad_risk_level :: int
  ad_confirmation_required :: bool
  ad_scope_match :: bool
  ad_financial_guard_triggered :: bool
  ad_created_at :: timestamp

record confirmation_request =
  cf_id :: uuid
  cf_user_id :: uuid
  cf_authorization_decision_id :: uuid
  cf_permission_id :: uuid
  cf_capability_key :: string
  cf_action :: string
  cf_scope_digest :: string
  cf_status :: confirmation_status
  cf_requested_at :: timestamp
  cf_expires_at :: timestamp
  cf_confirmed_at :: "timestamp option"
  cf_rejected_at :: "timestamp option"
  cf_consumed_at :: "timestamp option"

record audit_record =
  aq_user_id :: uuid
  aq_device_id :: "uuid option"
  aq_session_id :: "uuid option"
  aq_actor_type :: actor_type
  aq_event_type :: audit_event_type
  aq_result :: audit_result
  aq_capability_key :: "string option"
  aq_action :: "string option"
  aq_resource_type :: "string option"
  aq_resource_id :: "string option"
  aq_risk_level :: "risk_level option"
  aq_permission_id :: "uuid option"
  aq_decision_id :: "uuid option"
  aq_confirmation_id :: "uuid option"
  aq_reason_codes :: "string list"
  aq_trace_id :: "string option"
  aq_task_id :: "uuid option"
  aq_execution_id :: "uuid option"
  aq_metadata :: metadata

record audit_event =
  ae_id :: uuid
  ae_timestamp :: timestamp
  ae_user_id :: uuid
  ae_device_id :: "uuid option"
  ae_session_id :: "uuid option"
  ae_actor_type :: actor_type
  ae_event_type :: audit_event_type
  ae_capability_key :: "string option"
  ae_action :: "string option"
  ae_resource_type :: "string option"
  ae_resource_id :: "string option"
  ae_risk_level :: "int option"
  ae_permission_id :: "uuid option"
  ae_decision_id :: "uuid option"
  ae_confirmation_id :: "uuid option"
  ae_result :: audit_result
  ae_reason_codes :: "string list"
  ae_trace_id :: "string option"
  ae_task_id :: "uuid option"
  ae_execution_id :: "uuid option"
  ae_metadata :: metadata

record auth_world = id_world +
  w_capabilities :: "capability list"
  w_permissions :: "permission list"
  w_decisions :: "decision_record list"
  w_confirmations :: "confirmation_request list"
  w_audit :: "audit_event list"

section \<open>Capability vocabulary, risk and the financial guard\<close>

definition is_action_name :: "json \<Rightarrow> bool" where
  "is_action_name v = (case v of JStr s \<Rightarrow> s \<noteq> [] | _ \<Rightarrow> False)"

definition allows_operations :: "capability \<Rightarrow> string list \<Rightarrow> bool" where
  "allows_operations cap operations =
     (case cap_allowed_actions cap of
        JList actions \<Rightarrow>
          if actions = [] \<or> list_ex (\<lambda>a. \<not> is_action_name a) actions then False
          else JStr ` set operations \<subseteq> set actions
      | _ \<Rightarrow> False)"

text \<open>The floors are applied in the order of the source; \<open>raise_to\<close> is one \<^verbatim>\<open>if\<close> of it.\<close>

definition raise_to ::
  "bool \<Rightarrow> risk_level \<Rightarrow> string \<Rightarrow> risk_level \<times> string list \<Rightarrow> risk_level \<times> string list" where
  "raise_to flag floor reason = (\<lambda>(level, reasons).
     if flag \<and> risk_int level < risk_int floor then (floor, reasons @ [reason]) else (level, reasons))"

definition evaluate_risk :: "capability \<Rightarrow> string \<Rightarrow> app_error + risk_assessment" where
  "evaluate_risk cap action =
     bindE (requireE PyValueError (allows_operations cap [action])) (\<lambda>_.
     bindE (risk_of (cap_default_risk_level cap)) (\<lambda>level.
     let s0 = (level, [''CAPABILITY_DEFAULT_'' @ risk_name level]);
         s1 = raise_to (cap_privacy_impact cap) MODERATE ''PRIVACY_IMPACT_FLOOR'' s0;
         s2 = raise_to (cap_external_side_effect cap) ELEVATED ''EXTERNAL_SIDE_EFFECT_FLOOR'' s1;
         s3 = raise_to (cap_data_destructive cap) HIGH ''DATA_DESTRUCTIVE_FLOOR'' s2;
         s4 = (if cap_financial cap \<and> cap_external_side_effect cap
               then (CRITICAL, snd s3 @ [''FINANCIAL_EXECUTION_FLOOR'']) else s3)
     in Inr \<lparr>ra_risk_level = fst s4,
             ra_reversible = (\<not> cap_data_destructive cap \<and>
                              \<not> (cap_financial cap \<and> cap_external_side_effect cap)),
             ra_financial = cap_financial cap,
             ra_external_side_effect = cap_external_side_effect cap,
             ra_data_destructive = cap_data_destructive cap,
             ra_privacy_impact = cap_privacy_impact cap,
             ra_reasons = snd s4\<rparr>))"

definition financial_blocks :: "capability \<Rightarrow> bool" where
  "financial_blocks cap = (cap_financial cap \<and> cap_external_side_effect cap)"

section \<open>The audit writer\<close>

definition MAX_AUDIT_METADATA_BYTES :: nat where
  "MAX_AUDIT_METADATA_BYTES = 4096"

text \<open>
  \<^verbatim>\<open>AuditEngine.record\<close>: the metadata is sanitized, then one event is appended. The flush error
  that becomes \<^verbatim>\<open>AuditUnavailableError\<close> is a failure of the database and is not modelled.
\<close>

definition audit_event_of :: "'z core_world_scheme \<Rightarrow> audit_record \<Rightarrow> metadata \<Rightarrow> audit_event" where
  "audit_event_of w r sanitized =
     \<lparr>ae_id = w_next w, ae_timestamp = w_now w, ae_user_id = aq_user_id r,
      ae_device_id = aq_device_id r, ae_session_id = aq_session_id r,
      ae_actor_type = aq_actor_type r, ae_event_type = aq_event_type r,
      ae_capability_key = aq_capability_key r, ae_action = aq_action r,
      ae_resource_type = aq_resource_type r, ae_resource_id = aq_resource_id r,
      ae_risk_level = map_option risk_int (aq_risk_level r),
      ae_permission_id = aq_permission_id r, ae_decision_id = aq_decision_id r,
      ae_confirmation_id = aq_confirmation_id r, ae_result = aq_result r,
      ae_reason_codes = aq_reason_codes r, ae_trace_id = aq_trace_id r,
      ae_task_id = aq_task_id r, ae_execution_id = aq_execution_id r, ae_metadata = sanitized\<rparr>"

definition audit_append :: "audit_event \<Rightarrow> 'z auth_world_scheme \<Rightarrow> 'z auth_world_scheme" where
  "audit_append e w = (draw w)\<lparr>w_audit := row_add e (w_audit w)\<rparr>"

definition record_audit :: "audit_record \<Rightarrow> 'z auth_world_scheme \<Rightarrow> app_error + 'z auth_world_scheme" where
  "record_audit r w =
     bindE (sanitize_metadata MAX_AUDIT_METADATA_BYTES (aq_metadata r)) (\<lambda>sanitized.
     Inr (audit_append (audit_event_of w r sanitized) w))"

text \<open>The fields of an \<^verbatim>\<open>AuditRecord\<close> that the constructor call leaves out.\<close>

definition blank_audit ::
  "uuid \<Rightarrow> uuid option \<Rightarrow> uuid option \<Rightarrow> actor_type \<Rightarrow> audit_event_type \<Rightarrow> audit_result \<Rightarrow> audit_record" where
  "blank_audit user_id device_id session_id actor event result =
     \<lparr>aq_user_id = user_id, aq_device_id = device_id, aq_session_id = session_id,
      aq_actor_type = actor, aq_event_type = event, aq_result = result,
      aq_capability_key = None, aq_action = None, aq_resource_type = None, aq_resource_id = None,
      aq_risk_level = None, aq_permission_id = None, aq_decision_id = None,
      aq_confirmation_id = None, aq_reason_codes = [], aq_trace_id = None, aq_task_id = None,
      aq_execution_id = None, aq_metadata = []\<rparr>"

section \<open>Sample data\<close>

text \<open>A small concrete account, on which the witnesses of the properties evaluate.\<close>

definition sample_user :: user where
  "sample_user = \<lparr>u_id = 1, u_auth_user_id = 101, u_display_name = None, u_status = US_ACTIVE,
     u_last_seen_at = 0, u_created_at = 0, u_updated_at = 0\<rparr>"

definition sample_identity :: identity_context where
  "sample_identity = \<lparr>ic_user_id = 1, ic_auth_user_id = 101, ic_device_id = None, ic_session_id = None,
     ic_display_name = None, ic_authentication_level = AAL2, ic_token_expiry = 9000000\<rparr>"

definition sample_capability :: capability where
  "sample_capability = \<lparr>cap_id = 2, cap_key = ''notes.write'', cap_name = ''Notes'', cap_description = ''Write notes'',
     cap_category = ''notes'', cap_default_risk_level = 2, cap_allowed_actions = JList [JStr ''write''],
     cap_external_side_effect = False, cap_financial = False, cap_data_destructive = False,
     cap_privacy_impact = False, cap_enabled = True\<rparr>"

definition sample_scope :: permission_scope where
  "sample_scope = \<lparr>sc_resource_type = ''note'', sc_resource_ids = [], sc_operations = [''write'']\<rparr>"

definition sample_permission :: "confirmation_policy \<Rightarrow> permission" where
  "sample_permission policy = \<lparr>p_id = 3, p_user_id = 1, p_capability_id = 2, p_device_id = None,
     p_scope = sample_scope, p_scope_digest = ''d'', p_status = PS_ACTIVE, p_confirmation_policy = policy,
     p_auto_execute = False, p_grant_source = GS_USER_EXPLICIT, p_granted_at = 0, p_expires_at = None,
     p_revoked_at = None, p_confirmed_once_at = None, p_last_used_at = None, p_reason = None,
     p_created_at = 0, p_updated_at = 0\<rparr>"

definition sample_world :: "confirmation_policy \<Rightarrow> auth_world" where
  "sample_world policy = \<lparr>w_now = 1000, w_next = 10, w_sha256 = (\<lambda>s. s), w_users = [sample_user],
     w_devices = [], w_sessions = [], w_capabilities = [sample_capability],
     w_permissions = [sample_permission policy], w_decisions = [], w_confirmations = [], w_audit = []\<rparr>"

definition sample_request :: "uuid option \<Rightarrow> authorization_request" where
  "sample_request cid = \<lparr>rq_capability_key = ''notes.write'', rq_action = ''write'', rq_scope = sample_scope,
     rq_resource = None, rq_context = [], rq_confirmation_id = cid\<rparr>"

section \<open>Frame lemmas\<close>

definition sample_raw_scope :: "app_error + permission_scope" where
  "sample_raw_scope = make_scope '' Note '' [''b'', ''a''] [''Write'', ''read'']"

lemma draw_auth_tables [simp]:
  "w_capabilities (draw w) = w_capabilities w" "w_permissions (draw w) = w_permissions w"
  "w_decisions (draw w) = w_decisions w" "w_confirmations (draw w) = w_confirmations w"
  "w_audit (draw w) = w_audit w"
  by (simp_all add: draw_def)

lemma draw_more [simp]: "auth_world.more (draw w) = auth_world.more w"
  by (simp add: draw_def)

lemma audit_event_of_simps [simp]:
  "ae_id (audit_event_of w r m) = w_next w" "ae_event_type (audit_event_of w r m) = aq_event_type r"
  "ae_user_id (audit_event_of w r m) = aq_user_id r" "ae_decision_id (audit_event_of w r m) = aq_decision_id r"
  by (simp_all add: audit_event_of_def)

lemma audit_append_simps [simp]:
  "w_now (audit_append e w) = w_now w" "w_sha256 (audit_append e w) = w_sha256 w"
  "w_next (audit_append e w) = Suc (w_next w)" "w_users (audit_append e w) = w_users w"
  "w_devices (audit_append e w) = w_devices w" "w_sessions (audit_append e w) = w_sessions w"
  "w_capabilities (audit_append e w) = w_capabilities w"
  "w_permissions (audit_append e w) = w_permissions w" "w_decisions (audit_append e w) = w_decisions w"
  "w_confirmations (audit_append e w) = w_confirmations w"
  "w_audit (audit_append e w) = row_add e (w_audit w)"
  "auth_world.more (audit_append e w) = auth_world.more w"
  by (simp_all add: audit_append_def)

lemma record_audit_Inr:
  "record_audit r w = Inr w' \<longleftrightarrow>
     (\<exists>m. sanitize_metadata MAX_AUDIT_METADATA_BYTES (aq_metadata r) = Inr m \<and>
          w' = audit_append (audit_event_of w r m) w)"
  by (auto simp: record_audit_def result_simps)

lemma record_audit_plain [simp]:
  "aq_metadata r = [] \<Longrightarrow> record_audit r w = Inr (audit_append (audit_event_of w r []) w)"
  by (simp add: record_audit_def MAX_AUDIT_METADATA_BYTES_def)

text \<open>The classification as one maximum over the floors that apply.\<close>

definition risk_floor :: "capability \<Rightarrow> risk_level" where
  "risk_floor cap =
     (if cap_financial cap \<and> cap_external_side_effect cap then CRITICAL
      else max (if cap_privacy_impact cap then MODERATE else NEGLIGIBLE)
          (max (if cap_external_side_effect cap then ELEVATED else NEGLIGIBLE)
               (if cap_data_destructive cap then HIGH else NEGLIGIBLE)))"

lemma raise_to_level:
  "fst (raise_to flag floor reason s) = (if flag then max (fst s) floor else fst s)"
  by (cases s; cases "fst s"; cases floor) (simp_all add: raise_to_def max_def less_eq_risk_level_def)

lemma NEGLIGIBLE_least [simp]: "max NEGLIGIBLE x = x" "max x NEGLIGIBLE = x"
  by (cases x; simp add: max_def less_eq_risk_level_def)+

lemma CRITICAL_greatest [simp]: "max x CRITICAL = CRITICAL" "max CRITICAL x = CRITICAL"
  by (cases x; simp add: max_def less_eq_risk_level_def)+

text \<open>
  The risk engine's sequence of conditional raises computes the maximum of the capability
  default and the floors of its flags.
\<close>

theorem evaluate_risk_is_max:
  assumes "evaluate_risk cap action = Inr a" and "risk_of (cap_default_risk_level cap) = Inr base"
  shows "ra_risk_level a = max base (risk_floor cap)"
  using assms
  by (auto simp: evaluate_risk_def result_simps Let_def raise_to_level risk_floor_def ac_simps)

text \<open>Subsumption of scopes is a preorder; a scope without resource identifiers means the whole type.\<close>

lemma scope_authorizes_refl [simp]: "scope_authorizes s s"
  by (simp add: scope_authorizes_def)

theorem scope_authorizes_trans:
  assumes "scope_authorizes a b" and "scope_authorizes b c"
  shows "scope_authorizes a c"
  using assms by (auto simp: scope_authorizes_def split: if_splits)

text \<open>
  A grant restricted to listed resources authorizes only requests that list resources among
  them, and only its own operations.
\<close>

theorem scope_authorizes_no_widening:
  assumes "scope_authorizes granted requested" and "sc_resource_ids granted \<noteq> []"
  shows "sc_resource_ids requested \<noteq> [] \<and> set (sc_resource_ids requested) \<subseteq> set (sc_resource_ids granted) \<and>
    set (sc_operations requested) \<subseteq> set (sc_operations granted)"
  using assms by (auto simp: scope_authorizes_def split: if_splits)

lemma parse_all_Inr: "parse_all f xs = Inr ys \<Longrightarrow> length ys = length xs \<and> (\<forall>y \<in> set ys. \<exists>x \<in> set xs. f x = Inr y)"
  by (induction xs arbitrary: ys) (fastforce simp: result_simps)+

lemma normalize_unique_values_Inr:
  "normalize_unique_values v = Inr u \<Longrightarrow> sorted u \<and> distinct u \<and> set u = set v \<and> length u = length v"
  by (auto simp: normalize_unique_values_def result_simps)

text \<open>A scope that passed validation is in normal form, within its bounds.\<close>

text \<open>
  C8: A scope that passes validation is normalized (sorted, duplicate free) and within the length
  bounds and patterns of its fields.
\<close>

theorem make_scope_normal:
  assumes "make_scope rt ids ops = Inr sc"
  shows "sorted (sc_resource_ids sc) \<and> distinct (sc_resource_ids sc) \<and> length (sc_resource_ids sc) \<le> 32 \<and>
    sorted (sc_operations sc) \<and> distinct (sc_operations sc) \<and> 1 \<le> length (sc_operations sc) \<and>
    length (sc_operations sc) \<le> 32 \<and> (\<forall>x \<in> set (sc_operations sc). ident_pattern x \<and> length x \<le> 64) \<and>
    (\<forall>x \<in> set (sc_resource_ids sc). resource_id_pattern x \<and> length x \<le> 128)"
proof -
  from assms obtain ids1 ids2 ops1 ops2 where
    p: "parse_all parse_resource_id ids = Inr ids1" "normalize_unique_values ids1 = Inr ids2" "length ids \<le> 32"
    "1 \<le> length ops" "length ops \<le> 32" "parse_all parse_action_name ops = Inr ops1" "normalize_unique_values ops1 = Inr ops2"
    and sc: "sc_resource_ids sc = ids2" "sc_operations sc = ops2"
    unfolding make_scope_def by (auto simp: result_simps)
  have r: "parse_resource_id x = Inr y \<Longrightarrow> resource_id_pattern y \<and> length y \<le> 128" for x y
    by (auto simp: parse_resource_id_def Let_def result_simps bounded_def)
  have o: "parse_action_name x = Inr y \<Longrightarrow> ident_pattern y \<and> length y \<le> 64" for x y
    by (auto simp: parse_action_name_def Let_def result_simps bounded_def)
  have "\<forall>x \<in> set ids1. resource_id_pattern x \<and> length x \<le> 128" "\<forall>x \<in> set ops1. ident_pattern x \<and> length x \<le> 64"
    using parse_all_Inr [OF p(1)] parse_all_Inr [OF p(6)] r o by blast+
  with p parse_all_Inr [OF p(1)] parse_all_Inr [OF p(6)] normalize_unique_values_Inr [OF p(2)]
    normalize_unique_values_Inr [OF p(7)] show ?thesis unfolding sc by auto
qed

theorem evaluate_risk_is_max_witness:
  "evaluate_risk sample_capability ''write'' = Inr (projr (evaluate_risk sample_capability ''write'')) \<and>
   ra_risk_level (projr (evaluate_risk sample_capability ''write'')) = max MODERATE (risk_floor sample_capability)"
proof (intro conjI evaluate_risk_is_max)
  have ok: "\<not> isl (evaluate_risk sample_capability ''write'') \<and> risk_of (cap_default_risk_level sample_capability) = Inr MODERATE"
    by code_simp
  then show "evaluate_risk sample_capability ''write'' = Inr (projr (evaluate_risk sample_capability ''write''))" by (simp add: sum.expand)
  then show "evaluate_risk sample_capability ''write'' = Inr (projr (evaluate_risk sample_capability ''write''))" .
  show "risk_of (cap_default_risk_level sample_capability) = Inr MODERATE" using ok by blast
qed

theorem scope_authorizes_trans_witness:
  "scope_authorizes \<lparr>sc_resource_type = ''note'', sc_resource_ids = [''a'', ''b''], sc_operations = [''read'', ''write'']\<rparr>
     \<lparr>sc_resource_type = ''note'', sc_resource_ids = [''a''], sc_operations = [''write'']\<rparr>"
  by (rule scope_authorizes_trans [of _
        "\<lparr>sc_resource_type = ''note'', sc_resource_ids = [''a''], sc_operations = [''read'', ''write'']\<rparr>"])
     (simp_all add: scope_authorizes_def)

theorem scope_authorizes_no_widening_witness:
  "[''a''] \<noteq> [] \<and> set [''a''] \<subseteq> set [''a'', ''b''] \<and> set [''write''] \<subseteq> set [''read'', ''write'']"
  using scope_authorizes_no_widening [of
      "\<lparr>sc_resource_type = ''note'', sc_resource_ids = [''a'', ''b''], sc_operations = [''read'', ''write'']\<rparr>"
      "\<lparr>sc_resource_type = ''note'', sc_resource_ids = [''a''], sc_operations = [''write'']\<rparr>"]
  by (simp add: scope_authorizes_def)

theorem make_scope_normal_witness:
  "sorted (sc_operations (projr sample_raw_scope)) \<and> sc_operations (projr sample_raw_scope) = [''read'', ''write'']"
proof -
  have ok: "\<not> isl sample_raw_scope \<and> sc_operations (projr sample_raw_scope) = [''read'', ''write'']" by code_simp
  then have "sample_raw_scope = Inr (projr sample_raw_scope)" by (simp add: sum.expand)
  from make_scope_normal [OF this [unfolded sample_raw_scope_def]] ok show ?thesis by (simp add: sample_raw_scope_def)
qed

end
