(* ===== verification/Net_Library.thy ===== *)
theory Net_Library
  imports Authority_Model
begin

text \<open>
  What the Research component uses of the Python 3.12 standard library: \<^verbatim>\<open>urllib.parse\<close>
  (\<open>urlsplit\<close> with its attributes, \<open>urlunsplit\<close>, \<open>urljoin\<close>, \<open>quote\<close>, \<open>parse_qsl\<close>,
  \<open>urlencode\<close>), \<^verbatim>\<open>posixpath.normpath\<close>, the \<^verbatim>\<open>idna\<close> codec on ASCII names and the address
  classes of \<^verbatim>\<open>ipaddress\<close>. A \<^verbatim>\<open>ValueError\<close> is \<open>None\<close>. The Unicode tables and the C codecs
  are parameters: normalization (\<open>nfkc\<close>), the \<^verbatim>\<open>idna\<close> codec on other names (\<open>to_ascii\<close>),
  percent-decoding (\<open>unescape\<close>), and the reading of the text of an address (\<open>parse_ip\<close>).
\<close>

section \<open>Strings\<close>

definition is_ascii :: "string \<Rightarrow> bool" where
  "is_ascii s = list_all (\<lambda>c. (of_char c :: nat) < 128) s"

definition is_alpha_char :: "char \<Rightarrow> bool" where
  "is_alpha_char c \<longleftrightarrow>
     65 \<le> (of_char c :: nat) \<and> (of_char c :: nat) \<le> 90 \<or> 97 \<le> (of_char c :: nat) \<and> (of_char c :: nat) \<le> 122"

definition is_hex_char :: "char \<Rightarrow> bool" where
  "is_hex_char c \<longleftrightarrow> is_digit_char c \<or> c \<in> set ''abcdefABCDEF''"

definition ends_with :: "string \<Rightarrow> string \<Rightarrow> bool" where
  "ends_with suffix s = is_prefix (rev suffix) (rev s)"

definition lstrip_chars :: "(char \<Rightarrow> bool) \<Rightarrow> string \<Rightarrow> string" where
  "lstrip_chars P s = dropWhile P s"

definition rstrip_chars :: "(char \<Rightarrow> bool) \<Rightarrow> string \<Rightarrow> string" where
  "rstrip_chars P s = rev (dropWhile P (rev s))"

text \<open>\<^verbatim>\<open>s.partition(c)\<close> and \<^verbatim>\<open>s.rpartition(c)\<close>; the middle component says whether \<open>c\<close> occurs.\<close>

definition str_partition :: "char \<Rightarrow> string \<Rightarrow> string \<times> bool \<times> string" where
  "str_partition c s =
     (case dropWhile (\<lambda>x. x \<noteq> c) s of
        [] \<Rightarrow> (s, False, [])
      | _ # rest \<Rightarrow> (takeWhile (\<lambda>x. x \<noteq> c) s, True, rest))"

definition str_rpartition :: "char \<Rightarrow> string \<Rightarrow> string \<times> bool \<times> string" where
  "str_rpartition c s =
     (case dropWhile (\<lambda>x. x \<noteq> c) (rev s) of
        [] \<Rightarrow> ([], False, s)
      | _ # rest \<Rightarrow> (rev rest, True, rev (takeWhile (\<lambda>x. x \<noteq> c) (rev s))))"

text \<open>\<^verbatim>\<open>s.split(c)\<close>.\<close>

fun split_char_aux :: "char \<Rightarrow> string \<Rightarrow> string \<Rightarrow> string list" where
  "split_char_aux c acc [] = [rev acc]"
| "split_char_aux c acc (x # xs) =
     (if x = c then rev acc # split_char_aux c [] xs else split_char_aux c (x # acc) xs)"

definition split_char :: "char \<Rightarrow> string \<Rightarrow> string list" where
  "split_char c s = split_char_aux c [] s"

definition join_words :: "string \<Rightarrow> string" where
  "join_words s = join_with '' '' (py_split s)"

text \<open>The order of \<^verbatim>\<open>str\<close>: by code points, lexicographic.\<close>

fun str_le :: "string \<Rightarrow> string \<Rightarrow> bool" where
  "str_le [] t = True"
| "str_le (c # s) [] = False"
| "str_le (c # s) (d # t) = ((of_char c :: nat) < of_char d \<or> c = d \<and> str_le s t)"

fun insert_by :: "('a \<Rightarrow> 'a \<Rightarrow> bool) \<Rightarrow> 'a \<Rightarrow> 'a list \<Rightarrow> 'a list" where
  "insert_by le x [] = [x]"
| "insert_by le x (y # ys) = (if le x y then x # y # ys else y # insert_by le x ys)"

definition sort_by :: "('a \<Rightarrow> 'a \<Rightarrow> bool) \<Rightarrow> 'a list \<Rightarrow> 'a list" where
  "sort_by le xs = foldr (insert_by le) xs []"

definition pair_le :: "string \<times> string \<Rightarrow> string \<times> string \<Rightarrow> bool" where
  "pair_le a b \<longleftrightarrow> (if fst a = fst b then str_le (snd a) (snd b) else str_le (fst a) (fst b))"

section \<open>Internet addresses\<close>

text \<open>An address is its version and its number; a network is its address and the length of its prefix.\<close>

datatype ip_address = IPv4 nat | IPv6 nat

definition in_net :: "nat \<Rightarrow> nat \<Rightarrow> nat \<times> nat \<Rightarrow> bool" where
  "in_net width a net = (case net of (base, prefix) \<Rightarrow> a div 2 ^ (width - prefix) = base div 2 ^ (width - prefix))"

definition v4 :: "nat \<Rightarrow> nat \<Rightarrow> nat \<Rightarrow> nat \<Rightarrow> nat" where
  "v4 a b c d = ((a * 256 + b) * 256 + c) * 256 + d"

definition v6 :: "nat list \<Rightarrow> nat" where
  "v6 hextets = foldl (\<lambda>n h. n * 65536 + h) 0 (hextets @ replicate (8 - length hextets) 0)"

definition V4_PRIVATE :: "(nat \<times> nat) list" where
  "V4_PRIVATE =
     [(v4 0 0 0 0, 8), (v4 10 0 0 0, 8), (v4 127 0 0 0, 8), (v4 169 254 0 0, 16), (v4 172 16 0 0, 12),
      (v4 192 0 0 0, 24), (v4 192 0 0 170, 31), (v4 192 0 2 0, 24), (v4 192 168 0 0, 16), (v4 198 18 0 0, 15),
      (v4 198 51 100 0, 24), (v4 203 0 113 0, 24), (v4 240 0 0 0, 4), (v4 255 255 255 255, 32)]"

definition V4_EXCEPTIONS :: "(nat \<times> nat) list" where
  "V4_EXCEPTIONS = [(v4 192 0 0 9, 32), (v4 192 0 0 10, 32)]"

definition V6_PRIVATE :: "(nat \<times> nat) list" where
  "V6_PRIVATE =
     [(1, 128), (0, 128), (v6 [0, 0, 0, 0, 0, 0xffff], 96), (v6 [0x64, 0xff9b, 1], 48), (v6 [0x100], 64),
      (v6 [0x2001], 23), (v6 [0x2001, 0xdb8], 32), (v6 [0x2002], 16), (v6 [0xfc00], 7), (v6 [0xfe80], 10)]"

definition V6_EXCEPTIONS :: "(nat \<times> nat) list" where
  "V6_EXCEPTIONS =
     [(v6 [0x2001, 1] + 1, 128), (v6 [0x2001, 1] + 2, 128), (v6 [0x2001, 3], 32), (v6 [0x2001, 4, 0x112], 48),
      (v6 [0x2001, 0x20], 28), (v6 [0x2001, 0x30], 28)]"

definition V6_RESERVED :: "(nat \<times> nat) list" where
  "V6_RESERVED =
     [(0, 8), (v6 [0x100], 8), (v6 [0x200], 7), (v6 [0x400], 6), (v6 [0x800], 5), (v6 [0x1000], 4), (v6 [0x4000], 3),
      (v6 [0x6000], 3), (v6 [0x8000], 3), (v6 [0xa000], 3), (v6 [0xc000], 3), (v6 [0xe000], 4), (v6 [0xf000], 5),
      (v6 [0xf800], 6), (v6 [0xfe00], 9)]"

definition in_nets :: "nat \<Rightarrow> nat \<Rightarrow> (nat \<times> nat) list \<Rightarrow> bool" where
  "in_nets width a nets = list_ex (in_net width a) nets"

fun ipv4_mapped :: "ip_address \<Rightarrow> ip_address option" where
  "ipv4_mapped (IPv4 a) = None"
| "ipv4_mapped (IPv6 a) = (if a div 2 ^ 32 = 0xffff then Some (IPv4 (a mod 2 ^ 32)) else None)"

definition v4_is_private :: "nat \<Rightarrow> bool" where
  "v4_is_private a \<longleftrightarrow> in_nets 32 a V4_PRIVATE \<and> \<not> in_nets 32 a V4_EXCEPTIONS"

fun is_private :: "ip_address \<Rightarrow> bool" where
  "is_private (IPv4 a) = v4_is_private a"
| "is_private (IPv6 a) =
     (if a div 2 ^ 32 = 0xffff then v4_is_private (a mod 2 ^ 32)
      else in_nets 128 a V6_PRIVATE \<and> \<not> in_nets 128 a V6_EXCEPTIONS)"

fun is_global :: "ip_address \<Rightarrow> bool" where
  "is_global (IPv4 a) = (\<not> in_net 32 a (v4 100 64 0 0, 10) \<and> \<not> is_private (IPv4 a))"
| "is_global (IPv6 a) = (\<not> is_private (IPv6 a))"

fun is_multicast :: "ip_address \<Rightarrow> bool" where
  "is_multicast (IPv4 a) = in_net 32 a (v4 224 0 0 0, 4)"
| "is_multicast (IPv6 a) = in_net 128 a (v6 [0xff00], 8)"

fun is_reserved :: "ip_address \<Rightarrow> bool" where
  "is_reserved (IPv4 a) = in_net 32 a (v4 240 0 0 0, 4)"
| "is_reserved (IPv6 a) = in_nets 128 a V6_RESERVED"

fun is_unspecified :: "ip_address \<Rightarrow> bool" where
  "is_unspecified (IPv4 a) = (a = 0)"
| "is_unspecified (IPv6 a) = (a = 0)"

section \<open>Splitting URLs\<close>

record split_url =
  su_scheme :: string
  su_netloc :: string
  su_path :: string
  su_query :: string
  su_fragment :: string

definition scheme_char :: "char \<Rightarrow> bool" where
  "scheme_char c \<longleftrightarrow> is_alpha_char c \<or> is_digit_char c \<or> c \<in> set ''+-.''"

definition split_scheme :: "string \<Rightarrow> string \<Rightarrow> string \<times> string" where
  "split_scheme default_scheme url =
     (case str_partition (CHR '':'') url of
        (left, found, rest) \<Rightarrow>
          if found \<and> left \<noteq> [] \<and> is_alpha_char (hd left) \<and> list_all scheme_char left then (py_lower left, rest)
          else (default_scheme, url))"

text \<open>\<^verbatim>\<open>_check_bracketed_host\<close>: a version-tagged literal, or the text of an IPv6 address.\<close>

definition bracketed_ok :: "(string \<Rightarrow> ip_address option) \<Rightarrow> string \<Rightarrow> bool" where
  "bracketed_ok parse_ip host =
     (if is_prefix ''v'' host
      then (case dropWhile is_hex_char (tl host) of
              c # rest \<Rightarrow> c = CHR ''.'' \<and> is_hex_char (hd (tl host)) \<and> rest \<noteq> [] \<and> CHR 0x0A \<notin> set rest
            | [] \<Rightarrow> False)
      else (case parse_ip host of Some (IPv6 _) \<Rightarrow> True | _ \<Rightarrow> False))"

definition brackets_ok :: "(string \<Rightarrow> ip_address option) \<Rightarrow> string \<Rightarrow> bool" where
  "brackets_ok parse_ip netloc =
     ((CHR ''['' \<in> set netloc) = (CHR '']'' \<in> set netloc) \<and>
      (CHR ''['' \<in> set netloc \<longrightarrow>
         bracketed_ok parse_ip (fst (str_partition (CHR '']'') (snd (snd (str_partition (CHR ''['') netloc)))))))"

definition netloc_ok :: "(string \<Rightarrow> string) \<Rightarrow> string \<Rightarrow> bool" where
  "netloc_ok nfkc netloc =
     (is_ascii netloc \<or>
      (let n = filter (\<lambda>c. c \<notin> set ''@:#?'') netloc; n2 = nfkc n
       in n = n2 \<or> \<not> list_ex (\<lambda>c. c \<in> set n2) ''/?#@:''))"

definition urlsplit ::
  "(string \<Rightarrow> string) \<Rightarrow> (string \<Rightarrow> ip_address option) \<Rightarrow> string \<Rightarrow> string \<Rightarrow> split_url option" where
  "urlsplit nfkc parse_ip default_scheme raw =
     (let url = filter (\<lambda>c. c \<notin> {CHR 0x09, CHR 0x0A, CHR 0x0D}) (lstrip_chars (\<lambda>c. (of_char c :: nat) \<le> 32) raw);
          (scheme, rest) = split_scheme default_scheme url;
          delimiter = (\<lambda>c. c \<notin> set ''/?#'');
          netloc = (if is_prefix ''//'' rest then takeWhile delimiter (drop 2 rest) else []);
          rest1 = (if is_prefix ''//'' rest then dropWhile delimiter (drop 2 rest) else rest);
          (rest2, _, fragment) = str_partition (CHR ''#'') rest1;
          (path, _, query) = str_partition (CHR ''?'') rest2
      in if brackets_ok parse_ip netloc \<and> netloc_ok nfkc netloc
         then Some \<lparr>su_scheme = scheme, su_netloc = netloc, su_path = path, su_query = query, su_fragment = fragment\<rparr>
         else None)"

definition url_userinfo :: "split_url \<Rightarrow> string option \<times> string option" where
  "url_userinfo u =
     (case str_rpartition (CHR ''@'') (su_netloc u) of
        (userinfo, found, _) \<Rightarrow>
          if found
          then (case str_partition (CHR '':'') userinfo of
                  (name, has_password, password) \<Rightarrow> (Some name, if has_password then Some password else None))
          else (None, None))"

definition url_hostinfo :: "split_url \<Rightarrow> string \<times> string" where
  "url_hostinfo u =
     (let hostinfo = snd (snd (str_rpartition (CHR ''@'') (su_netloc u)));
          (_, bracket, inner) = str_partition (CHR ''['') hostinfo
      in if bracket
         then (let (host, _, rest) = str_partition (CHR '']'') inner in (host, snd (snd (str_partition (CHR '':'') rest))))
         else (let (host, _, port) = str_partition (CHR '':'') hostinfo in (host, port)))"

definition url_hostname :: "split_url \<Rightarrow> string option" where
  "url_hostname u =
     (let host = fst (url_hostinfo u); (name, percent, zone) = str_partition (CHR ''%'') host
      in if host = [] then None
         else Some (py_lower name @ (if percent then ''%'' else '''') @ zone))"

text \<open>\<^verbatim>\<open>port\<close>: \<open>None\<close> outside is the \<^verbatim>\<open>ValueError\<close>, \<open>Some None\<close> an absent port.\<close>

definition digits_nat :: "string \<Rightarrow> nat" where
  "digits_nat s = foldl (\<lambda>n c. n * 10 + (of_char c - 48)) 0 s"

definition url_port :: "split_url \<Rightarrow> nat option option" where
  "url_port u =
     (let port = snd (url_hostinfo u)
      in if port = [] then Some None
         else if list_all is_digit_char port \<and> digits_nat port \<le> 65535 then Some (Some (digits_nat port))
         else None)"

definition uses_netloc :: "string list" where
  "uses_netloc =
     ['''', ''ftp'', ''http'', ''gopher'', ''nntp'', ''telnet'', ''imap'', ''wais'', ''file'', ''mms'', ''https'',
      ''shttp'', ''snews'', ''prospero'', ''rtsp'', ''rtspu'', ''rsync'', ''svn'', ''svn+ssh'', ''sftp'', ''nfs'',
      ''git'', ''git+ssh'', ''ws'', ''wss'', ''itms-services'']"

definition urlunsplit :: "split_url \<Rightarrow> string" where
  "urlunsplit u =
     (let p = su_path u;
          url0 = (if su_netloc u \<noteq> [] \<or> su_scheme u \<noteq> [] \<and> su_scheme u \<in> set uses_netloc \<or> is_prefix ''//'' p
                  then ''//'' @ su_netloc u @ (if p \<noteq> [] \<and> \<not> is_prefix ''/'' p then ''/'' @ p else p)
                  else p);
          url1 = (if su_scheme u \<noteq> [] then su_scheme u @ '':'' @ url0 else url0);
          url2 = (if su_query u \<noteq> [] then url1 @ ''?'' @ su_query u else url1)
      in if su_fragment u \<noteq> [] then url2 @ ''#'' @ su_fragment u else url2)"

section \<open>Joining URLs\<close>

text \<open>
  \<^verbatim>\<open>urljoin(base, url)\<close> for a base whose scheme is \<^verbatim>\<open>http\<close> or \<^verbatim>\<open>https\<close>, both in
  \<^verbatim>\<open>uses_relative\<close>, \<^verbatim>\<open>uses_netloc\<close> and \<^verbatim>\<open>uses_params\<close>; the parameters of the last path
  segment are split off and put back.
\<close>

definition split_params :: "string \<Rightarrow> string \<times> string" where
  "split_params url =
     (case str_rpartition (CHR ''/'') url of
        (left, slash, last_segment) \<Rightarrow>
          (case str_partition (CHR '';'') last_segment of
             (name, _, params) \<Rightarrow> ((if slash then left @ ''/'' else '''') @ name, params)))"

definition url_unparse :: "split_url \<Rightarrow> string \<Rightarrow> string \<Rightarrow> string" where
  "url_unparse u path params = urlunsplit (u\<lparr>su_path := (if params \<noteq> [] then path @ '';'' @ params else path)\<rparr>)"

fun resolve_segments :: "string list \<Rightarrow> string list \<Rightarrow> string list" where
  "resolve_segments acc [] = acc"
| "resolve_segments acc (seg # segs) =
     (if seg = ''..'' then resolve_segments (butlast acc) segs
      else if seg = ''.'' then resolve_segments acc segs
      else resolve_segments (acc @ [seg]) segs)"

definition join_path :: "string \<Rightarrow> string \<Rightarrow> string" where
  "join_path base_path path =
     (let parts = split_char (CHR ''/'') base_path;
          base_parts = (if last parts \<noteq> [] then butlast parts else parts);
          joined = base_parts @ split_char (CHR ''/'') path;
          segments = (if is_prefix ''/'' path then split_char (CHR ''/'') path
                      else (case joined of
                              [] \<Rightarrow> []
                            | [s] \<Rightarrow> [s]
                            | s # rest \<Rightarrow> s # filter (\<lambda>x. x \<noteq> []) (butlast rest) @ [last rest]));
          resolved = resolve_segments [] segments;
          resolved1 = (if last segments \<in> {''.'', ''..''} then resolved @ [''''] else resolved);
          text = join_with ''/'' resolved1
      in if text = [] then ''/'' else text)"

definition urljoin ::
  "(string \<Rightarrow> string) \<Rightarrow> (string \<Rightarrow> ip_address option) \<Rightarrow> string \<Rightarrow> string \<Rightarrow> string option" where
  "urljoin nfkc parse_ip base_url url =
     (if base_url = [] then Some url
      else if url = [] then Some base_url
      else
        (case urlsplit nfkc parse_ip [] base_url of
           None \<Rightarrow> None
         | Some b \<Rightarrow>
             (case urlsplit nfkc parse_ip (su_scheme b) url of
                None \<Rightarrow> None
              | Some u \<Rightarrow>
                  if su_scheme u \<noteq> su_scheme b \<or> su_scheme u \<notin> {''http'', ''https''} then Some url
                  else
                    (let (path, params) = split_params (su_path u);
                         (base_path, base_params) = split_params (su_path b);
                         v = u\<lparr>su_netloc := su_netloc b\<rparr>
                     in if su_netloc u \<noteq> [] then Some (url_unparse u path params)
                        else if path = [] \<and> params = []
                        then Some (url_unparse (v\<lparr>su_query := (if su_query u = [] then su_query b else su_query u)\<rparr>)
                                     base_path base_params)
                        else Some (url_unparse v (join_path base_path path) params)))))"

section \<open>Paths, escapes, queries\<close>

fun normal_components :: "bool \<Rightarrow> string list \<Rightarrow> string list \<Rightarrow> string list" where
  "normal_components rooted acc [] = acc"
| "normal_components rooted acc (part # parts) =
     (if part = [] \<or> part = ''.'' then normal_components rooted acc parts
      else if part \<noteq> ''..'' \<or> \<not> rooted \<and> acc = [] \<or> acc \<noteq> [] \<and> last acc = ''..''
      then normal_components rooted (acc @ [part]) parts
      else normal_components rooted (butlast acc) parts)"

definition normpath :: "string \<Rightarrow> string" where
  "normpath path =
     (if path = [] then ''.''
      else
        (let slashes = (if \<not> is_prefix ''/'' path then ''''
                        else if is_prefix ''//'' path \<and> \<not> is_prefix ''///'' path then ''//'' else ''/'');
             text = slashes @ join_with ''/'' (normal_components (slashes \<noteq> []) [] (split_char (CHR ''/'') path))
         in if text = [] then ''.'' else text))"

definition utf8_char :: "char \<Rightarrow> nat list" where
  "utf8_char c = (let n = of_char c in if n < 128 then [n] else [192 + n div 64, 128 + n mod 64])"

definition hex_upper :: "nat \<Rightarrow> char" where
  "hex_upper n = char_of (if n < 10 then 48 + n else 55 + n)"

definition always_safe :: "char \<Rightarrow> bool" where
  "always_safe c \<longleftrightarrow> is_alpha_char c \<or> is_digit_char c \<or> c \<in> set ''_.-~''"

definition quote_text :: "string \<Rightarrow> string \<Rightarrow> string" where
  "quote_text safe s =
     concat (map (\<lambda>c. if (always_safe c \<or> c \<in> set safe) \<and> (of_char c :: nat) < 128 then [c]
                      else concat (map (\<lambda>b. [CHR ''%'', hex_upper (b div 16), hex_upper (b mod 16)]) (utf8_char c))) s)"

definition quote_plus :: "string \<Rightarrow> string" where
  "quote_plus s = map (\<lambda>c. if c = CHR '' '' then CHR ''+'' else c) (quote_text '' '' s)"

definition unquote_plus :: "(string \<Rightarrow> string) \<Rightarrow> string \<Rightarrow> string" where
  "unquote_plus unescape s =
     (let spaced = map (\<lambda>c. if c = CHR ''+'' then CHR '' '' else c) s
      in if CHR ''%'' \<in> set spaced then unescape spaced else spaced)"

definition parse_qsl :: "(string \<Rightarrow> string) \<Rightarrow> nat \<Rightarrow> string \<Rightarrow> (string \<times> string) list option" where
  "parse_qsl unescape max_num_fields qs =
     (if qs = [] then Some []
      else if max_num_fields < length (split_char (CHR ''&'') qs) then None
      else Some (map (\<lambda>field. case str_partition (CHR ''='') field of
                                (name, _, v) \<Rightarrow> (unquote_plus unescape name, unquote_plus unescape v))
                     (filter (\<lambda>field. field \<noteq> []) (split_char (CHR ''&'') qs))))"

definition urlencode :: "(string \<times> string) list \<Rightarrow> string" where
  "urlencode pairs = join_with ''&'' (map (\<lambda>(k, v). quote_plus k @ ''='' @ quote_plus v) pairs)"

text \<open>The \<^verbatim>\<open>idna\<close> codec: the fast path of ASCII names, the table of the codec for all others.\<close>

definition idna_encode :: "(string \<Rightarrow> string option) \<Rightarrow> string \<Rightarrow> string option" where
  "idna_encode to_ascii host =
     (if host = [] then Some []
      else if is_ascii host
      then (let labels = split_char (CHR ''.'') host
            in if list_all (\<lambda>l. 0 < length l \<and> length l < 64) (butlast labels) \<and> length (last labels) < 64
               then Some host else None)
      else to_ascii host)"

end
