(* ===== verification/Authority_Engine.thy ===== *)
theory Authority_Engine
  imports Authority_Model
begin

text \<open>
  \<^verbatim>\<open>permissions/engine.py\<close>: the default-deny pipeline. \<open>authorize\<close> runs identity, capability,
  permission, risk, financial guard, confirmation and audit in the order of the source, on the
  authority tables of the world. Every branch ends in \<open>finalize\<close>, which persists the decision
  with its audit event.
\<close>

section \<open>Records of one evaluation\<close>

definition CONFIRMATION_TTL :: timestamp where
  "CONFIRMATION_TTL = 5 * 60 * 1000000"

definition engine_audit ::
  "identity_context \<Rightarrow> authorization_request option \<Rightarrow> audit_event_type \<Rightarrow> audit_result \<Rightarrow>
     uuid option \<Rightarrow> uuid option \<Rightarrow> risk_level option \<Rightarrow> string list \<Rightarrow> string option \<Rightarrow>
     uuid option \<Rightarrow> audit_record" where
  "engine_audit i request event result decision_id permission_id risk reasons key confirmation_id =
     (blank_audit (ic_user_id i) (ic_device_id i) (ic_session_id i) AT_USER event result)
       \<lparr>aq_capability_key := (case request of Some r \<Rightarrow> Some (rq_capability_key r) | None \<Rightarrow> key),
        aq_action := map_option rq_action request,
        aq_resource_type := map_option (\<lambda>r. sc_resource_type (rq_scope r)) request,
        aq_resource_id := (case request of
            Some r \<Rightarrow> (case rq_resource r of Some res \<Rightarrow> rr_resource_id res | None \<Rightarrow> None)
          | None \<Rightarrow> None),
        aq_risk_level := risk, aq_permission_id := permission_id, aq_decision_id := decision_id,
        aq_confirmation_id := confirmation_id, aq_reason_codes := reasons\<rparr>"

primrec decision_event :: "decision_type \<Rightarrow> audit_event_type" where
  "decision_event ALLOW = AE_AUTHORIZATION_ALLOWED"
| "decision_event DENY = AE_AUTHORIZATION_DENIED"
| "decision_event REQUIRE_CONFIRMATION = AE_CONFIRMATION_REQUESTED"

primrec decision_result :: "decision_type \<Rightarrow> audit_result" where
  "decision_result ALLOW = AR_ALLOWED"
| "decision_result DENY = AR_DENIED"
| "decision_result REQUIRE_CONFIRMATION = AR_REQUESTED"

definition new_decision ::
  "identity_context \<Rightarrow> authorization_request \<Rightarrow> decision_type \<Rightarrow> decision_reason list \<Rightarrow>
     permission option \<Rightarrow> risk_level \<Rightarrow> bool \<Rightarrow> bool \<Rightarrow> 'z core_world_scheme \<Rightarrow> decision_record" where
  "new_decision i r dt reasons perm risk scope_match guard w =
     \<lparr>ad_id = w_next w, ad_user_id = ic_user_id i, ad_device_id = ic_device_id i,
      ad_permission_id = map_option p_id perm, ad_capability_key = rq_capability_key r,
      ad_action = rq_action r, ad_scope = rq_scope r, ad_scope_digest = scope_digest w (rq_scope r),
      ad_decision = dt, ad_reason_codes = map reason_value reasons, ad_risk_level = risk_int risk,
      ad_confirmation_required = (dt = REQUIRE_CONFIRMATION), ad_scope_match = scope_match,
      ad_financial_guard_triggered = guard, ad_created_at = w_now w\<rparr>"

definition new_confirmation ::
  "identity_context \<Rightarrow> authorization_request \<Rightarrow> uuid \<Rightarrow> permission \<Rightarrow> 'z core_world_scheme \<Rightarrow>
     confirmation_request" where
  "new_confirmation i r decision_id perm w =
     \<lparr>cf_id = w_next w, cf_user_id = ic_user_id i, cf_authorization_decision_id = decision_id,
      cf_permission_id = p_id perm, cf_capability_key = rq_capability_key r,
      cf_action = rq_action r, cf_scope_digest = scope_digest w (rq_scope r),
      cf_status = CS_PENDING, cf_requested_at = w_now w, cf_expires_at = w_now w + CONFIRMATION_TTL,
      cf_confirmed_at = None, cf_rejected_at = None, cf_consumed_at = None\<rparr>"

section \<open>\<open>_finalize\<close>\<close>

definition add_decision :: "decision_record \<Rightarrow> 'z auth_world_scheme \<Rightarrow> 'z auth_world_scheme" where
  "add_decision d w = (draw w)\<lparr>w_decisions := row_add d (w_decisions w)\<rparr>"

definition add_confirmation :: "confirmation_request \<Rightarrow> 'z auth_world_scheme \<Rightarrow> 'z auth_world_scheme" where
  "add_confirmation c w = (draw w)\<lparr>w_confirmations := row_add c (w_confirmations w)\<rparr>"

definition finalize ::
  "identity_context \<Rightarrow> authorization_request \<Rightarrow> decision_type \<Rightarrow> decision_reason list \<Rightarrow>
     permission option \<Rightarrow> risk_level \<Rightarrow> bool \<Rightarrow> bool \<Rightarrow> 'z auth_world_scheme \<Rightarrow>
     app_error + authorization_decision \<times> 'z auth_world_scheme" where
  "finalize i r dt reasons perm risk scope_match guard w =
     (let d = new_decision i r dt reasons perm risk scope_match guard w;
          w1 = add_decision d w
      in bindE (if dt = REQUIRE_CONFIRMATION then
                  (case perm of
                     None \<Rightarrow> Inl PyRuntimeError
                   | Some p \<Rightarrow> (let c = new_confirmation i r (ad_id d) p w1
                               in Inr (Some (cf_id c), add_confirmation c w1)))
                else Inr (None, w1)) (\<lambda>(confirmation_id, w2).
         bindE (record_audit
                  (engine_audit i (Some r) (decision_event dt) (decision_result dt) (Some (ad_id d))
                    (map_option p_id perm) (Some risk) (map reason_value reasons) None confirmation_id)
                  w2) (\<lambda>w3.
         Inr (\<lparr>dc_decision_id = ad_id d, dc_decision = dt, dc_reason_codes = reasons,
               dc_permission_id = map_option p_id perm, dc_risk_level = risk,
               dc_confirmation_required = (dt = REQUIRE_CONFIRMATION),
               dc_confirmation_id = confirmation_id, dc_scope_match = scope_match,
               dc_financial_guard_triggered = guard, dc_created_at = w_now w\<rparr>, w3))))"

section \<open>\<open>_find_permission\<close>\<close>

record scan =
  saw_revoked :: bool
  saw_expired :: bool
  saw_scope_match :: bool
  saw_invalid_action :: bool
  device_reason :: decision_reason

definition scan_start :: scan where
  "scan_start = \<lparr>saw_revoked = False, saw_expired = False, saw_scope_match = False,
                 saw_invalid_action = False, device_reason = DR_DEVICE_SCOPE_MISMATCH\<rparr>"

definition scan_outcome :: "scan \<Rightarrow> permission option \<times> decision_reason \<times> bool" where
  "scan_outcome f =
     (if saw_scope_match f then (None, device_reason f, True)
      else if saw_invalid_action f then (None, DR_ACTION_NOT_ALLOWED, False)
      else if saw_expired f then (None, DR_PERMISSION_EXPIRED, False)
      else if saw_revoked f then (None, DR_PERMISSION_REVOKED, False)
      else (None, DR_SCOPE_MISMATCH, False))"

definition permission_lapsed :: "timestamp \<Rightarrow> permission \<Rightarrow> bool" where
  "permission_lapsed now p \<longleftrightarrow>
     p_status p = PS_EXPIRED \<or>
     (case p_expires_at p of None \<Rightarrow> False | Some t \<Rightarrow> at_or_after now t)"

text \<open>An active row whose deadline passed is marked expired, with an audit event.\<close>

definition observe_expired ::
  "identity_context \<Rightarrow> capability \<Rightarrow> permission \<Rightarrow> 'z auth_world_scheme \<Rightarrow>
     app_error + 'z auth_world_scheme" where
  "observe_expired i cap p w =
     (if p_status p = PS_ACTIVE then
        record_audit
          (engine_audit i None AE_PERMISSION_EXPIRED_OBSERVED AR_RECORDED None (Some (p_id p)) None
            [reason_value DR_PERMISSION_EXPIRED] (Some (cap_key cap)) None)
          (w\<lparr>w_permissions := row_put p_id (p\<lparr>p_status := PS_EXPIRED, p_updated_at := w_now w\<rparr>)
                               (w_permissions w)\<rparr>)
      else Inr w)"

fun scan_permissions ::
  "identity_context \<Rightarrow> capability \<Rightarrow> permission_scope \<Rightarrow> scan \<Rightarrow> permission list \<Rightarrow>
     'z auth_world_scheme \<Rightarrow>
     app_error + (permission option \<times> decision_reason \<times> bool) \<times> 'z auth_world_scheme" where
  "scan_permissions i cap requested f [] w = Inr (scan_outcome f, w)"
| "scan_permissions i cap requested f (p # ps) w =
     (if p_status p = PS_REVOKED then
        scan_permissions i cap requested (f\<lparr>saw_revoked := True\<rparr>) ps w
      else if permission_lapsed (w_now w) p then
        bindE (observe_expired i cap p w) (\<lambda>w'.
          scan_permissions i cap requested (f\<lparr>saw_expired := True\<rparr>) ps w')
      else if \<not> allows_operations cap (sc_operations (p_scope p)) then
        scan_permissions i cap requested (f\<lparr>saw_invalid_action := True\<rparr>) ps w
      else if \<not> scope_authorizes (p_scope p) requested then
        scan_permissions i cap requested f ps w
      else
        (let f' = f\<lparr>saw_scope_match := True\<rparr>
         in case p_device_id p of
              None \<Rightarrow> Inr ((Some p, DR_AUTHORIZED, True), w)
            | Some did \<Rightarrow>
                if ic_device_id i \<noteq> Some did then scan_permissions i cap requested f' ps w
                else (case row_get d_id did (w_devices w) of
                        None \<Rightarrow> scan_permissions i cap requested f' ps w
                      | Some d \<Rightarrow>
                          if d_user_id d \<noteq> ic_user_id i then scan_permissions i cap requested f' ps w
                          else if d_revoked_at d \<noteq> None then
                            scan_permissions i cap requested (f'\<lparr>device_reason := DR_DEVICE_REVOKED\<rparr>) ps w
                          else Inr ((Some p, DR_AUTHORIZED, True), w))))"

definition candidate_permissions ::
  "identity_context \<Rightarrow> capability \<Rightarrow> 'z auth_world_scheme \<Rightarrow> permission list" where
  "candidate_permissions i cap w =
     sort_key (\<lambda>p. (- p_granted_at p, p_id p))
       (filter (\<lambda>p. p_user_id p = ic_user_id i \<and> p_capability_id p = cap_id cap) (w_permissions w))"

definition find_permission ::
  "identity_context \<Rightarrow> capability \<Rightarrow> permission_scope \<Rightarrow> 'z auth_world_scheme \<Rightarrow>
     app_error + (permission option \<times> decision_reason \<times> bool) \<times> 'z auth_world_scheme" where
  "find_permission i cap requested w =
     (let ps = candidate_permissions i cap w
      in if ps = [] then Inr ((None, DR_NO_PERMISSION, False), w)
         else scan_permissions i cap requested scan_start ps w)"

section \<open>\<open>_confirmation_result\<close>\<close>

definition policy_requires :: "permission \<Rightarrow> risk_level \<Rightarrow> bool" where
  "policy_requires p risk \<longleftrightarrow>
     p_confirmation_policy p = CP_EVERY_TIME \<or>
     (p_confirmation_policy p = CP_ONCE \<and> p_confirmed_once_at p = None) \<or>
     (p_confirmation_policy p = CP_HIGH_RISK_ONLY \<and> risk_int risk \<ge> risk_int HIGH)"

definition put_confirmation :: "confirmation_request \<Rightarrow> 'z auth_world_scheme \<Rightarrow> 'z auth_world_scheme" where
  "put_confirmation c w = w\<lparr>w_confirmations := row_put cf_id c (w_confirmations w)\<rparr>"

definition confirmation_result ::
  "identity_context \<Rightarrow> authorization_request \<Rightarrow> permission \<Rightarrow> risk_level \<Rightarrow> 'z auth_world_scheme \<Rightarrow>
     (decision_type \<times> decision_reason list) option \<times> 'z auth_world_scheme" where
  "confirmation_result i r p risk w =
     (if \<not> policy_requires p risk then (None, w)
      else case rq_confirmation_id r of
        None \<Rightarrow> (Some (REQUIRE_CONFIRMATION, [DR_CONFIRMATION_REQUIRED]), w)
      | Some cid \<Rightarrow>
          (case row_find (\<lambda>c. cf_id c = cid \<and> cf_user_id c = ic_user_id i) (w_confirmations w) of
             None \<Rightarrow> (Some (DENY, [DR_CONFIRMATION_MISMATCH]), w)
           | Some c \<Rightarrow>
               if cf_permission_id c \<noteq> p_id p \<or> cf_capability_key c \<noteq> rq_capability_key r \<or>
                  cf_action c \<noteq> rq_action r \<or> cf_scope_digest c \<noteq> scope_digest w (rq_scope r)
               then (Some (DENY, [DR_CONFIRMATION_MISMATCH]), w)
               else if at_or_after (w_now w) (cf_expires_at c) \<or> cf_status c = CS_EXPIRED
               then (Some (DENY, [DR_CONFIRMATION_EXPIRED]),
                     put_confirmation (c\<lparr>cf_status := CS_EXPIRED\<rparr>) w)
               else if cf_status c = CS_REJECTED then (Some (DENY, [DR_CONFIRMATION_REJECTED]), w)
               else if cf_status c \<noteq> CS_APPROVED
               then (Some (REQUIRE_CONFIRMATION, [DR_CONFIRMATION_REQUIRED]), w)
               else if cf_consumed_at c \<noteq> None then (Some (DENY, [DR_CONFIRMATION_REPLAYED]), w)
               else (None, put_confirmation (c\<lparr>cf_consumed_at := Some (w_now w)\<rparr>) w)))"

section \<open>\<open>authorize\<close>\<close>

definition use_permission :: "permission \<Rightarrow> 'z auth_world_scheme \<Rightarrow> 'z auth_world_scheme" where
  "use_permission p w =
     w\<lparr>w_permissions := row_put p_id (p\<lparr>p_last_used_at := Some (w_now w), p_updated_at := w_now w\<rparr>)
                          (w_permissions w)\<rparr>"

text \<open>The part of the pipeline after a permission was found: risk, guard, confirmation.\<close>

definition authorize_with ::
  "identity_context \<Rightarrow> authorization_request \<Rightarrow> capability \<Rightarrow> permission \<Rightarrow> 'z auth_world_scheme \<Rightarrow>
     app_error + authorization_decision \<times> 'z auth_world_scheme" where
  "authorize_with i r cap p w =
     (case evaluate_risk cap (rq_action r) of
        Inl _ \<Rightarrow> finalize i r DENY [DR_AUTHORIZATION_EVALUATION_FAILED] (Some p) CRITICAL True False w
      | Inr risk \<Rightarrow>
          if financial_blocks cap then
            bindE (finalize i r DENY [DR_FINANCIAL_EXECUTION_BLOCKED] (Some p) CRITICAL True True w) (\<lambda>(d, w1).
            bindE (record_audit
                     (engine_audit i (Some r) AE_FINANCIAL_GUARD_TRIGGERED AR_DENIED (Some (dc_decision_id d))
                       (Some (p_id p)) (Some CRITICAL) [reason_value DR_FINANCIAL_EXECUTION_BLOCKED] None None)
                     w1) (\<lambda>w2. Inr (d, w2)))
          else
            (case confirmation_result i r p (ra_risk_level risk) w of
               (Some (dt, reasons), w1) \<Rightarrow> finalize i r dt reasons (Some p) (ra_risk_level risk) True False w1
             | (None, w1) \<Rightarrow>
                 finalize i r ALLOW [DR_AUTHORIZED] (Some p) (ra_risk_level risk) True False
                   (use_permission p w1)))"

definition authorize ::
  "identity_context \<Rightarrow> authorization_request \<Rightarrow> 'z auth_world_scheme \<Rightarrow>
     app_error + authorization_decision \<times> 'z auth_world_scheme" where
  "authorize i r w =
     (case row_get u_id (ic_user_id i) (w_users w) of
        None \<Rightarrow> finalize i r DENY [DR_INVALID_IDENTITY] None NEGLIGIBLE False False w
      | Some u \<Rightarrow>
        if u_auth_user_id u \<noteq> ic_auth_user_id i then
          finalize i r DENY [DR_INVALID_IDENTITY] None NEGLIGIBLE False False w
        else if u_status u = US_DISABLED then
          finalize i r DENY [DR_USER_DISABLED] None NEGLIGIBLE False False w
        else
        (case row_find (\<lambda>c. cap_key c = rq_capability_key r) (w_capabilities w) of
           None \<Rightarrow> finalize i r DENY [DR_CAPABILITY_NOT_FOUND] None NEGLIGIBLE False False w
         | Some cap \<Rightarrow>
           if \<not> cap_enabled cap then
             bindE (risk_of (cap_default_risk_level cap)) (\<lambda>level.
               finalize i r DENY [DR_CAPABILITY_DISABLED] None level False False w)
           else if \<not> allows_operations cap (sc_operations (rq_scope r)) then
             bindE (risk_of (cap_default_risk_level cap)) (\<lambda>level.
               finalize i r DENY [DR_ACTION_NOT_ALLOWED] None level False False w)
           else
             bindE (find_permission i cap (rq_scope r) w) (\<lambda>((perm, failure, scope_match), w1).
             case perm of
               None \<Rightarrow> bindE (risk_of (cap_default_risk_level cap)) (\<lambda>level.
                         finalize i r DENY [failure] None level scope_match False w1)
             | Some p \<Rightarrow> authorize_with i r cap p w1)))"

definition capability_allows :: "string \<Rightarrow> string \<Rightarrow> 'z auth_world_scheme \<Rightarrow> bool" where
  "capability_allows key action w =
     (case row_find (\<lambda>c. cap_key c = key \<and> cap_enabled c) (w_capabilities w) of
        None \<Rightarrow> False
      | Some cap \<Rightarrow> allows_operations cap [action])"

definition get_owned_decision ::
  "identity_context \<Rightarrow> uuid \<Rightarrow> 'z auth_world_scheme \<Rightarrow> app_error + authorization_decision option" where
  "get_owned_decision i did w =
     (case row_find (\<lambda>d. ad_id d = did \<and> ad_user_id d = ic_user_id i) (w_decisions w) of
        None \<Rightarrow> Inr None
      | Some d \<Rightarrow>
          bindE (reasons_of (ad_reason_codes d)) (\<lambda>reasons.
          bindE (risk_of (ad_risk_level d)) (\<lambda>risk.
          Inr (Some \<lparr>dc_decision_id = ad_id d, dc_decision = ad_decision d, dc_reason_codes = reasons,
                     dc_permission_id = ad_permission_id d, dc_risk_level = risk,
                     dc_confirmation_required = ad_confirmation_required d,
                     dc_confirmation_id = map_option cf_id
                       (row_find (\<lambda>c. cf_authorization_decision_id c = ad_id d) (w_confirmations w)),
                     dc_scope_match = ad_scope_match d,
                     dc_financial_guard_triggered = ad_financial_guard_triggered d,
                     dc_created_at = ad_created_at d\<rparr>))))"

text \<open>
  The specification of the selection: a permission is eligible when it is active, not past its
  deadline, inside the capability vocabulary, wide enough, and usable from the device.
\<close>

definition device_ok :: "identity_context \<Rightarrow> 'z id_world_scheme \<Rightarrow> permission \<Rightarrow> bool" where
  "device_ok i w p \<longleftrightarrow>
     (case p_device_id p of
        None \<Rightarrow> True
      | Some did \<Rightarrow>
          ic_device_id i = Some did \<and>
          (case row_get d_id did (w_devices w) of
             None \<Rightarrow> False
           | Some d \<Rightarrow> d_user_id d = ic_user_id i \<and> d_revoked_at d = None))"

definition on_revoked_device :: "identity_context \<Rightarrow> 'z id_world_scheme \<Rightarrow> permission \<Rightarrow> bool" where
  "on_revoked_device i w p \<longleftrightarrow>
     (case p_device_id p of
        None \<Rightarrow> False
      | Some did \<Rightarrow>
          ic_device_id i = Some did \<and>
          (case row_get d_id did (w_devices w) of
             None \<Rightarrow> False
           | Some d \<Rightarrow> d_user_id d = ic_user_id i \<and> d_revoked_at d \<noteq> None))"

definition usable :: "timestamp \<Rightarrow> permission \<Rightarrow> bool" where
  "usable now p \<longleftrightarrow> p_status p \<noteq> PS_REVOKED \<and> \<not> permission_lapsed now p"

definition covers :: "capability \<Rightarrow> permission_scope \<Rightarrow> timestamp \<Rightarrow> permission \<Rightarrow> bool" where
  "covers cap requested now p \<longleftrightarrow>
     usable now p \<and> allows_operations cap (sc_operations (p_scope p)) \<and> scope_authorizes (p_scope p) requested"

definition eligible ::
  "identity_context \<Rightarrow> capability \<Rightarrow> permission_scope \<Rightarrow> 'z id_world_scheme \<Rightarrow> permission \<Rightarrow> bool" where
  "eligible i cap requested w p \<longleftrightarrow> covers cap requested (w_now w) p \<and> device_ok i w p"

text \<open>The reason of a failed selection, independent of the order of the rows.\<close>

definition failure_reason ::
  "identity_context \<Rightarrow> capability \<Rightarrow> permission_scope \<Rightarrow> 'z id_world_scheme \<Rightarrow> permission list \<Rightarrow>
     decision_reason" where
  "failure_reason i cap requested w ps =
     (if ps = [] then DR_NO_PERMISSION
      else if \<exists>p \<in> set ps. covers cap requested (w_now w) p then
        (if \<exists>p \<in> set ps. covers cap requested (w_now w) p \<and> on_revoked_device i w p
         then DR_DEVICE_REVOKED else DR_DEVICE_SCOPE_MISMATCH)
      else if \<exists>p \<in> set ps. usable (w_now w) p \<and> \<not> allows_operations cap (sc_operations (p_scope p))
        then DR_ACTION_NOT_ALLOWED
      else if \<exists>p \<in> set ps. p_status p \<noteq> PS_REVOKED \<and> permission_lapsed (w_now w) p
        then DR_PERMISSION_EXPIRED
      else if \<exists>p \<in> set ps. p_status p = PS_REVOKED then DR_PERMISSION_REVOKED
      else DR_SCOPE_MISMATCH)"

text \<open>What the scan remembers of a row it passes over.\<close>

definition pass_over ::
  "identity_context \<Rightarrow> capability \<Rightarrow> permission_scope \<Rightarrow> 'z id_world_scheme \<Rightarrow> permission \<Rightarrow> scan \<Rightarrow> scan" where
  "pass_over i cap requested w p f =
     (if p_status p = PS_REVOKED then f\<lparr>saw_revoked := True\<rparr>
      else if permission_lapsed (w_now w) p then f\<lparr>saw_expired := True\<rparr>
      else if \<not> allows_operations cap (sc_operations (p_scope p)) then f\<lparr>saw_invalid_action := True\<rparr>
      else if \<not> scope_authorizes (p_scope p) requested then f
      else if on_revoked_device i w p then f\<lparr>saw_scope_match := True, device_reason := DR_DEVICE_REVOKED\<rparr>
      else f\<lparr>saw_scope_match := True\<rparr>)"

text \<open>The world but for the permission rows, the audit log and the identifier supply.\<close>

definition same_but_permissions :: "'z auth_world_scheme \<Rightarrow> 'z auth_world_scheme \<Rightarrow> bool" where
  "same_but_permissions w w' \<longleftrightarrow>
     w_now w' = w_now w \<and> w_sha256 w' = w_sha256 w \<and> w_next w \<le> w_next w' \<and>
     w_users w' = w_users w \<and> w_devices w' = w_devices w \<and> w_sessions w' = w_sessions w \<and>
     w_capabilities w' = w_capabilities w \<and> w_decisions w' = w_decisions w \<and>
     w_confirmations w' = w_confirmations w \<and> auth_world.more w' = auth_world.more w"

text \<open>
  The specification of a decision: what the pipeline answers, with no writes. The permission is the
  first eligible one, a failed selection has its order-independent reason.
\<close>

type_synonym verdict =
  "decision_type \<times> decision_reason list \<times> permission option \<times> risk_level \<times> bool \<times> bool"

definition confirmation_verdict ::
  "identity_context \<Rightarrow> authorization_request \<Rightarrow> permission \<Rightarrow> risk_level \<Rightarrow> 'z auth_world_scheme \<Rightarrow>
     decision_type \<times> decision_reason list" where
  "confirmation_verdict i r p risk w =
     (case fst (confirmation_result i r p risk w) of Some v \<Rightarrow> v | None \<Rightarrow> (ALLOW, [DR_AUTHORIZED]))"

definition verdict_with ::
  "identity_context \<Rightarrow> authorization_request \<Rightarrow> capability \<Rightarrow> permission \<Rightarrow> 'z auth_world_scheme \<Rightarrow> verdict" where
  "verdict_with i r cap p w =
     (case evaluate_risk cap (rq_action r) of
        Inl _ \<Rightarrow> (DENY, [DR_AUTHORIZATION_EVALUATION_FAILED], Some p, CRITICAL, True, False)
      | Inr risk \<Rightarrow>
          if financial_blocks cap then (DENY, [DR_FINANCIAL_EXECUTION_BLOCKED], Some p, CRITICAL, True, True)
          else (case confirmation_verdict i r p (ra_risk_level risk) w of
                  (dt, reasons) \<Rightarrow> (dt, reasons, Some p, ra_risk_level risk, True, False)))"

definition verdict ::
  "identity_context \<Rightarrow> authorization_request \<Rightarrow> 'z auth_world_scheme \<Rightarrow> app_error + verdict" where
  "verdict i r w =
     (let deny = (\<lambda>reason level match. (DENY, [reason], None, level, match, False))
      in case row_get u_id (ic_user_id i) (w_users w) of
        None \<Rightarrow> Inr (deny DR_INVALID_IDENTITY NEGLIGIBLE False)
      | Some u \<Rightarrow>
        if u_auth_user_id u \<noteq> ic_auth_user_id i then Inr (deny DR_INVALID_IDENTITY NEGLIGIBLE False)
        else if u_status u = US_DISABLED then Inr (deny DR_USER_DISABLED NEGLIGIBLE False)
        else
        (case row_find (\<lambda>c. cap_key c = rq_capability_key r) (w_capabilities w) of
           None \<Rightarrow> Inr (deny DR_CAPABILITY_NOT_FOUND NEGLIGIBLE False)
         | Some cap \<Rightarrow>
           if \<not> cap_enabled cap then
             bindE (risk_of (cap_default_risk_level cap)) (\<lambda>level. Inr (deny DR_CAPABILITY_DISABLED level False))
           else if \<not> allows_operations cap (sc_operations (rq_scope r)) then
             bindE (risk_of (cap_default_risk_level cap)) (\<lambda>level. Inr (deny DR_ACTION_NOT_ALLOWED level False))
           else (case find (eligible i cap (rq_scope r) w) (candidate_permissions i cap w) of
                   None \<Rightarrow> bindE (risk_of (cap_default_risk_level cap)) (\<lambda>level.
                     Inr (deny (failure_reason i cap (rq_scope r) w (candidate_permissions i cap w)) level
                           (\<exists>p \<in> set (candidate_permissions i cap w). covers cap (rq_scope r) (w_now w) p)))
                 | Some p \<Rightarrow> Inr (verdict_with i r cap p w))))"

text \<open>The decision object a verdict is reported as.\<close>

definition decision_shows :: "verdict \<Rightarrow> authorization_decision \<Rightarrow> bool" where
  "decision_shows v d \<longleftrightarrow>
     (case v of (dt, reasons, perm, risk, match, guard) \<Rightarrow>
        dc_decision d = dt \<and> dc_reason_codes d = reasons \<and> dc_permission_id d = map_option p_id perm \<and>
        dc_risk_level d = risk \<and> dc_scope_match d = match \<and> dc_financial_guard_triggered d = guard)"

text \<open>What \<open>finalize\<close> writes: one decision row, at most one confirmation row, one audit event.\<close>

definition finalized ::
  "identity_context \<Rightarrow> authorization_request \<Rightarrow> verdict \<Rightarrow> 'z auth_world_scheme \<Rightarrow>
     authorization_decision \<Rightarrow> 'z auth_world_scheme \<Rightarrow> bool" where
  "finalized i r v w d w' \<longleftrightarrow>
     (case v of (dt, reasons, perm, risk, match, guard) \<Rightarrow>
        decision_shows v d \<and> dc_decision_id d = w_next w \<and> dc_created_at d = w_now w \<and>
        dc_confirmation_required d = (dt = REQUIRE_CONFIRMATION) \<and>
        w_now w' = w_now w \<and> w_sha256 w' = w_sha256 w \<and> w_next w < w_next w' \<and>
        w_users w' = w_users w \<and> w_devices w' = w_devices w \<and> w_sessions w' = w_sessions w \<and>
        w_capabilities w' = w_capabilities w \<and> w_permissions w' = w_permissions w \<and>
        auth_world.more w' = auth_world.more w \<and>
        w_decisions w' = row_add (new_decision i r dt reasons perm risk match guard w) (w_decisions w) \<and>
        (case dc_confirmation_id d of
           None \<Rightarrow> dt \<noteq> REQUIRE_CONFIRMATION \<and> w_confirmations w' = w_confirmations w
         | Some cid \<Rightarrow> dt = REQUIRE_CONFIRMATION \<and> w_next w < cid \<and> cid < w_next w' \<and>
             (\<exists>p c. perm = Some p \<and> cf_id c = cid \<and>
                c = (new_confirmation i r (w_next w) p w)\<lparr>cf_id := cid\<rparr> \<and>
                w_confirmations w' = row_add c (w_confirmations w))) \<and>
        (\<exists>e es. w_audit w' = w_audit w @ e # es \<and> ae_decision_id e = Some (w_next w) \<and>
           ae_event_type e = decision_event dt \<and> ae_user_id e = ic_user_id i \<and>
           unique_keys ae_id (e # es) \<and> list_all (\<lambda>x. w_next w \<le> ae_id x \<and> ae_id x < w_next w') (e # es)))"

text \<open>The audit log only grows, by events with fresh identifiers.\<close>

definition log_grows :: "'z auth_world_scheme \<Rightarrow> 'z auth_world_scheme \<Rightarrow> bool" where
  "log_grows w w' \<longleftrightarrow>
     w_next w \<le> w_next w' \<and>
     (\<exists>es. w_audit w' = w_audit w @ es \<and> unique_keys ae_id es \<and>
           list_all (\<lambda>x. w_next w \<le> ae_id x \<and> ae_id x < w_next w') es)"

text \<open>What the selection may write: expiry marks and their audit events.\<close>

definition scanned :: "'z auth_world_scheme \<Rightarrow> 'z auth_world_scheme \<Rightarrow> bool" where
  "scanned w w' \<longleftrightarrow>
     same_but_permissions w w' \<and> log_grows w w' \<and> map p_id (w_permissions w') = map p_id (w_permissions w)"

text \<open>The state in which the decision row is written.\<close>

definition prepared ::
  "identity_context \<Rightarrow> authorization_request \<Rightarrow> verdict \<Rightarrow> 'z auth_world_scheme \<Rightarrow> 'z auth_world_scheme \<Rightarrow> bool" where
  "prepared i r v w w2 \<longleftrightarrow>
     fst v \<noteq> ALLOW \<and> w2 = w \<or>
     (\<exists>p risk. fst (snd (snd v)) = Some p \<and> fst (snd (snd (snd v))) = risk \<and>
        (fst v = ALLOW \<and> fst (confirmation_result i r p risk w) = None \<and>
           w2 = use_permission p (snd (confirmation_result i r p risk w)) \<or>
         fst v \<noteq> ALLOW \<and> w2 = snd (confirmation_result i r p risk w)))"

text \<open>The checks before the permission search: a known, enabled user and an enabled capability.\<close>

definition admitted :: "identity_context \<Rightarrow> authorization_request \<Rightarrow> 'z auth_world_scheme \<Rightarrow> capability \<Rightarrow> bool" where
  "admitted i r w cap \<longleftrightarrow>
     (\<exists>u. row_get u_id (ic_user_id i) (w_users w) = Some u \<and> u_auth_user_id u = ic_auth_user_id i \<and>
          u_status u \<noteq> US_DISABLED) \<and>
     row_find (\<lambda>c. cap_key c = rq_capability_key r) (w_capabilities w) = Some cap \<and> cap_enabled cap \<and>
     allows_operations cap (sc_operations (rq_scope r))"

text \<open>An approved, unspent confirmation of exactly this request under this permission.\<close>

definition confirmation_ok ::
  "identity_context \<Rightarrow> authorization_request \<Rightarrow> permission \<Rightarrow> 'z auth_world_scheme \<Rightarrow> bool" where
  "confirmation_ok i r p w \<longleftrightarrow>
     (case rq_confirmation_id r of
        None \<Rightarrow> False
      | Some cid \<Rightarrow>
          (case row_find (\<lambda>c. cf_id c = cid \<and> cf_user_id c = ic_user_id i) (w_confirmations w) of
             None \<Rightarrow> False
           | Some c \<Rightarrow>
               cf_permission_id c = p_id p \<and> cf_capability_key c = rq_capability_key r \<and>
               cf_action c = rq_action r \<and> cf_scope_digest c = scope_digest w (rq_scope r) \<and>
               w_now w < cf_expires_at c \<and> cf_status c = CS_APPROVED \<and> cf_consumed_at c = None))"

definition consumed_confirmation :: "uuid \<Rightarrow> 'z auth_world_scheme \<Rightarrow> bool" where
  "consumed_confirmation cid w \<longleftrightarrow>
     (\<exists>c \<in> set (w_confirmations w). cf_id c = cid \<and> cf_consumed_at c \<noteq> None)"

definition auth_inv :: "'z auth_world_scheme \<Rightarrow> bool" where
  "auth_inv w \<longleftrightarrow>
     unique_keys p_id (w_permissions w) \<and> keys_below p_id (w_next w) (w_permissions w) \<and>
     unique_keys ad_id (w_decisions w) \<and> keys_below ad_id (w_next w) (w_decisions w) \<and>
     unique_keys cf_id (w_confirmations w) \<and> keys_below cf_id (w_next w) (w_confirmations w) \<and>
     unique_keys ae_id (w_audit w) \<and> keys_below ae_id (w_next w) (w_audit w) \<and>
     (\<forall>c \<in> set (w_confirmations w). \<exists>a \<in> set (w_decisions w).
        ad_id a = cf_authorization_decision_id c \<and> ad_user_id a = cf_user_id c \<and>
        ad_decision a = REQUIRE_CONFIRMATION \<and> ad_permission_id a = Some (cf_permission_id c) \<and>
        ad_capability_key a = cf_capability_key c \<and> ad_action a = cf_action c \<and>
        ad_scope_digest a = cf_scope_digest c)"

definition bound_to :: "decision_record list \<Rightarrow> confirmation_request \<Rightarrow> bool" where
  "bound_to ds c \<longleftrightarrow> (\<exists>a \<in> set ds.
        ad_id a = cf_authorization_decision_id c \<and> ad_user_id a = cf_user_id c \<and>
        ad_decision a = REQUIRE_CONFIRMATION \<and> ad_permission_id a = Some (cf_permission_id c) \<and>
        ad_capability_key a = cf_capability_key c \<and> ad_action a = cf_action c \<and>
        ad_scope_digest a = cf_scope_digest c)"

text \<open>The answer of a call, without the rows it wrote.\<close>

definition answer ::
  "authorization_decision \<Rightarrow> decision_type \<times> decision_reason list \<times> uuid option \<times> risk_level \<times> bool \<times> bool" where
  "answer d = (dc_decision d, dc_reason_codes d, dc_permission_id d, dc_risk_level d, dc_scope_match d,
     dc_financial_guard_triggered d)"

definition verdict_answer ::
  "verdict \<Rightarrow> decision_type \<times> decision_reason list \<times> uuid option \<times> risk_level \<times> bool \<times> bool" where
  "verdict_answer = (\<lambda>(dt, rs, perm, risk, m, g). (dt, rs, map_option p_id perm, risk, m, g))"

definition sample_bank :: auth_world where
  "sample_bank = (sample_world CP_NEVER)\<lparr>w_capabilities :=
     [sample_capability\<lparr>cap_financial := True, cap_external_side_effect := True\<rparr>]\<rparr>"

lemma engine_audit_simps [simp]:
  "aq_metadata (engine_audit i r ev res d p ri rs k c) = []"
  "aq_event_type (engine_audit i r ev res d p ri rs k c) = ev"
  "aq_user_id (engine_audit i r ev res d p ri rs k c) = ic_user_id i"
  "aq_decision_id (engine_audit i r ev res d p ri rs k c) = d"
  by (simp_all add: engine_audit_def blank_audit_def)

lemma observe_expired_Inr: "\<exists>w'. observe_expired i cap p w = Inr w' \<and> same_but_permissions w w'"
  by (cases "p_status p = PS_ACTIVE") (simp_all add: observe_expired_def same_but_permissions_def)

lemma same_but_permissions_refl [simp]: "same_but_permissions w w"
  by (simp add: same_but_permissions_def)

lemma same_but_permissions_trans:
  "same_but_permissions w1 w2 \<Longrightarrow> same_but_permissions w2 w3 \<Longrightarrow> same_but_permissions w1 w3"
  by (auto simp: same_but_permissions_def)

lemma same_but_permissions_spec:
  assumes "same_but_permissions w w'"
  shows "w_now w' = w_now w" "device_ok i w' p = device_ok i w p" "on_revoked_device i w' p = on_revoked_device i w p"
    "eligible i cap req w' p = eligible i cap req w p"
    "pass_over i cap req w' p = pass_over i cap req w p"
proof -
  from assms have eq: "w_now w' = w_now w" "w_devices w' = w_devices w"
    by (simp_all add: same_but_permissions_def)
  show "w_now w' = w_now w" "device_ok i w' p = device_ok i w p"
    "on_revoked_device i w' p = on_revoked_device i w p" "eligible i cap req w' p = eligible i cap req w p"
    "pass_over i cap req w' p = pass_over i cap req w p"
    unfolding pass_over_def eligible_def device_ok_def on_revoked_device_def eq by simp_all
qed

lemma scan_eligible:
  assumes "eligible i cap req w p"
  shows "scan_permissions i cap req f (p # ps) w = Inr ((Some p, DR_AUTHORIZED, True), w)"
  using assms
  by (auto simp: eligible_def covers_def usable_def device_ok_def Let_def split: option.splits)

lemma scan_not_eligible:
  assumes "\<not> eligible i cap req w p"
  shows "\<exists>w1. same_but_permissions w w1 \<and>
    scan_permissions i cap req f (p # ps) w = scan_permissions i cap req (pass_over i cap req w p f) ps w1"
proof (cases "p_status p \<noteq> PS_REVOKED \<and> permission_lapsed (w_now w) p")
  case True
  obtain w1 where w1: "observe_expired i cap p w = Inr w1" "same_but_permissions w w1"
    using observe_expired_Inr by blast
  with True show ?thesis by (intro exI [of _ w1]) (simp add: pass_over_def)
next
  case False
  have "scan_permissions i cap req f (p # ps) w = scan_permissions i cap req (pass_over i cap req w p f) ps w"
  proof (cases "covers cap req (w_now w) p")
    case True
    with assms have "\<not> device_ok i w p" by (simp add: eligible_def)
    then obtain did where did: "p_device_id p = Some did" by (auto simp: device_ok_def split: option.splits)
    with True \<open>\<not> device_ok i w p\<close> show ?thesis
      by (auto simp: covers_def usable_def device_ok_def on_revoked_device_def pass_over_def Let_def
          split: option.splits)
  qed (use False in \<open>auto simp: covers_def usable_def pass_over_def\<close>)
  then show ?thesis by (intro exI [of _ w]) simp
qed

lemma scan_permissions_result:
  "\<exists>w'. same_but_permissions w w' \<and>
     scan_permissions i cap req f ps w =
       Inr ((case find (eligible i cap req w) ps of
               Some p \<Rightarrow> (Some p, DR_AUTHORIZED, True)
             | None \<Rightarrow> scan_outcome (fold (pass_over i cap req w) ps f)), w')"
proof (induction ps arbitrary: f w)
  case Nil
  show ?case by (auto intro: exI [of _ w])
next
  case (Cons p ps)
  show ?case
  proof (cases "eligible i cap req w p")
    case True
    then show ?thesis
      using scan_eligible [OF True] by (intro exI [of _ w]) (simp del: scan_permissions.simps)
  next
    case False
    from scan_not_eligible [OF False] obtain w1 where w1: "same_but_permissions w w1"
      "scan_permissions i cap req f (p # ps) w = scan_permissions i cap req (pass_over i cap req w p f) ps w1"
      by blast
    have eq: "eligible i cap req w1 = eligible i cap req w" "pass_over i cap req w1 = pass_over i cap req w"
      using same_but_permissions_spec(4,5) [OF w1(1)] by blast+
    from Cons [of w1 "pass_over i cap req w p f"] obtain w' where "same_but_permissions w1 w'"
      "scan_permissions i cap req (pass_over i cap req w p f) ps w1 =
        Inr ((case find (eligible i cap req w) ps of
               Some p \<Rightarrow> (Some p, DR_AUTHORIZED, True)
             | None \<Rightarrow> scan_outcome (fold (pass_over i cap req w) ps (pass_over i cap req w p f))), w')"
      unfolding eq by blast
    with w1 False same_but_permissions_trans [OF w1(1)] show ?thesis
      by (intro exI [of _ w']) (simp del: scan_permissions.simps split: option.split)
  qed
qed

text \<open>The flags after a whole scan.\<close>

lemma fold_pass_over:
  fixes i cap req w
  defines "g \<equiv> fold (pass_over i cap req w)"
  shows "saw_scope_match (g ps f) \<longleftrightarrow> saw_scope_match f \<or> (\<exists>p \<in> set ps. covers cap req (w_now w) p)"
    and "saw_invalid_action (g ps f) \<longleftrightarrow> saw_invalid_action f \<or>
          (\<exists>p \<in> set ps. usable (w_now w) p \<and> \<not> allows_operations cap (sc_operations (p_scope p)))"
    and "saw_expired (g ps f) \<longleftrightarrow> saw_expired f \<or>
          (\<exists>p \<in> set ps. p_status p \<noteq> PS_REVOKED \<and> permission_lapsed (w_now w) p)"
    and "saw_revoked (g ps f) \<longleftrightarrow> saw_revoked f \<or> (\<exists>p \<in> set ps. p_status p = PS_REVOKED)"
    and "device_reason (g ps f) =
          (if \<exists>p \<in> set ps. covers cap req (w_now w) p \<and> on_revoked_device i w p then DR_DEVICE_REVOKED
           else device_reason f)"
  unfolding g_def by (induction ps arbitrary: f) (auto simp: pass_over_def covers_def usable_def)

lemma scan_outcome_failure:
  assumes "ps \<noteq> []"
  shows "scan_outcome (fold (pass_over i cap req w) ps scan_start) =
    (None, failure_reason i cap req w ps, \<exists>p \<in> set ps. covers cap req (w_now w) p)"
proof -
  define A where "A \<longleftrightarrow> (\<exists>p \<in> set ps. covers cap req (w_now w) p)"
  define B where "B \<longleftrightarrow> (\<exists>p \<in> set ps. covers cap req (w_now w) p \<and> on_revoked_device i w p)"
  define C where "C \<longleftrightarrow> (\<exists>p \<in> set ps. usable (w_now w) p \<and> \<not> allows_operations cap (sc_operations (p_scope p)))"
  define D where "D \<longleftrightarrow> (\<exists>p \<in> set ps. p_status p \<noteq> PS_REVOKED \<and> permission_lapsed (w_now w) p)"
  define E where "E \<longleftrightarrow> (\<exists>p \<in> set ps. p_status p = PS_REVOKED)"
  note folds = A_def [symmetric] B_def [symmetric] C_def [symmetric] D_def [symmetric] E_def [symmetric]
  have "failure_reason i cap req w ps =
      (if A then (if B then DR_DEVICE_REVOKED else DR_DEVICE_SCOPE_MISMATCH)
       else if C then DR_ACTION_NOT_ALLOWED else if D then DR_PERMISSION_EXPIRED
       else if E then DR_PERMISSION_REVOKED else DR_SCOPE_MISMATCH)"
    unfolding failure_reason_def folds using assms by simp
  then show ?thesis unfolding scan_outcome_def fold_pass_over folds by (auto simp: scan_start_def)
qed

lemma find_permission_spec:
  "\<exists>w'. same_but_permissions w w' \<and>
     find_permission i cap req w =
       Inr ((case find (eligible i cap req w) (candidate_permissions i cap w) of
               Some p \<Rightarrow> (Some p, DR_AUTHORIZED, True)
             | None \<Rightarrow> (None, failure_reason i cap req w (candidate_permissions i cap w),
                        \<exists>p \<in> set (candidate_permissions i cap w). covers cap req (w_now w) p)), w')"
proof (cases "candidate_permissions i cap w = []")
  case True
  then show ?thesis by (auto simp: find_permission_def failure_reason_def intro: exI [of _ w])
next
  case False
  let ?ps = "candidate_permissions i cap w"
  from scan_permissions_result [of w i cap req scan_start ?ps] obtain w' where w': "same_but_permissions w w'"
    "scan_permissions i cap req scan_start ?ps w =
       Inr ((case find (eligible i cap req w) ?ps of
               Some p \<Rightarrow> (Some p, DR_AUTHORIZED, True)
             | None \<Rightarrow> scan_outcome (fold (pass_over i cap req w) ?ps scan_start)), w')" by blast
  with False scan_outcome_failure [OF False, of i cap req w] show ?thesis
    by (auto simp: find_permission_def Let_def split: option.split)
qed

lemma finalize_Inr:
  assumes "dt = REQUIRE_CONFIRMATION \<longrightarrow> perm \<noteq> None"
  shows "\<exists>d w'. finalize i r dt reasons perm risk match guard w = Inr (d, w') \<and>
    finalized i r (dt, reasons, perm, risk, match, guard) w d w'"
proof (cases "dt = REQUIRE_CONFIRMATION")
  case True
  with assms obtain p where "perm = Some p" by auto
  with True show ?thesis
    by (simp add: finalize_def Let_def finalized_def decision_shows_def add_decision_def add_confirmation_def
        new_confirmation_def scope_digest_def row_add_def unique_keys_def new_decision_def)
next
  case False
  then show ?thesis
    by (simp add: finalize_def Let_def finalized_def decision_shows_def add_decision_def row_add_def
        unique_keys_def new_decision_def)
qed

lemma log_grows_refl [simp]: "log_grows w w"
  by (simp add: log_grows_def unique_keys_def)

lemma log_grows_trans:
  assumes "log_grows w1 w2" and "log_grows w2 w3"
  shows "log_grows w1 w3"
proof -
  from assms obtain es fs where n: "w_next w1 \<le> w_next w2" "w_next w2 \<le> w_next w3"
    and es: "w_audit w2 = w_audit w1 @ es" "unique_keys ae_id es"
      "list_all (\<lambda>x. w_next w1 \<le> ae_id x \<and> ae_id x < w_next w2) es"
    and fs: "w_audit w3 = w_audit w2 @ fs" "unique_keys ae_id fs"
      "list_all (\<lambda>x. w_next w2 \<le> ae_id x \<and> ae_id x < w_next w3) fs"
    unfolding log_grows_def by blast
  have "w_audit w3 = w_audit w1 @ (es @ fs)" by (simp add: es fs)
  moreover have "unique_keys ae_id (es @ fs)"
    using es(2,3) fs(2,3) by (fastforce simp: unique_keys_def list_all_iff)
  moreover have "list_all (\<lambda>x. w_next w1 \<le> ae_id x \<and> ae_id x < w_next w3) (es @ fs)"
    using es(3) fs(3) n by (fastforce simp: list_all_iff)
  ultimately show ?thesis using n unfolding log_grows_def by (meson order_trans)
qed

lemma log_grows_record: "record_audit q w = Inr w' \<Longrightarrow> log_grows w w'"
  by (auto simp: record_audit_Inr log_grows_def row_add_def unique_keys_def)

lemma scanned_refl [simp]: "scanned w w"
  by (simp add: scanned_def)

lemma scanned_trans: "scanned w1 w2 \<Longrightarrow> scanned w2 w3 \<Longrightarrow> scanned w1 w3"
  unfolding scanned_def by (auto intro: same_but_permissions_trans log_grows_trans)

lemma observe_expired_scanned: "observe_expired i cap p w = Inr w' \<Longrightarrow> scanned w w'"
  by (auto simp: observe_expired_def scanned_def same_but_permissions_def log_grows_def unique_keys_def
      row_add_def row_put_def split: if_splits)

lemma scan_permissions_scanned: "scan_permissions i cap req f ps w = Inr (x, w') \<Longrightarrow> scanned w w'"
proof (induction ps arbitrary: f w)
  case (Cons p ps)
  show ?case
  proof (cases "p_status p \<noteq> PS_REVOKED \<and> permission_lapsed (w_now w) p")
    case True
    with Cons.prems obtain w1 where "observe_expired i cap p w = Inr w1"
      "scan_permissions i cap req (f\<lparr>saw_expired := True\<rparr>) ps w1 = Inr (x, w')"
      by (auto simp: result_simps)
    with Cons.IH show ?thesis by (blast intro: scanned_trans observe_expired_scanned)
  next
    case False
    with Cons.prems have "w' = w \<or> (\<exists>f'. scan_permissions i cap req f' ps w = Inr (x, w'))"
      by (auto simp: Let_def split: if_splits option.splits)
    with Cons.IH show ?thesis by auto
  qed
qed simp

lemma find_permission_scanned: "find_permission i cap req w = Inr (x, w') \<Longrightarrow> scanned w w'"
  by (auto simp: find_permission_def Let_def split: if_splits dest: scan_permissions_scanned)

lemma confirmation_result_scanned:
  "same_but_permissions w w1 \<Longrightarrow> fst (confirmation_result i r p risk w1) = fst (confirmation_result i r p risk w)"
  by (auto simp: confirmation_result_def same_but_permissions_def scope_digest_def split: option.split)

lemma finalized_audit:
  assumes "finalized i r v w d w1" and "record_audit q w1 = Inr w2"
  shows "finalized i r v w d w2"
proof -
  obtain m where w2: "w2 = audit_append (audit_event_of w1 q m) w1" using assms(2) by (auto simp: record_audit_Inr)
  obtain dt reasons perm risk match guard where v: "v = (dt, reasons, perm, risk, match, guard)" by (cases v)
  from assms(1) obtain e es where e: "w_audit w1 = w_audit w @ e # es" "ae_decision_id e = Some (w_next w)"
    "ae_event_type e = decision_event dt" "ae_user_id e = ic_user_id i" "unique_keys ae_id (e # es)"
    "list_all (\<lambda>x. w_next w \<le> ae_id x \<and> ae_id x < w_next w1) (e # es)" and n: "w_next w < w_next w1"
    unfolding finalized_def v by auto
  let ?es = "es @ [audit_event_of w1 q m]"
  have "unique_keys ae_id (e # ?es)" using e(5,6) by (auto simp: unique_keys_def list_all_iff)
  moreover have "list_all (\<lambda>x. w_next w \<le> ae_id x \<and> ae_id x < w_next w2) (e # ?es)"
    using e(6) n by (auto simp: list_all_iff w2)
  moreover have "w_audit w2 = w_audit w @ e # ?es" by (simp add: w2 e(1) row_add_def)
  ultimately have "\<exists>e es. w_audit w2 = w_audit w @ e # es \<and> ae_decision_id e = Some (w_next w) \<and>
      ae_event_type e = decision_event dt \<and> ae_user_id e = ic_user_id i \<and> unique_keys ae_id (e # es) \<and>
      list_all (\<lambda>x. w_next w \<le> ae_id x \<and> ae_id x < w_next w2) (e # es)"
    using e by blast
  with assms(1) show ?thesis
    unfolding finalized_def v by (auto simp: w2 split: option.splits)
qed

lemma verdict_with_scanned:
  "same_but_permissions w w1 \<Longrightarrow> verdict_with i r cap p w1 = verdict_with i r cap p w"
  by (simp add: verdict_with_def confirmation_verdict_def confirmation_result_scanned split: sum.split)

lemma authorize_with_Inr:
  "\<exists>d w2 w'. authorize_with i r cap p w = Inr (d, w') \<and> prepared i r (verdict_with i r cap p w) w w2 \<and>
     finalized i r (verdict_with i r cap p w) w2 d w'"
proof (cases "evaluate_risk cap (rq_action r)")
  case (Inl e)
  with finalize_Inr [of DENY "Some p" i r "[DR_AUTHORIZATION_EVALUATION_FAILED]" CRITICAL True False w]
  show ?thesis by (auto simp: authorize_with_def verdict_with_def prepared_def)
next
  case (Inr risk)
  show ?thesis
  proof (cases "financial_blocks cap")
    case True
    from finalize_Inr [of DENY "Some p" i r "[DR_FINANCIAL_EXECUTION_BLOCKED]" CRITICAL True True w]
    obtain d w1 where f: "finalize i r DENY [DR_FINANCIAL_EXECUTION_BLOCKED] (Some p) CRITICAL True True w = Inr (d, w1)"
      "finalized i r (DENY, [DR_FINANCIAL_EXECUTION_BLOCKED], Some p, CRITICAL, True, True) w d w1" by auto
    define q where "q = engine_audit i (Some r) AE_FINANCIAL_GUARD_TRIGGERED AR_DENIED (Some (dc_decision_id d))
                       (Some (p_id p)) (Some CRITICAL) [reason_value DR_FINANCIAL_EXECUTION_BLOCKED] None None"
    obtain w2 where q: "record_audit q w1 = Inr w2" by (simp add: q_def)
    with f True Inr have "authorize_with i r cap p w = Inr (d, w2)"
      by (simp add: authorize_with_def q_def)
    with finalized_audit [OF f(2) q] True Inr show ?thesis
      by (auto simp: verdict_with_def prepared_def)
  next
    case False
    obtain res w1 where c: "confirmation_result i r p (ra_risk_level risk) w = (res, w1)" by fastforce
    show ?thesis
    proof (cases res)
      case None
      with finalize_Inr [of ALLOW "Some p" i r "[DR_AUTHORIZED]" "ra_risk_level risk" True False "use_permission p w1"]
        Inr False c show ?thesis
        by (auto simp: authorize_with_def verdict_with_def prepared_def confirmation_verdict_def)
    next
      case (Some x)
      obtain dt reasons where x: "x = (dt, reasons)" by fastforce
      have "dt \<noteq> ALLOW" using c Some x
        by (auto simp: confirmation_result_def split: if_splits option.splits)
      with finalize_Inr [of dt "Some p" i r reasons "ra_risk_level risk" True False w1]
        Inr False c Some x show ?thesis
        by (auto simp: authorize_with_def verdict_with_def prepared_def confirmation_verdict_def)
    qed
  qed
qed

text \<open>Every branch of \<open>authorize\<close> is the verdict, persisted.\<close>

lemma verdict_no_permission:
  assumes "verdict i r w = bindE (risk_of n) (\<lambda>level. Inr (DENY, rs, None, level, m, False))"
    and "authorize i r w = bindE (risk_of n) (\<lambda>level. finalize i r DENY rs None level m False w1)" and "scanned w w1"
  shows "(\<exists>e. verdict i r w = Inl e \<and> authorize i r w = Inl e) \<or>
    (\<exists>v d w1 w2 w'. verdict i r w = Inr v \<and> authorize i r w = Inr (d, w') \<and>
       scanned w w1 \<and> prepared i r v w1 w2 \<and> finalized i r v w2 d w')"
proof (cases "risk_of n")
  case (Inl e)
  with assms show ?thesis by simp
next
  case (Inr level)
  from finalize_Inr [of DENY None i r rs level m False w1] obtain d w' where
    "finalize i r DENY rs None level m False w1 = Inr (d, w')"
    "finalized i r (DENY, rs, None, level, m, False) w1 d w'" by auto
  moreover have "prepared i r (DENY, rs, None, level, m, False) w1 w1" by (simp add: prepared_def)
  ultimately show ?thesis using assms Inr by auto
qed

lemma risk_of_0: "risk_of 0 = Inr NEGLIGIBLE"
  by (simp add: risk_of_def)

lemma admitted_verdict:
  assumes "admitted i r w cap"
  shows "verdict i r w =
    (case find (eligible i cap (rq_scope r) w) (candidate_permissions i cap w) of
       None \<Rightarrow> bindE (risk_of (cap_default_risk_level cap)) (\<lambda>level.
         Inr (DENY, [failure_reason i cap (rq_scope r) w (candidate_permissions i cap w)], None, level,
               \<exists>p \<in> set (candidate_permissions i cap w). covers cap (rq_scope r) (w_now w) p, False))
     | Some p \<Rightarrow> Inr (verdict_with i r cap p w))"
  using assms by (auto simp: verdict_def admitted_def Let_def)

lemma admitted_authorize:
  assumes "admitted i r w cap"
  shows "authorize i r w = bindE (find_permission i cap (rq_scope r) w) (\<lambda>((perm, failure, scope_match), w1).
     case perm of
       None \<Rightarrow> bindE (risk_of (cap_default_risk_level cap)) (\<lambda>level.
                 finalize i r DENY [failure] None level scope_match False w1)
     | Some p \<Rightarrow> authorize_with i r cap p w1)"
  using assms by (auto simp: authorize_def admitted_def)

lemma not_admitted:
  assumes "\<nexists>cap. admitted i r w cap"
  shows "\<exists>n rs. verdict i r w = bindE (risk_of n) (\<lambda>level. Inr (DENY, rs, None, level, False, False)) \<and>
    authorize i r w = bindE (risk_of n) (\<lambda>level. finalize i r DENY rs None level False False w)"
proof (cases "row_get u_id (ic_user_id i) (w_users w)")
  case None
  then show ?thesis by (intro exI [of _ 0] exI [of _ "[DR_INVALID_IDENTITY]"])
      (simp add: verdict_def authorize_def risk_of_0 Let_def)
next
  case (Some u)
  note u = Some
  show ?thesis
  proof (cases "u_auth_user_id u = ic_auth_user_id i \<and> u_status u \<noteq> US_DISABLED")
    case False
    with u show ?thesis
      by (intro exI [of _ 0]) (auto simp: verdict_def authorize_def risk_of_0 Let_def)
  next
    case True
    note ok = True
    show ?thesis
    proof (cases "row_find (\<lambda>c. cap_key c = rq_capability_key r) (w_capabilities w)")
      case None
      with u ok show ?thesis
        by (intro exI [of _ 0] exI [of _ "[DR_CAPABILITY_NOT_FOUND]"]) (simp add: verdict_def authorize_def risk_of_0 Let_def)
    next
      case (Some cap)
      with assms u ok have "\<not> cap_enabled cap \<or> \<not> allows_operations cap (sc_operations (rq_scope r))"
        by (auto simp: admitted_def)
      with u ok Some show ?thesis
        by (intro exI [of _ "cap_default_risk_level cap"]) (auto simp: verdict_def authorize_def Let_def)
    qed
  qed
qed

lemma authorize_refines:
  "(\<exists>e. verdict i r w = Inl e \<and> authorize i r w = Inl e) \<or>
   (\<exists>v d w1 w2 w'. verdict i r w = Inr v \<and> authorize i r w = Inr (d, w') \<and>
      scanned w w1 \<and> prepared i r v w1 w2 \<and> finalized i r v w2 d w')"
proof (cases "\<exists>cap. admitted i r w cap")
  case False
  from not_admitted [OF False] obtain n rs where
    "verdict i r w = bindE (risk_of n) (\<lambda>level. Inr (DENY, rs, None, level, False, False))"
    "authorize i r w = bindE (risk_of n) (\<lambda>level. finalize i r DENY rs None level False False w)" by blast
  then show ?thesis by (rule verdict_no_permission) simp
next
  case True
  then obtain cap where cap: "admitted i r w cap" by blast
  from find_permission_spec [of w i cap "rq_scope r"] obtain w1 where w1: "same_but_permissions w w1"
    "find_permission i cap (rq_scope r) w =
       Inr ((case find (eligible i cap (rq_scope r) w) (candidate_permissions i cap w) of
             Some p \<Rightarrow> (Some p, DR_AUTHORIZED, True)
           | None \<Rightarrow> (None, failure_reason i cap (rq_scope r) w (candidate_permissions i cap w),
                      \<exists>p \<in> set (candidate_permissions i cap w). covers cap (rq_scope r) (w_now w) p)), w1)" by blast
  note sc = find_permission_scanned [OF w1(2)]
  show ?thesis
  proof (cases "find (eligible i cap (rq_scope r) w) (candidate_permissions i cap w)")
    case None
    show ?thesis by (rule verdict_no_permission [OF _ _ sc])
      (simp_all add: admitted_verdict [OF cap] admitted_authorize [OF cap] w1(2) None)
  next
    case (Some p)
    from authorize_with_Inr [of i r cap p w1] obtain d w2 w' where
      "authorize_with i r cap p w1 = Inr (d, w')" "prepared i r (verdict_with i r cap p w) w1 w2"
      "finalized i r (verdict_with i r cap p w) w2 d w'" by (auto simp: verdict_with_scanned [OF w1(1)])
    with sc show ?thesis
      by (auto simp: admitted_verdict [OF cap] admitted_authorize [OF cap] w1(2) Some)
  qed
qed

lemma confirmation_result_None_iff:
  "fst (confirmation_result i r p risk w) = None \<longleftrightarrow> \<not> policy_requires p risk \<or> confirmation_ok i r p w"
  by (auto simp: confirmation_result_def confirmation_ok_def at_or_after_def
      split: option.splits if_splits confirmation_status.splits)

lemma confirmation_result_not_allow: "fst (confirmation_result i r p risk w) = Some (dt, rs) \<Longrightarrow> dt \<noteq> ALLOW"
  by (auto simp: confirmation_result_def split: option.splits if_splits)

lemma confirmation_verdict_allow:
  "fst (confirmation_verdict i r p risk w) = ALLOW \<longleftrightarrow> \<not> policy_requires p risk \<or> confirmation_ok i r p w"
  "fst (confirmation_verdict i r p risk w) = ALLOW \<Longrightarrow> snd (confirmation_verdict i r p risk w) = [DR_AUTHORIZED]"
proof -
  note not_allow = confirmation_result_not_allow [of i r p risk w]
  show "fst (confirmation_verdict i r p risk w) = ALLOW \<longleftrightarrow> \<not> policy_requires p risk \<or> confirmation_ok i r p w"
    unfolding confirmation_result_None_iff [where risk = risk, symmetric]
    using not_allow by (cases "fst (confirmation_result i r p risk w)") (force simp: confirmation_verdict_def)+
  show "fst (confirmation_verdict i r p risk w) = ALLOW \<Longrightarrow> snd (confirmation_verdict i r p risk w) = [DR_AUTHORIZED]"
    using not_allow by (cases "fst (confirmation_result i r p risk w)") (force simp: confirmation_verdict_def)+
qed

lemma verdict_allow_iff:
  "verdict i r w = Inr (ALLOW, rs, perm, risk, m, g) \<longleftrightarrow>
     (\<exists>cap p a. admitted i r w cap \<and> find (eligible i cap (rq_scope r) w) (candidate_permissions i cap w) = Some p \<and>
        evaluate_risk cap (rq_action r) = Inr a \<and> \<not> financial_blocks cap \<and>
        (\<not> policy_requires p (ra_risk_level a) \<or> confirmation_ok i r p w) \<and>
        rs = [DR_AUTHORIZED] \<and> perm = Some p \<and> risk = ra_risk_level a \<and> m \<and> \<not> g)"
proof (cases "\<exists>cap. admitted i r w cap")
  case False
  from not_admitted [OF False] obtain n rs' where
    v: "verdict i r w = bindE (risk_of n) (\<lambda>level. Inr (DENY, rs', None, level, False, False))" by blast
  have "verdict i r w \<noteq> Inr (ALLOW, rs, perm, risk, m, g)" by (cases "risk_of n") (simp_all add: v)
  with False show ?thesis by blast
next
  case True
  then obtain cap where cap: "admitted i r w cap" by blast
  have uniq: "admitted i r w c \<longleftrightarrow> c = cap" for c using cap by (auto simp: admitted_def)
  show ?thesis
    unfolding uniq admitted_verdict [OF cap] verdict_with_def
    using confirmation_verdict_allow [of i r _ _ w]
    by (auto simp: case_prod_beta split: option.splits sum.splits) (simp_all add: bindE_def split: sum.splits)
qed

lemma authorize_verdict:
  assumes "authorize i r w = Inr (d, w')"
  obtains v w1 w2 where "verdict i r w = Inr v" and "scanned w w1" and "prepared i r v w1 w2"
    and "finalized i r v w2 d w'"
  using authorize_refines [of i r w] assms by auto

lemma finalized_shows: "finalized i r v w d w' \<Longrightarrow> decision_shows v d"
  by (auto simp: finalized_def split: prod.splits)

text \<open>
  C1: authorize answers ALLOW exactly when the user row is known and enabled, the capability is
  enabled and allows the operations, an eligible permission (active, not lapsed, wide enough,
  usable from the device) is selected, the risk evaluation succeeds, the financial guard is
  silent, and a required confirmation is approved, bound to the request, unexpired and unspent.
\<close>

theorem authorize_allow_iff:
  "(\<exists>d w'. authorize i r w = Inr (d, w') \<and> dc_decision d = ALLOW) \<longleftrightarrow>
   (\<exists>cap p a. admitted i r w cap \<and>
      find (eligible i cap (rq_scope r) w) (candidate_permissions i cap w) = Some p \<and>
      evaluate_risk cap (rq_action r) = Inr a \<and> \<not> financial_blocks cap \<and>
      (policy_requires p (ra_risk_level a) \<longrightarrow> confirmation_ok i r p w))" (is "?L \<longleftrightarrow> ?R")
proof
  assume ?L
  then obtain d w' where "authorize i r w = Inr (d, w')" "dc_decision d = ALLOW" by blast
  from authorize_verdict [OF this(1)] obtain v w2 where v: "verdict i r w = Inr v"
    and "finalized i r v w2 d w'" by metis
  with \<open>dc_decision d = ALLOW\<close> have "fst v = ALLOW"
    by (auto dest!: finalized_shows simp: decision_shows_def split: prod.splits)
  with v show ?R by (cases v) (auto simp: verdict_allow_iff)
next
  assume ?R
  then obtain cap p a where "admitted i r w cap"
    "find (eligible i cap (rq_scope r) w) (candidate_permissions i cap w) = Some p"
    "evaluate_risk cap (rq_action r) = Inr a" "\<not> financial_blocks cap"
    "\<not> policy_requires p (ra_risk_level a) \<or> confirmation_ok i r p w" by blast
  then have v: "verdict i r w = Inr (ALLOW, [DR_AUTHORIZED], Some p, ra_risk_level a, True, False)"
    by (auto simp: verdict_allow_iff)
  with authorize_refines [of i r w] obtain d w2 w' where "authorize i r w = Inr (d, w')"
    "finalized i r (ALLOW, [DR_AUTHORIZED], Some p, ra_risk_level a, True, False) w2 d w'" by auto
  with finalized_shows [OF this(2)] show ?L by (auto simp: decision_shows_def)
qed

lemma finalized_effects:
  assumes "finalized i r v w d w'"
  shows "log_grows w w'" "w_permissions w' = w_permissions w" "w_now w' = w_now w" "w_next w < w_next w'"
    "w_sha256 w' = w_sha256 w" "auth_world.more w' = auth_world.more w" "w_capabilities w' = w_capabilities w"
    "w_users w' = w_users w" "w_devices w' = w_devices w" "w_sessions w' = w_sessions w"
    "dc_decision_id d = w_next w" "dc_created_at d = w_now w"
  using assms by (auto simp: finalized_def log_grows_def split: prod.splits)

lemma finalized_decision:
  assumes "finalized i r (dt, rs, perm, risk, m, g) w d w'"
  shows "w_decisions w' = row_add (new_decision i r dt rs perm risk m g w) (w_decisions w)"
  using assms by (auto simp: finalized_def split: prod.splits)

lemma finalized_confirmation:
  assumes "finalized i r (dt, rs, perm, risk, m, g) w d w'"
  shows "dc_confirmation_id d = None \<and> dt \<noteq> REQUIRE_CONFIRMATION \<and> w_confirmations w' = w_confirmations w \<or>
    (\<exists>p c. dc_confirmation_id d = Some (cf_id c) \<and> dt = REQUIRE_CONFIRMATION \<and> perm = Some p \<and>
       w_next w < cf_id c \<and> cf_id c < w_next w' \<and>
       c = (new_confirmation i r (w_next w) p w)\<lparr>cf_id := cf_id c\<rparr> \<and>
       w_confirmations w' = row_add c (w_confirmations w))"
proof (cases "dc_confirmation_id d")
  case None
  with assms show ?thesis by (simp add: finalized_def)
next
  case (Some cid)
  with assms obtain p where p: "dt = REQUIRE_CONFIRMATION" "perm = Some p" "w_next w < cid" "cid < w_next w'"
    "w_confirmations w' = row_add ((new_confirmation i r (w_next w) p w)\<lparr>cf_id := cid\<rparr>) (w_confirmations w)"
    by (auto simp: finalized_def)
  with Some show ?thesis
    by (intro disjI2 exI [of _ p] exI [of _ "(new_confirmation i r (w_next w) p w)\<lparr>cf_id := cid\<rparr>"]) simp
qed

lemma confirmation_result_frame:
  "w_decisions (snd (confirmation_result i r p risk w)) = w_decisions w"
  "w_permissions (snd (confirmation_result i r p risk w)) = w_permissions w"
  "w_audit (snd (confirmation_result i r p risk w)) = w_audit w"
  "w_now (snd (confirmation_result i r p risk w)) = w_now w"
  "w_next (snd (confirmation_result i r p risk w)) = w_next w"
  "w_sha256 (snd (confirmation_result i r p risk w)) = w_sha256 w"
  "w_capabilities (snd (confirmation_result i r p risk w)) = w_capabilities w"
  "w_users (snd (confirmation_result i r p risk w)) = w_users w"
  "w_devices (snd (confirmation_result i r p risk w)) = w_devices w"
  "w_sessions (snd (confirmation_result i r p risk w)) = w_sessions w"
  "auth_world.more (snd (confirmation_result i r p risk w)) = auth_world.more w"
  by (auto simp: confirmation_result_def put_confirmation_def split: option.split)

lemma confirmation_result_rows:
  "w_confirmations (snd (confirmation_result i r p risk w)) = w_confirmations w \<or>
   (\<exists>c c'. c \<in> set (w_confirmations w) \<and> w_confirmations (snd (confirmation_result i r p risk w)) =
       row_put cf_id c' (w_confirmations w) \<and>
     (c' = c\<lparr>cf_status := CS_EXPIRED\<rparr> \<or> c' = c\<lparr>cf_consumed_at := Some (w_now w)\<rparr>))"
  by (auto simp: confirmation_result_def put_confirmation_def split: option.split dest: row_find_Some)

lemma use_permission_simps [simp]:
  "w_now (use_permission p w) = w_now w" "w_next (use_permission p w) = w_next w"
  "w_sha256 (use_permission p w) = w_sha256 w" "w_users (use_permission p w) = w_users w"
  "w_devices (use_permission p w) = w_devices w" "w_sessions (use_permission p w) = w_sessions w"
  "w_capabilities (use_permission p w) = w_capabilities w" "w_decisions (use_permission p w) = w_decisions w"
  "w_confirmations (use_permission p w) = w_confirmations w" "w_audit (use_permission p w) = w_audit w"
  "auth_world.more (use_permission p w) = auth_world.more w"
  "map p_id (w_permissions (use_permission p w)) = map p_id (w_permissions w)"
  by (simp_all add: use_permission_def row_put_def)

text \<open>The fields the step before \<open>finalize\<close> keeps, and the confirmation row it may rewrite.\<close>

lemma prepared_effects:
  assumes "prepared i r v w w2"
  shows "log_grows w w2" "w_now w2 = w_now w" "w_next w2 = w_next w" "w_sha256 w2 = w_sha256 w"
    "w_users w2 = w_users w" "w_devices w2 = w_devices w" "w_sessions w2 = w_sessions w"
    "w_capabilities w2 = w_capabilities w" "w_decisions w2 = w_decisions w" "w_audit w2 = w_audit w"
    "auth_world.more w2 = auth_world.more w" "map p_id (w_permissions w2) = map p_id (w_permissions w)"
  using assms by (auto simp: prepared_def confirmation_result_frame log_grows_def unique_keys_def)

lemma prepared_confirmations:
  assumes "prepared i r v w w2"
  shows "w_confirmations w2 = w_confirmations w \<or>
   (\<exists>c c'. c \<in> set (w_confirmations w) \<and> w_confirmations w2 = row_put cf_id c' (w_confirmations w) \<and>
     (c' = c\<lparr>cf_status := CS_EXPIRED\<rparr> \<or> c' = c\<lparr>cf_consumed_at := Some (w_now w)\<rparr>))"
proof -
  from assms consider "w2 = w"
    | p risk where "w_confirmations w2 = w_confirmations (snd (confirmation_result i r p risk w))"
    by (auto simp: prepared_def)
  then show ?thesis
  proof cases
    case 2
    with confirmation_result_rows [of i r p risk w] show ?thesis by simp
  qed simp
qed

lemma log_grows_keys:
  assumes "log_grows w w'" and "unique_keys ae_id (w_audit w)" and "keys_below ae_id (w_next w) (w_audit w)"
  shows "unique_keys ae_id (w_audit w') \<and> keys_below ae_id (w_next w') (w_audit w')"
proof -
  from assms(1) obtain es where es: "w_next w \<le> w_next w'" "w_audit w' = w_audit w @ es" "unique_keys ae_id es"
    "list_all (\<lambda>x. w_next w \<le> ae_id x \<and> ae_id x < w_next w') es" unfolding log_grows_def by blast
  then show ?thesis using assms(2,3)
    by (fastforce simp: unique_keys_def keys_below_def list_all_iff)
qed

lemma keys_of_map_eq:
  "map key xs = map key ys \<Longrightarrow> unique_keys key xs = unique_keys key ys"
  "map key xs = map key ys \<Longrightarrow> keys_below key n xs = keys_below key n ys"
proof -
  assume "map key xs = map key ys"
  moreover from this have "key ` set xs = key ` set ys" by (metis list.set_map)
  ultimately show "unique_keys key xs = unique_keys key ys" "keys_below key n xs = keys_below key n ys"
    by (simp_all add: unique_keys_def keys_below_image)
qed

lemma bound_to_mono: "bound_to ds c \<Longrightarrow> set ds \<subseteq> set ds' \<Longrightarrow> bound_to ds' c"
  unfolding bound_to_def by (meson subsetD)

lemma auth_inv_bound: "auth_inv w \<longleftrightarrow>
     unique_keys p_id (w_permissions w) \<and> keys_below p_id (w_next w) (w_permissions w) \<and>
     unique_keys ad_id (w_decisions w) \<and> keys_below ad_id (w_next w) (w_decisions w) \<and>
     unique_keys cf_id (w_confirmations w) \<and> keys_below cf_id (w_next w) (w_confirmations w) \<and>
     unique_keys ae_id (w_audit w) \<and> keys_below ae_id (w_next w) (w_audit w) \<and>
     (\<forall>c \<in> set (w_confirmations w). bound_to (w_decisions w) c)"
  by (simp add: auth_inv_def bound_to_def)

lemma scanned_inv: "scanned w w1 \<Longrightarrow> auth_inv w \<Longrightarrow> auth_inv w1"
  unfolding auth_inv_bound scanned_def
  using log_grows_keys [of w w1] keys_of_map_eq [of p_id "w_permissions w1" "w_permissions w"]
  by (auto simp: same_but_permissions_def intro: keys_below_mono)

lemma confirmation_put_inv:
  assumes "auth_inv w" and "c \<in> set (w_confirmations w)" and "w_confirmations w2 = row_put cf_id c' (w_confirmations w)"
    and "cf_id c' = cf_id c" "cf_user_id c' = cf_user_id c" "cf_authorization_decision_id c' = cf_authorization_decision_id c"
    "cf_permission_id c' = cf_permission_id c" "cf_capability_key c' = cf_capability_key c"
    "cf_action c' = cf_action c" "cf_scope_digest c' = cf_scope_digest c"
    and "map p_id (w_permissions w2) = map p_id (w_permissions w)" "w_decisions w2 = w_decisions w"
    "w_next w2 = w_next w" "w_audit w2 = w_audit w"
  shows "auth_inv w2"
proof -
  have "bound_to (w_decisions w) x" if "x \<in> set (row_put cf_id c' (w_confirmations w))" for x
    using row_put_mem [OF that] assms(1,2,4-10) unfolding auth_inv_bound by (auto simp: bound_to_def)
  with assms(1,3,11-) keys_of_map_eq [of p_id "w_permissions w2" "w_permissions w"] show ?thesis
    unfolding auth_inv_bound by (simp add: table_simps)
qed

lemma prepared_inv:
  assumes "prepared i r v w w2" and "auth_inv w"
  shows "auth_inv w2"
  using prepared_confirmations [OF assms(1)]
proof (elim disjE exE conjE)
  assume "w_confirmations w2 = w_confirmations w"
  with prepared_effects [OF assms(1)] assms(2) keys_of_map_eq [of p_id "w_permissions w2" "w_permissions w"]
  show ?thesis by (simp add: auth_inv_bound)
next
  fix c c'
  assume "c \<in> set (w_confirmations w)" "w_confirmations w2 = row_put cf_id c' (w_confirmations w)"
    "c' = c\<lparr>cf_status := CS_EXPIRED\<rparr>"
  with prepared_effects [OF assms(1)] show ?thesis by (intro confirmation_put_inv [where c = c and c' = c', OF assms(2)]) simp_all
next
  fix c c'
  assume "c \<in> set (w_confirmations w)" "w_confirmations w2 = row_put cf_id c' (w_confirmations w)"
    "c' = c\<lparr>cf_consumed_at := Some (w_now w)\<rparr>"
  with prepared_effects [OF assms(1)] show ?thesis by (intro confirmation_put_inv [where c = c and c' = c', OF assms(2)]) simp_all
qed

lemma finalized_inv:
  assumes f: "finalized i r v w d w'" and inv: "auth_inv w"
  shows "auth_inv w'"
proof -
  obtain dt rs perm risk m g where v: "v = (dt, rs, perm, risk, m, g)" by (cases v)
  let ?d = "new_decision i r dt rs perm risk m g w"
  note e = finalized_effects [OF f] and ds = finalized_decision [OF f [unfolded v]]
  have id: "ad_id ?d = w_next w" by (simp add: new_decision_def)
  have mono: "keys_below key (w_next w) t \<Longrightarrow> keys_below key (w_next w') t" for key :: "'q \<Rightarrow> uuid" and t
    using e(4) by (intro keys_below_mono [of key "w_next w" t "w_next w'"]) simp_all
  have ks: "unique_keys ad_id (w_decisions w') \<and> keys_below ad_id (w_next w') (w_decisions w')"
    using inv e(4) keys_below_fresh [of ad_id "w_next w" "w_decisions w" "w_next w"] mono [of ad_id "w_decisions w"]
    by (simp add: ds auth_inv_bound table_simps id)
  have old: "bound_to (w_decisions w') c" if "c \<in> set (w_confirmations w)" for c
    using that inv bound_to_mono [of "w_decisions w" c "w_decisions w'"]
    by (simp add: auth_inv_bound ds table_simps subset_insertI)
  have cs: "unique_keys cf_id (w_confirmations w') \<and> keys_below cf_id (w_next w') (w_confirmations w') \<and>
     (\<forall>c \<in> set (w_confirmations w'). bound_to (w_decisions w') c)"
    using finalized_confirmation [OF f [unfolded v]]
  proof (elim disjE exE conjE)
    assume "w_confirmations w' = w_confirmations w"
    with inv old mono [of cf_id "w_confirmations w"] show ?thesis by (simp add: auth_inv_bound)
  next
    fix p c
    assume c: "dt = REQUIRE_CONFIRMATION" "perm = Some p" "w_next w < cf_id c" "cf_id c < w_next w'"
      "c = (new_confirmation i r (w_next w) p w)\<lparr>cf_id := cf_id c\<rparr>" "w_confirmations w' = row_add c (w_confirmations w)"
    have "bound_to (w_decisions w') ((new_confirmation i r (w_next w) p w)\<lparr>cf_id := cid\<rparr>)" for cid
      unfolding bound_to_def ds
      by (rule bexI [of _ ?d]) (simp_all add: c(1,2) table_simps new_decision_def new_confirmation_def)
    from this [of "cf_id c"] have "bound_to (w_decisions w') c" by (simp only: c(5) [symmetric])
    with c(3,4,6) inv old keys_below_fresh [of cf_id "w_next w" "w_confirmations w" "cf_id c"]
      mono [of cf_id "w_confirmations w"] show ?thesis
      by (simp add: auth_inv_bound table_simps)
  qed
  from ks cs e(2) inv log_grows_keys [OF e(1)] mono [of p_id "w_permissions w"] show ?thesis
    unfolding auth_inv_bound by simp
qed

lemma authorize_inv: "authorize i r w = Inr (d, w') \<Longrightarrow> auth_inv w \<Longrightarrow> auth_inv w'"
  by (erule authorize_verdict) (blast intro: finalized_inv prepared_inv scanned_inv)

lemma consumed_kept:
  assumes inv: "auth_inv w" and con: "consumed_confirmation cid w" and a: "authorize i r w = Inr (d, w')"
  shows "consumed_confirmation cid w'"
proof -
  from a obtain v w1 w2 where sc: "scanned w w1" and pr: "prepared i r v w1 w2" and f: "finalized i r v w2 d w'"
    by (rule authorize_verdict)
  obtain dt rs perm risk m g where v: "v = (dt, rs, perm, risk, m, g)" by (cases v)
  from con obtain x where x: "x \<in> set (w_confirmations w)" "cf_id x = cid" "cf_consumed_at x \<noteq> None"
    by (auto simp: consumed_confirmation_def)
  from sc have eq: "w_confirmations w1 = w_confirmations w" by (simp add: scanned_def same_but_permissions_def)
  have "consumed_confirmation cid w2" using prepared_confirmations [OF pr]
  proof (elim disjE exE conjE)
    assume "w_confirmations w2 = w_confirmations w1"
    with x eq show ?thesis by (auto simp: consumed_confirmation_def)
  next
    fix c c'
    assume c: "c \<in> set (w_confirmations w1)" "w_confirmations w2 = row_put cf_id c' (w_confirmations w1)"
      "c' = c\<lparr>cf_status := CS_EXPIRED\<rparr>"
    show ?thesis
    proof (cases "cf_id c = cid")
      case True
      with x c(1) eq inv have "x = c" by (auto simp: auth_inv_def intro: unique_keys_eq)
      with x c show ?thesis
        unfolding consumed_confirmation_def c(2) by (intro bexI [of _ c'] row_put_intro [of c]) simp_all
    next
      case False
      with x c eq show ?thesis
        unfolding consumed_confirmation_def c(2) by (intro bexI [of _ x] row_put_keep) simp_all
    qed
  next
    fix c c'
    assume c: "c \<in> set (w_confirmations w1)" "w_confirmations w2 = row_put cf_id c' (w_confirmations w1)"
      "c' = c\<lparr>cf_consumed_at := Some (w_now w1)\<rparr>"
    show ?thesis
    proof (cases "cf_id c = cid")
      case True
      with c show ?thesis
        unfolding consumed_confirmation_def c(2) by (intro bexI [of _ c'] row_put_intro [of c]) simp_all
    next
      case False
      with x c eq show ?thesis
        unfolding consumed_confirmation_def c(2) by (intro bexI [of _ x] row_put_keep) simp_all
    qed
  qed
  with finalized_confirmation [OF f [unfolded v]] show ?thesis
    by (auto simp: consumed_confirmation_def table_simps)
qed

text \<open>A decision that needed a confirmation spends it.\<close>

lemma confirmation_result_consumes:
  assumes "fst (confirmation_result i r p risk w) = None" and "policy_requires p risk"
  shows "\<exists>cid. rq_confirmation_id r = Some cid \<and> consumed_confirmation cid (snd (confirmation_result i r p risk w))"
proof -
  from assms obtain cid c where c: "rq_confirmation_id r = Some cid"
    "row_find (\<lambda>c. cf_id c = cid \<and> cf_user_id c = ic_user_id i) (w_confirmations w) = Some c"
    "snd (confirmation_result i r p risk w) = put_confirmation (c\<lparr>cf_consumed_at := Some (w_now w)\<rparr>) w"
    by (auto simp: confirmation_result_def split: option.splits if_splits)
  from row_find_Some [OF c(2)] have "c \<in> set (w_confirmations w)" "cf_id c = cid" by auto
  then have "consumed_confirmation cid (put_confirmation (c\<lparr>cf_consumed_at := Some (w_now w)\<rparr>) w)"
    unfolding consumed_confirmation_def put_confirmation_def
    by (intro bexI [of _ "c\<lparr>cf_consumed_at := Some (w_now w)\<rparr>"]) (auto intro: row_put_intro [of c])
  with c show ?thesis by simp
qed

lemma authorize_allow_spec:
  assumes "authorize i r w = Inr (d, w')" and "dc_decision d = ALLOW"
  obtains cap p a where "admitted i r w cap"
    and "find (eligible i cap (rq_scope r) w) (candidate_permissions i cap w) = Some p"
    and "evaluate_risk cap (rq_action r) = Inr a" and "\<not> financial_blocks cap"
    and "dc_permission_id d = Some (p_id p)" and "dc_risk_level d = ra_risk_level a"
    and "policy_requires p (ra_risk_level a) \<Longrightarrow> confirmation_ok i r p w"
    and "policy_requires p (ra_risk_level a) \<Longrightarrow>
      \<exists>cid. rq_confirmation_id r = Some cid \<and> consumed_confirmation cid w'"
proof -
  from assms(1) obtain v w1 w2 where v: "verdict i r w = Inr v" and sc: "scanned w w1"
    and pr: "prepared i r v w1 w2" and f: "finalized i r v w2 d w'" by (rule authorize_verdict)
  obtain dt rs perm risk m g where t: "v = (dt, rs, perm, risk, m, g)" by (cases v)
  from finalized_shows [OF f] assms(2) have dt: "dt = ALLOW" "dc_permission_id d = map_option p_id perm"
    "dc_risk_level d = risk" by (auto simp: decision_shows_def t)
  from v t dt(1) obtain cap p a where r: "admitted i r w cap"
    "find (eligible i cap (rq_scope r) w) (candidate_permissions i cap w) = Some p"
    "evaluate_risk cap (rq_action r) = Inr a" "\<not> financial_blocks cap"
    "\<not> policy_requires p (ra_risk_level a) \<or> confirmation_ok i r p w" "perm = Some p" "risk = ra_risk_level a"
    by (auto simp: verdict_allow_iff)
  have con: "\<exists>cid. rq_confirmation_id r = Some cid \<and> consumed_confirmation cid w'"
    if "policy_requires p (ra_risk_level a)"
  proof -
    from pr have "fst (confirmation_result i r p (ra_risk_level a) w1) = None"
      "w2 = use_permission p (snd (confirmation_result i r p (ra_risk_level a) w1))"
      by (simp_all add: prepared_def t dt(1) r)
    with confirmation_result_consumes [OF this(1) that] obtain cid where
      "rq_confirmation_id r = Some cid" "consumed_confirmation cid w2" by (auto simp: consumed_confirmation_def)
    with finalized_confirmation [OF f [unfolded t]] dt(1) show ?thesis by (auto simp: consumed_confirmation_def)
  qed
  show thesis by (rule that [OF r(1-4)]) (use dt r con in auto)
qed

lemma confirmation_ok_unspent:
  assumes "confirmation_ok i r p w" and "auth_inv w" and "rq_confirmation_id r = Some cid"
  shows "\<not> consumed_confirmation cid w"
proof
  assume "consumed_confirmation cid w"
  then obtain x where x: "x \<in> set (w_confirmations w)" "cf_id x = cid" "cf_consumed_at x \<noteq> None"
    by (auto simp: consumed_confirmation_def)
  from assms obtain c where c: "row_find (\<lambda>c. cf_id c = cid \<and> cf_user_id c = ic_user_id i) (w_confirmations w) = Some c"
    "cf_consumed_at c = None" by (auto simp: confirmation_ok_def split: option.splits)
  from row_find_Some [OF c(1)] x assms(2) have "x = c" by (auto simp: auth_inv_def intro: unique_keys_eq)
  with x c show False by simp
qed

text \<open>
  C2: The stateful pipeline of authorize (permission scan with expiry marks, consumption of the
  confirmation, persistence) refines the write-free specification verdict: both raise the same
  error or answer the same decision, reasons, permission, risk level and flags.
\<close>

theorem authorize_refines_verdict:
  "map_sum id (\<lambda>(d, w'). answer d) (authorize i r w) = map_sum id verdict_answer (verdict i r w)"
  using authorize_refines [of i r w]
  by (auto simp: answer_def verdict_answer_def decision_shows_def dest!: finalized_shows split: prod.splits)

text \<open>
  C5: A capability that is financial and has an external side effect is always denied, whatever
  permissions and confirmations exist.
\<close>

theorem financial_execution_never_allowed:
  assumes "row_find (\<lambda>c. cap_key c = rq_capability_key r) (w_capabilities w) = Some cap"
    and "financial_blocks cap" and "authorize i r w = Inr (d, w')"
  shows "dc_decision d = DENY"
proof -
  from assms(3) obtain v w1 w2 where v: "verdict i r w = Inr v" and f: "finalized i r v w2 d w'"
    by (rule authorize_verdict)
  have "fst v = DENY"
  proof (cases "\<exists>c. admitted i r w c")
    case False
    from not_admitted [OF False] obtain n rs where
      "verdict i r w = bindE (risk_of n) (\<lambda>level. Inr (DENY, rs, None, level, False, False))" by blast
    with v show ?thesis by (cases "risk_of n") auto
  next
    case True
    with assms(1) have c: "admitted i r w cap" by (auto simp: admitted_def)
    show ?thesis
    proof (cases "find (eligible i cap (rq_scope r) w) (candidate_permissions i cap w)")
      case None
      with v admitted_verdict [OF c] show ?thesis by (cases "risk_of (cap_default_risk_level cap)") auto
    next
      case (Some p)
      with v admitted_verdict [OF c] assms(2) show ?thesis by (auto simp: verdict_with_def split: sum.splits)
    qed
  qed
  with finalized_shows [OF f] show ?thesis by (auto simp: decision_shows_def split: prod.splits)
qed


lemma reason_of_value: "reason_of (reason_value x) = Inr x"
  by (cases x) (simp_all add: reason_of_def all_reasons_def)

lemma reasons_of_values: "reasons_of (map reason_value xs) = Inr xs"
  by (induction xs) (simp_all add: reason_of_value)

lemma risk_of_int: "risk_of (risk_int x) = Inr x"
  by (cases x) (simp_all add: risk_of_def)

lemma row_find_fresh:
  "keys_below key n rows \<Longrightarrow> key r = k \<Longrightarrow> n \<le> k \<Longrightarrow> P r \<Longrightarrow> row_find (\<lambda>x. key x = k \<and> P x) (row_add r rows) = Some r"
  by (induction rows) (auto simp: row_find_def row_add_def keys_below_def)

text \<open>What a decision call persisted is what a later read returns.\<close>

lemma get_owned_decision_after:
  assumes inv: "auth_inv w" and a: "authorize i r w = Inr (d, w')"
  shows "get_owned_decision i (dc_decision_id d) w' = Inr (Some d)"
proof -
  from a obtain v w1 w2 where v: "verdict i r w = Inr v" and sc: "scanned w w1" and pr: "prepared i r v w1 w2"
    and f: "finalized i r v w2 d w'" by (rule authorize_verdict)
  have inv2: "auth_inv w2" using prepared_inv [OF pr scanned_inv [OF sc inv]] .
  obtain dt rs perm risk m g where t: "v = (dt, rs, perm, risk, m, g)" by (cases v)
  let ?a = "new_decision i r dt rs perm risk m g w2"
  have row: "row_find (\<lambda>a. ad_id a = w_next w2 \<and> ad_user_id a = ic_user_id i) (w_decisions w') = Some ?a"
    unfolding finalized_decision [OF f [unfolded t]]
    by (rule row_find_fresh [of _ "w_next w2"]) (use inv2 in \<open>simp_all add: auth_inv_def new_decision_def\<close>)
  have old: "cf_authorization_decision_id c < w_next w2" if "c \<in> set (w_confirmations w2)" for c
    using inv2 that by (force simp: auth_inv_def keys_below_def)
  then have none: "row_find (\<lambda>c. cf_authorization_decision_id c = w_next w2) (w_confirmations w2) = None"
    by (force simp: row_find_None)
  have conf: "map_option cf_id (row_find (\<lambda>c. cf_authorization_decision_id c = w_next w2) (w_confirmations w')) = dc_confirmation_id d"
    using finalized_confirmation [OF f [unfolded t]]
  proof (elim disjE exE conjE)
    fix p c
    assume c: "dc_confirmation_id d = Some (cf_id c)" "c = (new_confirmation i r (w_next w2) p w2)\<lparr>cf_id := cf_id c\<rparr>"
      "w_confirmations w' = row_add c (w_confirmations w2)"
    have "cf_authorization_decision_id c = w_next w2" by (subst c(2)) (simp add: new_confirmation_def)
    with none c(1,3) show ?thesis by (auto simp: row_find_def row_add_def find_append split: option.splits)
  qed (simp add: none)
  from finalized_shows [OF f] have s: "dc_decision d = dt" "dc_reason_codes d = rs" "dc_permission_id d = map_option p_id perm"
    "dc_risk_level d = risk" "dc_scope_match d = m" "dc_financial_guard_triggered d = g"
    by (simp_all add: decision_shows_def t)
  from f have q: "dc_confirmation_required d = (dt = REQUIRE_CONFIRMATION)" by (simp add: finalized_def t)
  show ?thesis
    unfolding get_owned_decision_def finalized_effects(11) [OF f] row option.case
    by (simp add: new_decision_def reasons_of_values risk_of_int conf)
      (rule authorization_decision.equality; simp add: s q finalized_effects(11,12) [OF f])
qed

text \<open>
  C6: The decision that authorize returns is the decision that get_owned_decision reads back from
  the persisted rows, field by field.
\<close>

theorem get_owned_decision_roundtrip:
  assumes "auth_inv w" and "authorize i r w = Inr (d, w')"
  shows "get_owned_decision i (dc_decision_id d) w' = Inr (Some d)"
  using assms by (rule get_owned_decision_after)

text \<open>A request that needs a confirmation opens one, bound to it and alive for five minutes.\<close>

text \<open>
  A REQUIRE_CONFIRMATION answer opens a pending confirmation bound to the user, decision,
  permission, capability, action and scope digest, which expires exactly five minutes later.
\<close>

theorem required_confirmation_is_bound:
  assumes "authorize i r w = Inr (d, w')" and "dc_decision d = REQUIRE_CONFIRMATION"
  shows "\<exists>c \<in> set (w_confirmations w'). dc_confirmation_id d = Some (cf_id c) \<and> cf_status c = CS_PENDING \<and>
    cf_user_id c = ic_user_id i \<and> cf_authorization_decision_id c = dc_decision_id d \<and>
    dc_permission_id d = Some (cf_permission_id c) \<and> cf_capability_key c = rq_capability_key r \<and>
    cf_action c = rq_action r \<and> cf_scope_digest c = scope_digest w (rq_scope r) \<and>
    cf_expires_at c = w_now w + 300 * 1000000 \<and> cf_consumed_at c = None"
proof -
  from assms(1) obtain v w1 w2 where sc: "scanned w w1" and pr: "prepared i r v w1 w2"
    and f: "finalized i r v w2 d w'" by (rule authorize_verdict)
  obtain dt rs perm risk m g where t: "v = (dt, rs, perm, risk, m, g)" by (cases v)
  from finalized_shows [OF f] assms(2) have s: "dt = REQUIRE_CONFIRMATION" "dc_permission_id d = map_option p_id perm"
    by (simp_all add: decision_shows_def t)
  from finalized_confirmation [OF f [unfolded t]] s obtain p c where c: "dc_confirmation_id d = Some (cf_id c)"
    "perm = Some p" "c = (new_confirmation i r (w_next w2) p w2)\<lparr>cf_id := cf_id c\<rparr>"
    "w_confirmations w' = row_add c (w_confirmations w2)" by blast
  have w2: "w_now w2 = w_now w" "scope_digest w2 = scope_digest w"
    using sc prepared_effects [OF pr] by (auto simp: scanned_def same_but_permissions_def scope_digest_def fun_eq_iff)
  define n where "n = (new_confirmation i r (w_next w2) p w2)\<lparr>cf_id := cf_id c\<rparr>"
  have n: "cf_status n = CS_PENDING" "cf_user_id n = ic_user_id i" "cf_authorization_decision_id n = w_next w2"
    "cf_permission_id n = p_id p" "cf_capability_key n = rq_capability_key r" "cf_action n = rq_action r"
    "cf_scope_digest n = scope_digest w (rq_scope r)" "cf_expires_at n = w_now w + 300 * 1000000" "cf_consumed_at n = None"
    by (simp_all add: n_def new_confirmation_def w2 CONFIRMATION_TTL_def)
  have "c = n" using c(3) by (simp add: n_def)
  with n s c finalized_effects(11) [OF f] show ?thesis by (intro bexI [of _ c]) (simp_all add: table_simps)
qed

text \<open>Every decision, and nothing before it, changes the audit log: it is appended to.\<close>

text \<open>
  authorize only appends to the audit log, and what it appends contains the event of its
  decision.
\<close>

theorem every_decision_is_audited:
  assumes "authorize i r w = Inr (d, w')"
  shows "\<exists>es e fs. w_audit w' = w_audit w @ es @ e # fs \<and> ae_decision_id e = Some (dc_decision_id d) \<and>
    ae_event_type e = decision_event (dc_decision d) \<and> ae_user_id e = ic_user_id i"
proof -
  from assms obtain v w1 w2 where sc: "scanned w w1" and pr: "prepared i r v w1 w2" and f: "finalized i r v w2 d w'"
    by (rule authorize_verdict)
  obtain dt rs perm risk m g where t: "v = (dt, rs, perm, risk, m, g)" by (cases v)
  from sc obtain es where "w_audit w1 = w_audit w @ es" by (auto simp: scanned_def log_grows_def)
  moreover from f obtain e fs where "w_audit w' = w_audit w2 @ e # fs" "ae_decision_id e = Some (w_next w2)"
    "ae_event_type e = decision_event dt" "ae_user_id e = ic_user_id i" by (auto simp: finalized_def t)
  moreover have "dc_decision d = dt" using finalized_shows [OF f] by (simp add: decision_shows_def t)
  ultimately show ?thesis using prepared_effects(10) [OF pr] finalized_effects(11) [OF f] by auto
qed

theorem authorize_allow_iff_witness:
  "\<exists>cap p a. admitted sample_identity (sample_request None) (sample_world CP_NEVER) cap \<and>
      find (eligible sample_identity cap sample_scope (sample_world CP_NEVER))
        (candidate_permissions sample_identity cap (sample_world CP_NEVER)) = Some p \<and>
      evaluate_risk cap ''write'' = Inr a \<and> \<not> financial_blocks cap"
proof -
  let ?r = "authorize sample_identity (sample_request None) (sample_world CP_NEVER)"
  have "\<not> isl ?r" "dc_decision (returned ?r) = ALLOW" by code_simp+
  then have "\<exists>d w'. ?r = Inr (d, w') \<and> dc_decision d = ALLOW" 
    by (intro exI conjI) (rule returned_world [of ?r "sample_world CP_NEVER"])
  then show ?thesis
    unfolding authorize_allow_iff by (auto simp: sample_request_def)
qed

theorem financial_execution_never_allowed_witness:
  "dc_decision (returned (authorize sample_identity (sample_request None) sample_bank)) = DENY"
proof (rule financial_execution_never_allowed)
  let ?r = "authorize sample_identity (sample_request None) sample_bank"
  let ?cap = "sample_capability\<lparr>cap_financial := True, cap_external_side_effect := True\<rparr>"
  have ok: "\<not> isl ?r \<and> financial_blocks ?cap \<and>
    row_find (\<lambda>c. cap_key c = rq_capability_key (sample_request None)) (w_capabilities sample_bank) = Some ?cap"
    by code_simp
  then show "?r = Inr (returned ?r, world_after ?r sample_bank)" by (intro returned_world) blast
  show "financial_blocks ?cap" using ok by blast
  show "row_find (\<lambda>c. cap_key c = rq_capability_key (sample_request None)) (w_capabilities sample_bank) = Some ?cap"
    using ok by blast
qed


lemma sample_required:
  "authorize sample_identity (sample_request None) (sample_world CP_EVERY_TIME) =
     Inr (returned (authorize sample_identity (sample_request None) (sample_world CP_EVERY_TIME)),
          world_after (authorize sample_identity (sample_request None) (sample_world CP_EVERY_TIME)) (sample_world CP_EVERY_TIME))"
  "auth_inv (sample_world CP_EVERY_TIME)"
  "dc_decision (returned (authorize sample_identity (sample_request None) (sample_world CP_EVERY_TIME))) = REQUIRE_CONFIRMATION"
proof -
  let ?r = "authorize sample_identity (sample_request None) (sample_world CP_EVERY_TIME)"
  have ok: "\<not> isl ?r \<and> auth_inv (sample_world CP_EVERY_TIME) \<and> dc_decision (returned ?r) = REQUIRE_CONFIRMATION"
    by code_simp
  then show "?r = Inr (returned ?r, world_after ?r (sample_world CP_EVERY_TIME))" by (intro returned_world) blast
  show "auth_inv (sample_world CP_EVERY_TIME)" "dc_decision (returned ?r) = REQUIRE_CONFIRMATION" using ok by blast+
qed

theorem get_owned_decision_roundtrip_witness:
  "let r = authorize sample_identity (sample_request None) (sample_world CP_EVERY_TIME)
   in get_owned_decision sample_identity (dc_decision_id (returned r)) (world_after r (sample_world CP_EVERY_TIME)) =
        Inr (Some (returned r))"
  unfolding Let_def by (rule get_owned_decision_roundtrip [OF sample_required(2,1)])

theorem required_confirmation_is_bound_witness:
  "let r = authorize sample_identity (sample_request None) (sample_world CP_EVERY_TIME)
   in \<exists>c \<in> set (w_confirmations (world_after r (sample_world CP_EVERY_TIME))).
        dc_confirmation_id (returned r) = Some (cf_id c) \<and> cf_expires_at c = 1000 + 300 * 1000000"
  unfolding Let_def using required_confirmation_is_bound [OF sample_required(1,3)] by (auto simp: sample_world_def)

theorem every_decision_is_audited_witness:
  "let r = authorize sample_identity (sample_request None) (sample_world CP_EVERY_TIME)
   in \<exists>e \<in> set (w_audit (world_after r (sample_world CP_EVERY_TIME))). ae_decision_id e = Some (dc_decision_id (returned r))"
  unfolding Let_def using every_decision_is_audited [OF sample_required(1)] by fastforce

end
