(* ===== verification/Authority_Admin.thy ===== *)
theory Authority_Admin
  imports Authority_Engine
begin

text \<open>
  \<^verbatim>\<open>permissions/service.py\<close>: the account-control operations by which a user with a second
  authentication factor grants, lists and revokes permissions and decides confirmations.
\<close>

section \<open>Guards and helpers\<close>

definition require_aal2 :: "identity_context \<Rightarrow> app_error + unit" where
  "require_aal2 i = requireE StepUpAuthenticationRequiredError (ic_authentication_level i = AAL2)"

definition require_owned_active_device :: "uuid \<Rightarrow> uuid \<Rightarrow> 'z id_world_scheme \<Rightarrow> app_error + device" where
  "require_owned_active_device user_id did w =
     (case row_find (\<lambda>d. d_id d = did \<and> d_user_id d = user_id) (w_devices w) of
        None \<Rightarrow> Inl DeviceNotFoundError
      | Some d \<Rightarrow> if d_revoked_at d \<noteq> None then Inl DeviceRevokedError else Inr d)"

definition owned_confirmation ::
  "uuid \<Rightarrow> uuid \<Rightarrow> 'z auth_world_scheme \<Rightarrow> app_error + confirmation_request" where
  "owned_confirmation user_id cid w =
     someE ConfirmationNotFoundError
       (row_find (\<lambda>c. cf_id c = cid \<and> cf_user_id c = user_id) (w_confirmations w))"

definition is_expired :: "permission \<Rightarrow> timestamp \<Rightarrow> bool" where
  "is_expired p now \<longleftrightarrow>
     p_status p = PS_ACTIVE \<and> (case p_expires_at p of None \<Rightarrow> False | Some t \<Rightarrow> at_or_after now t)"

primrec permission_status_value :: "permission_status \<Rightarrow> string" where
  "permission_status_value PS_ACTIVE = ''ACTIVE''"
| "permission_status_value PS_REVOKED = ''REVOKED''"
| "permission_status_value PS_EXPIRED = ''EXPIRED''"

primrec grant_source_value :: "grant_source \<Rightarrow> string" where
  "grant_source_value GS_USER_EXPLICIT = ''USER_EXPLICIT''"
| "grant_source_value GS_SYSTEM_DEFAULT = ''SYSTEM_DEFAULT''"
| "grant_source_value GS_MIGRATION = ''MIGRATION''"

definition put_permission :: "permission \<Rightarrow> 'z auth_world_scheme \<Rightarrow> 'z auth_world_scheme" where
  "put_permission p w = w\<lparr>w_permissions := row_put p_id p (w_permissions w)\<rparr>"

definition observe_expiry ::
  "identity_context \<Rightarrow> permission \<Rightarrow> capability \<Rightarrow> 'z auth_world_scheme \<Rightarrow>
     app_error + permission \<times> 'z auth_world_scheme" where
  "observe_expiry i p cap w =
     (let p' = p\<lparr>p_status := PS_EXPIRED, p_updated_at := w_now w\<rparr>
      in bindE (record_audit
                  ((blank_audit (ic_user_id i) (ic_device_id i) (ic_session_id i) AT_SYSTEM
                      AE_PERMISSION_EXPIRED_OBSERVED AR_RECORDED)
                    \<lparr>aq_capability_key := Some (cap_key cap), aq_permission_id := Some (p_id p),
                     aq_reason_codes := [permission_status_value PS_EXPIRED]\<rparr>)
                  (put_permission p' w)) (\<lambda>w1. Inr (p', w1)))"

section \<open>Permissions\<close>

definition new_permission ::
  "identity_context \<Rightarrow> permission_grant_request \<Rightarrow> capability \<Rightarrow> 'z core_world_scheme \<Rightarrow> permission" where
  "new_permission i g cap w =
     \<lparr>p_id = w_next w, p_user_id = ic_user_id i, p_capability_id = cap_id cap,
      p_device_id = gr_device_id g, p_scope = gr_scope g, p_scope_digest = scope_digest w (gr_scope g),
      p_status = PS_ACTIVE, p_confirmation_policy = gr_confirmation_policy g,
      p_auto_execute = gr_auto_execute g, p_grant_source = GS_USER_EXPLICIT, p_granted_at = w_now w,
      p_expires_at = gr_expires_at g, p_revoked_at = None, p_confirmed_once_at = None,
      p_last_used_at = None, p_reason = gr_reason g, p_created_at = w_now w, p_updated_at = w_now w\<rparr>"

definition add_permission :: "permission \<Rightarrow> 'z auth_world_scheme \<Rightarrow> 'z auth_world_scheme" where
  "add_permission p w = (draw w)\<lparr>w_permissions := row_add p (w_permissions w)\<rparr>"

text \<open>
  The row the idempotence query of \<^verbatim>\<open>grant\<close> selects. The query compares the optional device
  identifier with \<^verbatim>\<open>==\<close>; SQLAlchemy renders a comparison with \<^verbatim>\<open>None\<close> as \<^verbatim>\<open>IS NULL\<close>.
\<close>

definition same_grant ::
  "identity_context \<Rightarrow> permission_grant_request \<Rightarrow> capability \<Rightarrow> 'z core_world_scheme \<Rightarrow> permission \<Rightarrow> bool" where
  "same_grant i g cap w p \<longleftrightarrow>
     p_user_id p = ic_user_id i \<and> p_capability_id p = cap_id cap \<and> p_device_id p = gr_device_id g \<and>
     p_scope_digest p = scope_digest w (gr_scope g) \<and> p_status p = PS_ACTIVE \<and>
     p_confirmation_policy p = gr_confirmation_policy g \<and> p_auto_execute p = gr_auto_execute g"

definition grant_new ::
  "identity_context \<Rightarrow> permission_grant_request \<Rightarrow> capability \<Rightarrow> 'z auth_world_scheme \<Rightarrow>
     app_error + (permission \<times> capability) \<times> 'z auth_world_scheme" where
  "grant_new i g cap w =
     (let p = new_permission i g cap w
      in bindE (record_audit
                  ((blank_audit (ic_user_id i) (ic_device_id i) (ic_session_id i) AT_USER
                      AE_PERMISSION_GRANTED AR_RECORDED)
                    \<lparr>aq_capability_key := Some (cap_key cap), aq_permission_id := Some (p_id p),
                     aq_reason_codes := [grant_source_value GS_USER_EXPLICIT],
                     aq_metadata := [(''scope_digest'', JStr (p_scope_digest p))]\<rparr>)
                  (add_permission p w)) (\<lambda>w1. Inr ((p, cap), w1)))"

definition grant ::
  "identity_context \<Rightarrow> permission_grant_request \<Rightarrow> 'z auth_world_scheme \<Rightarrow>
     app_error + (permission \<times> capability) \<times> 'z auth_world_scheme" where
  "grant i g w =
     bindE (require_aal2 i) (\<lambda>_.
     bindE (requireE InvalidPermissionDataError
              (case gr_expires_at g of None \<Rightarrow> True | Some t \<Rightarrow> w_now w < t)) (\<lambda>_.
     bindE (someE CapabilityNotFoundError
              (row_find (\<lambda>c. cap_key c = gr_capability_key g) (w_capabilities w))) (\<lambda>cap.
     bindE (requireE CapabilityDisabledError (cap_enabled cap)) (\<lambda>_.
     bindE (requireE ActionNotAllowedError (allows_operations cap (sc_operations (gr_scope g)))) (\<lambda>_.
     bindE (case gr_device_id g of
              None \<Rightarrow> Inr ()
            | Some did \<Rightarrow> bindE (require_owned_active_device (ic_user_id i) did w) (\<lambda>_. Inr ())) (\<lambda>_.
     case row_find (same_grant i g cap w) (w_permissions w) of
       None \<Rightarrow> grant_new i g cap w
     | Some existing \<Rightarrow>
         if \<not> is_expired existing (w_now w) then Inr ((existing, cap), w)
         else bindE (observe_expiry i existing cap w) (\<lambda>(_, w1). grant_new i g cap w1)))))))"

text \<open>The capability of a permission row: the inner join of the list and get queries.\<close>

definition capability_by_id :: "uuid \<Rightarrow> 'z auth_world_scheme \<Rightarrow> capability option" where
  "capability_by_id cid w = row_get cap_id cid (w_capabilities w)"

definition joined :: "'z auth_world_scheme \<Rightarrow> permission list \<Rightarrow> (permission \<times> capability) list" where
  "joined w ps =
     concat (map (\<lambda>p. case capability_by_id (p_capability_id p) w of None \<Rightarrow> [] | Some c \<Rightarrow> [(p, c)]) ps)"

fun observe_all ::
  "identity_context \<Rightarrow> (permission \<times> capability) list \<Rightarrow> 'z auth_world_scheme \<Rightarrow>
     app_error + (permission \<times> capability) list \<times> 'z auth_world_scheme" where
  "observe_all i [] w = Inr ([], w)"
| "observe_all i ((p, cap) # rest) w =
     bindE (if is_expired p (w_now w) then observe_expiry i p cap w else Inr (p, w)) (\<lambda>(p', w1).
     bindE (observe_all i rest w1) (\<lambda>(rest', w2). Inr ((p', cap) # rest', w2)))"

definition list_owned_permissions ::
  "identity_context \<Rightarrow> 'z auth_world_scheme \<Rightarrow>
     app_error + (permission \<times> capability) list \<times> 'z auth_world_scheme" where
  "list_owned_permissions i w =
     observe_all i
       (joined w (sort_key (\<lambda>p. (- p_created_at p, p_id p))
                   (filter (\<lambda>p. p_user_id p = ic_user_id i) (w_permissions w)))) w"

definition get_owned_permission ::
  "identity_context \<Rightarrow> uuid \<Rightarrow> 'z auth_world_scheme \<Rightarrow>
     app_error + (permission \<times> capability) \<times> 'z auth_world_scheme" where
  "get_owned_permission i pid w =
     bindE (someE PermissionNotFoundError
              (row_find (\<lambda>p. p_id p = pid \<and> p_user_id p = ic_user_id i) (w_permissions w))) (\<lambda>p.
     bindE (someE PermissionNotFoundError (capability_by_id (p_capability_id p) w)) (\<lambda>cap.
     if is_expired p (w_now w) then
       bindE (observe_expiry i p cap w) (\<lambda>(p', w1). Inr ((p', cap), w1))
     else Inr ((p, cap), w)))"

definition revoke_permission ::
  "identity_context \<Rightarrow> uuid \<Rightarrow> 'z auth_world_scheme \<Rightarrow>
     app_error + (permission \<times> capability) \<times> 'z auth_world_scheme" where
  "revoke_permission i pid w =
     bindE (get_owned_permission i pid w) (\<lambda>((p, cap), w1).
     if p_status p = PS_REVOKED then Inr ((p, cap), w1)
     else
       (let p' = p\<lparr>p_status := PS_REVOKED, p_revoked_at := Some (w_now w1), p_updated_at := w_now w1\<rparr>
        in bindE (record_audit
                    ((blank_audit (ic_user_id i) (ic_device_id i) (ic_session_id i) AT_USER
                        AE_PERMISSION_REVOKED AR_RECORDED)
                      \<lparr>aq_capability_key := Some (cap_key cap), aq_permission_id := Some (p_id p),
                       aq_reason_codes := [permission_status_value PS_REVOKED]\<rparr>)
                    (put_permission p' w1)) (\<lambda>w2. Inr ((p', cap), w2))))"

section \<open>Confirmations\<close>

definition confirmation_audit ::
  "identity_context \<Rightarrow> confirmation_request \<Rightarrow> audit_event_type \<Rightarrow> audit_result \<Rightarrow> audit_record" where
  "confirmation_audit i c event result =
     (blank_audit (ic_user_id i) (ic_device_id i) (ic_session_id i) AT_USER event result)
       \<lparr>aq_capability_key := Some (cf_capability_key c), aq_action := Some (cf_action c),
        aq_permission_id := Some (cf_permission_id c),
        aq_decision_id := Some (cf_authorization_decision_id c), aq_confirmation_id := Some (cf_id c)\<rparr>"

definition approve_confirmation ::
  "identity_context \<Rightarrow> uuid \<Rightarrow> 'z auth_world_scheme \<Rightarrow>
     app_error + confirmation_request \<times> 'z auth_world_scheme" where
  "approve_confirmation i cid w =
     bindE (require_aal2 i) (\<lambda>_.
     bindE (owned_confirmation (ic_user_id i) cid w) (\<lambda>c.
     if at_or_after (w_now w) (cf_expires_at c) then Inl ConfirmationExpiredError
     else (case cf_status c of
        CS_REJECTED \<Rightarrow> Inl ConfirmationRejectedError
      | CS_EXPIRED \<Rightarrow> Inl ConfirmationExpiredError
      | CS_APPROVED \<Rightarrow> Inr (c, w)
      | CS_PENDING \<Rightarrow>
          (let c' = c\<lparr>cf_status := CS_APPROVED, cf_confirmed_at := Some (w_now w)\<rparr>;
               w1 = put_confirmation c' w
           in case row_get p_id (cf_permission_id c') (w_permissions w1) of
                None \<Rightarrow> Inl PermissionNotFoundError
              | Some p \<Rightarrow>
                  if p_user_id p \<noteq> ic_user_id i then Inl PermissionNotFoundError
                  else
                    (let w2 = (if p_confirmation_policy p = CP_ONCE
                               then put_permission
                                      (p\<lparr>p_confirmed_once_at := Some (w_now w), p_updated_at := w_now w\<rparr>) w1
                               else w1)
                     in bindE (record_audit (confirmation_audit i c' AE_CONFIRMATION_APPROVED AR_APPROVED) w2)
                          (\<lambda>w3. Inr (c', w3)))))))"

definition reject_confirmation ::
  "identity_context \<Rightarrow> uuid \<Rightarrow> 'z auth_world_scheme \<Rightarrow>
     app_error + confirmation_request \<times> 'z auth_world_scheme" where
  "reject_confirmation i cid w =
     bindE (require_aal2 i) (\<lambda>_.
     bindE (owned_confirmation (ic_user_id i) cid w) (\<lambda>c.
     if at_or_after (w_now w) (cf_expires_at c) then Inl ConfirmationExpiredError
     else if cf_status c = CS_APPROVED then Inl ConfirmationRejectedError
     else if cf_status c = CS_PENDING then
       (let c' = c\<lparr>cf_status := CS_REJECTED, cf_rejected_at := Some (w_now w)\<rparr>
        in bindE (record_audit (confirmation_audit i c' AE_CONFIRMATION_REJECTED AR_REJECTED)
                    (put_confirmation c' w)) (\<lambda>w1. Inr (c', w1)))
     else Inr (c, w)))"

text \<open>One call on the authority tables, or the clock moving on.\<close>

inductive auth_step :: "'z auth_world_scheme \<Rightarrow> 'z auth_world_scheme \<Rightarrow> bool" where
  authorize: "authorize i r w = Inr (d, w') \<Longrightarrow> auth_step w w'"
| grant: "grant i g w = Inr (x, w') \<Longrightarrow> auth_step w w'"
| list: "list_owned_permissions i w = Inr (xs, w') \<Longrightarrow> auth_step w w'"
| get: "get_owned_permission i pid w = Inr (x, w') \<Longrightarrow> auth_step w w'"
| revoke: "revoke_permission i pid w = Inr (x, w') \<Longrightarrow> auth_step w w'"
| approve: "approve_confirmation i cid w = Inr (c, w') \<Longrightarrow> auth_step w w'"
| reject: "reject_confirmation i cid w = Inr (c, w') \<Longrightarrow> auth_step w w'"
| tick: "w_now w \<le> t \<Longrightarrow> auth_step w (w\<lparr>w_now := t\<rparr>)"

definition revoked_permission :: "uuid \<Rightarrow> 'z auth_world_scheme \<Rightarrow> bool" where
  "revoked_permission pid w \<longleftrightarrow> (\<exists>p \<in> set (w_permissions w). p_id p = pid \<and> p_status p = PS_REVOKED)"

text \<open>
  The writes the account-control operations are made of: an audit event, a permission row added under
  a fresh identifier or rewritten without leaving the revoked state, a confirmation row rewritten
  without losing what it is bound to or its consumption.
\<close>

definition same_binding :: "confirmation_request \<Rightarrow> confirmation_request \<Rightarrow> bool" where
  "same_binding c c' \<longleftrightarrow>
     cf_id c' = cf_id c \<and> cf_user_id c' = cf_user_id c \<and>
     cf_authorization_decision_id c' = cf_authorization_decision_id c \<and> cf_permission_id c' = cf_permission_id c \<and>
     cf_capability_key c' = cf_capability_key c \<and> cf_action c' = cf_action c \<and>
     cf_scope_digest c' = cf_scope_digest c"

inductive admin_write :: "'z auth_world_scheme \<Rightarrow> 'z auth_world_scheme \<Rightarrow> bool" where
  log: "record_audit q w = Inr w' \<Longrightarrow> admin_write w w'"
| add: "p_id p = w_next w \<Longrightarrow> admin_write w (add_permission p w)"
| put: "p \<in> set (w_permissions w) \<Longrightarrow> p_id p' = p_id p \<Longrightarrow>
    (p_status p = PS_REVOKED \<Longrightarrow> p_status p' = PS_REVOKED) \<Longrightarrow> admin_write w (put_permission p' w)"
| confirm: "c \<in> set (w_confirmations w) \<Longrightarrow> same_binding c c' \<Longrightarrow> cf_consumed_at c' = cf_consumed_at c \<Longrightarrow>
    admin_write w (put_confirmation c' w)"

definition sample_approved :: auth_world where
  "sample_approved =
     (let w = sample_world CP_EVERY_TIME; w1 = world_after (authorize sample_identity (sample_request None) w) w
      in world_after (approve_confirmation sample_identity 11 w1) w1)"

definition sample_spent :: auth_world where
  "sample_spent = world_after (authorize sample_identity (sample_request (Some 11)) sample_approved) sample_approved"

definition sample_revoked :: auth_world where
  "sample_revoked = world_after (revoke_permission sample_identity 3 (sample_world CP_NEVER)) (sample_world CP_NEVER)"

lemma put_simps [simp]:
  "w_now (put_permission p w) = w_now w" "w_next (put_permission p w) = w_next w"
  "w_sha256 (put_permission p w) = w_sha256 w" "w_users (put_permission p w) = w_users w"
  "w_devices (put_permission p w) = w_devices w" "w_sessions (put_permission p w) = w_sessions w"
  "w_capabilities (put_permission p w) = w_capabilities w" "w_decisions (put_permission p w) = w_decisions w"
  "w_confirmations (put_permission p w) = w_confirmations w" "w_audit (put_permission p w) = w_audit w"
  "w_permissions (put_permission p w) = row_put p_id p (w_permissions w)"
  "auth_world.more (put_permission p w) = auth_world.more w"
  "w_now (put_confirmation c w) = w_now w" "w_next (put_confirmation c w) = w_next w"
  "w_sha256 (put_confirmation c w) = w_sha256 w" "w_users (put_confirmation c w) = w_users w"
  "w_devices (put_confirmation c w) = w_devices w" "w_sessions (put_confirmation c w) = w_sessions w"
  "w_capabilities (put_confirmation c w) = w_capabilities w" "w_decisions (put_confirmation c w) = w_decisions w"
  "w_permissions (put_confirmation c w) = w_permissions w" "w_audit (put_confirmation c w) = w_audit w"
  "w_confirmations (put_confirmation c w) = row_put cf_id c (w_confirmations w)"
  "auth_world.more (put_confirmation c w) = auth_world.more w"
  by (simp_all add: put_permission_def put_confirmation_def)

lemma add_permission_simps [simp]:
  "w_now (add_permission p w) = w_now w" "w_next (add_permission p w) = Suc (w_next w)"
  "w_sha256 (add_permission p w) = w_sha256 w" "w_users (add_permission p w) = w_users w"
  "w_devices (add_permission p w) = w_devices w" "w_sessions (add_permission p w) = w_sessions w"
  "w_capabilities (add_permission p w) = w_capabilities w" "w_decisions (add_permission p w) = w_decisions w"
  "w_confirmations (add_permission p w) = w_confirmations w" "w_audit (add_permission p w) = w_audit w"
  "w_permissions (add_permission p w) = row_add p (w_permissions w)"
  "auth_world.more (add_permission p w) = auth_world.more w"
  by (simp_all add: add_permission_def)

lemma observe_expiry_writes:
  assumes "observe_expiry i p cap w = Inr (x, w')" and "p \<in> set (w_permissions w)" and "p_status p \<noteq> PS_REVOKED"
  shows "admin_write\<^sup>*\<^sup>* w w' \<and> x = p\<lparr>p_status := PS_EXPIRED, p_updated_at := w_now w\<rparr> \<and> x \<in> set (w_permissions w') \<and>
    w_permissions w' = row_put p_id x (w_permissions w)"
proof -
  let ?p = "p\<lparr>p_status := PS_EXPIRED, p_updated_at := w_now w\<rparr>"
  from assms(1) obtain q where q: "record_audit q (put_permission ?p w) = Inr w'" and x: "x = ?p"
    unfolding observe_expiry_def Let_def bindE_eq_Inr sum.inject prod.inject by blast
  have "admin_write w (put_permission ?p w)" using assms by (intro admin_write.put [of p]) simp_all
  moreover have "admin_write (put_permission ?p w) w'" using q by (rule admin_write.log)
  moreover have "w_permissions w' = row_put p_id x (w_permissions w)" using q x by (auto simp: record_audit_Inr)
  moreover from this have "x \<in> set (w_permissions w')" using assms(2) x by (simp add: row_put_intro [of p])
  ultimately show ?thesis using x by (simp add: rtranclp.rtrancl_into_rtrancl r_into_rtranclp)
qed

lemma is_expired_active: "is_expired p t \<Longrightarrow> p_status p \<noteq> PS_REVOKED"
  by (simp add: is_expired_def)

lemma get_owned_permission_parts:
  assumes "get_owned_permission i pid w = Inr ((x, cap), w')"
  shows "\<exists>p. p \<in> set (w_permissions w) \<and> p_id p = pid \<and> p_user_id p = ic_user_id i \<and>
    capability_by_id (p_capability_id p) w = Some cap \<and>
    (if is_expired p (w_now w) then observe_expiry i p cap w = Inr (x, w') else x = p \<and> w' = w)"
proof -
  from assms obtain p where "row_find (\<lambda>p. p_id p = pid \<and> p_user_id p = ic_user_id i) (w_permissions w) = Some p"
    "capability_by_id (p_capability_id p) w = Some cap"
    "if is_expired p (w_now w) then observe_expiry i p cap w = Inr (x, w') else x = p \<and> w' = w"
    by (auto simp: get_owned_permission_def result_simps split: if_splits)
  with row_find_Some [OF this(1)] show ?thesis by blast
qed

lemma get_owned_permission_writes:
  assumes "get_owned_permission i pid w = Inr ((x, cap), w')"
  shows "admin_write\<^sup>*\<^sup>* w w' \<and> x \<in> set (w_permissions w') \<and> p_id x = pid \<and> p_user_id x = ic_user_id i"
proof -
  from get_owned_permission_parts [OF assms] obtain p where p: "p \<in> set (w_permissions w)" "p_id p = pid"
    "p_user_id p = ic_user_id i"
    "if is_expired p (w_now w) then observe_expiry i p cap w = Inr (x, w') else x = p \<and> w' = w" by blast
  show ?thesis
  proof (cases "is_expired p (w_now w)")
    case True
    with p observe_expiry_writes [of i p cap w x w'] is_expired_active show ?thesis by auto
  next
    case False
    with p show ?thesis by simp
  qed
qed

lemma revoke_permission_writes:
  assumes "revoke_permission i pid w = Inr ((x, cap), w')"
  shows "admin_write\<^sup>*\<^sup>* w w' \<and> revoked_permission pid w' \<and> p_id x = pid \<and> p_status x = PS_REVOKED"
proof -
  from assms obtain p cap' w1 where g: "get_owned_permission i pid w = Inr ((p, cap'), w1)"
    and k: "(if p_status p = PS_REVOKED then Inr ((p, cap'), w1)
     else
       (let p' = p\<lparr>p_status := PS_REVOKED, p_revoked_at := Some (w_now w1), p_updated_at := w_now w1\<rparr>
        in bindE (record_audit
                    ((blank_audit (ic_user_id i) (ic_device_id i) (ic_session_id i) AT_USER
                        AE_PERMISSION_REVOKED AR_RECORDED)
                      \<lparr>aq_capability_key := Some (cap_key cap'), aq_permission_id := Some (p_id p),
                       aq_reason_codes := [permission_status_value PS_REVOKED]\<rparr>)
                    (put_permission p' w1)) (\<lambda>w2. Inr ((p', cap'), w2)))) = Inr ((x, cap), w')"
    unfolding revoke_permission_def bindE_eq_Inr by (auto simp del: permission_status_value.simps)
  from get_owned_permission_writes [OF g] have p: "admin_write\<^sup>*\<^sup>* w w1" "p \<in> set (w_permissions w1)" "p_id p = pid"
    by blast+
  show ?thesis
  proof (cases "p_status p = PS_REVOKED")
    case True
    with k p show ?thesis by (auto simp: revoked_permission_def)
  next
    case False
    let ?p = "p\<lparr>p_status := PS_REVOKED, p_revoked_at := Some (w_now w1), p_updated_at := w_now w1\<rparr>"
    from k obtain q where q: "record_audit q (put_permission ?p w1) = Inr w'" and x: "x = ?p"
      unfolding Let_def if_not_P [OF False] bindE_eq_Inr sum.inject prod.inject by blast
    have "admin_write w1 (put_permission ?p w1)" using p by (intro admin_write.put [of p]) simp_all
    with admin_write.log [OF q] p(1) have "admin_write\<^sup>*\<^sup>* w w'" by (meson rtranclp.rtrancl_into_rtrancl)
    moreover have "?p \<in> set (w_permissions w')" using q row_put_intro [of p "w_permissions w1" p_id ?p] p
      by (auto simp: record_audit_Inr)
    moreover from this have "revoked_permission pid w'"
      unfolding revoked_permission_def by (rule bexI [rotated]) (simp add: p)
    ultimately show ?thesis using p x by simp
  qed
qed

lemma observe_all_writes:
  "observe_all i xs w = Inr (ys, w') \<Longrightarrow> distinct (map (p_id \<circ> fst) xs) \<Longrightarrow> \<forall>x \<in> set xs. fst x \<in> set (w_permissions w) \<Longrightarrow>
     admin_write\<^sup>*\<^sup>* w w'"
proof (induction xs arbitrary: w ys)
  case (Cons x xs)
  obtain p cap where x: "x = (p, cap)" by fastforce
  from Cons.prems(1) obtain p' w1 zs where h: "(if is_expired p (w_now w) then observe_expiry i p cap w else Inr (p, w)) = Inr (p', w1)"
    and t: "observe_all i xs w1 = Inr (zs, w')"
    unfolding x observe_all.simps bindE_eq_Inr by (auto split: prod.splits simp: bindE_eq_Inr)
  have p: "p \<in> set (w_permissions w)" using Cons.prems(3) x by simp
  have w1: "admin_write\<^sup>*\<^sup>* w w1 \<and> (w1 = w \<or> p_id p' = p_id p \<and> w_permissions w1 = row_put p_id p' (w_permissions w))"
  proof (cases "is_expired p (w_now w)")
    case True
    with h observe_expiry_writes [of i p cap w p' w1] p is_expired_active show ?thesis by auto
  qed (use h in auto)
  have "\<forall>y \<in> set xs. fst y \<in> set (w_permissions w1)"
  proof
    fix y
    assume y: "y \<in> set xs"
    with Cons.prems(2) x have "p_id (fst y) \<noteq> p_id p" by (auto simp: image_iff)
    with y w1 Cons.prems(3) show "fst y \<in> set (w_permissions w1)" by (auto intro!: row_put_keep)
  qed
  with Cons.IH [OF t] Cons.prems(2) w1 show ?case by (auto intro: rtranclp_trans)
qed simp

lemma joined_rows:
  "set (map fst (joined w ps)) \<subseteq> set ps" "distinct (map p_id ps) \<Longrightarrow> distinct (map (p_id \<circ> fst) (joined w ps))"
proof -
  show sub: "set (map fst (joined w ps)) \<subseteq> set ps" for ps
    by (induction ps) (auto simp: joined_def split: option.splits)
  show "distinct (map p_id ps) \<Longrightarrow> distinct (map (p_id \<circ> fst) (joined w ps))"
  proof (induction ps)
    case (Cons p ps)
    have "p_id p \<notin> (p_id \<circ> fst) ` set (joined w ps)" using sub [of ps] Cons.prems by auto
    with Cons show ?case by (auto simp: joined_def split: option.split)
  qed (simp add: joined_def)
qed

lemma list_owned_writes:
  assumes "list_owned_permissions i w = Inr (xs, w')" and "unique_keys p_id (w_permissions w)"
  shows "admin_write\<^sup>*\<^sup>* w w'"
proof (rule observe_all_writes)
  let ?ps = "sort_key (\<lambda>p. (- p_created_at p, p_id p)) (filter (\<lambda>p. p_user_id p = ic_user_id i) (w_permissions w))"
  show "observe_all i (joined w ?ps) w = Inr (xs, w')" using assms(1) by (simp add: list_owned_permissions_def)
  have "distinct (map p_id (filter (\<lambda>p. p_user_id p = ic_user_id i) (w_permissions w)))"
    using assms(2) by (simp add: unique_keys_def distinct_map_filter)
  then have "distinct (map p_id ?ps)" by (simp add: distinct_map)
  then show "distinct (map (p_id \<circ> fst) (joined w ?ps))" by (rule joined_rows)
  show "\<forall>x \<in> set (joined w ?ps). fst x \<in> set (w_permissions w)" using joined_rows(1) [of w ?ps] by fastforce
qed

lemma grant_new_writes:
  assumes "grant_new i g cap w = Inr ((p, cap'), w')"
  shows "admin_write\<^sup>*\<^sup>* w w' \<and> p = new_permission i g cap w \<and> p \<in> set (w_permissions w')"
proof -
  let ?p = "new_permission i g cap w"
  from assms obtain q where q: "record_audit q (add_permission ?p w) = Inr w'" and p: "p = ?p"
    unfolding grant_new_def Let_def bindE_eq_Inr sum.inject prod.inject by blast
  have "admin_write w (add_permission ?p w)" by (rule admin_write.add) (simp add: new_permission_def)
  with admin_write.log [OF q] have "admin_write\<^sup>*\<^sup>* w w'" by (meson rtranclp.rtrancl_into_rtrancl r_into_rtranclp)
  moreover have "?p \<in> set (w_permissions w')" using q by (auto simp: record_audit_Inr table_simps)
  ultimately show ?thesis using p by simp
qed

lemma grant_parts:
  assumes "grant i g w = Inr ((p, cap'), w')"
  shows "\<exists>cap. ic_authentication_level i = AAL2 \<and> (case gr_expires_at g of None \<Rightarrow> True | Some t \<Rightarrow> w_now w < t) \<and>
    row_find (\<lambda>c. cap_key c = gr_capability_key g) (w_capabilities w) = Some cap \<and> cap_enabled cap \<and>
    allows_operations cap (sc_operations (gr_scope g)) \<and>
    (case gr_device_id g of None \<Rightarrow> True | Some did \<Rightarrow> \<exists>d. require_owned_active_device (ic_user_id i) did w = Inr d) \<and>
    (case row_find (same_grant i g cap w) (w_permissions w) of
       None \<Rightarrow> grant_new i g cap w = Inr ((p, cap'), w')
     | Some e \<Rightarrow> if \<not> is_expired e (w_now w) then (p, cap') = (e, cap) \<and> w' = w
         else (\<exists>e' w1. observe_expiry i e cap w = Inr (e', w1) \<and> grant_new i g cap w1 = Inr ((p, cap'), w')))"
  using assms unfolding grant_def require_aal2_def
  by (auto simp: result_simps split: option.splits if_splits)

lemma grant_writes:
  assumes "grant i g w = Inr ((p, cap'), w')"
  shows "admin_write\<^sup>*\<^sup>* w w' \<and> p \<in> set (w_permissions w')"
proof -
  from grant_parts [OF assms] obtain cap where
    k: "case row_find (same_grant i g cap w) (w_permissions w) of
       None \<Rightarrow> grant_new i g cap w = Inr ((p, cap'), w')
     | Some e \<Rightarrow> if \<not> is_expired e (w_now w) then (p, cap') = (e, cap) \<and> w' = w
         else (\<exists>e' w1. observe_expiry i e cap w = Inr (e', w1) \<and> grant_new i g cap w1 = Inr ((p, cap'), w'))" by blast
  show ?thesis
  proof (cases "row_find (same_grant i g cap w) (w_permissions w)")
    case None
    with k have "grant_new i g cap w = Inr ((p, cap'), w')" by simp
    from grant_new_writes [OF this] show ?thesis by blast
  next
    case (Some e)
    note e = row_find_Some [OF this]
    show ?thesis
    proof (cases "is_expired e (w_now w)")
      case True
      with k Some obtain e' w1 where "observe_expiry i e cap w = Inr (e', w1)" "grant_new i g cap w1 = Inr ((p, cap'), w')"
        by auto
      with e True observe_expiry_writes is_expired_active grant_new_writes show ?thesis
        by (metis rtranclp_trans)
    next
      case False
      with k Some e show ?thesis by auto
    qed
  qed
qed

lemma approve_confirmation_parts:
  assumes "approve_confirmation i cid w = Inr (c', w')"
  shows "\<exists>c. ic_authentication_level i = AAL2 \<and> c \<in> set (w_confirmations w) \<and> cf_id c = cid \<and> cf_user_id c = ic_user_id i \<and>
    w_now w < cf_expires_at c \<and>
    (cf_status c = CS_APPROVED \<and> c' = c \<and> w' = w \<or>
     cf_status c = CS_PENDING \<and> c' = c\<lparr>cf_status := CS_APPROVED, cf_confirmed_at := Some (w_now w)\<rparr> \<and>
     (\<exists>p q. p \<in> set (w_permissions w) \<and> p_id p = cf_permission_id c \<and> p_user_id p = ic_user_id i \<and>
        record_audit q (if p_confirmation_policy p = CP_ONCE
           then put_permission (p\<lparr>p_confirmed_once_at := Some (w_now w), p_updated_at := w_now w\<rparr>) (put_confirmation c' w)
           else put_confirmation c' w) = Inr w'))"
proof -
  from assms obtain c where aal: "ic_authentication_level i = AAL2"
    and f: "row_find (\<lambda>c. cf_id c = cid \<and> cf_user_id c = ic_user_id i) (w_confirmations w) = Some c"
    and t: "\<not> at_or_after (w_now w) (cf_expires_at c)"
    unfolding approve_confirmation_def require_aal2_def owned_confirmation_def
    by (auto simp: result_simps split: if_splits)
  let ?c = "c\<lparr>cf_status := CS_APPROVED, cf_confirmed_at := Some (w_now w)\<rparr>"
  show ?thesis
  proof (cases "cf_status c")
    case CS_PENDING
    from assms aal f t CS_PENDING obtain p where p: "row_get p_id (cf_permission_id c) (w_permissions w) = Some p"
      "p_user_id p = ic_user_id i"
      "bindE (record_audit (confirmation_audit i ?c AE_CONFIRMATION_APPROVED AR_APPROVED)
         (if p_confirmation_policy p = CP_ONCE
          then put_permission (p\<lparr>p_confirmed_once_at := Some (w_now w), p_updated_at := w_now w\<rparr>) (put_confirmation ?c w)
          else put_confirmation ?c w)) (\<lambda>w3. Inr (?c, w3)) = Inr (c', w')"
      unfolding approve_confirmation_def require_aal2_def owned_confirmation_def
      by (auto simp: Let_def split: option.splits if_splits)
    from p(3) obtain q where q: "record_audit q (if p_confirmation_policy p = CP_ONCE
          then put_permission (p\<lparr>p_confirmed_once_at := Some (w_now w), p_updated_at := w_now w\<rparr>) (put_confirmation ?c w)
          else put_confirmation ?c w) = Inr w'" and c': "c' = ?c"
      unfolding bindE_eq_Inr sum.inject prod.inject by blast
    from row_find_Some [OF f] row_get_Some [OF p(1)] aal t CS_PENDING p(2) q show ?thesis
      unfolding c' by (intro exI [of _ c] conjI disjI2 exI [of _ p] exI [of _ q])
        (simp_all add: at_or_after_def split del: if_split)
  qed (use assms aal f t row_find_Some [OF f] in
      \<open>auto simp: approve_confirmation_def require_aal2_def owned_confirmation_def at_or_after_def\<close>)
qed

lemma reject_confirmation_parts:
  assumes "reject_confirmation i cid w = Inr (c', w')"
  shows "\<exists>c. ic_authentication_level i = AAL2 \<and> c \<in> set (w_confirmations w) \<and> cf_id c = cid \<and> cf_user_id c = ic_user_id i \<and>
    w_now w < cf_expires_at c \<and> cf_status c \<noteq> CS_APPROVED \<and>
    (cf_status c \<noteq> CS_PENDING \<and> c' = c \<and> w' = w \<or>
     cf_status c = CS_PENDING \<and> c' = c\<lparr>cf_status := CS_REJECTED, cf_rejected_at := Some (w_now w)\<rparr> \<and>
     (\<exists>q. record_audit q (put_confirmation c' w) = Inr w'))"
proof -
  from assms obtain c where aal: "ic_authentication_level i = AAL2"
    and f: "row_find (\<lambda>c. cf_id c = cid \<and> cf_user_id c = ic_user_id i) (w_confirmations w) = Some c"
    and t: "\<not> at_or_after (w_now w) (cf_expires_at c)" "cf_status c \<noteq> CS_APPROVED"
    unfolding reject_confirmation_def require_aal2_def owned_confirmation_def
    by (auto simp: result_simps split: if_splits)
  let ?c = "c\<lparr>cf_status := CS_REJECTED, cf_rejected_at := Some (w_now w)\<rparr>"
  show ?thesis
  proof (cases "cf_status c = CS_PENDING")
    case True
    from assms aal f t True have "bindE (record_audit (confirmation_audit i ?c AE_CONFIRMATION_REJECTED AR_REJECTED)
        (put_confirmation ?c w)) (\<lambda>w1. Inr (?c, w1)) = Inr (c', w')"
      by (simp add: reject_confirmation_def require_aal2_def owned_confirmation_def Let_def)
    then obtain q where "record_audit q (put_confirmation ?c w) = Inr w'" "c' = ?c"
      unfolding bindE_eq_Inr sum.inject prod.inject by blast
    with row_find_Some [OF f] aal t True show ?thesis by (intro exI [of _ c]) (auto simp: at_or_after_def)
  qed (use assms aal f t row_find_Some [OF f] in
      \<open>auto simp: reject_confirmation_def require_aal2_def owned_confirmation_def at_or_after_def\<close>)
qed

lemma approve_confirmation_writes:
  assumes "approve_confirmation i cid w = Inr (c', w')"
  shows "admin_write\<^sup>*\<^sup>* w w'"
proof -
  from approve_confirmation_parts [OF assms] obtain c where c: "c \<in> set (w_confirmations w)"
    and k: "w' = w \<or> c' = c\<lparr>cf_status := CS_APPROVED, cf_confirmed_at := Some (w_now w)\<rparr> \<and>
     (\<exists>p q. p \<in> set (w_permissions w) \<and>
        record_audit q (if p_confirmation_policy p = CP_ONCE
           then put_permission (p\<lparr>p_confirmed_once_at := Some (w_now w), p_updated_at := w_now w\<rparr>) (put_confirmation c' w)
           else put_confirmation c' w) = Inr w')" by blast
  from k show ?thesis
  proof (elim disjE conjE exE)
    fix p :: permission and q
    let ?p = "p\<lparr>p_confirmed_once_at := Some (w_now w), p_updated_at := w_now w\<rparr>"
    let ?w1 = "put_confirmation c' w"
    let ?w2 = "if p_confirmation_policy p = CP_ONCE then put_permission ?p ?w1 else ?w1"
    assume c': "c' = c\<lparr>cf_status := CS_APPROVED, cf_confirmed_at := Some (w_now w)\<rparr>"
      and p: "p \<in> set (w_permissions w)" and q: "record_audit q ?w2 = Inr w'"
    have "admin_write w ?w1"
      using c c' by (intro admin_write.confirm [of c]) (simp_all add: same_binding_def)
    moreover have "admin_write ?w1 (put_permission ?p ?w1)" using p by (intro admin_write.put [of p]) simp_all
    ultimately have "admin_write\<^sup>*\<^sup>* w ?w2" by auto
    with admin_write.log [OF q] show ?thesis by (rule rtranclp.rtrancl_into_rtrancl [rotated])
  qed simp
qed

lemma reject_confirmation_writes:
  assumes "reject_confirmation i cid w = Inr (c', w')"
  shows "admin_write\<^sup>*\<^sup>* w w'"
proof -
  from reject_confirmation_parts [OF assms] obtain c where c: "c \<in> set (w_confirmations w)"
    and k: "w' = w \<or> c' = c\<lparr>cf_status := CS_REJECTED, cf_rejected_at := Some (w_now w)\<rparr> \<and>
     (\<exists>q. record_audit q (put_confirmation c' w) = Inr w')" by blast
  from k show ?thesis
  proof (elim disjE conjE exE)
    fix q
    assume c': "c' = c\<lparr>cf_status := CS_REJECTED, cf_rejected_at := Some (w_now w)\<rparr>"
      and q: "record_audit q (put_confirmation c' w) = Inr w'"
    have "admin_write w (put_confirmation c' w)"
      using c c' by (intro admin_write.confirm [of c]) (simp_all add: same_binding_def)
    with admin_write.log [OF q] show ?thesis by (meson rtranclp.rtrancl_into_rtrancl r_into_rtranclp)
  qed simp
qed

lemma bound_to_same: "bound_to ds c \<Longrightarrow> same_binding c c' \<Longrightarrow> bound_to ds c'"
  by (auto simp: bound_to_def same_binding_def)

lemma admin_write_inv: "admin_write w w' \<Longrightarrow> auth_inv w \<Longrightarrow> auth_inv w'"
proof (induction rule: admin_write.induct)
  case (log q w w')
  from log(1) have t: "w_permissions w' = w_permissions w" "w_decisions w' = w_decisions w"
    "w_confirmations w' = w_confirmations w" "w_next w' = Suc (w_next w)" by (auto simp: record_audit_Inr)
  from log_grows_keys [OF log_grows_record [OF log(1)]] log(2) show ?case
    unfolding auth_inv_bound t by (simp add: keys_below_Suc)
next
  case (add p w)
  then show ?case
    using keys_below_fresh [of p_id "w_next w" "w_permissions w" "w_next w"]
    unfolding auth_inv_bound by (simp add: table_simps keys_below_Suc)
next
  case (put p w p')
  then show ?case unfolding auth_inv_bound by (simp add: table_simps)
next
  case (confirm c w c')
  have "bound_to (w_decisions w) x" if "x \<in> set (row_put cf_id c' (w_confirmations w))" for x
    using row_put_mem [OF that] confirm bound_to_same by (auto simp: auth_inv_bound)
  with confirm show ?case unfolding auth_inv_bound by (simp add: table_simps)
qed

lemma admin_write_revoked:
  "admin_write w w' \<Longrightarrow> auth_inv w \<Longrightarrow> revoked_permission pid w \<Longrightarrow> revoked_permission pid w'"
proof (induction rule: admin_write.induct)
  case (log q w w')
  then show ?case by (auto simp: record_audit_Inr revoked_permission_def)
next
  case (add p w)
  then show ?case by (auto simp: revoked_permission_def table_simps)
next
  case (put p w p')
  from put.prems(2) obtain x where x: "x \<in> set (w_permissions w)" "p_id x = pid" "p_status x = PS_REVOKED"
    by (auto simp: revoked_permission_def)
  show ?case
  proof (cases "p_id p = pid")
    case True
    with x put have "x = p" by (auto simp: auth_inv_def intro: unique_keys_eq)
    with put x show ?thesis by (auto simp: revoked_permission_def intro!: bexI [of _ p'] row_put_intro [of p])
  next
    case False
    with put x show ?thesis by (auto simp: revoked_permission_def intro!: bexI [of _ x] row_put_keep)
  qed
qed (simp add: revoked_permission_def)

lemma admin_write_consumed:
  "admin_write w w' \<Longrightarrow> auth_inv w \<Longrightarrow> consumed_confirmation cid w \<Longrightarrow> consumed_confirmation cid w'"
proof (induction rule: admin_write.induct)
  case (log q w w')
  then show ?case by (auto simp: record_audit_Inr consumed_confirmation_def)
next
  case (confirm c w c')
  from confirm.prems(2) obtain x where x: "x \<in> set (w_confirmations w)" "cf_id x = cid" "cf_consumed_at x \<noteq> None"
    by (auto simp: consumed_confirmation_def)
  have id: "cf_id c' = cf_id c" using confirm by (simp add: same_binding_def)
  show ?case
  proof (cases "cf_id c = cid")
    case True
    with x confirm have "x = c" by (auto simp: auth_inv_def intro: unique_keys_eq)
    with confirm x id have "c' \<in> set (row_put cf_id c' (w_confirmations w))" "cf_id c' = cid" "cf_consumed_at c' \<noteq> None"
      by (simp_all add: row_put_intro [of c])
    then show ?thesis by (auto simp: consumed_confirmation_def)
  next
    case False
    with id x have "x \<in> set (row_put cf_id c' (w_confirmations w))" by (simp add: row_put_keep)
    with x show ?thesis by (auto simp: consumed_confirmation_def)
  qed
qed (simp_all add: consumed_confirmation_def)

lemma admin_writes_keep:
  "admin_write\<^sup>*\<^sup>* w w' \<Longrightarrow> auth_inv w \<Longrightarrow>
     auth_inv w' \<and> (revoked_permission pid w \<longrightarrow> revoked_permission pid w') \<and>
     (consumed_confirmation cid w \<longrightarrow> consumed_confirmation cid w')"
  by (induction rule: rtranclp_induct) (auto intro: admin_write_inv admin_write_revoked admin_write_consumed)

lemma scan_keeps:
  "scan_permissions i cap req f ps w = Inr (y, w') \<Longrightarrow> x \<in> set (w_permissions w) \<Longrightarrow>
     \<forall>p \<in> set ps. p_id p = p_id x \<longrightarrow> p_status p \<noteq> PS_ACTIVE \<Longrightarrow> x \<in> set (w_permissions w')"
proof (induction ps arbitrary: f w)
  case (Cons p ps)
  show ?case
  proof (cases "p_status p \<noteq> PS_REVOKED \<and> permission_lapsed (w_now w) p")
    case True
    with Cons.prems obtain w1 where w1: "observe_expired i cap p w = Inr w1"
      "scan_permissions i cap req (f\<lparr>saw_expired := True\<rparr>) ps w1 = Inr (y, w')" by (auto simp: result_simps)
    have "x \<in> set (w_permissions w1)"
    proof (cases "p_status p = PS_ACTIVE")
      case True
      with Cons.prems(3) have "p_id x \<noteq> p_id p" by auto
      with w1 Cons.prems(2) True show ?thesis by (auto simp: observe_expired_def record_audit_Inr intro!: row_put_keep)
    qed (use w1 Cons.prems(2) in \<open>simp add: observe_expired_def\<close>)
    with Cons.IH [OF w1(2)] Cons.prems(3) show ?thesis by simp
  next
    case False
    with Cons.prems have "w' = w \<or> (\<exists>f'. scan_permissions i cap req f' ps w = Inr (y, w'))"
      by (auto simp: Let_def split: if_splits option.splits)
    with Cons.IH [of _ w] Cons.prems show ?thesis by auto
  qed
qed simp

lemma candidate_mem: "p \<in> set (candidate_permissions i cap w) \<Longrightarrow>
    p \<in> set (w_permissions w) \<and> p_user_id p = ic_user_id i \<and> p_capability_id p = cap_id cap"
  by (auto simp: candidate_permissions_def)

lemma selected_mem:
  assumes "find (eligible i cap req w) (candidate_permissions i cap w) = Some p"
  shows "p \<in> set (w_permissions w)" "p_user_id p = ic_user_id i" "p_capability_id p = cap_id cap" "eligible i cap req w p"
  using find_mem [OF assms] candidate_mem [of p i cap w] by auto

text \<open>A revoked row survives the selection and the use of another permission unchanged.\<close>

lemma find_permission_revoked:
  assumes "auth_inv w" and "find_permission i cap req w = Inr (y, w1)" and "x \<in> set (w_permissions w)"
    and "p_status x = PS_REVOKED"
  shows "x \<in> set (w_permissions w1)"
proof (cases "candidate_permissions i cap w = []")
  case True
  with assms show ?thesis by (simp add: find_permission_def)
next
  case False
  with assms(2) have s: "scan_permissions i cap req scan_start (candidate_permissions i cap w) w = Inr (y, w1)"
    by (simp add: find_permission_def Let_def)
  have "p_status p \<noteq> PS_ACTIVE" if "p \<in> set (candidate_permissions i cap w)" "p_id p = p_id x" for p
  proof -
    have "p = x" using candidate_mem [OF that(1)] that(2) assms(1,3) by (auto simp: auth_inv_def intro: unique_keys_eq)
    with assms(4) show ?thesis by simp
  qed
  then show ?thesis by (intro scan_keeps [OF s assms(3)]) blast
qed

lemma finalize_permissions: "finalize i r dt rs perm risk m g w = Inr (d, w') \<Longrightarrow> w_permissions w' = w_permissions w"
  using finalize_Inr [of dt perm i r rs risk m g w]
  by (cases "dt = REQUIRE_CONFIRMATION \<and> perm = None") (auto simp: finalize_def Let_def dest: finalized_effects)

lemma authorize_with_revoked:
  assumes a: "authorize_with i r cap p w = Inr (d, w')" and x: "x \<in> set (w_permissions w)"
    and "p_id p \<noteq> p_id x"
  shows "x \<in> set (w_permissions w')"
proof -
  from authorize_with_Inr [of i r cap p w] a obtain w2 where
    pr: "prepared i r (verdict_with i r cap p w) w w2" and f: "finalized i r (verdict_with i r cap p w) w2 d w'" by auto
  have "fst (snd (snd (verdict_with i r cap p w))) = Some p"
    by (auto simp: verdict_with_def split: sum.splits prod.splits)
  with pr x assms(3) have "x \<in> set (w_permissions w2)"
    by (auto simp: prepared_def confirmation_result_frame use_permission_def intro!: row_put_keep)
  with finalized_effects(2) [OF f] show ?thesis by simp
qed

lemma authorize_revoked_kept:
  assumes inv: "auth_inv w" and a: "authorize i r w = Inr (d, w')" and "revoked_permission pid w"
  shows "revoked_permission pid w'"
proof -
  from assms(3) obtain x where x: "x \<in> set (w_permissions w)" "p_id x = pid" "p_status x = PS_REVOKED"
    by (auto simp: revoked_permission_def)
  have "x \<in> set (w_permissions w')"
  proof (cases "\<exists>cap. admitted i r w cap")
    case False
    from not_admitted [OF False] obtain n rs where
      "authorize i r w = bindE (risk_of n) (\<lambda>level. finalize i r DENY rs None level False False w)" by blast
    then obtain level where "finalize i r DENY rs None level False False w = Inr (d, w')"
      using a by (cases "risk_of n") simp_all
    with finalize_permissions x show ?thesis by metis
  next
    case True
    then obtain cap where cap: "admitted i r w cap" by blast
    from find_permission_spec [of w i cap "rq_scope r"] obtain w1 where w1: "same_but_permissions w w1"
      "find_permission i cap (rq_scope r) w =
         Inr ((case find (eligible i cap (rq_scope r) w) (candidate_permissions i cap w) of
               Some p \<Rightarrow> (Some p, DR_AUTHORIZED, True)
             | None \<Rightarrow> (None, failure_reason i cap (rq_scope r) w (candidate_permissions i cap w),
                        \<exists>p \<in> set (candidate_permissions i cap w). covers cap (rq_scope r) (w_now w) p)), w1)" by blast
    note x1 = find_permission_revoked [OF inv w1(2) x(1,3)]
    show ?thesis
    proof (cases "find (eligible i cap (rq_scope r) w) (candidate_permissions i cap w)")
      case None
      with a admitted_authorize [OF cap] w1(2) obtain level rs m where
        "finalize i r DENY rs None level m False w1 = Inr (d, w')" by (auto simp: bindE_eq_Inr)
      with finalize_permissions x1 show ?thesis by metis
    next
      case (Some p)
      from selected_mem [OF Some] have p: "p \<in> set (w_permissions w)" "p_status p \<noteq> PS_REVOKED"
        by (auto simp: eligible_def covers_def usable_def)
      with x inv have "p_id p \<noteq> p_id x" by (auto simp: auth_inv_def dest: unique_keys_eq)
      moreover from a admitted_authorize [OF cap] w1(2) Some have "authorize_with i r cap p w1 = Inr (d, w')" by simp
      ultimately show ?thesis using x1 authorize_with_revoked by blast
    qed
  qed
  with x show ?thesis by (auto simp: revoked_permission_def)
qed

lemma auth_step_keep:
  assumes "auth_step w w'" and "auth_inv w"
  shows "auth_inv w' \<and> (revoked_permission pid w \<longrightarrow> revoked_permission pid w') \<and>
    (consumed_confirmation cid w \<longrightarrow> consumed_confirmation cid w')"
  using assms
proof (induction rule: auth_step.induct)
  case (authorize i r w d w')
  then show ?case by (blast intro: authorize_inv authorize_revoked_kept consumed_kept)
next
  case (grant i g w x w')
  obtain p c where "x = (p, c)" by fastforce
  with grant admin_writes_keep grant_writes show ?case by blast
next
  case (list i w xs w')
  then have "admin_write\<^sup>*\<^sup>* w w'" by (auto simp: auth_inv_def intro: list_owned_writes)
  with list admin_writes_keep show ?case by blast
next
  case (get i pid w x w')
  obtain p c where "x = (p, c)" by fastforce
  with get admin_writes_keep get_owned_permission_writes show ?case by blast
next
  case (revoke i pid w x w')
  obtain p c where "x = (p, c)" by fastforce
  with revoke admin_writes_keep revoke_permission_writes show ?case by blast
next
  case (approve i cid w c w')
  with admin_writes_keep approve_confirmation_writes show ?case by blast
next
  case (reject i cid w c w')
  with admin_writes_keep reject_confirmation_writes show ?case by blast
next
  case (tick w t)
  then show ?case by (simp add: auth_inv_def revoked_permission_def consumed_confirmation_def)
qed

lemma auth_steps_keep:
  "auth_step\<^sup>*\<^sup>* w w' \<Longrightarrow> auth_inv w \<Longrightarrow>
     auth_inv w' \<and> (revoked_permission pid w \<longrightarrow> revoked_permission pid w') \<and>
     (consumed_confirmation cid w \<longrightarrow> consumed_confirmation cid w')"
  by (induction rule: rtranclp_induct) (simp, metis auth_step_keep)

lemma authorize_allow_facts:
  assumes "authorize i r w = Inr (d, w')" and "dc_decision d = ALLOW"
  shows "\<exists>cap p a. admitted i r w cap \<and>
    find (eligible i cap (rq_scope r) w) (candidate_permissions i cap w) = Some p \<and>
    evaluate_risk cap (rq_action r) = Inr a \<and> \<not> financial_blocks cap \<and> dc_permission_id d = Some (p_id p) \<and>
    dc_risk_level d = ra_risk_level a \<and> (policy_requires p (ra_risk_level a) \<longrightarrow> confirmation_ok i r p w \<and>
      (\<exists>cid. rq_confirmation_id r = Some cid \<and> consumed_confirmation cid w'))"
  by (rule authorize_allow_spec [OF assms]) blast

lemma allowed_permission_live:
  assumes inv: "auth_inv w" and a: "authorize i r w = Inr (d, w')" "dc_decision d = ALLOW"
  shows "\<exists>p. dc_permission_id d = Some (p_id p) \<and> p \<in> set (w_permissions w) \<and> p_user_id p = ic_user_id i \<and>
    \<not> revoked_permission (p_id p) w \<and> usable (w_now w) p \<and> scope_authorizes (p_scope p) (rq_scope r)"
proof -
  from authorize_allow_facts [OF a] obtain cap p where f: "find (eligible i cap (rq_scope r) w) (candidate_permissions i cap w) = Some p"
    and d: "dc_permission_id d = Some (p_id p)" by blast
  note p = selected_mem [OF f]
  from p(4) have u: "usable (w_now w) p" "scope_authorizes (p_scope p) (rq_scope r)"
    by (simp_all add: eligible_def covers_def)
  have "\<not> revoked_permission (p_id p) w"
  proof
    assume "revoked_permission (p_id p) w"
    then obtain x where "x \<in> set (w_permissions w)" "p_id x = p_id p" "p_status x = PS_REVOKED"
      by (auto simp: revoked_permission_def)
    with p(1) inv have "p_status p = PS_REVOKED" by (auto simp: auth_inv_def dest: unique_keys_eq)
    with u show False by (simp add: usable_def)
  qed
  with d p u show ?thesis by blast
qed

text \<open>
  C4: After revoke, no later call of authorize, in any reachable state, answers ALLOW under the
  revoked permission.
\<close>

theorem revoked_permission_never_used:
  assumes "auth_inv w" and "revoke_permission i pid w = Inr (x, w1)" and "auth_step\<^sup>*\<^sup>* w1 w2"
    and "authorize i' r w2 = Inr (d, w3)"
  shows "\<not> (dc_decision d = ALLOW \<and> dc_permission_id d = Some pid)"
proof
  assume allow: "dc_decision d = ALLOW \<and> dc_permission_id d = Some pid"
  obtain p cap where x: "x = (p, cap)" by fastforce
  from revoke_permission_writes [OF assms(2) [unfolded x]] have "admin_write\<^sup>*\<^sup>* w w1" "revoked_permission pid w1" by blast+
  with admin_writes_keep assms(1) have "auth_inv w1" by blast
  with auth_steps_keep [OF assms(3)] \<open>revoked_permission pid w1\<close> have "auth_inv w2" "revoked_permission pid w2" by blast+
  with allowed_permission_live [OF _ assms(4)] allow show False by force
qed

text \<open>
  C3: A confirmation spent by one ALLOW never supports another: after any sequence of authority
  calls and clock ticks, a request that presents the same confirmation under a permission that
  requires one is not allowed.
\<close>

theorem confirmation_single_use:
  assumes "auth_inv w" and "authorize i r w = Inr (d, w1)" and "dc_decision d = ALLOW"
    and "rq_confirmation_id r = Some cid"
    and "\<forall>p \<in> set (w_permissions w). dc_permission_id d = Some (p_id p) \<longrightarrow> policy_requires p (dc_risk_level d)"
    and "auth_step\<^sup>*\<^sup>* w1 w2" and "rq_confirmation_id r' = Some cid"
    and "authorize i' r' w2 = Inr (d', w3)"
    and "\<forall>p \<in> set (w_permissions w2). dc_permission_id d' = Some (p_id p) \<longrightarrow> policy_requires p (dc_risk_level d')"
  shows "dc_decision d' \<noteq> ALLOW"
proof
  assume allow: "dc_decision d' = ALLOW"
  from authorize_allow_facts [OF assms(2,3)] obtain cap p and a :: risk_assessment where f: "find (eligible i cap (rq_scope r) w) (candidate_permissions i cap w) = Some p"
    and d: "dc_permission_id d = Some (p_id p)" "dc_risk_level d = ra_risk_level a"
    and con: "policy_requires p (ra_risk_level a) \<longrightarrow>
      (\<exists>cid. rq_confirmation_id r = Some cid \<and> consumed_confirmation cid w1)" by blast
  from selected_mem(1) [OF f] d assms(5) con assms(4) have "consumed_confirmation cid w1" by auto
  with auth_steps_keep [OF assms(6)] authorize_inv [OF assms(2,1)]
  have w2: "auth_inv w2" "consumed_confirmation cid w2" by blast+
  from authorize_allow_facts [OF assms(8) allow] obtain cap' p' and a' :: risk_assessment where
    f': "find (eligible i' cap' (rq_scope r') w2) (candidate_permissions i' cap' w2) = Some p'"
    and d': "dc_permission_id d' = Some (p_id p')" "dc_risk_level d' = ra_risk_level a'"
    and ok: "policy_requires p' (ra_risk_level a') \<longrightarrow> confirmation_ok i' r' p' w2" by blast
  have "\<not> policy_requires p' (ra_risk_level a')"
    using ok confirmation_ok_unspent [OF _ w2(1) assms(7)] w2(2) by blast
  with selected_mem(1) [OF f'] d' assms(9) show False by auto
qed

lemma sample_inv: "auth_inv sample_approved" "auth_inv (sample_world CP_NEVER)"
  by code_simp+

theorem confirmation_single_use_witness:
  "dc_decision (returned (authorize sample_identity (sample_request (Some 11)) sample_spent)) \<noteq> ALLOW"
proof (rule confirmation_single_use)
  let ?r = "authorize sample_identity (sample_request (Some 11)) sample_approved"
  let ?r' = "authorize sample_identity (sample_request (Some 11)) sample_spent"
  have ok: "\<not> isl ?r" "\<not> isl ?r'" by code_simp+
  show "auth_inv sample_approved" by (rule sample_inv)
  show "?r = Inr (returned ?r, sample_spent)"
    using returned_world [OF ok(1)] by (simp add: sample_spent_def)
  show "dc_decision (returned ?r) = ALLOW" by code_simp
  show "\<forall>p \<in> set (w_permissions sample_approved). dc_permission_id (returned ?r) = Some (p_id p) \<longrightarrow>
    policy_requires p (dc_risk_level (returned ?r))" by code_simp
  show "auth_step\<^sup>*\<^sup>* sample_spent sample_spent" by simp
  show "?r' = Inr (returned ?r', world_after ?r' sample_spent)" using returned_world [OF ok(2)] .
  show "\<forall>p \<in> set (w_permissions sample_spent). dc_permission_id (returned ?r') = Some (p_id p) \<longrightarrow>
    policy_requires p (dc_risk_level (returned ?r'))" by code_simp
  show "rq_confirmation_id (sample_request (Some 11)) = Some 11" by code_simp
  show "rq_confirmation_id (sample_request (Some 11)) = Some 11" by code_simp
qed

theorem revoked_permission_never_used_witness:
  "\<not> (dc_decision (returned (authorize sample_identity (sample_request None) sample_revoked)) = ALLOW \<and>
      dc_permission_id (returned (authorize sample_identity (sample_request None) sample_revoked)) = Some 3)"
proof (rule revoked_permission_never_used)
  let ?r = "revoke_permission sample_identity 3 (sample_world CP_NEVER)"
  let ?r' = "authorize sample_identity (sample_request None) sample_revoked"
  have ok: "\<not> isl ?r" "\<not> isl ?r'" by code_simp+
  show "auth_inv (sample_world CP_NEVER)" by (rule sample_inv)
  show "?r = Inr (returned ?r, sample_revoked)" using returned_world [OF ok(1)] by (simp add: sample_revoked_def)
  show "auth_step\<^sup>*\<^sup>* sample_revoked sample_revoked" by simp
  show "?r' = Inr (returned ?r', world_after ?r' sample_revoked)" using returned_world [OF ok(2)] .
qed

end
