(* ===== verification/Lifecycle.thy ===== *)
theory Lifecycle
  imports Prelude
begin

text \<open>
  The interface of the state machines of the backend (tasks, orchestrations, voice sessions): a table
  of allowed targets and a set of terminal states. A service appends one (from, to) pair to the history
  of an entity per transition; \<open>trail\<close> says that a history is a path through the table. The locale holds
  what every such history satisfies; the components interpret it on their own tables.
\<close>

fun trail :: "('s \<Rightarrow> 's set) \<Rightarrow> 's option \<Rightarrow> ('s option \<times> 's) list \<Rightarrow> bool" where
  "trail allowed prev [] = True"
| "trail allowed prev ((from, to) # es) =
     (from = prev \<and> (case from of None \<Rightarrow> True | Some s \<Rightarrow> to \<in> allowed s) \<and> trail allowed (Some to) es)"

fun trail_end :: "'s option \<Rightarrow> ('s option \<times> 's) list \<Rightarrow> 's option" where
  "trail_end prev [] = prev"
| "trail_end prev ((from, to) # es) = trail_end (Some to) es"

lemma trail_append:
  "trail allowed prev (xs @ ys) \<longleftrightarrow> trail allowed prev xs \<and> trail allowed (trail_end prev xs) ys"
  by (induction prev xs rule: trail_end.induct) auto

lemma trail_end_append: "trail_end prev (xs @ ys) = trail_end (trail_end prev xs) ys"
  by (induction prev xs rule: trail_end.induct) auto

lemma trail_snoc:
  "trail allowed prev xs \<Longrightarrow> trail_end prev xs = Some s \<Longrightarrow> t \<in> allowed s \<Longrightarrow>
     trail allowed prev (xs @ [(Some s, t)]) \<and> trail_end prev (xs @ [(Some s, t)]) = Some t"
  by (simp add: trail_append trail_end_append)

locale lifecycle =
  fixes allowed :: "'s \<Rightarrow> 's set"
    and terminal :: "'s \<Rightarrow> bool"
  assumes terminal_iff: "terminal s \<longleftrightarrow> allowed s = {}"
begin

lemma terminal_stuck: "terminal s \<Longrightarrow> t \<notin> allowed s"
  by (simp add: terminal_iff)

lemma live_has_exit: "\<not> terminal s \<Longrightarrow> \<exists>t. t \<in> allowed s"
  by (auto simp: terminal_iff)

text \<open>A history that reached a terminal state has no event after it.\<close>

lemma terminal_ends:
  assumes "trail allowed prev (xs @ (from, to) # ys)" and "terminal to"
  shows "ys = []"
proof (cases ys)
  case (Cons y ys')
  obtain f t where "y = (f, t)" by fastforce
  with assms(1) Cons have "t \<in> allowed to" by (auto simp: trail_append split: option.splits)
  with terminal_stuck assms(2) show ?thesis by blast
qed

lemma terminal_once:
  assumes "trail allowed prev es" and "(from, to) \<in> set es" and "terminal to"
  shows "trail_end prev es = Some to"
proof -
  from assms(2) obtain xs ys where es: "es = xs @ (from, to) # ys" by (auto dest: split_list)
  with assms terminal_ends have "ys = []" by blast
  with es show ?thesis by (simp add: trail_end_append)
qed

lemma no_exit_from_terminal:
  assumes "trail allowed prev es" and "(Some s, t) \<in> set es"
  shows "\<not> terminal s"
  using assms by (induction prev es rule: trail_end.induct) (auto split: option.splits dest: terminal_stuck)

end

end
