(* ===== verification/Task_Model.thy ===== *)
theory Task_Model
  imports Authority_Admin Lifecycle
begin

text \<open>
  \<^verbatim>\<open>tasks/enums.py\<close>, \<^verbatim>\<open>tasks/state_machine.py\<close>, \<^verbatim>\<open>tasks/models.py\<close> and \<^verbatim>\<open>tasks/schemas.py\<close>: the
  vocabulary of the task engine, its transition table, its rows and the commands it accepts.
\<close>

section \<open>Enumerations\<close>

datatype task_status =
    TS_PENDING | TS_QUEUED | TS_WAITING_CONNECTION | TS_WAITING_PERMISSION | TS_WAITING_CONFIRMATION
  | TS_RUNNING | TS_COMPLETED | TS_FAILED | TS_CANCELLED | TS_EXPIRED

datatype task_priority = TP_LOW | TP_NORMAL | TP_HIGH | TP_CRITICAL

primrec task_priority_value :: "task_priority \<Rightarrow> string" where
  "task_priority_value TP_LOW = ''LOW''"
| "task_priority_value TP_NORMAL = ''NORMAL''"
| "task_priority_value TP_HIGH = ''HIGH''"
| "task_priority_value TP_CRITICAL = ''CRITICAL''"

datatype task_attempt_status = TA_RUNNING | TA_COMPLETED | TA_FAILED

datatype task_event_type =
    TE_CREATED | TE_STATE_CHANGED | TE_CANCELLED | TE_EXPIRED | TE_CLAIMED | TE_COMPLETED | TE_FAILED

datatype task_actor_type = TK_USER | TK_SYSTEM | TK_AI | TK_AUTOMATION | TK_DEVICE | TK_WORKER

datatype task_transition_reason =
    TR_CREATED_AUTHORIZED | TR_CREATED_WAITING_PERMISSION | TR_CREATED_WAITING_CONFIRMATION
  | TR_USER_CANCELLED | TR_DEADLINE_REACHED | TR_WORKER_CLAIMED | TR_EXECUTION_COMPLETED
  | TR_EXECUTION_FAILED | TR_AUTHORIZATION_REEVALUATED

primrec task_reason_value :: "task_transition_reason \<Rightarrow> string" where
  "task_reason_value TR_CREATED_AUTHORIZED = ''CREATED_AUTHORIZED''"
| "task_reason_value TR_CREATED_WAITING_PERMISSION = ''CREATED_WAITING_PERMISSION''"
| "task_reason_value TR_CREATED_WAITING_CONFIRMATION = ''CREATED_WAITING_CONFIRMATION''"
| "task_reason_value TR_USER_CANCELLED = ''USER_CANCELLED''"
| "task_reason_value TR_DEADLINE_REACHED = ''DEADLINE_REACHED''"
| "task_reason_value TR_WORKER_CLAIMED = ''WORKER_CLAIMED''"
| "task_reason_value TR_EXECUTION_COMPLETED = ''EXECUTION_COMPLETED''"
| "task_reason_value TR_EXECUTION_FAILED = ''EXECUTION_FAILED''"
| "task_reason_value TR_AUTHORIZATION_REEVALUATED = ''AUTHORIZATION_REEVALUATED''"

section \<open>The state machine\<close>

definition TERMINAL_TASK_STATES :: "task_status set" where
  "TERMINAL_TASK_STATES = {TS_COMPLETED, TS_FAILED, TS_CANCELLED, TS_EXPIRED}"

primrec task_allowed :: "task_status \<Rightarrow> task_status set" where
  "task_allowed TS_PENDING =
     {TS_QUEUED, TS_WAITING_CONNECTION, TS_WAITING_PERMISSION, TS_WAITING_CONFIRMATION,
      TS_CANCELLED, TS_EXPIRED}"
| "task_allowed TS_QUEUED =
     {TS_RUNNING, TS_WAITING_CONNECTION, TS_WAITING_PERMISSION, TS_WAITING_CONFIRMATION,
      TS_CANCELLED, TS_EXPIRED}"
| "task_allowed TS_WAITING_CONNECTION = {TS_QUEUED, TS_CANCELLED, TS_EXPIRED}"
| "task_allowed TS_WAITING_PERMISSION =
     {TS_QUEUED, TS_WAITING_CONFIRMATION, TS_CANCELLED, TS_FAILED, TS_EXPIRED}"
| "task_allowed TS_WAITING_CONFIRMATION =
     {TS_QUEUED, TS_WAITING_PERMISSION, TS_CANCELLED, TS_FAILED, TS_EXPIRED}"
| "task_allowed TS_RUNNING = {TS_COMPLETED, TS_FAILED}"
| "task_allowed TS_COMPLETED = {}"
| "task_allowed TS_FAILED = {}"
| "task_allowed TS_CANCELLED = {}"
| "task_allowed TS_EXPIRED = {}"

definition task_is_terminal :: "task_status \<Rightarrow> bool" where
  "task_is_terminal s \<longleftrightarrow> s \<in> TERMINAL_TASK_STATES"

record task_transition_evaluation =
  tv_current_state :: task_status
  tv_requested_state :: task_status
  tv_allowed :: bool
  tv_reason :: string

definition task_evaluate :: "task_status \<Rightarrow> task_status \<Rightarrow> task_transition_evaluation" where
  "task_evaluate current requested =
     (let allowed = requested \<in> task_allowed current
      in \<lparr>tv_current_state = current, tv_requested_state = requested, tv_allowed = allowed,
          tv_reason = (if allowed then ''TRANSITION_ALLOWED'' else ''INVALID_TASK_TRANSITION'')\<rparr>)"

section \<open>Rows\<close>

record task =
  t_id :: uuid
  t_user_id :: uuid
  t_device_id :: "uuid option"
  t_capability_key :: string
  t_action :: string
  t_scope :: permission_scope
  t_scope_digest :: string
  t_status :: task_status
  t_priority :: task_priority
  t_idempotency_key :: string
  t_request_fingerprint :: string
  t_authorization_decision_id :: uuid
  t_confirmation_request_id :: "uuid option"
  t_parent_task_id :: "uuid option"
  t_created_at :: timestamp
  t_updated_at :: timestamp
  t_queued_at :: "timestamp option"
  t_started_at :: "timestamp option"
  t_completed_at :: "timestamp option"
  t_cancelled_at :: "timestamp option"
  t_expires_at :: "timestamp option"
  t_last_error_code :: "string option"
  t_last_error_message :: "string option"
  t_retry_count :: int
  t_max_retries :: int
  t_next_retry_at :: "timestamp option"
  t_version :: int
  t_metadata :: metadata
  t_result_metadata :: metadata

record task_attempt =
  at_id :: uuid
  at_task_id :: uuid
  at_attempt_number :: int
  at_status :: task_attempt_status
  at_started_at :: timestamp
  at_finished_at :: "timestamp option"
  at_error_code :: "string option"
  at_safe_error_message :: "string option"
  at_worker_id :: string
  at_execution_id :: uuid
  at_metadata :: metadata

record task_event =
  te_id :: uuid
  te_task_id :: uuid
  te_user_id :: uuid
  te_event_type :: task_event_type
  te_from_state :: "task_status option"
  te_to_state :: task_status
  te_timestamp :: timestamp
  te_reason_code :: string
  te_actor_type :: task_actor_type
  te_actor_id :: "string option"
  te_metadata :: metadata

record task_world = auth_world +
  w_tasks :: "task list"
  w_attempts :: "task_attempt list"
  w_task_events :: "task_event list"

text \<open>
  The text of a JSON column: SQLAlchemy serializes with the default separators of \<^verbatim>\<open>json.dumps\<close>
  and keeps the order of the fields. The size constraints of the table measure this text.
\<close>

fun json_text :: "json \<Rightarrow> string" where
  "json_text JNull = ''null''"
| "json_text (JBool b) = (if b then ''true'' else ''false'')"
| "json_text (JInt i) = show_int i"
| "json_text (JFloat t) = t"
| "json_text (JStr s) = dump_string s"
| "json_text (JList items) = ''['' @ join_with '', '' (map json_text items) @ '']''"
| "json_text (JObj members) =
     ''{'' @ join_with '', '' (map (\<lambda>(k, t). dump_string k @ '': '' @ t) (map (\<lambda>(k, v). (k, json_text v)) members)) @ ''}''"

definition task_row_ok :: "task \<Rightarrow> bool" where
  "task_row_ok t \<longleftrightarrow>
     8 \<le> length (t_idempotency_key t) \<and> length (t_idempotency_key t) \<le> 128 \<and>
     length (t_request_fingerprint t) = 64 \<and> 0 \<le> t_retry_count t \<and>
     0 \<le> t_max_retries t \<and> t_max_retries t \<le> 10 \<and> t_retry_count t \<le> t_max_retries t + 1 \<and>
     1 \<le> t_version t \<and> t_parent_task_id t \<noteq> Some (t_id t) \<and>
     length (json_text (scope_json (t_scope t))) \<le> 8192 \<and> length (t_scope_digest t) = 64 \<and>
     length (json_text (JObj (t_metadata t))) \<le> 4096 \<and>
     length (json_text (JObj (t_result_metadata t))) \<le> 4096"

text \<open>The flush of a new row: \<open>None\<close> is the \<^verbatim>\<open>IntegrityError\<close> of a violated constraint.\<close>

definition insert_task :: "task \<Rightarrow> task list \<Rightarrow> task list option" where
  "insert_task t rows =
     (if task_row_ok t \<and>
         row_find (\<lambda>x. t_user_id x = t_user_id t \<and> t_idempotency_key x = t_idempotency_key t) rows = None
      then Some (row_add t rows) else None)"

definition insert_attempt :: "task_attempt \<Rightarrow> task_attempt list \<Rightarrow> task_attempt list option" where
  "insert_attempt a rows =
     (if 1 \<le> at_attempt_number a \<and> length (json_text (JObj (at_metadata a))) \<le> 4096 \<and>
         row_find (\<lambda>x. at_task_id x = at_task_id a \<and> at_attempt_number x = at_attempt_number a) rows = None
      then Some (row_add a rows) else None)"

section \<open>Commands\<close>

record task_create_request =
  tc_capability_key :: string
  tc_action :: string
  tc_scope :: permission_scope
  tc_idempotency_key :: string
  tc_device_id :: "uuid option"
  tc_priority :: task_priority
  tc_expires_at :: "timestamp option"
  tc_max_retries :: int
  tc_parent_task_id :: "uuid option"
  tc_metadata :: metadata

definition MAX_TASK_METADATA_BYTES :: nat where
  "MAX_TASK_METADATA_BYTES = 4096"

definition bounded_metadata :: "metadata \<Rightarrow> app_error + metadata" where
  "bounded_metadata m = sanitize_metadata MAX_TASK_METADATA_BYTES m"

definition normalize_expiry :: "datetime option \<Rightarrow> app_error + timestamp option" where
  "normalize_expiry v =
     (case v of
        None \<Rightarrow> Inr None
      | Some (Naive _) \<Rightarrow> Inl PyValueError
      | Some (Aware local offset) \<Rightarrow> Inr (Some (instant (Aware local offset))))"

text \<open>
  The fingerprint of a request. Identifiers and instants are numbers of the model, so \<^verbatim>\<open>str(uuid)\<close>
  and \<^verbatim>\<open>isoformat()\<close> are their decimal numerals. The idempotency key is not part of it.
\<close>

definition fingerprint_json :: "task_create_request \<Rightarrow> json" where
  "fingerprint_json r =
     JObj [(''action'', JStr (tc_action r)),
           (''capability_key'', JStr (tc_capability_key r)),
           (''device_id'', case tc_device_id r of None \<Rightarrow> JNull | Some d \<Rightarrow> JStr (show_nat d)),
           (''expires_at'', case tc_expires_at r of None \<Rightarrow> JNull | Some t \<Rightarrow> JStr (show_int t)),
           (''max_retries'', JInt (tc_max_retries r)),
           (''metadata'', JObj (tc_metadata r)),
           (''parent_task_id'', case tc_parent_task_id r of None \<Rightarrow> JNull | Some p \<Rightarrow> JStr (show_nat p)),
           (''priority'', JStr (task_priority_value (tc_priority r))),
           (''scope'', scope_json (tc_scope r))]"

definition task_fingerprint :: "'z core_world_scheme \<Rightarrow> task_create_request \<Rightarrow> string" where
  "task_fingerprint w r = w_sha256 w (json_dumps (fingerprint_json r))"

record task_claim_request =
  tq_expected_version :: int
  tq_worker_id :: string
  tq_metadata :: metadata

record task_completion_request =
  tf_expected_version :: int
  tf_result_metadata :: metadata

record task_failure_request =
  tx_expected_version :: int
  tx_error_code :: string
  tx_safe_error_message :: string
  tx_metadata :: metadata

section \<open>The table as a lifecycle\<close>

interpretation task_machine: lifecycle task_allowed task_is_terminal
proof
  show "task_is_terminal s = (task_allowed s = {})" for s
    by (cases s) (simp_all add: task_is_terminal_def TERMINAL_TASK_STATES_def)
qed

lemma task_evaluate_allowed [simp]: "tv_allowed (task_evaluate a b) \<longleftrightarrow> b \<in> task_allowed a"
  by (simp add: task_evaluate_def Let_def)

end
