(* ===== verification/Task_Engine.thy ===== *)
theory Task_Engine
  imports Task_Model
begin

text \<open>
  \<^verbatim>\<open>tasks/service.py\<close>: creation under an authority decision with idempotency, the guarded transition
  with its optimistic version check, expiry on read, cancellation, the worker's claim, completion and
  failure, and the re-evaluation of blocked tasks. Theorems: every history is a path of the transition
  table that ends in the stored status, the version counts the events, queued work carries an ALLOW
  decision, a running task has exactly one running attempt, a stale version never writes.
\<close>

section \<open>Helpers\<close>

definition resolvable_reason :: "decision_reason \<Rightarrow> bool" where
  "resolvable_reason r \<longleftrightarrow>
     r \<in> {DR_NO_PERMISSION, DR_PERMISSION_REVOKED, DR_PERMISSION_EXPIRED, DR_SCOPE_MISMATCH,
          DR_DEVICE_SCOPE_MISMATCH}"

definition initial_state ::
  "decision_type \<Rightarrow> decision_reason list \<Rightarrow> (task_status \<times> task_transition_reason) option" where
  "initial_state decision reasons =
     (if decision = ALLOW then Some (TS_QUEUED, TR_CREATED_AUTHORIZED)
      else if decision = REQUIRE_CONFIRMATION
      then Some (TS_WAITING_CONFIRMATION, TR_CREATED_WAITING_CONFIRMATION)
      else if reasons \<noteq> [] \<and> list_all resolvable_reason reasons
      then Some (TS_WAITING_PERMISSION, TR_CREATED_WAITING_PERMISSION)
      else None)"

definition idempotent_existing ::
  "uuid \<Rightarrow> string \<Rightarrow> string \<Rightarrow> 'z task_world_scheme \<Rightarrow> app_error + task option" where
  "idempotent_existing user_id key fp w =
     (case row_find (\<lambda>t. t_user_id t = user_id \<and> t_idempotency_key t = key) (w_tasks w) of
        None \<Rightarrow> Inr None
      | Some t \<Rightarrow> if t_request_fingerprint t \<noteq> fp then Inl TaskIdempotencyConflictError else Inr (Some t))"

definition validate_task_device :: "uuid \<Rightarrow> uuid option \<Rightarrow> 'z id_world_scheme \<Rightarrow> app_error + device option" where
  "validate_task_device user_id device_id w =
     (case device_id of
        None \<Rightarrow> Inr None
      | Some did \<Rightarrow>
          (case row_find (\<lambda>d. d_id d = did \<and> d_user_id d = user_id) (w_devices w) of
             None \<Rightarrow> Inl TaskDeviceInvalidError
           | Some d \<Rightarrow> if d_revoked_at d \<noteq> None then Inl TaskDeviceInvalidError else Inr (Some d)))"

definition validate_parent :: "uuid \<Rightarrow> uuid option \<Rightarrow> 'z task_world_scheme \<Rightarrow> app_error + unit" where
  "validate_parent user_id parent w =
     (case parent of
        None \<Rightarrow> Inr ()
      | Some pid \<Rightarrow>
          requireE TaskNotFoundError
            (row_find (\<lambda>t. t_id t = pid \<and> t_user_id t = user_id) (w_tasks w) \<noteq> None))"

definition owned_task :: "uuid \<Rightarrow> uuid \<Rightarrow> 'z task_world_scheme \<Rightarrow> app_error + task" where
  "owned_task user_id tid w =
     someE TaskNotFoundError (row_find (\<lambda>t. t_id t = tid \<and> t_user_id t = user_id) (w_tasks w))"

definition running_task :: "uuid \<Rightarrow> 'z task_world_scheme \<Rightarrow> app_error + task" where
  "running_task tid w =
     (case row_get t_id tid (w_tasks w) of
        None \<Rightarrow> Inl TaskNotFoundError
      | Some t \<Rightarrow>
          if t_status t \<noteq> TS_RUNNING then
            (if task_is_terminal (t_status t) then Inl TaskAlreadyTerminalError
             else Inl InvalidTaskTransitionError)
          else Inr t)"

definition running_attempt :: "uuid \<Rightarrow> 'z task_world_scheme \<Rightarrow> app_error + task_attempt" where
  "running_attempt tid w =
     someE TaskConcurrentModificationError
       (row_find (\<lambda>a. at_task_id a = tid \<and> at_status a = TA_RUNNING) (w_attempts w))"

definition task_audit_record ::
  "identity_context \<Rightarrow> task \<Rightarrow> audit_event_type \<Rightarrow> audit_result \<Rightarrow> string \<Rightarrow> audit_record" where
  "task_audit_record i t event result reason =
     (blank_audit (ic_user_id i) (t_device_id t) (ic_session_id i) AT_USER event result)
       \<lparr>aq_capability_key := Some (t_capability_key t), aq_action := Some (t_action t),
        aq_resource_type := Some (sc_resource_type (t_scope t)),
        aq_decision_id := Some (t_authorization_decision_id t),
        aq_confirmation_id := t_confirmation_request_id t, aq_task_id := Some (t_id t),
        aq_reason_codes := [reason]\<rparr>"

section \<open>Events and transitions\<close>

definition new_task_event ::
  "task \<Rightarrow> task_event_type \<Rightarrow> task_status option \<Rightarrow> task_status \<Rightarrow> task_transition_reason \<Rightarrow> task_actor_type \<Rightarrow>
     string option \<Rightarrow> metadata \<Rightarrow> 'z core_world_scheme \<Rightarrow> task_event" where
  "new_task_event t event from_state to_state reason actor actor_id sanitized w =
     \<lparr>te_id = w_next w, te_task_id = t_id t, te_user_id = t_user_id t, te_event_type = event,
      te_from_state = from_state, te_to_state = to_state, te_timestamp = w_now w,
      te_reason_code = task_reason_value reason, te_actor_type = actor, te_actor_id = actor_id,
      te_metadata = sanitized\<rparr>"

definition append_event ::
  "task \<Rightarrow> task_event_type \<Rightarrow> task_status option \<Rightarrow> task_status \<Rightarrow> task_transition_reason \<Rightarrow> task_actor_type \<Rightarrow>
     string option \<Rightarrow> metadata \<Rightarrow> 'z task_world_scheme \<Rightarrow> app_error + 'z task_world_scheme" where
  "append_event t event from_state to_state reason actor actor_id m w =
     bindE (sanitize_metadata MAX_TASK_METADATA_BYTES m) (\<lambda>sanitized.
     Inr ((draw w)\<lparr>w_task_events :=
            row_add (new_task_event t event from_state to_state reason actor actor_id sanitized w) (w_task_events w)\<rparr>))"

text \<open>The columns that a transition stamps besides the extra values of the caller.\<close>

definition stamp :: "task_status \<Rightarrow> timestamp \<Rightarrow> int \<Rightarrow> task \<Rightarrow> task" where
  "stamp target now expected_version t =
     (let t1 = t\<lparr>t_status := target, t_updated_at := now, t_version := expected_version + 1\<rparr>
      in if target = TS_QUEUED then t1\<lparr>t_queued_at := Some now\<rparr>
         else if target = TS_RUNNING then t1\<lparr>t_started_at := Some now\<rparr>
         else if target = TS_COMPLETED then t1\<lparr>t_completed_at := Some now\<rparr>
         else if target = TS_CANCELLED then t1\<lparr>t_cancelled_at := Some now\<rparr>
         else t1)"

text \<open>
  \<^verbatim>\<open>_transition\<close>: \<open>t\<close> is the task object the caller holds, which a concurrent transaction may have left
  behind; the UPDATE matches the stored row on identifier, status and expected version, and the call
  fails unless exactly one row matched.
\<close>

definition task_transition ::
  "task \<Rightarrow> task_status \<Rightarrow> int \<Rightarrow> task_event_type \<Rightarrow> task_transition_reason \<Rightarrow> task_actor_type \<Rightarrow> string option \<Rightarrow>
     metadata \<Rightarrow> (task \<Rightarrow> task) \<Rightarrow> 'z task_world_scheme \<Rightarrow> app_error + task \<times> 'z task_world_scheme" where
  "task_transition t target expected_version event reason actor actor_id m extra w =
     (if \<not> tv_allowed (task_evaluate (t_status t) target) then
        (if task_is_terminal (t_status t) then Inl TaskAlreadyTerminalError
         else Inl InvalidTaskTransitionError)
      else
        (case filter (\<lambda>x. t_id x = t_id t \<and> t_status x = t_status t \<and> t_version x = expected_version) (w_tasks w) of
           [row] \<Rightarrow>
             (let row' = extra (stamp target (w_now w) expected_version row);
                  w1 = w\<lparr>w_tasks := row_put t_id row' (w_tasks w)\<rparr>
              in bindE (append_event row' event (Some (t_status t)) target reason actor actor_id m w1)
                   (\<lambda>w2. Inr (row', w2)))
         | _ \<Rightarrow> Inl TaskConcurrentModificationError))"

definition expire_if_due ::
  "task \<Rightarrow> 'z task_world_scheme \<Rightarrow> app_error + (bool \<times> task) \<times> 'z task_world_scheme" where
  "expire_if_due t w =
     (if (case t_expires_at t of None \<Rightarrow> True | Some e \<Rightarrow> \<not> at_or_after (w_now w) e) \<or>
         task_is_terminal (t_status t)
      then Inr ((False, t), w)
      else bindE (task_transition t TS_EXPIRED (t_version t) TE_EXPIRED TR_DEADLINE_REACHED TK_SYSTEM None [] id w)
             (\<lambda>(t', w'). Inr ((True, t'), w')))"

section \<open>Operations\<close>

record task_creation_result =
  cr_task :: "task option"
  cr_hard_denied :: bool
  cr_decision :: "authorization_decision option"

definition new_task ::
  "identity_context \<Rightarrow> task_create_request \<Rightarrow> device option \<Rightarrow> authorization_decision \<Rightarrow> task_status \<Rightarrow>
     'z core_world_scheme \<Rightarrow> task" where
  "new_task i r device d status w =
     \<lparr>t_id = w_next w, t_user_id = ic_user_id i, t_device_id = map_option d_id device,
      t_capability_key = tc_capability_key r, t_action = tc_action r, t_scope = tc_scope r,
      t_scope_digest = scope_digest w (tc_scope r), t_status = status, t_priority = tc_priority r,
      t_idempotency_key = tc_idempotency_key r, t_request_fingerprint = task_fingerprint w r,
      t_authorization_decision_id = dc_decision_id d, t_confirmation_request_id = dc_confirmation_id d,
      t_parent_task_id = tc_parent_task_id r, t_created_at = w_now w, t_updated_at = w_now w,
      t_queued_at = (if status = TS_QUEUED then Some (w_now w) else None), t_started_at = None,
      t_completed_at = None, t_cancelled_at = None, t_expires_at = tc_expires_at r,
      t_last_error_code = None, t_last_error_message = None, t_retry_count = 0,
      t_max_retries = tc_max_retries r, t_next_retry_at = None, t_version = 1,
      t_metadata = tc_metadata r, t_result_metadata = []\<rparr>"

definition task_authorization_request :: "task_create_request \<Rightarrow> authorization_request" where
  "task_authorization_request r =
     \<lparr>rq_capability_key = tc_capability_key r, rq_action = tc_action r, rq_scope = tc_scope r,
      rq_resource = None, rq_context = [], rq_confirmation_id = None\<rparr>"

text \<open>The nested transaction: the row, its CREATED event and its audit event, or the savepoint's rollback.\<close>

definition persist_task ::
  "identity_context \<Rightarrow> task_create_request \<Rightarrow> device option \<Rightarrow> authorization_decision \<Rightarrow> task_status \<Rightarrow>
     task_transition_reason \<Rightarrow> 'z task_world_scheme \<Rightarrow> app_error + task_creation_result \<times> 'z task_world_scheme" where
  "persist_task i r device d status reason w =
     (let t = new_task i r device d status w;
          w1 = draw w
      in case insert_task t (w_tasks w1) of
           Some rows \<Rightarrow>
             bindE (append_event t TE_CREATED None status reason TK_USER (Some (show_nat (ic_user_id i))) []
                      (w1\<lparr>w_tasks := rows\<rparr>)) (\<lambda>w2.
             bindE (record_audit (task_audit_record i t AE_TASK_CREATED AR_RECORDED (task_reason_value reason)) w2) (\<lambda>w3.
             Inr (\<lparr>cr_task = Some t, cr_hard_denied = False, cr_decision = Some d\<rparr>, w3)))
         | None \<Rightarrow>
             bindE (idempotent_existing (ic_user_id i) (tc_idempotency_key r) (task_fingerprint w r) w1) (\<lambda>existing.
             case existing of
               None \<Rightarrow> Inl TaskConcurrentModificationError
             | Some e \<Rightarrow>
                 bindE (get_owned_decision i (t_authorization_decision_id e) w1) (\<lambda>ed.
                 Inr (\<lparr>cr_task = Some e, cr_hard_denied = False, cr_decision = ed\<rparr>, w1))))"

definition create_task ::
  "identity_context \<Rightarrow> task_create_request \<Rightarrow> 'z task_world_scheme \<Rightarrow>
     app_error + task_creation_result \<times> 'z task_world_scheme" where
  "create_task i r w =
     bindE (idempotent_existing (ic_user_id i) (tc_idempotency_key r) (task_fingerprint w r) w) (\<lambda>existing.
     case existing of
       Some e \<Rightarrow>
         bindE (get_owned_decision i (t_authorization_decision_id e) w) (\<lambda>d.
         Inr (\<lparr>cr_task = Some e, cr_hard_denied = False, cr_decision = d\<rparr>, w))
     | None \<Rightarrow>
         if (case tc_expires_at r of None \<Rightarrow> False | Some e \<Rightarrow> at_or_after (w_now w) e)
         then Inr (\<lparr>cr_task = None, cr_hard_denied = True, cr_decision = None\<rparr>, w)
         else
           bindE (validate_parent (ic_user_id i) (tc_parent_task_id r) w) (\<lambda>_.
           bindE (validate_task_device (ic_user_id i) (tc_device_id r) w) (\<lambda>device.
           let i' = (case device of None \<Rightarrow> i | Some d \<Rightarrow> i\<lparr>ic_device_id := Some (d_id d)\<rparr>)
           in bindE (authorize i' (task_authorization_request r) w) (\<lambda>(decision, w1).
              case initial_state (dc_decision decision) (dc_reason_codes decision) of
                None \<Rightarrow> Inr (\<lparr>cr_task = None, cr_hard_denied = True, cr_decision = Some decision\<rparr>, w1)
              | Some (status, reason) \<Rightarrow> persist_task i r device decision status reason w1))))"

fun expire_all :: "task list \<Rightarrow> 'z task_world_scheme \<Rightarrow> app_error + task list \<times> 'z task_world_scheme" where
  "expire_all [] w = Inr ([], w)"
| "expire_all (t # ts) w =
     bindE (expire_if_due t w) (\<lambda>((_, t'), w1).
     bindE (expire_all ts w1) (\<lambda>(ts', w2). Inr (t' # ts', w2)))"

definition list_owned_tasks ::
  "identity_context \<Rightarrow> task_status option \<Rightarrow> string option \<Rightarrow> nat \<Rightarrow> nat \<Rightarrow> 'z task_world_scheme \<Rightarrow>
     app_error + task list \<times> 'z task_world_scheme" where
  "list_owned_tasks i status key limit offset w =
     expire_all
       (take limit (drop offset (sort_key (\<lambda>t. (- t_created_at t, - int (t_id t)))
         (filter (\<lambda>t. t_user_id t = ic_user_id i \<and> (case status of None \<Rightarrow> True | Some s \<Rightarrow> t_status t = s) \<and>
                      (case key of None \<Rightarrow> True | Some k \<Rightarrow> t_capability_key t = k)) (w_tasks w))))) w"

definition get_owned_task ::
  "identity_context \<Rightarrow> uuid \<Rightarrow> 'z task_world_scheme \<Rightarrow> app_error + task \<times> 'z task_world_scheme" where
  "get_owned_task i tid w =
     bindE (owned_task (ic_user_id i) tid w) (\<lambda>t.
     bindE (expire_if_due t w) (\<lambda>((_, t'), w1). Inr (t', w1)))"

definition task_history :: "task \<Rightarrow> 'z task_world_scheme \<Rightarrow> task_attempt list \<times> task_event list" where
  "task_history t w =
     (sort_key (\<lambda>a. (at_attempt_number a, at_id a)) (filter (\<lambda>a. at_task_id a = t_id t) (w_attempts w)),
      sort_key (\<lambda>e. (te_timestamp e, te_id e)) (filter (\<lambda>e. te_task_id e = t_id t) (w_task_events w)))"

definition cancel_task ::
  "identity_context \<Rightarrow> uuid \<Rightarrow> int \<Rightarrow> 'z task_world_scheme \<Rightarrow> app_error + task \<times> 'z task_world_scheme" where
  "cancel_task i tid expected_version w =
     bindE (owned_task (ic_user_id i) tid w) (\<lambda>t.
     bindE (expire_if_due t w) (\<lambda>((expired, t1), w1).
     if expired then Inr (t1, w1)
     else if t_status t1 = TS_CANCELLED then Inr (t1, w1)
     else if task_is_terminal (t_status t1) then Inl TaskAlreadyTerminalError
     else
       bindE (task_transition t1 TS_CANCELLED expected_version TE_CANCELLED TR_USER_CANCELLED TK_USER
                (Some (show_nat (ic_user_id i))) [] id w1) (\<lambda>(t2, w2).
       bindE (record_audit (task_audit_record i t2 AE_TASK_CANCELLED AR_RECORDED (task_reason_value TR_USER_CANCELLED)) w2)
         (\<lambda>w3. Inr (t2, w3)))))"

definition new_attempt :: "task \<Rightarrow> task_claim_request \<Rightarrow> 'z core_world_scheme \<Rightarrow> task_attempt" where
  "new_attempt t r w =
     \<lparr>at_id = w_next w, at_task_id = t_id t, at_attempt_number = t_retry_count t + 1, at_status = TA_RUNNING,
      at_started_at = (case t_started_at t of Some s \<Rightarrow> s | None \<Rightarrow> w_now w), at_finished_at = None,
      at_error_code = None, at_safe_error_message = None, at_worker_id = tq_worker_id r,
      at_execution_id = Suc (w_next w), at_metadata = tq_metadata r\<rparr>"

definition claim_task ::
  "uuid \<Rightarrow> task_claim_request \<Rightarrow> 'z task_world_scheme \<Rightarrow>
     app_error + (task \<times> task_attempt option) \<times> 'z task_world_scheme" where
  "claim_task tid r w =
     bindE (someE TaskNotFoundError (row_get t_id tid (w_tasks w))) (\<lambda>t.
     bindE (expire_if_due t w) (\<lambda>((expired, t1), w1).
     if expired then Inr ((t1, None), w1)
     else if t_status t1 \<noteq> TS_QUEUED then Inl TaskNotClaimableError
     else
       bindE (task_transition t1 TS_RUNNING (tq_expected_version r) TE_CLAIMED TR_WORKER_CLAIMED TK_WORKER
                (Some (tq_worker_id r)) (tq_metadata r) id w1) (\<lambda>(t2, w2).
       let a = new_attempt t2 r w2; w3 = draw (draw w2)
       in case insert_attempt a (w_attempts w3) of
            None \<Rightarrow> Inl PyIntegrityError
          | Some rows \<Rightarrow>
              bindE (record_audit
                ((blank_audit (t_user_id t2) (t_device_id t2) None AT_SYSTEM AE_TASK_CLAIMED AR_RECORDED)
                  \<lparr>aq_capability_key := Some (t_capability_key t2), aq_action := Some (t_action t2),
                   aq_decision_id := Some (t_authorization_decision_id t2), aq_task_id := Some (t_id t2),
                   aq_execution_id := Some (at_execution_id a),
                   aq_reason_codes := [task_reason_value TR_WORKER_CLAIMED]\<rparr>)
                (w3\<lparr>w_attempts := rows\<rparr>)) (\<lambda>w4. Inr ((t2, Some a), w4)))))"

definition finish_attempt ::
  "uuid \<Rightarrow> (task_attempt \<Rightarrow> task_attempt) \<Rightarrow> 'z task_world_scheme \<Rightarrow> app_error + 'z task_world_scheme" where
  "finish_attempt tid f w =
     bindE (running_attempt tid w) (\<lambda>a. Inr (w\<lparr>w_attempts := row_put at_id (f a) (w_attempts w)\<rparr>))"

definition complete_task ::
  "uuid \<Rightarrow> task_completion_request \<Rightarrow> 'z task_world_scheme \<Rightarrow> app_error + task \<times> 'z task_world_scheme" where
  "complete_task tid r w =
     bindE (running_task tid w) (\<lambda>t.
     bindE (task_transition t TS_COMPLETED (tf_expected_version r) TE_COMPLETED TR_EXECUTION_COMPLETED TK_WORKER
              None (tf_result_metadata r) (\<lambda>x. x\<lparr>t_result_metadata := tf_result_metadata r\<rparr>) w) (\<lambda>(t1, w1).
     bindE (finish_attempt (t_id t1)
              (\<lambda>a. a\<lparr>at_status := TA_COMPLETED,
                     at_finished_at := Some (case t_completed_at t1 of Some c \<Rightarrow> c | None \<Rightarrow> w_now w1)\<rparr>) w1) (\<lambda>w2.
     Inr (t1, w2))))"

definition fail_task ::
  "uuid \<Rightarrow> task_failure_request \<Rightarrow> 'z task_world_scheme \<Rightarrow> app_error + task \<times> 'z task_world_scheme" where
  "fail_task tid r w =
     bindE (running_task tid w) (\<lambda>t.
     bindE (task_transition t TS_FAILED (tx_expected_version r) TE_FAILED TR_EXECUTION_FAILED TK_WORKER
              None (tx_metadata r)
              (\<lambda>x. x\<lparr>t_last_error_code := Some (tx_error_code r),
                     t_last_error_message := Some (tx_safe_error_message r)\<rparr>) w) (\<lambda>(t1, w1).
     bindE (finish_attempt (t_id t1)
              (\<lambda>a. a\<lparr>at_status := TA_FAILED, at_finished_at := Some (w_now w1),
                     at_error_code := Some (tx_error_code r),
                     at_safe_error_message := Some (tx_safe_error_message r)\<rparr>) w1) (\<lambda>w2.
     Inr (t1, w2))))"

definition reevaluation_request :: "task \<Rightarrow> authorization_request" where
  "reevaluation_request t =
     \<lparr>rq_capability_key = t_capability_key t, rq_action = t_action t, rq_scope = t_scope t,
      rq_resource = None, rq_context = [], rq_confirmation_id = t_confirmation_request_id t\<rparr>"

definition reevaluation_target :: "authorization_decision \<Rightarrow> task_status" where
  "reevaluation_target d =
     (case initial_state (dc_decision d) (dc_reason_codes d) of Some (s, _) \<Rightarrow> s | None \<Rightarrow> TS_FAILED)"

definition reevaluation_values :: "authorization_decision \<Rightarrow> task \<Rightarrow> task \<Rightarrow> task" where
  "reevaluation_values d t x =
     x\<lparr>t_authorization_decision_id := dc_decision_id d,
       t_confirmation_request_id :=
         (if dc_confirmation_id d \<noteq> None then dc_confirmation_id d else t_confirmation_request_id t),
       t_last_error_code :=
         (if reevaluation_target d = TS_FAILED then Some ''TASK_AUTHORIZATION_DENIED'' else None)\<rparr>"

definition reevaluate_task ::
  "identity_context \<Rightarrow> uuid \<Rightarrow> int \<Rightarrow> 'z task_world_scheme \<Rightarrow> app_error + task \<times> 'z task_world_scheme" where
  "reevaluate_task i tid expected_version w =
     bindE (owned_task (ic_user_id i) tid w) (\<lambda>t.
     bindE (expire_if_due t w) (\<lambda>((expired, t1), w1).
     if expired then Inr (t1, w1)
     else if t_status t1 \<notin> {TS_WAITING_PERMISSION, TS_WAITING_CONFIRMATION} then Inl InvalidTaskTransitionError
     else
       bindE (authorize (i\<lparr>ic_device_id := t_device_id t1\<rparr>) (reevaluation_request t1) w1) (\<lambda>(d, w2).
       if reevaluation_target d = t_status t1 then Inr (t1, w2)
       else task_transition t1 (reevaluation_target d) expected_version TE_STATE_CHANGED
              TR_AUTHORIZATION_REEVALUATED TK_SYSTEM None [] (reevaluation_values d t1) w2)))"

section \<open>The invariant\<close>

definition task_trail :: "uuid \<Rightarrow> 'z task_world_scheme \<Rightarrow> (task_status option \<times> task_status) list" where
  "task_trail tid w =
     map (\<lambda>e. (te_from_state e, te_to_state e)) (filter (\<lambda>e. te_task_id e = tid) (w_task_events w))"

text \<open>The linked decision allows the work of the task.\<close>

definition decision_allows :: "decision_record list \<Rightarrow> task \<Rightarrow> bool" where
  "decision_allows ds t \<longleftrightarrow>
     (\<exists>a \<in> set ds. ad_id a = t_authorization_decision_id t \<and> ad_decision a = ALLOW \<and>
        ad_user_id a = t_user_id t \<and> ad_capability_key a = t_capability_key t \<and> ad_action a = t_action t \<and>
        ad_scope a = t_scope t)"

definition needs_authority :: "task_status \<Rightarrow> bool" where
  "needs_authority s \<longleftrightarrow> s \<in> {TS_QUEUED, TS_RUNNING, TS_COMPLETED}"

definition task_ok :: "'z task_world_scheme \<Rightarrow> task \<Rightarrow> bool" where
  "task_ok w t \<longleftrightarrow>
     trail task_allowed None (task_trail (t_id t) w) \<and>
     trail_end None (task_trail (t_id t) w) = Some (t_status t) \<and>
     t_version t = int (length (task_trail (t_id t) w)) \<and>
     (needs_authority (t_status t) \<longrightarrow> decision_allows (w_decisions w) t)"

definition running_attempts :: "uuid \<Rightarrow> 'z task_world_scheme \<Rightarrow> task_attempt list" where
  "running_attempts tid w = filter (\<lambda>a. at_task_id a = tid \<and> at_status a = TA_RUNNING) (w_attempts w)"

definition attempts_ok :: "'z task_world_scheme \<Rightarrow> task \<Rightarrow> bool" where
  "attempts_ok w t \<longleftrightarrow>
     length (running_attempts (t_id t) w) = (if t_status t = TS_RUNNING then 1 else 0)"

definition task_base_inv :: "'z task_world_scheme \<Rightarrow> bool" where
  "task_base_inv w \<longleftrightarrow>
     unique_keys t_id (w_tasks w) \<and> keys_below t_id (w_next w) (w_tasks w) \<and>
     distinct (map (\<lambda>t. (t_user_id t, t_idempotency_key t)) (w_tasks w)) \<and>
     keys_below te_task_id (w_next w) (w_task_events w) \<and>
     unique_keys at_id (w_attempts w) \<and> keys_below at_id (w_next w) (w_attempts w) \<and>
     keys_below at_task_id (w_next w) (w_attempts w) \<and>
     (\<forall>t \<in> set (w_tasks w). task_ok w t)"

definition task_inv :: "'z task_world_scheme \<Rightarrow> bool" where
  "task_inv w \<longleftrightarrow> task_base_inv w \<and> (\<forall>t \<in> set (w_tasks w). attempts_ok w t)"

text \<open>Fields of a row that the extra values of a transition leave alone.\<close>

definition keeps_row :: "(task \<Rightarrow> task) \<Rightarrow> bool" where
  "keeps_row f \<longleftrightarrow> (\<forall>t. t_id (f t) = t_id t \<and> t_status (f t) = t_status t \<and> t_version (f t) = t_version t \<and>
     t_user_id (f t) = t_user_id t \<and> t_idempotency_key (f t) = t_idempotency_key t \<and>
     t_capability_key (f t) = t_capability_key t \<and> t_action (f t) = t_action t \<and> t_scope (f t) = t_scope t)"

definition task_frame :: "'z task_world_scheme \<Rightarrow> 'z task_world_scheme \<Rightarrow> bool" where
  "task_frame w w' \<longleftrightarrow>
     w_tasks w' = w_tasks w \<and> w_attempts w' = w_attempts w \<and> w_task_events w' = w_task_events w \<and>
     w_next w \<le> w_next w' \<and> set (w_decisions w) \<subseteq> set (w_decisions w')"

section \<open>Steps\<close>

inductive task_step :: "'z task_world_scheme \<Rightarrow> 'z task_world_scheme \<Rightarrow> bool" where
  create: "create_task i r w = Inr (res, w') \<Longrightarrow> task_step w w'"
| list: "list_owned_tasks i st k l off w = Inr (ts, w') \<Longrightarrow> task_step w w'"
| get: "get_owned_task i tid w = Inr (t, w') \<Longrightarrow> task_step w w'"
| cancel: "cancel_task i tid v w = Inr (t, w') \<Longrightarrow> task_step w w'"
| claim: "claim_task tid c w = Inr ((t, a), w') \<Longrightarrow> task_step w w'"
| complete: "complete_task tid q w = Inr (t, w') \<Longrightarrow> task_step w w'"
| fail: "fail_task tid x w = Inr (t, w') \<Longrightarrow> task_step w w'"
| reevaluate: "reevaluate_task i tid v w = Inr (t, w') \<Longrightarrow> task_step w w'"
| authority: "authorize i rq w = Inr (d, w') \<Longrightarrow> task_step w w'"
| tick: "w_now w \<le> n \<Longrightarrow> task_step w (w\<lparr>w_now := n\<rparr>)"

section \<open>Progress: a row changes by a step of the machine, with a higher version\<close>

definition row_progress :: "task \<Rightarrow> task \<Rightarrow> bool" where
  "row_progress t t' \<longleftrightarrow>
     t' = t \<or> (t_id t' = t_id t \<and> t_version t < t_version t' \<and> \<not> task_is_terminal (t_status t))"

definition task_progress :: "'z task_world_scheme \<Rightarrow> 'z task_world_scheme \<Rightarrow> bool" where
  "task_progress w w' \<longleftrightarrow> (\<forall>t \<in> set (w_tasks w). \<exists>t' \<in> set (w_tasks w'). row_progress t t')"

lemma more_tasks:
  "auth_world.more w' = auth_world.more w \<Longrightarrow> w_tasks w' = w_tasks w"
  "auth_world.more w' = auth_world.more w \<Longrightarrow> w_attempts w' = w_attempts w"
  "auth_world.more w' = auth_world.more w \<Longrightarrow> w_task_events w' = w_task_events w"
  for w :: "'z task_world_scheme"
  by (cases w; cases w'; simp)+

lemma stamp_simps [simp]:
  "t_id (stamp target now v t) = t_id t" "t_status (stamp target now v t) = target"
  "t_version (stamp target now v t) = v + 1" "t_user_id (stamp target now v t) = t_user_id t"
  "t_idempotency_key (stamp target now v t) = t_idempotency_key t"
  "t_capability_key (stamp target now v t) = t_capability_key t" "t_action (stamp target now v t) = t_action t"
  "t_scope (stamp target now v t) = t_scope t"
  "t_authorization_decision_id (stamp target now v t) = t_authorization_decision_id t"
  "t_retry_count (stamp target now v t) = t_retry_count t"
  by (simp_all add: stamp_def Let_def)

lemma keeps_row_id [simp]: "keeps_row id"
  by (simp add: keeps_row_def)

lemma draw_task_tables [simp]:
  "w_tasks (draw w) = w_tasks w" "w_attempts (draw w) = w_attempts w" "w_task_events (draw w) = w_task_events w"
  by (simp_all add: draw_def)

lemma append_event_Inr:
  assumes "append_event t ev f to reason actor aid m w = Inr w'"
  shows "\<exists>e. te_task_id e = t_id t \<and> te_from_state e = f \<and> te_to_state e = to \<and> te_timestamp e = w_now w \<and>
    w' = (draw w)\<lparr>w_task_events := row_add e (w_task_events w)\<rparr>"
proof -
  from assms obtain s where
    "w' = (draw w)\<lparr>w_task_events := row_add (new_task_event t ev f to reason actor aid s w) (w_task_events w)\<rparr>"
    unfolding append_event_def bindE_eq_Inr by auto
  then show ?thesis
    by (intro exI [of _ "new_task_event t ev f to reason actor aid s w"]) (simp add: new_task_event_def)
qed

lemma filter_singleton: "filter P xs = [x] \<Longrightarrow> x \<in> set xs \<and> P x"
  by (metis filter_eq_ConsD in_set_conv_decomp)

lemma task_transition_spec:
  assumes "task_transition t target v ev reason actor aid m extra w = Inr (t', w')"
  shows "\<exists>row e. row \<in> set (w_tasks w) \<and> t_id row = t_id t \<and> t_status row = t_status t \<and> t_version row = v \<and>
    target \<in> task_allowed (t_status t) \<and> t' = extra (stamp target (w_now w) v row) \<and>
    te_task_id e = t_id t' \<and> te_from_state e = Some (t_status t) \<and> te_to_state e = target \<and>
    w' = (draw w)\<lparr>w_tasks := row_put t_id t' (w_tasks w), w_task_events := row_add e (w_task_events w)\<rparr>"
proof -
  from assms have al: "target \<in> task_allowed (t_status t)"
    by (auto simp: task_transition_def split: if_splits)
  let ?P = "\<lambda>x. t_id x = t_id t \<and> t_status x = t_status t \<and> t_version x = v"
  from assms al obtain row where row: "filter ?P (w_tasks w) = [row]"
    by (auto simp: task_transition_def split: list.splits)
  then have mem: "row \<in> set (w_tasks w) \<and> ?P row" by (rule filter_singleton)
  let ?row = "extra (stamp target (w_now w) v row)"
  from assms al row have "bindE (append_event ?row ev (Some (t_status t)) target reason actor aid m
      (w\<lparr>w_tasks := row_put t_id ?row (w_tasks w)\<rparr>)) (\<lambda>w2. Inr (?row, w2)) = Inr (t', w')"
    by (simp add: task_transition_def Let_def)
  then have t': "t' = ?row" and ae: "append_event ?row ev (Some (t_status t)) target reason actor aid m
      (w\<lparr>w_tasks := row_put t_id ?row (w_tasks w)\<rparr>) = Inr w'"
    unfolding bindE_eq_Inr sum.inject prod.inject by blast+
  from append_event_Inr [OF ae] obtain e where "te_task_id e = t_id ?row" "te_from_state e = Some (t_status t)"
    "te_to_state e = target"
    "w' = (draw (w\<lparr>w_tasks := row_put t_id ?row (w_tasks w)\<rparr>))\<lparr>w_task_events := row_add e (w_task_events w)\<rparr>" by auto
  with mem al t' show ?thesis by (intro exI [of _ row] exI [of _ e]) (simp add: draw_def)
qed

lemma task_trail_add:
  "task_trail tid (w\<lparr>w_task_events := row_add e (w_task_events w)\<rparr>) =
     task_trail tid w @ (if te_task_id e = tid then [(te_from_state e, te_to_state e)] else [])"
  by (simp add: task_trail_def row_add_def)

lemma decision_allows_mono: "decision_allows ds t \<Longrightarrow> set ds \<subseteq> set ds' \<Longrightarrow> decision_allows ds' t"
  unfolding decision_allows_def by (meson subsetD)

text \<open>A transition keeps the invariant when the work it enters is covered by an ALLOW decision.\<close>

lemma task_transition_inv:
  assumes inv: "task_base_inv w" and tr: "task_transition t target v ev reason actor aid m extra w = Inr (t', w')"
    and keep: "keeps_row extra" and auth: "needs_authority target \<longrightarrow> decision_allows (w_decisions w) t'"
  shows "task_base_inv w'"
proof -
  from task_transition_spec [OF tr] obtain row e where row: "row \<in> set (w_tasks w)" "t_id row = t_id t"
      "t_status row = t_status t" "t_version row = v" "target \<in> task_allowed (t_status t)"
    and t': "t' = extra (stamp target (w_now w) v row)"
    and e: "te_task_id e = t_id t'" "te_from_state e = Some (t_status t)" "te_to_state e = target"
    and w': "w' = (draw w)\<lparr>w_tasks := row_put t_id t' (w_tasks w), w_task_events := row_add e (w_task_events w)\<rparr>"
    by blast
  have f: "t_id t' = t_id row" "t_status t' = target" "t_version t' = v + 1" "t_user_id t' = t_user_id row"
    "t_idempotency_key t' = t_idempotency_key row" using keep by (simp_all add: t' keeps_row_def)
  have trl: "task_trail tid w' = task_trail tid w @ (if tid = t_id row then [(Some (t_status row), target)] else [])" for tid
    by (simp add: w' task_trail_def row_add_def e f row)
  have dec: "w_decisions w' = w_decisions w" by (simp add: w')
  have ok_row: "task_ok w row" using inv row by (simp add: task_base_inv_def)
  have "task_ok w' t'"
    using ok_row trail_snoc [of task_allowed None "task_trail (t_id row) w" "t_status row" target] auth
    by (simp add: task_ok_def trl f row(3,4,5) dec)
  moreover have "task_ok w' x" if "x \<in> set (w_tasks w)" "t_id x \<noteq> t_id row" for x
    using that inv by (simp add: task_base_inv_def task_ok_def trl dec)
  ultimately have all: "\<forall>x \<in> set (w_tasks w'). task_ok w' x"
    by (auto simp: w' f dest!: row_put_mem)
  have nat_key: "map (\<lambda>t. (t_user_id t, t_idempotency_key t)) (row_put t_id t' (w_tasks w)) =
      map (\<lambda>t. (t_user_id t, t_idempotency_key t)) (w_tasks w)"
    using inv row f by (intro map_row_put_same [of _ _ row]) (auto simp: task_base_inv_def)
  from inv row have "t_id row < w_next w" by (auto simp: task_base_inv_def keys_below_def)
  with inv all nat_key e(1) f show ?thesis
    unfolding task_base_inv_def w' by (simp add: table_simps keys_below_Suc)
qed

lemma task_frame_ok:
  assumes "task_frame w w'"
  shows "task_ok w t \<Longrightarrow> task_ok w' t" and "attempts_ok w' t \<longleftrightarrow> attempts_ok w t"
  using assms decision_allows_mono [of "w_decisions w" t "w_decisions w'"]
  by (auto simp: task_frame_def task_ok_def task_trail_def attempts_ok_def running_attempts_def)

lemma task_frame_base_inv: "task_frame w w' \<Longrightarrow> task_base_inv w \<Longrightarrow> task_base_inv w'"
  using task_frame_ok [of w w'] keys_below_mono [of t_id "w_next w" _ "w_next w'"]
    keys_below_mono [of te_task_id "w_next w" _ "w_next w'"] keys_below_mono [of at_id "w_next w" _ "w_next w'"]
    keys_below_mono [of at_task_id "w_next w" _ "w_next w'"]
  unfolding task_base_inv_def by (auto simp: task_frame_def)

lemma task_frame_inv: "task_frame w w' \<Longrightarrow> task_inv w \<Longrightarrow> task_inv w'"
  using task_frame_base_inv [of w w'] task_frame_ok [of w w'] unfolding task_inv_def by (simp add: task_frame_def)

lemma record_audit_frame: "record_audit q w = Inr w' \<Longrightarrow> task_frame w w'"
  by (auto simp: record_audit_Inr task_frame_def audit_append_def)

lemma authorize_effects:
  assumes "authorize i r w = Inr (d, w')"
  shows "auth_world.more w' = auth_world.more w \<and> w_next w \<le> w_next w' \<and> w_now w' = w_now w \<and> w_sha256 w' = w_sha256 w \<and>
    w_users w' = w_users w \<and> w_devices w' = w_devices w \<and> w_sessions w' = w_sessions w \<and> w_capabilities w' = w_capabilities w \<and>
    (\<exists>a. w_decisions w' = row_add a (w_decisions w) \<and> ad_id a = dc_decision_id d \<and> ad_decision a = dc_decision d \<and>
       ad_user_id a = ic_user_id i \<and> ad_capability_key a = rq_capability_key r \<and> ad_action a = rq_action r \<and>
       ad_scope a = rq_scope r)"
proof -
  from assms obtain v w1 w2 where sc: "scanned w w1" and pr: "prepared i r v w1 w2" and f: "finalized i r v w2 d w'"
    by (rule authorize_verdict)
  obtain dt rs perm risk m g where t: "v = (dt, rs, perm, risk, m, g)" by (cases v)
  let ?a = "new_decision i r dt rs perm risk m g w2"
  from finalized_decision [OF f [unfolded t]] sc prepared_effects [OF pr]
  have "w_decisions w' = row_add ?a (w_decisions w)" by (simp add: scanned_def same_but_permissions_def)
  moreover have "ad_id ?a = dc_decision_id d" "ad_decision ?a = dc_decision d" "ad_user_id ?a = ic_user_id i"
    "ad_capability_key ?a = rq_capability_key r" "ad_action ?a = rq_action r" "ad_scope ?a = rq_scope r"
    using finalized_effects(11) [OF f] finalized_shows [OF f] by (simp_all add: new_decision_def decision_shows_def t)
  ultimately show ?thesis
    using sc prepared_effects [OF pr] finalized_effects [OF f] by (auto simp: scanned_def same_but_permissions_def)
qed

lemma authorize_frame: "authorize i r w = Inr (d, w') \<Longrightarrow> task_frame w w'"
  using authorize_effects [of i r w d w'] more_tasks [of w' w] by (auto simp: task_frame_def table_simps)

text \<open>A transition that neither starts nor ends a run.\<close>

lemma task_transition_full_inv:
  assumes inv: "task_inv w" and tr: "task_transition t target v ev reason actor aid m extra w = Inr (t', w')"
    and keep: "keeps_row extra" and auth: "needs_authority target \<longrightarrow> decision_allows (w_decisions w) t'"
    and "t_status t \<noteq> TS_RUNNING" and "target \<noteq> TS_RUNNING"
  shows "task_inv w'"
proof -
  from inv task_transition_inv [OF _ tr keep auth] have b: "task_base_inv w'" by (simp add: task_inv_def)
  from task_transition_spec [OF tr] obtain row e where row: "row \<in> set (w_tasks w)" "t_status row = t_status t"
    and t': "t' = extra (stamp target (w_now w) v row)"
    and w': "w' = (draw w)\<lparr>w_tasks := row_put t_id t' (w_tasks w), w_task_events := row_add e (w_task_events w)\<rparr>"
    by blast
  have f: "t_id t' = t_id row" "t_status t' = target" using keep by (simp_all add: t' keeps_row_def)
  have run: "running_attempts tid w' = running_attempts tid w" for tid by (simp add: running_attempts_def w')
  have "attempts_ok w row" using inv row by (simp add: task_inv_def)
  then have "attempts_ok w' t'" using assms(5,6) row(2) by (simp add: attempts_ok_def run f)
  moreover have "attempts_ok w' x" if "x \<in> set (w_tasks w)" for x
    using that inv by (simp add: task_inv_def attempts_ok_def run)
  ultimately have "\<forall>x \<in> set (w_tasks w'). attempts_ok w' x" by (auto simp: w' dest!: row_put_mem)
  with b show ?thesis by (simp add: task_inv_def)
qed

lemma task_transition_stored:
  assumes "task_transition t target v ev reason actor aid m extra w = Inr (t', w')" and "keeps_row extra"
  shows "t' \<in> set (w_tasks w')" "t_id t' = t_id t" "t_status t' = target" "t_version t' = v + 1"
    "t_user_id t' = t_user_id t \<or> \<not> unique_keys t_id (w_tasks w) \<or> t \<notin> set (w_tasks w)"
proof -
  from task_transition_spec [OF assms(1)] obtain row e where row: "row \<in> set (w_tasks w)" "t_id row = t_id t"
    and t': "t' = extra (stamp target (w_now w) v row)"
    and w': "w' = (draw w)\<lparr>w_tasks := row_put t_id t' (w_tasks w), w_task_events := row_add e (w_task_events w)\<rparr>"
    by blast
  have f: "t_id t' = t_id row" "t_status t' = target" "t_version t' = v + 1" "t_user_id t' = t_user_id row"
    using assms(2) by (simp_all add: t' keeps_row_def)
  then show "t_id t' = t_id t" "t_status t' = target" "t_version t' = v + 1" using row by simp_all
  show "t' \<in> set (w_tasks w')" using row f by (simp add: w' row_put_intro [of row])
  show "t_user_id t' = t_user_id t \<or> \<not> unique_keys t_id (w_tasks w) \<or> t \<notin> set (w_tasks w)"
    using row f by (auto dest: unique_keys_eq)
qed

lemma expire_if_due_inv:
  assumes inv: "task_inv w" and ex: "expire_if_due t w = Inr ((b, t'), w')"
  shows "task_inv w'"
proof (cases "(case t_expires_at t of None \<Rightarrow> True | Some e \<Rightarrow> \<not> at_or_after (w_now w) e) \<or> task_is_terminal (t_status t)")
  case True
  with ex inv show ?thesis by (simp add: expire_if_due_def)
next
  case False
  with ex have tr: "task_transition t TS_EXPIRED (t_version t) TE_EXPIRED TR_DEADLINE_REACHED TK_SYSTEM None [] id w = Inr (t', w')"
    unfolding expire_if_due_def if_not_P [OF False] bindE_eq_Inr by (auto split: prod.splits)
  from task_transition_spec [OF tr] have "t_status t \<noteq> TS_RUNNING" by auto
  then show ?thesis by (intro task_transition_full_inv [OF inv tr]) (simp_all add: needs_authority_def)
qed

lemma expire_if_due_cases:
  assumes "expire_if_due t w = Inr ((b, t'), w')"
  shows "(\<not> b \<and> t' = t \<and> w' = w) \<or> (b \<and> t_status t' = TS_EXPIRED \<and> t_id t' = t_id t \<and> t' \<in> set (w_tasks w') \<and>
    task_transition t TS_EXPIRED (t_version t) TE_EXPIRED TR_DEADLINE_REACHED TK_SYSTEM None [] id w = Inr (t', w'))"
proof (cases "(case t_expires_at t of None \<Rightarrow> True | Some e \<Rightarrow> \<not> at_or_after (w_now w) e) \<or> task_is_terminal (t_status t)")
  case True
  with assms show ?thesis by (simp add: expire_if_due_def)
next
  case False
  with assms have tr: "task_transition t TS_EXPIRED (t_version t) TE_EXPIRED TR_DEADLINE_REACHED TK_SYSTEM None [] id w = Inr (t', w')"
    and b: b
    unfolding expire_if_due_def if_not_P [OF False] bindE_eq_Inr by (auto split: prod.splits)
  from task_transition_stored [OF tr] b tr show ?thesis by simp
qed

lemma expire_all_inv: "expire_all ts w = Inr (ts', w') \<Longrightarrow> task_inv w \<Longrightarrow> task_inv w'"
proof (induction ts arbitrary: w ts')
  case (Cons t ts)
  from Cons.prems(1) obtain b t1 w1 rest where "expire_if_due t w = Inr ((b, t1), w1)" "expire_all ts w1 = Inr (rest, w')"
    unfolding expire_all.simps bindE_eq_Inr by (auto split: prod.splits simp: bindE_eq_Inr)
  with Cons expire_if_due_inv show ?case by blast
qed simp

lemma owned_task_Inr: "owned_task uid tid w = Inr t \<Longrightarrow> t \<in> set (w_tasks w) \<and> t_id t = tid \<and> t_user_id t = uid"
  by (auto simp: owned_task_def result_simps dest: row_find_Some)

lemma list_owned_tasks_inv: "list_owned_tasks i st k l off w = Inr (ts, w') \<Longrightarrow> task_inv w \<Longrightarrow> task_inv w'"
  unfolding list_owned_tasks_def by (rule expire_all_inv)

lemma get_owned_task_parts:
  assumes "get_owned_task i tid w = Inr (t', w')"
  shows "\<exists>t b. owned_task (ic_user_id i) tid w = Inr t \<and> expire_if_due t w = Inr ((b, t'), w')"
  using assms unfolding get_owned_task_def bindE_eq_Inr by (auto split: prod.splits)

lemma get_owned_task_inv: "get_owned_task i tid w = Inr (t', w') \<Longrightarrow> task_inv w \<Longrightarrow> task_inv w'"
  using get_owned_task_parts expire_if_due_inv by blast

lemma cancel_task_parts:
  assumes "cancel_task i tid v w = Inr (t', w')"
  shows "\<exists>t b t1 w1. owned_task (ic_user_id i) tid w = Inr t \<and> expire_if_due t w = Inr ((b, t1), w1) \<and>
    (b \<and> t' = t1 \<and> w' = w1 \<or> \<not> b \<and> t_status t1 = TS_CANCELLED \<and> t' = t1 \<and> w' = w1 \<or>
     (\<exists>w2 q. \<not> b \<and> \<not> task_is_terminal (t_status t1) \<and>
       task_transition t1 TS_CANCELLED v TE_CANCELLED TR_USER_CANCELLED TK_USER (Some (show_nat (ic_user_id i))) [] id w1 =
       Inr (t', w2) \<and> record_audit q w2 = Inr w'))"
proof -
  from assms obtain t b t1 w1 where e: "owned_task (ic_user_id i) tid w = Inr t" "expire_if_due t w = Inr ((b, t1), w1)"
    and k: "(if b then Inr (t1, w1)
     else if t_status t1 = TS_CANCELLED then Inr (t1, w1)
     else if task_is_terminal (t_status t1) then Inl TaskAlreadyTerminalError
     else
       bindE (task_transition t1 TS_CANCELLED v TE_CANCELLED TR_USER_CANCELLED TK_USER
                (Some (show_nat (ic_user_id i))) [] id w1) (\<lambda>(t2, w2).
       bindE (record_audit (task_audit_record i t2 AE_TASK_CANCELLED AR_RECORDED (task_reason_value TR_USER_CANCELLED)) w2)
         (\<lambda>w3. Inr (t2, w3)))) = Inr (t', w')"
    unfolding cancel_task_def bindE_eq_Inr by (auto split: prod.splits simp del: task_reason_value.simps)
  show ?thesis
  proof (cases "b \<or> t_status t1 = TS_CANCELLED")
    case True
    with k e show ?thesis by (auto split: if_splits)
  next
    case False
    with k have nt: "\<not> task_is_terminal (t_status t1)" by (auto split: if_splits)
    with False k have "bindE (task_transition t1 TS_CANCELLED v TE_CANCELLED TR_USER_CANCELLED TK_USER
                (Some (show_nat (ic_user_id i))) [] id w1) (\<lambda>(t2, w2).
       bindE (record_audit (task_audit_record i t2 AE_TASK_CANCELLED AR_RECORDED (task_reason_value TR_USER_CANCELLED)) w2)
         (\<lambda>w3. Inr (t2, w3))) = Inr (t', w')" by simp
    then obtain w2 q where "task_transition t1 TS_CANCELLED v TE_CANCELLED TR_USER_CANCELLED TK_USER
        (Some (show_nat (ic_user_id i))) [] id w1 = Inr (t', w2)" "record_audit q w2 = Inr w'"
      unfolding bindE_eq_Inr by (auto split: prod.splits simp: bindE_eq_Inr simp del: task_reason_value.simps)
    with nt False e show ?thesis by blast
  qed
qed

lemma cancel_task_inv:
  assumes "cancel_task i tid v w = Inr (t', w')" and inv: "task_inv w"
  shows "task_inv w'"
proof -
  from cancel_task_parts [OF assms(1)] obtain t b t1 w1 where
    e: "expire_if_due t w = Inr ((b, t1), w1)"
    and k: "w' = w1 \<or> (\<exists>w2 q. task_transition t1 TS_CANCELLED v TE_CANCELLED TR_USER_CANCELLED TK_USER
       (Some (show_nat (ic_user_id i))) [] id w1 = Inr (t', w2) \<and> record_audit q w2 = Inr w')" by blast
  have inv1: "task_inv w1" using expire_if_due_inv [OF inv e] .
  from k show ?thesis
  proof (elim disjE exE conjE)
    fix w2 q
    assume tr: "task_transition t1 TS_CANCELLED v TE_CANCELLED TR_USER_CANCELLED TK_USER
       (Some (show_nat (ic_user_id i))) [] id w1 = Inr (t', w2)" and q: "record_audit q w2 = Inr w'"
    from task_transition_spec [OF tr] have "t_status t1 \<noteq> TS_RUNNING" by auto
    then have "task_inv w2" by (intro task_transition_full_inv [OF inv1 tr]) (simp_all add: needs_authority_def)
    with record_audit_frame [OF q] show ?thesis by (rule task_frame_inv)
  qed (use inv1 in simp)
qed

text \<open>The start and the end of a run change the attempts together with the status.\<close>

lemma attempts_ok_other:
  assumes "\<forall>x \<in> set (w_tasks w). attempts_ok w x" and "w_tasks w' = row_put t_id t' (w_tasks w)"
    and "\<And>tid. tid \<noteq> t_id t' \<Longrightarrow> running_attempts tid w' = running_attempts tid w" and "attempts_ok w' t'"
  shows "\<forall>x \<in> set (w_tasks w'). attempts_ok w' x"
proof
  fix x
  assume "x \<in> set (w_tasks w')"
  with assms(2) have "x = t' \<or> x \<in> set (w_tasks w) \<and> t_id x \<noteq> t_id t'" by (auto dest!: row_put_mem)
  with assms show "attempts_ok w' x" by (auto simp: attempts_ok_def)
qed

lemma base_inv_attempts:
  assumes "task_base_inv w" and "w_tasks w' = w_tasks w" "w_task_events w' = w_task_events w" "w_decisions w' = w_decisions w"
    and "w_next w \<le> w_next w'"
    and "unique_keys at_id (w_attempts w')" "keys_below at_id (w_next w') (w_attempts w')"
      "keys_below at_task_id (w_next w') (w_attempts w')"
  shows "task_base_inv w'"
proof -
  have "task_ok w' x \<longleftrightarrow> task_ok w x" for x using assms(3,4) by (simp add: task_ok_def task_trail_def)
  moreover have "keys_below t_id (w_next w') (w_tasks w)" "keys_below te_task_id (w_next w') (w_task_events w)"
    using assms(1,5) by (auto simp: task_base_inv_def intro: keys_below_mono)
  ultimately show ?thesis using assms unfolding task_base_inv_def by simp
qed

lemma claim_task_parts:
  assumes "claim_task tid r w = Inr ((t', a), w')"
  shows "\<exists>t b t1 w1. row_get t_id tid (w_tasks w) = Some t \<and> expire_if_due t w = Inr ((b, t1), w1) \<and>
    (b \<and> t' = t1 \<and> a = None \<and> w' = w1 \<or>
     (\<exists>w2 q. \<not> b \<and> t_status t1 = TS_QUEUED \<and>
        task_transition t1 TS_RUNNING (tq_expected_version r) TE_CLAIMED TR_WORKER_CLAIMED TK_WORKER
          (Some (tq_worker_id r)) (tq_metadata r) id w1 = Inr (t', w2) \<and> a = Some (new_attempt t' r w2) \<and>
        record_audit q ((draw (draw w2))\<lparr>w_attempts := row_add (new_attempt t' r w2) (w_attempts w2)\<rparr>) = Inr w'))"
proof -
  let ?tr = "\<lambda>t1 w1. task_transition t1 TS_RUNNING (tq_expected_version r) TE_CLAIMED TR_WORKER_CLAIMED TK_WORKER
          (Some (tq_worker_id r)) (tq_metadata r) id w1"
  let ?q = "\<lambda>t2 a. (blank_audit (t_user_id t2) (t_device_id t2) None AT_SYSTEM AE_TASK_CLAIMED AR_RECORDED)
                  \<lparr>aq_capability_key := Some (t_capability_key t2), aq_action := Some (t_action t2),
                   aq_decision_id := Some (t_authorization_decision_id t2), aq_task_id := Some (t_id t2),
                   aq_execution_id := Some (at_execution_id a),
                   aq_reason_codes := [task_reason_value TR_WORKER_CLAIMED]\<rparr>"
  from assms obtain t b t1 w1 where e: "row_get t_id tid (w_tasks w) = Some t" "expire_if_due t w = Inr ((b, t1), w1)"
    and k: "(if b then Inr ((t1, None), w1)
     else if t_status t1 \<noteq> TS_QUEUED then Inl TaskNotClaimableError
     else
       bindE (?tr t1 w1) (\<lambda>(t2, w2).
       case insert_attempt (new_attempt t2 r w2) (w_attempts (draw (draw w2))) of
            None \<Rightarrow> Inl PyIntegrityError
          | Some rows \<Rightarrow>
              bindE (record_audit (?q t2 (new_attempt t2 r w2)) ((draw (draw w2))\<lparr>w_attempts := rows\<rparr>))
                (\<lambda>w4. Inr ((t2, Some (new_attempt t2 r w2)), w4)))) = Inr ((t', a), w')"
    unfolding claim_task_def bindE_eq_Inr someE_eq_Inr Let_def
    by (auto split: prod.splits simp del: task_reason_value.simps draw_task_tables)
  show ?thesis
  proof (cases b)
    case True
    with k e show ?thesis by auto
  next
    case False
    with k have q: "t_status t1 = TS_QUEUED" by (auto split: if_splits)
    with False k obtain t2 w2 where t2: "?tr t1 w1 = Inr (t2, w2)"
      and k2: "(case insert_attempt (new_attempt t2 r w2) (w_attempts (draw (draw w2))) of
            None \<Rightarrow> Inl PyIntegrityError
          | Some rows \<Rightarrow>
              bindE (record_audit (?q t2 (new_attempt t2 r w2)) ((draw (draw w2))\<lparr>w_attempts := rows\<rparr>))
                (\<lambda>w4. Inr ((t2, Some (new_attempt t2 r w2)), w4))) = Inr ((t', a), w')"
      by (auto simp: bindE_eq_Inr simp del: task_reason_value.simps draw_task_tables split del: option.split)
    from k2 obtain rows where rows: "insert_attempt (new_attempt t2 r w2) (w_attempts w2) = Some rows"
      by (cases "insert_attempt (new_attempt t2 r w2) (w_attempts w2)") auto
    then have "rows = row_add (new_attempt t2 r w2) (w_attempts w2)" by (auto simp: insert_attempt_def split: if_splits)
    with k2 rows obtain q where "record_audit q ((draw (draw w2))\<lparr>w_attempts := row_add (new_attempt t2 r w2) (w_attempts w2)\<rparr>) = Inr w'"
      "t' = t2" "a = Some (new_attempt t2 r w2)"
      unfolding draw_task_tables option.case bindE_eq_Inr sum.inject prod.inject by (simp only: rows option.case bindE_eq_Inr sum.inject prod.inject) blast
    with t2 q False e show ?thesis by blast
  qed
qed

lemma claim_task_inv:
  assumes "claim_task tid r w = Inr ((t', a), w')" and inv: "task_inv w"
  shows "task_inv w'"
proof -
  from claim_task_parts [OF assms(1)] obtain t b t1 w1 where e: "expire_if_due t w = Inr ((b, t1), w1)"
    and k: "w' = w1 \<or> (\<exists>w2 q. t_status t1 = TS_QUEUED \<and>
        task_transition t1 TS_RUNNING (tq_expected_version r) TE_CLAIMED TR_WORKER_CLAIMED TK_WORKER
          (Some (tq_worker_id r)) (tq_metadata r) id w1 = Inr (t', w2) \<and>
        record_audit q ((draw (draw w2))\<lparr>w_attempts := row_add (new_attempt t' r w2) (w_attempts w2)\<rparr>) = Inr w')" by blast
  have inv1: "task_inv w1" using expire_if_due_inv [OF inv e] .
  from k show ?thesis
  proof (elim disjE exE conjE)
    fix w2 q
    assume st: "t_status t1 = TS_QUEUED" and tr: "task_transition t1 TS_RUNNING (tq_expected_version r) TE_CLAIMED
        TR_WORKER_CLAIMED TK_WORKER (Some (tq_worker_id r)) (tq_metadata r) id w1 = Inr (t', w2)"
      and q: "record_audit q ((draw (draw w2))\<lparr>w_attempts := row_add (new_attempt t' r w2) (w_attempts w2)\<rparr>) = Inr w'"
    from task_transition_spec [OF tr] obtain row ev where row: "row \<in> set (w_tasks w1)" "t_status row = TS_QUEUED"
      and t': "t' = id (stamp TS_RUNNING (w_now w1) (tq_expected_version r) row)"
      and w2: "w2 = (draw w1)\<lparr>w_tasks := row_put t_id t' (w_tasks w1), w_task_events := row_add ev (w_task_events w1)\<rparr>"
      using st by auto
    have rows: "task_ok w1 row" "attempts_ok w1 row" using inv1 row by (simp_all add: task_inv_def task_base_inv_def)
    have id: "t_id t' = t_id row" "t_status t' = TS_RUNNING" by (simp_all add: t')
    have "decision_allows (w_decisions w1) t'"
      using rows(1) row(2) by (auto simp: task_ok_def needs_authority_def decision_allows_def t')
    then have b2: "task_base_inv w2" using inv1 by (intro task_transition_inv [OF _ tr]) (auto simp: task_inv_def)
    let ?w3 = "(draw (draw w2))\<lparr>w_attempts := row_add (new_attempt t' r w2) (w_attempts w2)\<rparr>"
    have lt: "t_id t' < w_next w2" using inv1 row id by (auto simp: w2 task_inv_def task_base_inv_def keys_below_def)
    have b3: "task_base_inv ?w3"
    proof (rule base_inv_attempts [OF b2])
      have "w_next w2 \<notin> at_id ` set (w_attempts w2)"
        using b2 keys_below_fresh [of at_id "w_next w2" "w_attempts w2" "w_next w2"] by (simp add: task_base_inv_def)
      then show "unique_keys at_id (w_attempts ?w3)" using b2 by (simp add: task_base_inv_def table_simps new_attempt_def)
      show "keys_below at_id (w_next ?w3) (w_attempts ?w3)"
        using b2 by (simp add: task_base_inv_def table_simps new_attempt_def keys_below_Suc)
      show "keys_below at_task_id (w_next ?w3) (w_attempts ?w3)"
        using b2 lt by (simp add: task_base_inv_def table_simps new_attempt_def keys_below_Suc)
    qed simp_all
    have run: "running_attempts tid ?w3 = running_attempts tid w1 @ (if tid = t_id t' then [new_attempt t' r w2] else [])" for tid
      by (simp add: running_attempts_def row_add_def new_attempt_def w2)
    have "\<forall>x \<in> set (w_tasks ?w3). attempts_ok ?w3 x"
    proof (rule attempts_ok_other)
      show "\<forall>x \<in> set (w_tasks w1). attempts_ok w1 x" using inv1 by (simp add: task_inv_def)
      show "w_tasks ?w3 = row_put t_id t' (w_tasks w1)" by (simp add: w2)
      show "running_attempts tid ?w3 = running_attempts tid w1" if "tid \<noteq> t_id t'" for tid using that run by simp
      show "attempts_ok ?w3 t'" using rows(2) row(2) id by (simp add: attempts_ok_def run)
    qed
    with b3 have "task_inv ?w3" by (simp add: task_inv_def)
    with record_audit_frame [OF q] show ?thesis by (rule task_frame_inv)
  qed (use inv1 in simp)
qed

lemma finish_attempt_Inr:
  assumes "finish_attempt tid f w = Inr w'"
  shows "\<exists>a \<in> set (w_attempts w). at_task_id a = tid \<and> at_status a = TA_RUNNING \<and>
    w' = w\<lparr>w_attempts := row_put at_id (f a) (w_attempts w)\<rparr>"
  using assms by (auto simp: finish_attempt_def running_attempt_def bindE_eq_Inr someE_eq_Inr dest: row_find_Some)

lemma filter_row_put_drop:
  assumes "unique_keys key xs" and "a \<in> set xs" and "P a" and "key (f a) = key a" and "\<not> P (f a)"
  shows "length (filter P (row_put key (f a) xs)) = length (filter P xs) - 1"
  using assms
proof (induction xs)
  case (Cons x xs)
  show ?case
  proof (cases "x = a")
    case True
    with Cons.prems have "key a \<notin> key ` set xs" by (simp add: unique_keys_def)
    then have "row_put key (f a) xs = xs" using Cons.prems(4) by (auto simp: row_put_def image_iff intro!: map_idI)
    with True Cons.prems show ?thesis by (simp add: row_put_def)
  next
    case False
    with Cons.prems have a: "a \<in> set xs" "unique_keys key xs" "key x \<noteq> key a" by (auto simp: unique_keys_def)
    then have "length (filter P xs) > 0" using Cons.prems(3) by (auto simp: filter_empty_conv)
    with Cons.IH a Cons.prems show ?thesis by (simp add: row_put_def)
  qed
qed simp

text \<open>The end of a run: a transition out of RUNNING followed by the update of the running attempt.\<close>

lemma finish_run_inv:
  assumes inv: "task_inv w" and mem: "t \<in> set (w_tasks w)" and st: "t_status t = TS_RUNNING"
    and tr: "task_transition t target v ev reason actor aid m extra w = Inr (t', w1)" and keep: "keeps_row extra"
    and auth: "\<And>x. t_authorization_decision_id (extra x) = t_authorization_decision_id x"
    and fa: "finish_attempt (t_id t') f w1 = Inr w'"
    and f: "\<And>a. at_id (f a) = at_id a \<and> at_task_id (f a) = at_task_id a \<and> at_status (f a) \<noteq> TA_RUNNING"
  shows "task_inv w'"
proof -
  from task_transition_spec [OF tr] obtain row e where row: "row \<in> set (w_tasks w)" "t_id row = t_id t"
      "t_status row = t_status t" and al: "target \<in> task_allowed (t_status t)"
    and t': "t' = extra (stamp target (w_now w) v row)"
    and w1: "w1 = (draw w)\<lparr>w_tasks := row_put t_id t' (w_tasks w), w_task_events := row_add e (w_task_events w)\<rparr>"
    by blast
  have rows: "task_ok w row" "attempts_ok w row" using inv row by (simp_all add: task_inv_def task_base_inv_def)
  have id: "t_id t' = t_id row" "t_status t' = target" "t_user_id t' = t_user_id row" "t_action t' = t_action row"
    "t_capability_key t' = t_capability_key row" "t_scope t' = t_scope row"
    "t_authorization_decision_id t' = t_authorization_decision_id row"
    using keep auth by (simp_all add: t' keeps_row_def)
  have "decision_allows (w_decisions w) t'"
    using rows(1) row(3) st id by (simp add: task_ok_def needs_authority_def decision_allows_def)
  then have b1: "task_base_inv w1" using inv by (intro task_transition_inv [OF _ tr keep]) (auto simp: task_inv_def)
  from finish_attempt_Inr [OF fa] obtain a where a: "a \<in> set (w_attempts w)" "at_task_id a = t_id row" "at_status a = TA_RUNNING"
    and w': "w' = w1\<lparr>w_attempts := row_put at_id (f a) (w_attempts w)\<rparr>" by (auto simp: w1 id)
  have uk: "unique_keys at_id (w_attempts w)" using inv by (simp add: task_inv_def task_base_inv_def)
  have b': "task_base_inv w'"
  proof (rule base_inv_attempts [OF b1])
    show "unique_keys at_id (w_attempts w')" "keys_below at_id (w_next w') (w_attempts w')"
      using b1 by (simp_all add: w' w1 task_base_inv_def table_simps)
    have "map at_task_id (row_put at_id (f a) (w_attempts w)) = map at_task_id (w_attempts w)"
      by (rule map_row_put_same [OF uk a(1)]) (use f in auto)
    from keys_of_map_eq(2) [OF this] show "keys_below at_task_id (w_next w') (w_attempts w')"
      using b1 by (simp add: w' w1 task_base_inv_def)
  qed (simp_all add: w')
  have "\<forall>x \<in> set (w_tasks w'). attempts_ok w' x"
  proof (rule attempts_ok_other)
    show "\<forall>x \<in> set (w_tasks w). attempts_ok w x" using inv by (simp add: task_inv_def)
    show "w_tasks w' = row_put t_id t' (w_tasks w)" by (simp add: w' w1)
    show "running_attempts tid w' = running_attempts tid w" if "tid \<noteq> t_id t'" for tid
    proof -
      have "\<And>xs. filter (\<lambda>x. at_task_id x = tid \<and> at_status x = TA_RUNNING) (row_put at_id (f a) xs) =
        filter (\<lambda>x. at_task_id x = tid \<and> at_status x = TA_RUNNING) (filter (\<lambda>x. at_id x \<noteq> at_id a) xs)"
        subgoal for xs using f [of a] by (induction xs) (auto simp: row_put_def) done
      moreover have "\<And>xs. unique_keys at_id xs \<Longrightarrow> a \<in> set xs \<Longrightarrow>
        filter (\<lambda>x. at_task_id x = tid \<and> at_status x = TA_RUNNING) (filter (\<lambda>x. at_id x \<noteq> at_id a) xs) =
        filter (\<lambda>x. at_task_id x = tid \<and> at_status x = TA_RUNNING) xs"
        using that a(2) id(1) unfolding filter_filter
        by (intro filter_cong) (auto dest: unique_keys_eq)
      ultimately show ?thesis using uk a(1) by (simp add: running_attempts_def w')
    qed
    have "length (running_attempts (t_id t') w') = length (running_attempts (t_id t') w) - 1"
      unfolding running_attempts_def w' using filter_row_put_drop [OF uk a(1)] a(2,3) f [of a] id(1) by simp
    moreover have "target \<noteq> TS_RUNNING" using al st by auto
    ultimately show "attempts_ok w' t'" using rows(2) row(3) st id by (simp add: attempts_ok_def)
  qed
  with b' show ?thesis by (simp add: task_inv_def)
qed

lemma running_task_Inr: "running_task tid w = Inr t \<Longrightarrow> t \<in> set (w_tasks w) \<and> t_id t = tid \<and> t_status t = TS_RUNNING"
  by (auto simp: running_task_def split: option.splits if_splits dest: row_get_Some)

lemma complete_task_inv:
  assumes "complete_task tid r w = Inr (t', w')" and inv: "task_inv w"
  shows "task_inv w'"
proof -
  let ?x = "\<lambda>x. x\<lparr>t_result_metadata := tf_result_metadata r\<rparr>"
  from assms(1) obtain t t1 w1 where t: "running_task tid w = Inr t"
    and tr: "task_transition t TS_COMPLETED (tf_expected_version r) TE_COMPLETED TR_EXECUTION_COMPLETED TK_WORKER
              None (tf_result_metadata r) ?x w = Inr (t1, w1)"
    and fa: "finish_attempt (t_id t1)
              (\<lambda>a. a\<lparr>at_status := TA_COMPLETED,
                     at_finished_at := Some (case t_completed_at t1 of Some c \<Rightarrow> c | None \<Rightarrow> w_now w1)\<rparr>) w1 = Inr w'"
    unfolding complete_task_def bindE_eq_Inr by (auto split: prod.splits simp: bindE_eq_Inr)
  from running_task_Inr [OF t] show ?thesis
    by (intro finish_run_inv [OF inv _ _ tr _ _ fa]) (simp_all add: keeps_row_def)
qed

lemma fail_task_inv:
  assumes "fail_task tid r w = Inr (t', w')" and inv: "task_inv w"
  shows "task_inv w'"
proof -
  from assms(1) obtain t t1 w1 where t: "running_task tid w = Inr t"
    and tr: "task_transition t TS_FAILED (tx_expected_version r) TE_FAILED TR_EXECUTION_FAILED TK_WORKER
              None (tx_metadata r) (\<lambda>x. x\<lparr>t_last_error_code := Some (tx_error_code r),
                     t_last_error_message := Some (tx_safe_error_message r)\<rparr>) w = Inr (t1, w1)"
    and fa: "finish_attempt (t_id t1)
              (\<lambda>a. a\<lparr>at_status := TA_FAILED, at_finished_at := Some (w_now w1),
                     at_error_code := Some (tx_error_code r),
                     at_safe_error_message := Some (tx_safe_error_message r)\<rparr>) w1 = Inr w'"
    unfolding fail_task_def bindE_eq_Inr by (auto split: prod.splits simp: bindE_eq_Inr)
  from running_task_Inr [OF t] show ?thesis
    by (intro finish_run_inv [OF inv _ _ tr _ _ fa]) (simp_all add: keeps_row_def)
qed

lemma initial_state_queued: "initial_state d rs = Some (TS_QUEUED, x) \<Longrightarrow> d = ALLOW"
  by (auto simp: initial_state_def split: if_splits)

lemma initial_state_range:
  "initial_state d rs = Some (s, x) \<Longrightarrow> s \<in> {TS_QUEUED, TS_WAITING_CONFIRMATION, TS_WAITING_PERMISSION}"
  by (auto simp: initial_state_def split: if_splits)

lemma reevaluate_task_parts:
  assumes "reevaluate_task i tid v w = Inr (t', w')"
  shows "\<exists>t b t1 w1. owned_task (ic_user_id i) tid w = Inr t \<and> expire_if_due t w = Inr ((b, t1), w1) \<and>
    (b \<and> t' = t1 \<and> w' = w1 \<or>
     \<not> b \<and> t_status t1 \<in> {TS_WAITING_PERMISSION, TS_WAITING_CONFIRMATION} \<and>
     (\<exists>d w2. authorize (i\<lparr>ic_device_id := t_device_id t1\<rparr>) (reevaluation_request t1) w1 = Inr (d, w2) \<and>
        (reevaluation_target d = t_status t1 \<and> t' = t1 \<and> w' = w2 \<or>
         reevaluation_target d \<noteq> t_status t1 \<and>
         task_transition t1 (reevaluation_target d) v TE_STATE_CHANGED TR_AUTHORIZATION_REEVALUATED TK_SYSTEM
           None [] (reevaluation_values d t1) w2 = Inr (t', w'))))"
proof -
  from assms obtain t b t1 w1 where t: "owned_task (ic_user_id i) tid w = Inr t"
    and e: "expire_if_due t w = Inr ((b, t1), w1)"
    and k: "(if b then Inr (t1, w1)
      else if t_status t1 \<notin> {TS_WAITING_PERMISSION, TS_WAITING_CONFIRMATION} then Inl InvalidTaskTransitionError
      else bindE (authorize (i\<lparr>ic_device_id := t_device_id t1\<rparr>) (reevaluation_request t1) w1) (\<lambda>(d, w2).
        if reevaluation_target d = t_status t1 then Inr (t1, w2)
        else task_transition t1 (reevaluation_target d) v TE_STATE_CHANGED TR_AUTHORIZATION_REEVALUATED TK_SYSTEM
          None [] (reevaluation_values d t1) w2)) = Inr (t', w')"
    unfolding reevaluate_task_def bindE_eq_Inr by (auto split: prod.splits)
  show ?thesis
  proof (cases b)
    case True
    with k t e show ?thesis by auto
  next
    case False
    with k have st: "t_status t1 \<in> {TS_WAITING_PERMISSION, TS_WAITING_CONFIRMATION}" by (auto split: if_splits)
    with k False obtain d w2 where a: "authorize (i\<lparr>ic_device_id := t_device_id t1\<rparr>) (reevaluation_request t1) w1 = Inr (d, w2)"
      and k2: "(if reevaluation_target d = t_status t1 then Inr (t1, w2)
        else task_transition t1 (reevaluation_target d) v TE_STATE_CHANGED TR_AUTHORIZATION_REEVALUATED TK_SYSTEM
          None [] (reevaluation_values d t1) w2) = Inr (t', w')"
      by (auto simp: bindE_eq_Inr)
    have "reevaluation_target d = t_status t1 \<and> t' = t1 \<and> w' = w2 \<or>
         reevaluation_target d \<noteq> t_status t1 \<and>
         task_transition t1 (reevaluation_target d) v TE_STATE_CHANGED TR_AUTHORIZATION_REEVALUATED TK_SYSTEM
           None [] (reevaluation_values d t1) w2 = Inr (t', w')"
      using k2 by (cases "reevaluation_target d = t_status t1") auto
    with t e False st a show ?thesis by blast
  qed
qed

lemma keeps_row_reevaluation [simp]: "keeps_row (reevaluation_values d t)"
  by (simp add: keeps_row_def reevaluation_values_def)

lemma reevaluate_task_inv:
  assumes "reevaluate_task i tid v w = Inr (t', w')" and inv: "task_inv w"
  shows "task_inv w'"
proof -
  from reevaluate_task_parts [OF assms(1)] obtain t b t1 w1 where t: "owned_task (ic_user_id i) tid w = Inr t"
    and e: "expire_if_due t w = Inr ((b, t1), w1)"
    and k: "b \<and> w' = w1 \<or> \<not> b \<and> t_status t1 \<in> {TS_WAITING_PERMISSION, TS_WAITING_CONFIRMATION} \<and>
     (\<exists>d w2. authorize (i\<lparr>ic_device_id := t_device_id t1\<rparr>) (reevaluation_request t1) w1 = Inr (d, w2) \<and>
        (w' = w2 \<or> task_transition t1 (reevaluation_target d) v TE_STATE_CHANGED TR_AUTHORIZATION_REEVALUATED TK_SYSTEM
           None [] (reevaluation_values d t1) w2 = Inr (t', w')))" by blast
  have inv1: "task_inv w1" using expire_if_due_inv [OF inv e] .
  show ?thesis
  proof (cases b)
    case True
    with k inv1 show ?thesis by simp
  next
    case False
    with e have same: "t1 = t" "w1 = w" using expire_if_due_cases by blast+
    from owned_task_Inr [OF t] same have mem: "t1 \<in> set (w_tasks w1)" "t_user_id t1 = ic_user_id i" by simp_all
    from k False obtain d w2 where st: "t_status t1 \<in> {TS_WAITING_PERMISSION, TS_WAITING_CONFIRMATION}"
      and a: "authorize (i\<lparr>ic_device_id := t_device_id t1\<rparr>) (reevaluation_request t1) w1 = Inr (d, w2)"
      and k2: "w' = w2 \<or> task_transition t1 (reevaluation_target d) v TE_STATE_CHANGED TR_AUTHORIZATION_REEVALUATED TK_SYSTEM
           None [] (reevaluation_values d t1) w2 = Inr (t', w')" by blast
    have inv2: "task_inv w2" using task_frame_inv [OF authorize_frame [OF a] inv1] .
    from k2 show ?thesis
    proof
      assume tr: "task_transition t1 (reevaluation_target d) v TE_STATE_CHANGED TR_AUTHORIZATION_REEVALUATED TK_SYSTEM
           None [] (reevaluation_values d t1) w2 = Inr (t', w')"
      from task_transition_spec [OF tr] obtain row where row: "row \<in> set (w_tasks w2)" "t_id row = t_id t1"
        and t'': "t' = reevaluation_values d t1 (stamp (reevaluation_target d) (w_now w2) v row)" by blast
      have "t1 \<in> set (w_tasks w2)" using mem authorize_frame [OF a] by (simp add: task_frame_def)
      with row inv2 have "row = t1" by (auto simp: task_inv_def task_base_inv_def intro: unique_keys_eq)
      have range: "reevaluation_target d \<in> {TS_QUEUED, TS_WAITING_CONFIRMATION, TS_WAITING_PERMISSION, TS_FAILED}"
        by (auto simp: reevaluation_target_def split: option.splits prod.splits dest: initial_state_range)
      have "decision_allows (w_decisions w2) t'" if "reevaluation_target d = TS_QUEUED"
      proof -
        from that have "dc_decision d = ALLOW"
          by (auto simp: reevaluation_target_def split: option.splits dest: initial_state_queued)
        with authorize_effects [OF a] mem(2) \<open>row = t1\<close> show ?thesis
          unfolding decision_allows_def t'' by (auto simp: table_simps reevaluation_request_def reevaluation_values_def)
      qed
      with range have "needs_authority (reevaluation_target d) \<longrightarrow> decision_allows (w_decisions w2) t'"
        by (auto simp: needs_authority_def)
      with st range show ?thesis by (intro task_transition_full_inv [OF inv2 tr]) auto
    qed (use inv2 in simp)
  qed
qed

lemma idempotent_existing_None:
  "idempotent_existing uid key fp w = Inr None \<longleftrightarrow> (\<forall>t \<in> set (w_tasks w). \<not> (t_user_id t = uid \<and> t_idempotency_key t = key))"
  by (auto simp: idempotent_existing_def row_find_None split: option.splits if_splits dest: row_find_Some)

lemma idempotent_existing_Some:
  "idempotent_existing uid key fp w = Inr (Some t) \<Longrightarrow>
     t \<in> set (w_tasks w) \<and> t_user_id t = uid \<and> t_idempotency_key t = key \<and> t_request_fingerprint t = fp"
  by (auto simp: idempotent_existing_def split: option.splits if_splits dest: row_find_Some)

lemma insert_task_Some:
  "insert_task t rows = Some rows' \<Longrightarrow> rows' = row_add t rows \<and> task_row_ok t \<and>
     (t_user_id t, t_idempotency_key t) \<notin> (\<lambda>t. (t_user_id t, t_idempotency_key t)) ` set rows"
  by (auto simp: insert_task_def row_find_None split: if_splits)

lemma new_task_simps [simp]:
  "t_id (new_task i r dev d st w) = w_next w" "t_status (new_task i r dev d st w) = st"
  "t_version (new_task i r dev d st w) = 1" "t_user_id (new_task i r dev d st w) = ic_user_id i"
  "t_idempotency_key (new_task i r dev d st w) = tc_idempotency_key r"
  "t_request_fingerprint (new_task i r dev d st w) = task_fingerprint w r"
  "t_authorization_decision_id (new_task i r dev d st w) = dc_decision_id d"
  "t_capability_key (new_task i r dev d st w) = tc_capability_key r" "t_action (new_task i r dev d st w) = tc_action r"
  "t_scope (new_task i r dev d st w) = tc_scope r"
  by (simp_all add: new_task_def)

text \<open>A new task with its CREATED event and no attempts keeps the invariant.\<close>

lemma new_task_inv:
  assumes inv: "task_inv w" and t: "t = new_task i r dev d st w"
    and fresh: "(t_user_id t, t_idempotency_key t) \<notin> (\<lambda>t. (t_user_id t, t_idempotency_key t)) ` set (w_tasks w)"
    and st: "st \<noteq> TS_RUNNING" and auth: "needs_authority st \<longrightarrow> decision_allows (w_decisions w) t"
    and e: "te_task_id e = w_next w" "te_from_state e = None" "te_to_state e = st"
    and w': "w' = (draw (draw w))\<lparr>w_tasks := row_add t (w_tasks w), w_task_events := row_add e (w_task_events w)\<rparr>"
  shows "task_inv w'"
proof -
  have ne: "te_task_id x \<noteq> w_next w" if "x \<in> set (w_task_events w)" for x
    using that inv by (auto simp: task_inv_def task_base_inv_def keys_below_def)
  have na: "at_task_id x \<noteq> w_next w" if "x \<in> set (w_attempts w)" for x
    using that inv by (auto simp: task_inv_def task_base_inv_def keys_below_def)
  have nt: "t_id x \<noteq> w_next w" if "x \<in> set (w_tasks w)" for x
    using that inv by (auto simp: task_inv_def task_base_inv_def keys_below_def)
  have "filter (\<lambda>x. te_task_id x = w_next w) (w_task_events w) = []" using ne by (simp add: filter_empty_conv)
  then have new: "task_trail (w_next w) w' = [(None, st)]" by (simp add: task_trail_def w' row_add_def e)
  have old: "task_trail tid w' = task_trail tid w" if "tid \<noteq> w_next w" for tid
    using that by (simp add: task_trail_def w' row_add_def e)
  have run: "running_attempts tid w' = running_attempts tid w" for tid by (simp add: running_attempts_def w')
  have "running_attempts (w_next w) w = []" using na by (auto simp: running_attempts_def filter_empty_conv)
  then have "attempts_ok w' t" using st by (simp add: attempts_ok_def run t)
  moreover have "task_ok w' t" using auth by (simp add: task_ok_def t new) (simp add: w' t)
  moreover have "task_ok w' x \<and> attempts_ok w' x" if "x \<in> set (w_tasks w)" for x
  proof -
    have "task_ok w x" "attempts_ok w x" using inv that by (simp_all add: task_inv_def task_base_inv_def)
    moreover have "w_decisions w' = w_decisions w" by (simp add: w')
    ultimately show ?thesis using old [OF nt [OF that]] by (simp add: task_ok_def attempts_ok_def run)
  qed
  ultimately have all: "\<forall>x \<in> set (w_tasks w'). task_ok w' x \<and> attempts_ok w' x" by (auto simp: w' table_simps)
  have "w_next w \<notin> t_id ` set (w_tasks w)" using nt by (metis imageE)
  with inv fresh have "unique_keys t_id (w_tasks w') \<and> keys_below t_id (w_next w') (w_tasks w') \<and>
      distinct (map (\<lambda>t. (t_user_id t, t_idempotency_key t)) (w_tasks w'))"
    by (simp add: w' task_inv_def task_base_inv_def table_simps t keys_below_Suc)
  moreover have "keys_below te_task_id (w_next w') (w_task_events w') \<and> unique_keys at_id (w_attempts w') \<and>
      keys_below at_id (w_next w') (w_attempts w') \<and> keys_below at_task_id (w_next w') (w_attempts w')"
    using inv by (simp add: w' task_inv_def task_base_inv_def table_simps e keys_below_Suc)
  ultimately show ?thesis using all unfolding task_inv_def task_base_inv_def by blast
qed

lemma persist_task_parts:
  assumes "persist_task i r dev d st reason w = Inr (res, w')"
  shows "(\<exists>t e q. t = new_task i r dev d st w \<and> task_row_ok t \<and>
      (t_user_id t, t_idempotency_key t) \<notin> (\<lambda>t. (t_user_id t, t_idempotency_key t)) ` set (w_tasks w) \<and>
      te_task_id e = w_next w \<and> te_from_state e = None \<and> te_to_state e = st \<and>
      record_audit q ((draw (draw w))\<lparr>w_tasks := row_add t (w_tasks w), w_task_events := row_add e (w_task_events w)\<rparr>) = Inr w' \<and>
      res = \<lparr>cr_task = Some t, cr_hard_denied = False, cr_decision = Some d\<rparr>) \<or>
    (\<exists>e ed. idempotent_existing (ic_user_id i) (tc_idempotency_key r) (task_fingerprint w r) w = Inr (Some e) \<and>
      w' = draw w \<and> res = \<lparr>cr_task = Some e, cr_hard_denied = False, cr_decision = ed\<rparr>)"
proof (cases "insert_task (new_task i r dev d st w) (w_tasks w)")
  case None
  with assms show ?thesis
    by (auto simp: persist_task_def Let_def bindE_eq_Inr idempotent_existing_def split: option.splits)
next
  case (Some rows)
  let ?t = "new_task i r dev d st w"
  let ?q = "task_audit_record i ?t AE_TASK_CREATED AR_RECORDED (task_reason_value reason)"
  note rows = insert_task_Some [OF Some]
  from assms Some have "bindE (append_event ?t TE_CREATED None st reason TK_USER (Some (show_nat (ic_user_id i))) []
          ((draw w)\<lparr>w_tasks := rows\<rparr>)) (\<lambda>w2. bindE (record_audit ?q w2) (\<lambda>w3.
             Inr (\<lparr>cr_task = Some ?t, cr_hard_denied = False, cr_decision = Some d\<rparr>, w3))) = Inr (res, w')"
    by (simp add: persist_task_def Let_def)
  then obtain w2 where w2: "append_event ?t TE_CREATED None st reason TK_USER (Some (show_nat (ic_user_id i))) []
          ((draw w)\<lparr>w_tasks := rows\<rparr>) = Inr w2" and q: "record_audit ?q w2 = Inr w'"
    and res: "res = \<lparr>cr_task = Some ?t, cr_hard_denied = False, cr_decision = Some d\<rparr>"
    unfolding bindE_eq_Inr sum.inject prod.inject by blast
  from append_event_Inr [OF w2] obtain e where e: "te_task_id e = w_next w" "te_from_state e = None" "te_to_state e = st"
    and "w2 = (draw ((draw w)\<lparr>w_tasks := rows\<rparr>))\<lparr>w_task_events := row_add e (w_task_events w)\<rparr>" by auto
  then have "w2 = (draw (draw w))\<lparr>w_tasks := row_add ?t (w_tasks w), w_task_events := row_add e (w_task_events w)\<rparr>"
    using rows by (simp add: draw_def)
  with q e rows res show ?thesis by (intro disjI1) blast
qed

lemma create_task_parts:
  assumes "create_task i r w = Inr (res, w')"
  shows "(\<exists>e d. idempotent_existing (ic_user_id i) (tc_idempotency_key r) (task_fingerprint w r) w = Inr (Some e) \<and>
       res = \<lparr>cr_task = Some e, cr_hard_denied = False, cr_decision = d\<rparr> \<and> w' = w) \<or>
    idempotent_existing (ic_user_id i) (tc_idempotency_key r) (task_fingerprint w r) w = Inr None \<and>
    (res = \<lparr>cr_task = None, cr_hard_denied = True, cr_decision = None\<rparr> \<and> w' = w \<or>
     (\<exists>dev i' d w1. (i' = i \<or> (\<exists>x. i' = i\<lparr>ic_device_id := x\<rparr>)) \<and> authorize i' (task_authorization_request r) w = Inr (d, w1) \<and>
        (res = \<lparr>cr_task = None, cr_hard_denied = True, cr_decision = Some d\<rparr> \<and> w' = w1 \<and>
           initial_state (dc_decision d) (dc_reason_codes d) = None \<or>
         (\<exists>st reason. initial_state (dc_decision d) (dc_reason_codes d) = Some (st, reason) \<and>
            persist_task i r dev d st reason w1 = Inr (res, w')))))"
proof -
  from assms obtain ex where ex: "idempotent_existing (ic_user_id i) (tc_idempotency_key r) (task_fingerprint w r) w = Inr ex"
    by (auto simp: create_task_def bindE_eq_Inr)
  show ?thesis
  proof (cases ex)
    case (Some e)
    with assms ex show ?thesis by (auto simp: create_task_def bindE_eq_Inr)
  next
    case None
    show ?thesis
    proof (cases "case tc_expires_at r of None \<Rightarrow> False | Some e \<Rightarrow> at_or_after (w_now w) e")
      case True
      with assms ex None show ?thesis by (simp add: create_task_def)
    next
      case False
      from assms [unfolded create_task_def ex None bindE_Inr option.case if_not_P [OF False]]
      obtain u dev where "validate_task_device (ic_user_id i) (tc_device_id r) w = Inr dev"
        and k: "bindE (authorize (case dev of None \<Rightarrow> i | Some d \<Rightarrow> i\<lparr>ic_device_id := Some (d_id d)\<rparr>) (task_authorization_request r) w)
          (\<lambda>(decision, w1).
              case initial_state (dc_decision decision) (dc_reason_codes decision) of
                None \<Rightarrow> Inr (\<lparr>cr_task = None, cr_hard_denied = True, cr_decision = Some decision\<rparr>, w1)
              | Some (status, reason) \<Rightarrow> persist_task i r dev decision status reason w1) = Inr (res, w')"
        unfolding bindE_eq_Inr Let_def by (elim exE conjE) (blast intro: bindE_eq_Inr [THEN iffD2])
      let ?i = "case dev of None \<Rightarrow> i | Some d \<Rightarrow> i\<lparr>ic_device_id := Some (d_id d)\<rparr>"
      from k obtain d w1 where "authorize ?i (task_authorization_request r) w = Inr (d, w1)"
        and k2: "(case initial_state (dc_decision d) (dc_reason_codes d) of
                None \<Rightarrow> Inr (\<lparr>cr_task = None, cr_hard_denied = True, cr_decision = Some d\<rparr>, w1)
              | Some (status, reason) \<Rightarrow> persist_task i r dev d status reason w1) = Inr (res, w')"
        unfolding bindE_eq_Inr by (auto simp del: option.case_eq_if)
      note d = this
      have i': "?i = i \<or> (\<exists>x. ?i = i\<lparr>ic_device_id := x\<rparr>)" by (cases dev) auto
      have "res = \<lparr>cr_task = None, cr_hard_denied = True, cr_decision = Some d\<rparr> \<and> w' = w1 \<and>
           initial_state (dc_decision d) (dc_reason_codes d) = None \<or>
         (\<exists>st reason. initial_state (dc_decision d) (dc_reason_codes d) = Some (st, reason) \<and>
            persist_task i r dev d st reason w1 = Inr (res, w'))"
        using k2 by (cases "initial_state (dc_decision d) (dc_reason_codes d)") auto
      with d i' have "\<exists>dev i' d w1. (i' = i \<or> (\<exists>x. i' = i\<lparr>ic_device_id := x\<rparr>)) \<and>
        authorize i' (task_authorization_request r) w = Inr (d, w1) \<and>
        (res = \<lparr>cr_task = None, cr_hard_denied = True, cr_decision = Some d\<rparr> \<and> w' = w1 \<and>
           initial_state (dc_decision d) (dc_reason_codes d) = None \<or>
         (\<exists>st reason. initial_state (dc_decision d) (dc_reason_codes d) = Some (st, reason) \<and>
            persist_task i r dev d st reason w1 = Inr (res, w')))"
        by (intro exI [of _ dev] exI [of _ ?i] exI [of _ d] exI [of _ w1] conjI)
      with ex None show ?thesis by blast
    qed
  qed
qed

lemma create_task_inv:
  assumes c: "create_task i r w = Inr (res, w')" and inv: "task_inv w"
  shows "task_inv w'"
proof -
  from create_task_parts [OF c] consider "w' = w"
    | i' d where "authorize i' (task_authorization_request r) w = Inr (d, w')"
    | dev i' d w1 st reason where "i' = i \<or> (\<exists>x. i' = i\<lparr>ic_device_id := x\<rparr>)"
      "authorize i' (task_authorization_request r) w = Inr (d, w1)"
      "initial_state (dc_decision d) (dc_reason_codes d) = Some (st, reason)"
      "persist_task i r dev d st reason w1 = Inr (res, w')" by blast
  then show ?thesis
  proof cases
    case 1
    with inv show ?thesis by simp
  next
    case 2
    with inv show ?thesis using task_frame_inv [OF authorize_frame] by blast
  next
    case 3
    note i' = 3(1) and a = 3(2) and st = 3(3) and p = 3(4)
  have inv1: "task_inv w1" using task_frame_inv [OF authorize_frame [OF a] inv] .
  from persist_task_parts [OF p] show ?thesis
  proof (elim disjE exE conjE)
    fix t e q
    assume t: "t = new_task i r dev d st w1"
      and k: "(t_user_id t, t_idempotency_key t) \<notin> (\<lambda>t. (t_user_id t, t_idempotency_key t)) ` set (w_tasks w1)"
      and e: "te_task_id e = w_next w1" "te_from_state e = None" "te_to_state e = st"
      and q: "record_audit q ((draw (draw w1))\<lparr>w_tasks := row_add t (w_tasks w1), w_task_events := row_add e (w_task_events w1)\<rparr>) = Inr w'"
    have range: "st \<in> {TS_QUEUED, TS_WAITING_CONFIRMATION, TS_WAITING_PERMISSION}" using initial_state_range [OF st] .
    have "decision_allows (w_decisions w1) t" if "st = TS_QUEUED"
    proof -
      from st that have "dc_decision d = ALLOW" by (auto dest: initial_state_queued)
      with authorize_effects [OF a] i' show ?thesis
        unfolding decision_allows_def t by (auto simp: table_simps task_authorization_request_def)
    qed
    with range have "needs_authority st \<longrightarrow> decision_allows (w_decisions w1) t" by (auto simp: needs_authority_def)
    with range have "task_inv ((draw (draw w1))\<lparr>w_tasks := row_add t (w_tasks w1), w_task_events := row_add e (w_task_events w1)\<rparr>)"
      by (intro new_task_inv [OF inv1 t k _ _ e refl]) auto
    with record_audit_frame [OF q] show ?thesis by (rule task_frame_inv)
  next
    fix e ed
    assume "w' = draw w1"
    then have "task_frame w1 w'" by (simp add: task_frame_def)
    then show ?thesis using inv1 by (rule task_frame_inv)
  qed
  qed
qed

lemma task_step_inv: "task_step w w' \<Longrightarrow> task_inv w \<Longrightarrow> task_inv w'"
proof (induction rule: task_step.induct)
  case (authority i rq w d w')
  then show ?case using task_frame_inv [OF authorize_frame] by blast
next
  case (tick w n)
  have "task_frame w (w\<lparr>w_now := n\<rparr>)" by (simp add: task_frame_def)
  then show ?case using tick(2) by (rule task_frame_inv)
qed (blast intro: create_task_inv list_owned_tasks_inv get_owned_task_inv cancel_task_inv claim_task_inv
    complete_task_inv fail_task_inv reevaluate_task_inv)+

lemma row_progress_trans: "row_progress a b \<Longrightarrow> row_progress b c \<Longrightarrow> row_progress a c"
  by (auto simp: row_progress_def)

lemma task_progress_trans: "task_progress w1 w2 \<Longrightarrow> task_progress w2 w3 \<Longrightarrow> task_progress w1 w3"
  unfolding task_progress_def by (meson row_progress_trans)

lemma task_frame_progress: "task_frame w w' \<Longrightarrow> task_progress w w'"
  by (auto simp: task_frame_def task_progress_def row_progress_def)

lemma task_transition_progress:
  assumes "task_inv w" and "task_transition t target v ev reason actor aid m extra w = Inr (t', w')" and "keeps_row extra"
  shows "task_progress w w'"
proof -
  from task_transition_spec [OF assms(2)] obtain row e where row: "row \<in> set (w_tasks w)" "t_status row = t_status t"
      "t_version row = v" "target \<in> task_allowed (t_status t)"
    and t': "t' = extra (stamp target (w_now w) v row)"
    and w': "w' = (draw w)\<lparr>w_tasks := row_put t_id t' (w_tasks w), w_task_events := row_add e (w_task_events w)\<rparr>"
    by blast
  have f: "t_id t' = t_id row" "t_version t' = v + 1" using assms(3) by (simp_all add: t' keeps_row_def)
  have live: "\<not> task_is_terminal (t_status row)" using row(2,4) task_machine.terminal_stuck by auto
  have "\<exists>y \<in> set (w_tasks w'). row_progress x y" if "x \<in> set (w_tasks w)" for x
  proof (cases "t_id x = t_id row")
    case True
    with that row(1) assms(1) have "x = row" by (auto simp: task_inv_def task_base_inv_def intro: unique_keys_eq)
    with row f live show ?thesis by (intro bexI [of _ t']) (auto simp: w' row_progress_def row_put_intro [of row])
  next
    case False
    with that f show ?thesis by (intro bexI [of _ x]) (auto simp: w' row_progress_def row_put_keep)
  qed
  then show ?thesis by (simp add: task_progress_def)
qed

lemma task_progress_refl [simp]: "task_progress w w"
  by (auto simp: task_progress_def row_progress_def)

lemma expire_if_due_progress:
  "expire_if_due t w = Inr ((b, t'), w') \<Longrightarrow> task_inv w \<Longrightarrow> task_progress w w'"
  using expire_if_due_cases task_transition_progress [OF _ _ keeps_row_id] by (metis task_progress_refl)

lemma expire_all_progress: "expire_all ts w = Inr (ts', w') \<Longrightarrow> task_inv w \<Longrightarrow> task_progress w w'"
proof (induction ts arbitrary: w ts')
  case (Cons t ts)
  from Cons.prems(1) obtain b t1 w1 rest where h: "expire_if_due t w = Inr ((b, t1), w1)" and r: "expire_all ts w1 = Inr (rest, w')"
    unfolding expire_all.simps bindE_eq_Inr by (auto split: prod.splits simp: bindE_eq_Inr)
  from Cons.IH [OF r expire_if_due_inv [OF Cons.prems(2) h]] expire_if_due_progress [OF h Cons.prems(2)]
  show ?case by (rule task_progress_trans [rotated])
qed simp

lemma finish_attempt_progress: "finish_attempt tid f w = Inr w' \<Longrightarrow> task_progress w w'"
  by (auto simp: task_progress_def row_progress_def dest!: finish_attempt_Inr)

lemma cancel_task_progress:
  assumes "cancel_task i tid v w = Inr (t', w')" and inv: "task_inv w"
  shows "task_progress w w'"
proof -
  from cancel_task_parts [OF assms(1)] obtain t b t1 w1 where e: "expire_if_due t w = Inr ((b, t1), w1)"
    and k: "w' = w1 \<or> (\<exists>w2 q. task_transition t1 TS_CANCELLED v TE_CANCELLED TR_USER_CANCELLED TK_USER
       (Some (show_nat (ic_user_id i))) [] id w1 = Inr (t', w2) \<and> record_audit q w2 = Inr w')" by blast
  note p1 = expire_if_due_progress [OF e inv] and inv1 = expire_if_due_inv [OF inv e]
  from k have "task_progress w1 w'"
    using task_transition_progress [OF inv1 _ keeps_row_id] record_audit_frame task_frame_progress task_progress_trans
    by (metis task_progress_refl)
  with p1 show ?thesis by (rule task_progress_trans)
qed

lemma claim_task_progress:
  assumes "claim_task tid r w = Inr ((t', a), w')" and inv: "task_inv w"
  shows "task_progress w w'"
proof -
  from claim_task_parts [OF assms(1)] obtain t b t1 w1 where e: "expire_if_due t w = Inr ((b, t1), w1)"
    and k: "w' = w1 \<or> (\<exists>w2 q. task_transition t1 TS_RUNNING (tq_expected_version r) TE_CLAIMED TR_WORKER_CLAIMED TK_WORKER
          (Some (tq_worker_id r)) (tq_metadata r) id w1 = Inr (t', w2) \<and>
        record_audit q ((draw (draw w2))\<lparr>w_attempts := row_add (new_attempt t' r w2) (w_attempts w2)\<rparr>) = Inr w')" by blast
  note p1 = expire_if_due_progress [OF e inv] and inv1 = expire_if_due_inv [OF inv e]
  from k have "task_progress w1 w'"
  proof (elim disjE exE conjE)
    fix w2 :: "'a task_world_scheme" and q
    let ?w3 = "(draw (draw w2))\<lparr>w_attempts := row_add (new_attempt t' r w2) (w_attempts w2)\<rparr>"
    assume tr: "task_transition t1 TS_RUNNING (tq_expected_version r) TE_CLAIMED TR_WORKER_CLAIMED TK_WORKER
          (Some (tq_worker_id r)) (tq_metadata r) id w1 = Inr (t', w2)" and q: "record_audit q ?w3 = Inr w'"
    have "task_progress w2 ?w3" by (auto simp: task_progress_def row_progress_def)
    moreover have "task_progress ?w3 w'" using record_audit_frame [OF q] by (rule task_frame_progress)
    moreover have "task_progress w1 w2" using task_transition_progress [OF inv1 tr keeps_row_id] .
    ultimately show ?thesis by (meson task_progress_trans)
  qed simp
  with p1 show ?thesis by (rule task_progress_trans)
qed

lemma complete_task_progress:
  assumes "complete_task tid r w = Inr (t', w')" and inv: "task_inv w"
  shows "task_progress w w'"
proof -
  let ?x = "\<lambda>x. x\<lparr>t_result_metadata := tf_result_metadata r\<rparr>"
  from assms(1) obtain t t1 w1 f where
    tr: "task_transition t TS_COMPLETED (tf_expected_version r) TE_COMPLETED TR_EXECUTION_COMPLETED TK_WORKER
              None (tf_result_metadata r) ?x w = Inr (t1, w1)"
    and fa: "finish_attempt (t_id t1) f w1 = Inr w'"
    unfolding complete_task_def bindE_eq_Inr by (auto split: prod.splits simp: bindE_eq_Inr)
  have "keeps_row ?x" by (simp add: keeps_row_def)
  from task_transition_progress [OF inv tr this] finish_attempt_progress [OF fa] show ?thesis by (rule task_progress_trans)
qed

lemma fail_task_progress:
  assumes "fail_task tid r w = Inr (t', w')" and inv: "task_inv w"
  shows "task_progress w w'"
proof -
  let ?x = "\<lambda>x. x\<lparr>t_last_error_code := Some (tx_error_code r), t_last_error_message := Some (tx_safe_error_message r)\<rparr>"
  from assms(1) obtain t t1 w1 f where
    tr: "task_transition t TS_FAILED (tx_expected_version r) TE_FAILED TR_EXECUTION_FAILED TK_WORKER
              None (tx_metadata r) ?x w = Inr (t1, w1)"
    and fa: "finish_attempt (t_id t1) f w1 = Inr w'"
    unfolding fail_task_def bindE_eq_Inr by (auto split: prod.splits simp: bindE_eq_Inr)
  have "keeps_row ?x" by (simp add: keeps_row_def)
  from task_transition_progress [OF inv tr this] finish_attempt_progress [OF fa] show ?thesis by (rule task_progress_trans)
qed

lemma reevaluate_task_progress:
  assumes "reevaluate_task i tid v w = Inr (t', w')" and inv: "task_inv w"
  shows "task_progress w w'"
proof -
  from reevaluate_task_parts [OF assms(1)] obtain t b t1 w1 where e: "expire_if_due t w = Inr ((b, t1), w1)"
    and k: "w' = w1 \<or> (\<exists>i2 rq d w2. authorize i2 rq w1 = Inr (d, w2) \<and>
        (w' = w2 \<or> task_transition t1 (reevaluation_target d) v TE_STATE_CHANGED TR_AUTHORIZATION_REEVALUATED TK_SYSTEM
           None [] (reevaluation_values d t1) w2 = Inr (t', w')))" by blast
  note p1 = expire_if_due_progress [OF e inv] and inv1 = expire_if_due_inv [OF inv e]
  from k have "task_progress w1 w'"
  proof (elim disjE exE conjE)
    fix i2 rq d w2
    assume a: "authorize i2 rq w1 = Inr (d, w2)" and "w' = w2"
    then show ?thesis using authorize_frame task_frame_progress by blast
  next
    fix i2 rq d w2
    assume a: "authorize i2 rq w1 = Inr (d, w2)" and
      tr: "task_transition t1 (reevaluation_target d) v TE_STATE_CHANGED TR_AUTHORIZATION_REEVALUATED TK_SYSTEM
           None [] (reevaluation_values d t1) w2 = Inr (t', w')"
    have "task_inv w2" using task_frame_inv [OF authorize_frame [OF a] inv1] .
    from task_frame_progress [OF authorize_frame [OF a]] task_transition_progress [OF this tr keeps_row_reevaluation]
    show ?thesis by (rule task_progress_trans)
  qed simp
  with p1 show ?thesis by (rule task_progress_trans)
qed

lemma create_task_progress:
  assumes "create_task i r w = Inr (res, w')"
  shows "task_progress w w'"
proof -
  from create_task_parts [OF assms] consider "w' = w"
    | i' d where "authorize i' (task_authorization_request r) w = Inr (d, w')"
    | dev i' d w1 st reason where "authorize i' (task_authorization_request r) w = Inr (d, w1)"
      "persist_task i r dev d st reason w1 = Inr (res, w')" by blast
  then show ?thesis
  proof cases
    case 2
    then show ?thesis using authorize_frame task_frame_progress by blast
  next
    case 3
    have "set (w_tasks w1) \<subseteq> set (w_tasks w')"
      using persist_task_parts [OF 3(2)] by (auto simp: record_audit_Inr table_simps audit_append_def)
    then have "task_progress w1 w'" by (auto simp: task_progress_def row_progress_def)
    with task_frame_progress [OF authorize_frame [OF 3(1)]] show ?thesis by (rule task_progress_trans)
  qed simp
qed

lemma task_step_progress: "task_step w w' \<Longrightarrow> task_inv w \<Longrightarrow> task_progress w w'"
proof (induction rule: task_step.induct)
  case (list i st k l off w ts w')
  then show ?case unfolding list_owned_tasks_def by (rule expire_all_progress)
next
  case (get i tid w t w')
  then show ?case using get_owned_task_parts expire_if_due_progress by blast
next
  case (authority i rq w d w')
  then show ?case using authorize_frame task_frame_progress by blast
next
  case (tick w n)
  show ?case by (auto simp: task_progress_def row_progress_def)
qed (blast intro: create_task_progress cancel_task_progress claim_task_progress complete_task_progress
    fail_task_progress reevaluate_task_progress)+

lemma task_steps_keep: "task_step\<^sup>*\<^sup>* w w' \<Longrightarrow> task_inv w \<Longrightarrow> task_inv w' \<and> task_progress w w'"
  by (induction rule: rtranclp_induct) (auto intro: task_step_inv task_progress_trans dest: task_step_progress)

end
