(* ===== verification/Task_Correct.thy ===== *)
theory Task_Correct
  imports Task_Engine
begin

text \<open>
  What the task engine guarantees over every sequence of its operations: histories are paths of the
  transition table, queued work is authorized, a running task has one running attempt, terminal tasks
  never change, stale versions conflict, creation is idempotent.
\<close>

section \<open>Sample data\<close>

definition sample_allow :: decision_record where
  "sample_allow = \<lparr>ad_id = 20, ad_user_id = 1, ad_device_id = None, ad_permission_id = Some 3,
     ad_capability_key = ''notes.write'', ad_action = ''write'', ad_scope = sample_scope,
     ad_scope_digest = ''d'', ad_decision = ALLOW, ad_reason_codes = [], ad_risk_level = 2,
     ad_confirmation_required = False, ad_scope_match = True, ad_financial_guard_triggered = False,
     ad_created_at = 0\<rparr>"

definition sample_task :: task where
  "sample_task = \<lparr>t_id = 30, t_user_id = 1, t_device_id = None, t_capability_key = ''notes.write'',
     t_action = ''write'', t_scope = sample_scope, t_scope_digest = replicate 64 (CHR ''0''),
     t_status = TS_QUEUED, t_priority = TP_NORMAL, t_idempotency_key = ''request-0001'',
     t_request_fingerprint = replicate 64 (CHR ''0''), t_authorization_decision_id = 20,
     t_confirmation_request_id = None, t_parent_task_id = None, t_created_at = 0, t_updated_at = 0,
     t_queued_at = Some 0, t_started_at = None, t_completed_at = None, t_cancelled_at = None,
     t_expires_at = Some 5000, t_last_error_code = None, t_last_error_message = None,
     t_retry_count = 0, t_max_retries = 0, t_next_retry_at = None, t_version = 1, t_metadata = [],
     t_result_metadata = []\<rparr>"

definition sample_created :: task_event where
  "sample_created = \<lparr>te_id = 31, te_task_id = 30, te_user_id = 1, te_event_type = TE_CREATED,
     te_from_state = None, te_to_state = TS_QUEUED, te_timestamp = 0,
     te_reason_code = ''CREATED_AUTHORIZED'', te_actor_type = TK_USER, te_actor_id = Some ''1'',
     te_metadata = []\<rparr>"

definition sample_task_world :: "decision_record list \<Rightarrow> task list \<Rightarrow> task_event list \<Rightarrow> task_world" where
  "sample_task_world ds ts es = auth_world.extend
     ((sample_world CP_NEVER)\<lparr>w_next := 40, w_decisions := ds, w_sha256 := (\<lambda>s. replicate 64 (CHR ''f''))\<rparr>)
     (task_world.fields ts [] es)"

definition sample_queued :: task_world where
  "sample_queued = sample_task_world [sample_allow] [sample_task] [sample_created]"

definition sample_claim :: task_claim_request where
  "sample_claim = \<lparr>tq_expected_version = 1, tq_worker_id = ''worker'', tq_metadata = []\<rparr>"

definition sample_running :: task_world where
  "sample_running = world_after (claim_task 30 sample_claim sample_queued) sample_queued"

definition sample_completion :: task_completion_request where
  "sample_completion = \<lparr>tf_expected_version = 2, tf_result_metadata = []\<rparr>"

definition sample_completed :: task_world where
  "sample_completed = world_after (complete_task 30 sample_completion sample_running) sample_running"

definition sample_create :: task_create_request where
  "sample_create =
     \<lparr>tc_capability_key = ''notes.write'', tc_action = ''write'', tc_scope = sample_scope,
      tc_idempotency_key = ''request-0001'', tc_device_id = None, tc_priority = TP_NORMAL,
      tc_expires_at = Some 5000, tc_max_retries = 0, tc_parent_task_id = None, tc_metadata = []\<rparr>"

section \<open>Theorems\<close>


text \<open>
  C14: In every reachable state a task that is queued, running or completed carries a stored ALLOW
  decision for its own user, capability, action and scope.
\<close>

theorem queued_work_is_authorized:
  assumes "task_inv w" and "task_step\<^sup>*\<^sup>* w w'" and "t \<in> set (w_tasks w')"
    and "t_status t \<in> {TS_QUEUED, TS_RUNNING, TS_COMPLETED}"
  shows "\<exists>a \<in> set (w_decisions w'). ad_id a = t_authorization_decision_id t \<and> ad_decision a = ALLOW \<and>
    ad_user_id a = t_user_id t \<and> ad_capability_key a = t_capability_key t \<and> ad_action a = t_action t \<and>
    ad_scope a = t_scope t"
proof -
  from task_steps_keep [OF assms(2,1)] assms(3) have "task_ok w' t" by (simp add: task_inv_def task_base_inv_def)
  with assms(4) have "decision_allows (w_decisions w') t" by (auto simp: task_ok_def needs_authority_def)
  then show ?thesis by (simp add: decision_allows_def)
qed

text \<open>
  C15: In every reachable state a running task has exactly one running attempt and any other task
  has none.
\<close>

theorem running_task_has_one_attempt:
  assumes "task_inv w" and "task_step\<^sup>*\<^sup>* w w'" and "t \<in> set (w_tasks w')"
  shows "length (filter (\<lambda>a. at_task_id a = t_id t \<and> at_status a = TA_RUNNING) (w_attempts w')) =
    (if t_status t = TS_RUNNING then 1 else 0)"
  using task_steps_keep [OF assms(2,1)] assms(3) by (simp add: task_inv_def attempts_ok_def running_attempts_def)

text \<open>
  C16: A completed, failed, cancelled or expired task is never changed again by any operation.
\<close>

theorem terminal_task_is_final:
  assumes "task_inv w" and "t \<in> set (w_tasks w)" and "task_is_terminal (t_status t)" and "task_step\<^sup>*\<^sup>* w w'"
  shows "t \<in> set (w_tasks w')"
  using task_steps_keep [OF assms(4,1)] assms(2,3) by (auto simp: task_progress_def row_progress_def)

text \<open>Once a transition from version \<open>v\<close> has committed, no other call that expects \<open>v\<close> writes.\<close>


lemma get_owned_decision_reads:
  assumes "w_decisions w' = w_decisions w" and "w_confirmations w' = w_confirmations w" and "ic_user_id i' = ic_user_id i"
  shows "get_owned_decision i' did w' = get_owned_decision i did w"
  unfolding get_owned_decision_def assms ..

lemma row_find_natural_key:
  assumes "distinct (map f rows)" and "t \<in> set rows"
  shows "row_find (\<lambda>x. f x = f t) rows = Some t"
  using assms
proof (induction rows)
  case (Cons x rows)
  then show ?case by (cases "x = t") (auto simp: row_find_def)
qed simp

lemma idempotent_existing_found:
  assumes "task_inv w" and "t \<in> set (w_tasks w)"
  shows "idempotent_existing (t_user_id t) (t_idempotency_key t) fp w =
    (if t_request_fingerprint t \<noteq> fp then Inl TaskIdempotencyConflictError else Inr (Some t))"
proof -
  from assms(1) have "distinct (map (\<lambda>t. (t_user_id t, t_idempotency_key t)) (w_tasks w))"
    by (simp add: task_inv_def task_base_inv_def)
  from row_find_natural_key [OF this assms(2)]
  have "row_find (\<lambda>x. t_user_id x = t_user_id t \<and> t_idempotency_key x = t_idempotency_key t) (w_tasks w) = Some t" by simp
  then show ?thesis by (simp add: idempotent_existing_def)
qed

text \<open>
  An idempotency key reused by the same user with another request fingerprint raises
  TaskIdempotencyConflictError.
\<close>

theorem reused_key_conflicts:
  assumes "task_inv w" and "t \<in> set (w_tasks w)" and "t_user_id t = ic_user_id i"
    and "t_idempotency_key t = tc_idempotency_key r" and "t_request_fingerprint t \<noteq> task_fingerprint w r"
  shows "create_task i r w = Inl TaskIdempotencyConflictError"
  using idempotent_existing_found [OF assms(1,2), of "task_fingerprint w r"] assms(3-5) by (simp add: create_task_def)

text \<open>
  C18: Repeating a create request that produced a task returns the same task and the same decision
  and writes nothing.
\<close>

theorem create_task_idempotent:
  assumes inv: "task_inv w" "auth_inv w" and c: "create_task i r w = Inr (res, w1)" and "cr_task res \<noteq> None"
  shows "create_task i r w1 = Inr (res, w1)"
proof -
  from create_task_parts [OF c] consider (same) "w1 = w" | (denied) "cr_task res = None"
    | (fresh) dev i' d w2 st reason where
      "idempotent_existing (ic_user_id i) (tc_idempotency_key r) (task_fingerprint w r) w = Inr None"
      "i' = i \<or> (\<exists>x. i' = i\<lparr>ic_device_id := x\<rparr>)"
      "authorize i' (task_authorization_request r) w = Inr (d, w2)" "persist_task i r dev d st reason w2 = Inr (res, w1)"
    by (elim disjE exE conjE) ((simp; fail) | blast)+
  then show ?thesis
  proof cases
    case same
    with c show ?thesis by simp
  next
    case denied
    with assms(4) show ?thesis by simp
  next
    case fresh
    note fr = authorize_frame [OF fresh(3)] and eff = authorize_effects [OF fresh(3)]
    have fp: "task_fingerprint w2 r = task_fingerprint w r" using eff by (simp add: task_fingerprint_def)
    from fresh(1) fr have none: "\<nexists>e. idempotent_existing (ic_user_id i) (tc_idempotency_key r) (task_fingerprint w2 r) w2 = Inr (Some e)"
      by (auto simp: idempotent_existing_def task_frame_def split: option.splits if_splits)
    with persist_task_parts [OF fresh(4)] obtain t e q where t: "t = new_task i r dev d st w2"
      and q: "record_audit q ((draw (draw w2))\<lparr>w_tasks := row_add t (w_tasks w2), w_task_events := row_add e (w_task_events w2)\<rparr>) = Inr w1"
      and res: "res = \<lparr>cr_task = Some t, cr_hard_denied = False, cr_decision = Some d\<rparr>" by blast
    have w1: "w_tasks w1 = row_add t (w_tasks w2)" "w_decisions w1 = w_decisions w2" "w_confirmations w1 = w_confirmations w2"
      "w_sha256 w1 = w_sha256 w2" using q by (auto simp: record_audit_Inr audit_append_def)
    have "t \<in> set (w_tasks w1)" by (simp add: w1 table_simps)
    from idempotent_existing_found [OF create_task_inv [OF c inv(1)] this, of "task_fingerprint w1 r"]
    have "idempotent_existing (ic_user_id i) (tc_idempotency_key r) (task_fingerprint w1 r) w1 = Inr (Some t)"
      by (simp add: t task_fingerprint_def w1)
    moreover have "get_owned_decision i (t_authorization_decision_id t) w1 = Inr (Some d)"
      using get_owned_decision_after [OF inv(2) fresh(3)] get_owned_decision_reads [OF w1(2,3), of i i'] fresh(2) t by auto
    ultimately show ?thesis by (simp add: create_task_def res)
  qed
qed

text \<open>
  C19: A running task whose deadline has passed cannot be read or cancelled by its owner: the
  expiry on read requests RUNNING to EXPIRED, which the table forbids, so both calls raise
  InvalidTaskTransitionError.
\<close>

theorem running_task_past_deadline_is_stuck:
  assumes "task_inv w" and "t \<in> set (w_tasks w)" and "t_user_id t = ic_user_id i" and "t_status t = TS_RUNNING"
    and "t_expires_at t = Some e" and "e \<le> w_now w"
  shows "get_owned_task i (t_id t) w = Inl InvalidTaskTransitionError \<and>
    cancel_task i (t_id t) v w = Inl InvalidTaskTransitionError"
proof -
  have "row_find (\<lambda>x. t_id x = t_id t \<and> t_user_id x = ic_user_id i) (w_tasks w) = Some t"
  proof -
    have "unique_keys t_id (w_tasks w)" using assms(1) by (simp add: task_inv_def task_base_inv_def)
    then have "distinct (map (\<lambda>x. (t_id x, t_user_id x)) (w_tasks w))"
      by (auto simp: unique_keys_def distinct_map inj_on_def)
    from row_find_natural_key [OF this assms(2)] show ?thesis using assms(3) by simp
  qed
  then have o: "owned_task (ic_user_id i) (t_id t) w = Inr t" by (simp add: owned_task_def)
  have "expire_if_due t w = Inl InvalidTaskTransitionError"
    using assms(4-6) by (simp add: expire_if_due_def at_or_after_def task_transition_def task_is_terminal_def TERMINAL_TASK_STATES_def)
  with o show ?thesis by (simp add: get_owned_task_def cancel_task_def)
qed


section \<open>Witnesses\<close>

lemma sample_queued_inv: "task_inv sample_queued"
  by code_simp

lemma sample_claim_returns:
  "\<exists>t a. claim_task 30 sample_claim sample_queued = Inr ((t, a), sample_running)"
proof -
  have "\<not> isl (claim_task 30 sample_claim sample_queued)" by code_simp
  from returned_world [OF this, of sample_queued] show ?thesis
    unfolding sample_running_def by (metis prod.exhaust)
qed

lemma sample_complete_returns: "\<exists>t. complete_task 30 sample_completion sample_running = Inr (t, sample_completed)"
proof -
  have "\<not> isl (complete_task 30 sample_completion sample_running)" by code_simp
  from returned_world [OF this, of sample_running] show ?thesis unfolding sample_completed_def by blast
qed

lemma sample_steps: "task_step\<^sup>*\<^sup>* sample_queued sample_running" "task_step\<^sup>*\<^sup>* sample_running sample_completed"
  using sample_claim_returns sample_complete_returns by (auto intro: r_into_rtranclp task_step.intros)

lemma sample_rows:
  "map (\<lambda>t. (t_id t, t_status t)) (w_tasks sample_running) = [(30, TS_RUNNING)]"
  "map (\<lambda>t. (t_id t, t_status t)) (w_tasks sample_completed) = [(30, TS_COMPLETED)]"
proof -
  have "map (\<lambda>t. (t_id t, t_status t)) (w_tasks sample_running) = [(30, TS_RUNNING)] \<and>
    map (\<lambda>t. (t_id t, t_status t)) (w_tasks sample_completed) = [(30, TS_COMPLETED)]" by code_simp
  then show "map (\<lambda>t. (t_id t, t_status t)) (w_tasks sample_running) = [(30, TS_RUNNING)]"
    "map (\<lambda>t. (t_id t, t_status t)) (w_tasks sample_completed) = [(30, TS_COMPLETED)]" by blast+
qed

lemma sample_running_row: "hd (w_tasks sample_running) \<in> set (w_tasks sample_running)"
  "t_id (hd (w_tasks sample_running)) = 30" "t_status (hd (w_tasks sample_running)) = TS_RUNNING"
  using sample_rows(1) by (cases "w_tasks sample_running"; simp)+

lemma sample_completed_row: "hd (w_tasks sample_completed) \<in> set (w_tasks sample_completed)"
  "t_id (hd (w_tasks sample_completed)) = 30" "t_status (hd (w_tasks sample_completed)) = TS_COMPLETED"
  using sample_rows(2) by (cases "w_tasks sample_completed"; simp)+


theorem queued_work_is_authorized_witness:
  "\<exists>a \<in> set (w_decisions sample_running). ad_decision a = ALLOW"
  using queued_work_is_authorized [OF sample_queued_inv sample_steps(1) sample_running_row(1)]
  by (auto simp: sample_running_row)

theorem running_task_has_one_attempt_witness:
  "length (filter (\<lambda>a. at_task_id a = 30 \<and> at_status a = TA_RUNNING) (w_attempts sample_running)) = 1"
  using running_task_has_one_attempt [OF sample_queued_inv sample_steps(1) sample_running_row(1)]
  by (simp add: sample_running_row)

lemma sample_completed_inv: "task_inv sample_completed"
  using task_steps_keep [OF rtranclp_trans [OF sample_steps] sample_queued_inv] by blast

theorem terminal_task_is_final_witness:
  "hd (w_tasks sample_completed) \<in> set (w_tasks (sample_completed\<lparr>w_now := 99999\<rparr>))"
proof (rule terminal_task_is_final [OF sample_completed_inv sample_completed_row(1)])
  show "task_is_terminal (t_status (hd (w_tasks sample_completed)))"
    by (simp add: sample_completed_row task_is_terminal_def TERMINAL_TASK_STATES_def)
  have "w_now sample_completed \<le> 99999" by code_simp
  then show "task_step\<^sup>*\<^sup>* sample_completed (sample_completed\<lparr>w_now := 99999\<rparr>)"
    by (intro r_into_rtranclp task_step.tick)
qed


theorem reused_key_conflicts_witness:
  "create_task sample_identity sample_create sample_queued = Inl TaskIdempotencyConflictError"
proof (rule reused_key_conflicts [OF sample_queued_inv, of sample_task])
  show "sample_task \<in> set (w_tasks sample_queued)" "t_user_id sample_task = ic_user_id sample_identity"
    "t_idempotency_key sample_task = tc_idempotency_key sample_create"
    by (simp_all add: sample_queued_def sample_task_world_def task_world.defs auth_world.defs sample_identity_def
        sample_task_def sample_create_def)
  have "w_sha256 sample_queued = (\<lambda>s. replicate 64 (CHR ''f''))"
    by (simp add: sample_queued_def sample_task_world_def auth_world.defs)
  then show "t_request_fingerprint sample_task \<noteq> task_fingerprint sample_queued sample_create"
    by (simp add: task_fingerprint_def sample_task_def)
qed

theorem running_task_past_deadline_is_stuck_witness:
  "get_owned_task sample_identity 30 (sample_running\<lparr>w_now := 5000\<rparr>) = Inl InvalidTaskTransitionError"
proof -
  let ?w = "sample_running\<lparr>w_now := 5000\<rparr>"
  let ?t = "hd (w_tasks ?w)"
  have inv: "task_inv ?w \<and> t_user_id ?t = ic_user_id sample_identity \<and> t_expires_at ?t = Some 5000 \<and> 5000 \<le> w_now ?w" by code_simp
  then have "get_owned_task sample_identity (t_id ?t) ?w = Inl InvalidTaskTransitionError"
    using running_task_past_deadline_is_stuck [of ?w ?t sample_identity 5000] sample_running_row by simp
  then show ?thesis by (simp add: sample_running_row)
qed

lemma sample_create_returns:
  "\<exists>t d w'. create_task sample_identity sample_create (sample_task_world [] [] []) =
     Inr (\<lparr>cr_task = Some t, cr_hard_denied = False, cr_decision = Some d\<rparr>, w')"
proof -
  let ?w = "sample_task_world [] [] []" and ?rq = "task_authorization_request sample_create"
  let ?a = "authorize sample_identity ?rq ?w"
  have ok: "\<not> isl ?a \<and> dc_decision (returned ?a) = ALLOW" by code_simp
  with returned_world [of ?a ?w] obtain d w1 where a: "?a = Inr (d, w1)" "dc_decision d = ALLOW" by metis
  have tasks: "w_tasks w1 = [] \<and> w_sha256 w1 = (\<lambda>s. replicate 64 (CHR ''f''))"
    using authorize_frame [OF a(1)] authorize_effects [OF a(1)]
    by (simp add: task_frame_def sample_task_world_def task_world.defs auth_world.defs)
  have size: "length (json_text (scope_json sample_scope)) \<le> 8192 \<and> length (json_text (JObj [])) \<le> 4096" by code_simp
  have w: "w_tasks ?w = []" "w_now ?w = 1000" by (simp_all add: sample_task_world_def task_world.defs auth_world.defs sample_world_def)
  have r: "tc_expires_at sample_create = Some 5000" "tc_parent_task_id sample_create = None"
    "tc_device_id sample_create = None" "tc_scope sample_create = sample_scope" "tc_metadata sample_create = []"
    "tc_max_retries sample_create = 0" "length (tc_idempotency_key sample_create) = 12"
    by (simp_all add: sample_create_def)
  have "create_task sample_identity sample_create ?w =
    persist_task sample_identity sample_create None d TS_QUEUED TR_CREATED_AUTHORIZED w1"
    using a by (simp add: create_task_def idempotent_existing_def validate_parent_def validate_task_device_def w r
        at_or_after_def row_find_def initial_state_def)
  moreover have "insert_task (new_task sample_identity sample_create None d TS_QUEUED w1) (w_tasks (draw w1)) =
    Some [new_task sample_identity sample_create None d TS_QUEUED w1]"
    using tasks size by (simp add: insert_task_def task_row_ok_def new_task_def r task_fingerprint_def scope_digest_def
        row_find_def row_add_def)
  ultimately show ?thesis
    by (simp add: persist_task_def Let_def append_event_def MAX_TASK_METADATA_BYTES_def task_audit_record_def blank_audit_def)
qed

theorem create_task_idempotent_witness:
  "let r = create_task sample_identity sample_create (sample_task_world [] [] [])
   in create_task sample_identity sample_create (world_after r (sample_task_world [] [] [])) =
        Inr (returned r, world_after r (sample_task_world [] [] []))"
proof -
  let ?w = "sample_task_world [] [] []"
  from sample_create_returns obtain t d w' where
    c: "create_task sample_identity sample_create ?w = Inr (\<lparr>cr_task = Some t, cr_hard_denied = False, cr_decision = Some d\<rparr>, w')"
    by blast
  have "task_inv ?w" "auth_inv ?w" by code_simp+
  from create_task_idempotent [OF this c] show ?thesis by (simp add: c returned_def world_after_def)
qed

end
