(* ===== verification/Classification.thy ===== *)
theory Classification
  imports Metadata
begin

text \<open>
  \<^verbatim>\<open>security/classification.py\<close>: the data sensitivity classes, their rank, the most restrictive
  of several classes, and the conservative classifier of text. Unicode case folding is the table of
  the runtime, a parameter \<open>casefold\<close> of the classifier.
\<close>

datatype data_sensitivity = PUBLIC | INTERNAL | PRIVATE | SENSITIVE | CRITICAL_DATA

primrec sensitivity_value :: "data_sensitivity \<Rightarrow> string" where
  "sensitivity_value PUBLIC = ''PUBLIC''"
| "sensitivity_value INTERNAL = ''INTERNAL''"
| "sensitivity_value PRIVATE = ''PRIVATE''"
| "sensitivity_value SENSITIVE = ''SENSITIVE''"
| "sensitivity_value CRITICAL_DATA = ''CRITICAL''"

primrec sensitivity_rank :: "data_sensitivity \<Rightarrow> nat" where
  "sensitivity_rank PUBLIC = 0"
| "sensitivity_rank INTERNAL = 1"
| "sensitivity_rank PRIVATE = 2"
| "sensitivity_rank SENSITIVE = 3"
| "sensitivity_rank CRITICAL_DATA = 4"

instantiation data_sensitivity :: linorder
begin

definition less_eq_data_sensitivity :: "data_sensitivity \<Rightarrow> data_sensitivity \<Rightarrow> bool" where
  "less_eq_data_sensitivity a b \<longleftrightarrow> sensitivity_rank a \<le> sensitivity_rank b"

definition less_data_sensitivity :: "data_sensitivity \<Rightarrow> data_sensitivity \<Rightarrow> bool" where
  "less_data_sensitivity a b \<longleftrightarrow> sensitivity_rank a < sensitivity_rank b"

instance
proof
  fix a b :: data_sensitivity
  show "a \<le> b \<Longrightarrow> b \<le> a \<Longrightarrow> a = b"
    by (cases a; cases b) (simp_all add: less_eq_data_sensitivity_def)
qed (auto simp: less_eq_data_sensitivity_def less_data_sensitivity_def)

end

text \<open>\<^verbatim>\<open>max(values, key=...)\<close> keeps the first of equal elements; ranks are distinct, so any is that one.\<close>

fun python_max :: "('a \<Rightarrow> nat) \<Rightarrow> 'a \<Rightarrow> 'a list \<Rightarrow> 'a" where
  "python_max key best [] = best"
| "python_max key best (x # xs) = python_max key (if key best < key x then x else best) xs"

definition highest_sensitivity :: "data_sensitivity list \<Rightarrow> app_error + data_sensitivity" where
  "highest_sensitivity values =
     (case values of [] \<Rightarrow> Inl PyValueError | v # vs \<Rightarrow> Inr (python_max sensitivity_rank v vs))"

definition critical_markers :: "string list" where
  "critical_markers =
     [''-----begin private key-----'', ''service_role_key'', ''access_token'', ''refresh_token'',
      ''authorization: bearer'']"

definition sensitive_markers :: "string list" where
  "sensitive_markers = [''password='', ''api_key'', ''secret='', ''credential'']"

definition classify_text_sensitivity :: "(string \<Rightarrow> string) \<Rightarrow> string \<Rightarrow> data_sensitivity" where
  "classify_text_sensitivity casefold v =
     (let normalized = casefold v
      in if list_ex (\<lambda>marker. py_in marker normalized) critical_markers then CRITICAL_DATA
         else if list_ex (\<lambda>marker. py_in marker normalized) sensitive_markers then SENSITIVE
         else PRIVATE)"

section \<open>The most restrictive class is an upper bound that is attained\<close>

lemma python_max_ge: "key best \<le> key (python_max key best xs) \<and> (\<forall>x \<in> set xs. key x \<le> key (python_max key best xs))"
proof (induction xs arbitrary: best)
  case (Cons y ys)
  let ?b = "if key best < key y then y else best"
  have "key best \<le> key ?b" "key y \<le> key ?b" by simp_all
  with Cons.IH [of ?b] show ?case by (auto simp del: if_split intro: order_trans)
qed simp

lemma python_max_mem: "python_max key best xs = best \<or> python_max key best xs \<in> set xs"
proof (induction xs arbitrary: best)
  case (Cons y ys)
  then show ?case using Cons.IH [of "if key best < key y then y else best"] by (auto split: if_splits)
qed simp

lemma highest_sensitivity_Max:
  "highest_sensitivity vs = (if vs = [] then Inl PyValueError else Inr (Max (set vs)))"
proof (cases vs)
  case (Cons v us)
  have "python_max sensitivity_rank v us = Max (set vs)"
  proof (rule Max_eqI [symmetric])
    show "y \<le> python_max sensitivity_rank v us" if "y \<in> set vs" for y
      using that python_max_ge [of sensitivity_rank v us] Cons by (auto simp: less_eq_data_sensitivity_def)
    show "python_max sensitivity_rank v us \<in> set vs" using python_max_mem [of sensitivity_rank v us] Cons by auto
  qed simp
  with Cons show ?thesis by (simp add: highest_sensitivity_def)
qed (simp add: highest_sensitivity_def)

lemma classify_at_least_private: "PRIVATE \<le> classify_text_sensitivity casefold v"
  by (simp add: classify_text_sensitivity_def Let_def less_eq_data_sensitivity_def)

end
