(* ===== verification/Memory_Model.thy ===== *)
theory Memory_Model
  imports Task_Correct Classification
begin

text \<open>
  \<^verbatim>\<open>memory/enums.py\<close>, \<^verbatim>\<open>memory/models.py\<close> and \<^verbatim>\<open>memory/schemas.py\<close>: the vocabulary of the Memory
  Core, its three tables with their constraints, and the validated commands. Unicode normalization
  and case folding are tables of the runtime: the two functions \<open>w_nfkc\<close> and \<open>w_casefold\<close> of the world.
\<close>

section \<open>Enumerations\<close>

datatype memory_class =
    MC_TEMPORARY_CONTEXT | MC_OPERATIONAL | MC_PERSISTENT_PREFERENCE | MC_HISTORICAL_DECISION | MC_DISCARDABLE

primrec memory_class_value :: "memory_class \<Rightarrow> string" where
  "memory_class_value MC_TEMPORARY_CONTEXT = ''TEMPORARY_CONTEXT''"
| "memory_class_value MC_OPERATIONAL = ''OPERATIONAL''"
| "memory_class_value MC_PERSISTENT_PREFERENCE = ''PERSISTENT_PREFERENCE''"
| "memory_class_value MC_HISTORICAL_DECISION = ''HISTORICAL_DECISION''"
| "memory_class_value MC_DISCARDABLE = ''DISCARDABLE''"

datatype memory_status = MS_ACTIVE | MS_ARCHIVED | MS_EXPIRED | MS_DELETED

datatype memory_source_type =
    MO_USER_EXPLICIT | MO_SYSTEM | MO_TASK | MO_DEVICE | MO_IMPORT | MO_FUTURE_AI_PROPOSAL

primrec memory_source_value :: "memory_source_type \<Rightarrow> string" where
  "memory_source_value MO_USER_EXPLICIT = ''USER_EXPLICIT''"
| "memory_source_value MO_SYSTEM = ''SYSTEM''"
| "memory_source_value MO_TASK = ''TASK''"
| "memory_source_value MO_DEVICE = ''DEVICE''"
| "memory_source_value MO_IMPORT = ''IMPORT''"
| "memory_source_value MO_FUTURE_AI_PROPOSAL = ''FUTURE_AI_PROPOSAL''"

datatype memory_event_type =
    ME_CREATED | ME_UPDATED | ME_ARCHIVED | ME_EXPIRED | ME_DELETED | ME_DEDUPLICATED

datatype memory_actor_type = MA_USER | MA_SYSTEM | MA_DEVICE

section \<open>Rows\<close>

record memory =
  m_id :: uuid
  m_user_id :: uuid
  m_source_device_id :: "uuid option"
  m_class :: memory_class
  m_status :: memory_status
  m_source_type :: memory_source_type
  m_source_reference :: "string option"
  m_content :: string
  m_normalized_content :: "string option"
  m_summary :: "string option"
  m_subject :: "string option"
  m_confidence :: int
  m_importance :: int
  m_sensitivity :: data_sensitivity
  m_fingerprint :: string
  m_deduplication_key :: "string option"
  m_created_at :: timestamp
  m_updated_at :: timestamp
  m_expires_at :: "timestamp option"
  m_archived_at :: "timestamp option"
  m_deleted_at :: "timestamp option"
  m_version :: int
  m_metadata :: metadata

record memory_revision =
  mr_id :: uuid
  mr_memory_id :: uuid
  mr_revision_number :: int
  mr_class :: memory_class
  mr_source_type :: memory_source_type
  mr_source_reference :: "string option"
  mr_content :: string
  mr_normalized_content :: "string option"
  mr_summary :: "string option"
  mr_subject :: "string option"
  mr_confidence :: int
  mr_importance :: int
  mr_sensitivity :: data_sensitivity
  mr_expires_at :: "timestamp option"
  mr_fingerprint :: string
  mr_recorded_at :: timestamp
  mr_actor_type :: memory_actor_type
  mr_metadata :: metadata

record memory_event =
  me_id :: uuid
  me_memory_id :: uuid
  me_user_id :: uuid
  me_event_type :: memory_event_type
  me_from_status :: "memory_status option"
  me_to_status :: memory_status
  me_timestamp :: timestamp
  me_actor_type :: memory_actor_type
  me_actor_id :: "string option"
  me_reason_code :: string
  me_metadata :: metadata

record memory_world = task_world +
  w_nfkc :: "string \<Rightarrow> string"
  w_casefold :: "string \<Rightarrow> string"
  w_memories :: "memory list"
  w_revisions :: "memory_revision list"
  w_memory_events :: "memory_event list"

text \<open>The CHECK constraints of the two content tables.\<close>

definition size_ok :: "nat \<Rightarrow> string option \<Rightarrow> bool" where
  "size_ok hi s = (case s of None \<Rightarrow> True | Some x \<Rightarrow> 1 \<le> length x \<and> length x \<le> hi)"

definition memory_row_ok :: "memory \<Rightarrow> bool" where
  "memory_row_ok m \<longleftrightarrow>
     1 \<le> length (m_content m) \<and> length (m_content m) \<le> 16000 \<and>
     size_ok 16000 (m_normalized_content m) \<and> size_ok 1000 (m_summary m) \<and>
     size_ok 200 (m_subject m) \<and> size_ok 255 (m_source_reference m) \<and>
     0 \<le> m_confidence m \<and> m_confidence m \<le> 100 \<and> 0 \<le> m_importance m \<and> m_importance m \<le> 100 \<and>
     length (m_fingerprint m) = 64 \<and>
     (case m_deduplication_key m of None \<Rightarrow> True | Some k \<Rightarrow> length k = 64) \<and>
     1 \<le> m_version m \<and>
     (m_class m \<noteq> MC_TEMPORARY_CONTEXT \<or> m_expires_at m \<noteq> None) \<and>
     (case m_expires_at m of None \<Rightarrow> True | Some e \<Rightarrow> e > m_created_at m) \<and>
     (m_status m \<noteq> MS_ARCHIVED \<or> m_archived_at m \<noteq> None) \<and>
     (m_status m \<noteq> MS_EXPIRED \<or> m_expires_at m \<noteq> None) \<and>
     (m_status m \<noteq> MS_DELETED \<or> m_deleted_at m \<noteq> None) \<and>
     length (json_text (JObj (m_metadata m))) \<le> 4096"

definition revision_row_ok :: "memory_revision \<Rightarrow> bool" where
  "revision_row_ok r \<longleftrightarrow>
     1 \<le> mr_revision_number r \<and> 1 \<le> length (mr_content r) \<and> length (mr_content r) \<le> 16000 \<and>
     size_ok 16000 (mr_normalized_content r) \<and> length (mr_fingerprint r) = 64 \<and>
     length (json_text (JObj (mr_metadata r))) \<le> 4096"

text \<open>
  The partial unique index \<^verbatim>\<open>uq_memory_active_deduplication\<close> as a relation between two rows: both
  active, same user, class and key. A flush that would store two such rows, or a row that fails a
  CHECK, is the \<^verbatim>\<open>IntegrityError\<close>, here \<open>None\<close>.
\<close>

definition same_active_key :: "memory \<Rightarrow> memory \<Rightarrow> bool" where
  "same_active_key m x \<longleftrightarrow>
     m_status m = MS_ACTIVE \<and> m_status x = MS_ACTIVE \<and> m_user_id m = m_user_id x \<and> m_class m = m_class x \<and>
     m_deduplication_key m \<noteq> None \<and> m_deduplication_key m = m_deduplication_key x"

definition insert_memory :: "memory \<Rightarrow> memory list \<Rightarrow> memory list option" where
  "insert_memory m rows =
     (if memory_row_ok m \<and> row_find (same_active_key m) rows = None then Some (row_add m rows) else None)"

definition write_memory :: "memory \<Rightarrow> memory list \<Rightarrow> memory list option" where
  "write_memory m rows =
     (if memory_row_ok m \<and> row_find (\<lambda>x. m_id x \<noteq> m_id m \<and> same_active_key m x) rows = None
      then Some (row_put m_id m rows) else None)"

definition insert_revision :: "memory_revision \<Rightarrow> memory_revision list \<Rightarrow> memory_revision list option" where
  "insert_revision r rows =
     (if revision_row_ok r \<and>
         row_find (\<lambda>x. mr_memory_id x = mr_memory_id r \<and> mr_revision_number x = mr_revision_number r) rows = None
      then Some (row_add r rows) else None)"

section \<open>Canonical text and fingerprints\<close>

definition MAX_MEMORY_METADATA_BYTES :: nat where
  "MAX_MEMORY_METADATA_BYTES = 4096"

definition normalize_memory_text :: "'z memory_world_scheme \<Rightarrow> string \<Rightarrow> string" where
  "normalize_memory_text w v = join_with '' '' (py_split (w_nfkc w v))"

definition canonical_text :: "'z memory_world_scheme \<Rightarrow> string \<Rightarrow> string" where
  "canonical_text w v = w_casefold w (normalize_memory_text w v)"

definition fingerprint_payload :: "'z memory_world_scheme \<Rightarrow> memory_class \<Rightarrow> string \<Rightarrow> string option \<Rightarrow> json" where
  "fingerprint_payload w c content subject =
     JObj [(''content'', JStr (canonical_text w content)),
           (''memory_class'', JStr (memory_class_value c)),
           (''subject'', case subject of
              None \<Rightarrow> JNull
            | Some s \<Rightarrow> if s = [] then JNull else JStr (canonical_text w s))]"

definition memory_fingerprint :: "'z memory_world_scheme \<Rightarrow> memory_class \<Rightarrow> string \<Rightarrow> string option \<Rightarrow> string" where
  "memory_fingerprint w c content subject = w_sha256 w (json_dumps (fingerprint_payload w c content subject))"

section \<open>Commands\<close>

text \<open>
  \<^verbatim>\<open>MemoryCreateRequest\<close> and \<^verbatim>\<open>MemoryProposal\<close>. An update request records which fields the client sent
  (\<^verbatim>\<open>model_fields_set\<close>): the outer option of a field is \<open>None\<close> when it was not sent.
\<close>

record memory_create_request =
  mq_class :: memory_class
  mq_content :: string
  mq_summary :: "string option"
  mq_subject :: "string option"
  mq_source_reference :: "string option"
  mq_source_device_id :: "uuid option"
  mq_importance :: int
  mq_sensitivity :: data_sensitivity
  mq_expires_at :: "timestamp option"
  mq_metadata :: metadata
  mq_confirmation_id :: "uuid option"

record memory_proposal =
  mp_class :: memory_class
  mp_content :: string
  mp_summary :: "string option"
  mp_subject :: "string option"
  mp_source_type :: memory_source_type
  mp_source_reference :: "string option"
  mp_source_device_id :: "uuid option"
  mp_confidence :: int
  mp_importance :: int
  mp_sensitivity :: data_sensitivity
  mp_expires_at :: "timestamp option"
  mp_metadata :: metadata
  mp_confirmation_id :: "uuid option"

record memory_update_request =
  mu_expected_version :: int
  mu_content :: "string option"
  mu_summary :: "string option option"
  mu_subject :: "string option option"
  mu_importance :: "int option"
  mu_sensitivity :: "data_sensitivity option"
  mu_expires_at :: "timestamp option option"
  mu_metadata :: "metadata option option"
  mu_confirmation_id :: "uuid option"

record memory_archive_request =
  mx_expected_version :: int
  mx_confirmation_id :: "uuid option"

definition source_reference_pattern :: "string \<Rightarrow> bool" where
  "source_reference_pattern s =
     (case s of [] \<Rightarrow> False
      | c # cs \<Rightarrow> (is_lower_alpha c \<or> is_upper_alpha c \<or> is_digit_char c) \<and>
          list_all (\<lambda>x. is_lower_alpha x \<or> is_upper_alpha x \<or> is_digit_char x \<or> x \<in> set ''._:/-'') cs)"

definition parse_text :: "nat \<Rightarrow> string \<Rightarrow> app_error + string" where
  "parse_text hi raw =
     (let s = py_strip raw in bindE (requireE PyValueError (bounded 1 hi s)) (\<lambda>_. Inr s))"

definition parse_optional :: "(string \<Rightarrow> app_error + string) \<Rightarrow> string option \<Rightarrow> app_error + string option" where
  "parse_optional f v = (case v of None \<Rightarrow> Inr None | Some s \<Rightarrow> bindE (f s) (\<lambda>x. Inr (Some x)))"

definition parse_source_reference :: "string \<Rightarrow> app_error + string" where
  "parse_source_reference raw =
     (let s = py_strip raw
      in bindE (requireE PyValueError (bounded 1 255 s \<and> source_reference_pattern s)) (\<lambda>_. Inr s))"

definition memory_metadata :: "metadata \<Rightarrow> app_error + metadata" where
  "memory_metadata v = sanitize_metadata MAX_MEMORY_METADATA_BYTES v"

definition validate_source_contract :: "memory_proposal \<Rightarrow> app_error + unit" where
  "validate_source_contract p =
     bindE (requireE PyValueError (\<not> (mp_class p = MC_TEMPORARY_CONTEXT \<and> mp_expires_at p = None))) (\<lambda>_.
     bindE (requireE PyValueError (\<not> (mp_source_type p = MO_DEVICE \<and> mp_source_device_id p = None))) (\<lambda>_.
     requireE PyValueError (\<not> (mp_source_type p \<in> {MO_TASK, MO_IMPORT} \<and> mp_source_reference p = None))))"

definition make_proposal :: "memory_proposal \<Rightarrow> app_error + memory_proposal" where
  "make_proposal p =
     bindE (parse_text 16000 (mp_content p)) (\<lambda>content.
     bindE (parse_optional (parse_text 1000) (mp_summary p)) (\<lambda>summary.
     bindE (parse_optional (parse_text 200) (mp_subject p)) (\<lambda>subject.
     bindE (parse_optional parse_source_reference (mp_source_reference p)) (\<lambda>reference.
     bindE (requireE PyValueError (0 \<le> mp_confidence p \<and> mp_confidence p \<le> 100)) (\<lambda>_.
     bindE (requireE PyValueError (0 \<le> mp_importance p \<and> mp_importance p \<le> 100)) (\<lambda>_.
     bindE (memory_metadata (mp_metadata p)) (\<lambda>metadata.
     let q = p\<lparr>mp_content := content, mp_summary := summary, mp_subject := subject,
               mp_source_reference := reference, mp_metadata := metadata\<rparr>
     in bindE (validate_source_contract q) (\<lambda>_. Inr q))))))))"

definition require_mutation :: "memory_update_request \<Rightarrow> app_error + unit" where
  "require_mutation r =
     requireE PyValueError
       (mu_content r \<noteq> None \<or> mu_summary r \<noteq> None \<or> mu_subject r \<noteq> None \<or> mu_importance r \<noteq> None \<or>
        mu_sensitivity r \<noteq> None \<or> mu_expires_at r \<noteq> None \<or> mu_metadata r \<noteq> None)"

record memory_context_item =
  mi_id :: uuid
  mi_class :: memory_class
  mi_source_type :: memory_source_type
  mi_source_reference :: "string option"
  mi_subject :: "string option"
  mi_text :: string
  mi_importance :: int
  mi_sensitivity :: data_sensitivity
  mi_updated_at :: timestamp

record memory_context_pack =
  mk_persistent_preferences :: "memory_context_item list"
  mk_operational_context :: "memory_context_item list"
  mk_historical_decisions :: "memory_context_item list"
  mk_temporary_context :: "memory_context_item list"

section \<open>The life of a memory\<close>

text \<open>
  The service has no transition table; this is the one its guarded updates implement. A deleted
  memory is final; an archived or expired one can only be deleted.
\<close>

primrec memory_allowed :: "memory_status \<Rightarrow> memory_status set" where
  "memory_allowed MS_ACTIVE = {MS_ACTIVE, MS_ARCHIVED, MS_EXPIRED, MS_DELETED}"
| "memory_allowed MS_ARCHIVED = {MS_DELETED}"
| "memory_allowed MS_EXPIRED = {MS_DELETED}"
| "memory_allowed MS_DELETED = {}"

interpretation memory_machine: lifecycle memory_allowed "\<lambda>s. s = MS_DELETED"
proof
  show "s = MS_DELETED \<longleftrightarrow> memory_allowed s = {}" for s
    by (cases s) simp_all
qed

end
