(* ===== verification/Memory_Engine.thy ===== *)
theory Memory_Engine
  imports Memory_Model
begin

text \<open>
  \<^verbatim>\<open>memory/service.py\<close>: every operation of the Memory Core. Each asks the permissions engine first and
  returns the decision with its value; creation deduplicates by canonical fingerprint; updates keep a
  revision and check the version; deletion scrubs the row and all its revisions. The lemmas show that
  every operation is a sequence of the atomic writes \<open>memory_write\<close>, from which the invariants follow.
\<close>

section \<open>Authority\<close>

record 'a memory_result =
  mv_value :: "'a option"
  mv_decision :: authorization_decision

definition memory_authorization_request :: "string \<Rightarrow> string \<Rightarrow> uuid option \<Rightarrow> authorization_request" where
  "memory_authorization_request key action confirmation_id =
     \<lparr>rq_capability_key = key, rq_action = action,
      rq_scope = \<lparr>sc_resource_type = ''memory'', sc_resource_ids = [], sc_operations = [action]\<rparr>,
      rq_resource = None, rq_context = [], rq_confirmation_id = confirmation_id\<rparr>"

text \<open>The opening of every operation: without an ALLOW the operation returns no value and stops.\<close>

definition memory_guarded ::
  "identity_context \<Rightarrow> string \<Rightarrow> string \<Rightarrow> uuid option \<Rightarrow>
     (authorization_decision \<Rightarrow> 'z memory_world_scheme \<Rightarrow> app_error + 'a option \<times> 'z memory_world_scheme) \<Rightarrow>
     'z memory_world_scheme \<Rightarrow> app_error + 'a memory_result \<times> 'z memory_world_scheme" where
  "memory_guarded i key action confirmation_id body w =
     bindE (authorize i (memory_authorization_request key action confirmation_id) w) (\<lambda>(d, w1).
     if dc_decision d \<noteq> ALLOW then Inr (\<lparr>mv_value = None, mv_decision = d\<rparr>, w1)
     else bindE (body d w1) (\<lambda>(v, w2). Inr (\<lparr>mv_value = v, mv_decision = d\<rparr>, w2)))"

section \<open>Events, audit, expiry\<close>

definition new_memory_event ::
  "memory \<Rightarrow> memory_event_type \<Rightarrow> memory_status option \<Rightarrow> memory_status \<Rightarrow> memory_actor_type \<Rightarrow> string option \<Rightarrow>
     string \<Rightarrow> metadata \<Rightarrow> 'z core_world_scheme \<Rightarrow> memory_event" where
  "new_memory_event m event from_status to_status actor actor_id reason sanitized w =
     \<lparr>me_id = w_next w, me_memory_id = m_id m, me_user_id = m_user_id m, me_event_type = event,
      me_from_status = from_status, me_to_status = to_status, me_timestamp = w_now w,
      me_actor_type = actor, me_actor_id = actor_id, me_reason_code = reason, me_metadata = sanitized\<rparr>"

definition append_memory_event ::
  "memory \<Rightarrow> memory_event_type \<Rightarrow> memory_status option \<Rightarrow> memory_status \<Rightarrow> memory_actor_type \<Rightarrow> string option \<Rightarrow>
     string \<Rightarrow> metadata \<Rightarrow> 'z memory_world_scheme \<Rightarrow> app_error + 'z memory_world_scheme" where
  "append_memory_event m event from_status to_status actor actor_id reason payload w =
     bindE (sanitize_metadata MAX_MEMORY_METADATA_BYTES payload) (\<lambda>sanitized.
     Inr ((draw w)\<lparr>w_memory_events :=
            row_add (new_memory_event m event from_status to_status actor actor_id reason sanitized w)
              (w_memory_events w)\<rparr>))"

definition memory_audit_keys :: "audit_event_type \<Rightarrow> (string \<times> string) option" where
  "memory_audit_keys event =
     (if event = AE_MEMORY_DELETED then Some (''memory.delete'', ''delete'')
      else if event = AE_MEMORY_CREATED then Some (''memory.write'', ''create'')
      else if event = AE_MEMORY_UPDATED then Some (''memory.write'', ''update'')
      else if event = AE_MEMORY_ARCHIVED then Some (''memory.write'', ''archive'')
      else None)"

definition memory_audit_record ::
  "identity_context \<Rightarrow> memory \<Rightarrow> authorization_decision \<Rightarrow> audit_event_type \<Rightarrow> string \<Rightarrow> app_error + audit_record" where
  "memory_audit_record i m d event reason =
     bindE (someE PyKeyError (memory_audit_keys event)) (\<lambda>(key, action).
     Inr ((blank_audit (ic_user_id i)
             (case m_source_device_id m of None \<Rightarrow> ic_device_id i | Some device \<Rightarrow> Some device)
             (ic_session_id i) AT_USER event AR_RECORDED)
       \<lparr>aq_capability_key := Some key, aq_action := Some action, aq_resource_type := Some ''memory'',
        aq_resource_id := Some (show_nat (m_id m)), aq_risk_level := Some (dc_risk_level d),
        aq_permission_id := dc_permission_id d, aq_decision_id := Some (dc_decision_id d),
        aq_confirmation_id := dc_confirmation_id d, aq_reason_codes := [reason],
        aq_metadata := [(''memory_class'', JStr (memory_class_value (m_class m))),
                        (''sensitivity'', JStr (sensitivity_value (m_sensitivity m)))]\<rparr>))"

definition audit_memory ::
  "identity_context \<Rightarrow> memory \<Rightarrow> authorization_decision \<Rightarrow> audit_event_type \<Rightarrow> string \<Rightarrow> 'z memory_world_scheme \<Rightarrow>
     app_error + 'z memory_world_scheme" where
  "audit_memory i m d event reason w =
     bindE (memory_audit_record i m d event reason) (\<lambda>q. record_audit q w)"

text \<open>
  \<^verbatim>\<open>_expire_if_due\<close>: \<open>m\<close> is the object the caller holds. When the guarded update matched no row the
  object is refreshed, which fails on a row that no longer exists.
\<close>

definition expired_row :: "memory \<Rightarrow> timestamp \<Rightarrow> int \<Rightarrow> memory" where
  "expired_row row now previous_version =
     row\<lparr>m_status := MS_EXPIRED, m_updated_at := now, m_version := previous_version + 1,
         m_deduplication_key := None\<rparr>"

definition memory_due :: "memory \<Rightarrow> timestamp \<Rightarrow> bool" where
  "memory_due m now \<longleftrightarrow>
     m_status m = MS_ACTIVE \<and> (case m_expires_at m of None \<Rightarrow> False | Some e \<Rightarrow> at_or_after now e)"

definition expire_memory ::
  "memory \<Rightarrow> 'z memory_world_scheme \<Rightarrow> app_error + (bool \<times> memory) \<times> 'z memory_world_scheme" where
  "expire_memory m w =
     (if \<not> memory_due m (w_now w) then Inr ((m_status m = MS_EXPIRED, m), w)
      else case filter (\<lambda>x. m_id x = m_id m \<and> m_status x = MS_ACTIVE \<and> m_version x = m_version m) (w_memories w) of
        [row] \<Rightarrow>
          (let m' = expired_row row (w_now w) (m_version m)
           in case write_memory m' (w_memories w) of
                None \<Rightarrow> Inl PyIntegrityError
              | Some rows \<Rightarrow>
                  bindE (append_memory_event m' ME_EXPIRED (Some MS_ACTIVE) MS_EXPIRED MA_SYSTEM None
                           ''EXPIRATION_OBSERVED'' [] (w\<lparr>w_memories := rows\<rparr>)) (\<lambda>w1.
                  Inr ((True, m'), w1)))
      | _ \<Rightarrow>
          bindE (someE PyRuntimeError (row_get m_id (m_id m) (w_memories w))) (\<lambda>m'.
          Inr ((m_status m' = MS_EXPIRED, m'), w)))"

fun expire_memories :: "memory list \<Rightarrow> 'z memory_world_scheme \<Rightarrow> app_error + 'z memory_world_scheme" where
  "expire_memories [] w = Inr w"
| "expire_memories (m # ms) w = bindE (expire_memory m w) (\<lambda>(_, w1). expire_memories ms w1)"

definition materialize_due_expirations :: "uuid \<Rightarrow> 'z memory_world_scheme \<Rightarrow> app_error + 'z memory_world_scheme" where
  "materialize_due_expirations user_id w =
     expire_memories
       (filter (\<lambda>m. m_user_id m = user_id \<and> m_status m = MS_ACTIVE \<and>
                    (case m_expires_at m of None \<Rightarrow> False | Some e \<Rightarrow> e \<le> w_now w)) (w_memories w)) w"

section \<open>Queries\<close>

definition active_duplicate :: "uuid \<Rightarrow> memory_class \<Rightarrow> string \<Rightarrow> 'z memory_world_scheme \<Rightarrow> memory option" where
  "active_duplicate user_id c key w =
     row_find (\<lambda>m. m_user_id m = user_id \<and> m_class m = c \<and> m_deduplication_key m = Some key \<and>
                   m_status m = MS_ACTIVE) (w_memories w)"

definition active_owned :: "uuid \<Rightarrow> uuid \<Rightarrow> 'z memory_world_scheme \<Rightarrow> memory option" where
  "active_owned user_id mid w =
     row_find (\<lambda>m. m_id m = mid \<and> m_user_id m = user_id \<and> m_status m = MS_ACTIVE) (w_memories w)"

definition owned_non_deleted :: "uuid \<Rightarrow> uuid \<Rightarrow> 'z memory_world_scheme \<Rightarrow> memory option" where
  "owned_non_deleted user_id mid w =
     row_find (\<lambda>m. m_id m = mid \<and> m_user_id m = user_id \<and> m_status m \<noteq> MS_DELETED) (w_memories w)"

text \<open>\<^verbatim>\<open>UUID(text)\<close>: identifiers are numbers of the model, written as decimal numerals.\<close>

definition parse_uuid :: "string \<Rightarrow> uuid option" where
  "parse_uuid s =
     (if s \<noteq> [] \<and> list_all is_digit_char s
      then Some (foldl (\<lambda>n c. 10 * n + (of_char c - 48)) 0 s) else None)"

definition validate_provenance :: "identity_context \<Rightarrow> memory_proposal \<Rightarrow> 'z task_world_scheme \<Rightarrow> app_error + unit" where
  "validate_provenance i p w =
     bindE (case mp_source_device_id p of
              None \<Rightarrow> Inr ()
            | Some did \<Rightarrow>
                (case row_find (\<lambda>d. d_id d = did \<and> d_user_id d = ic_user_id i) (w_devices w) of
                   None \<Rightarrow> Inl InvalidMemoryDataError
                 | Some d \<Rightarrow> requireE InvalidMemoryDataError (d_revoked_at d = None))) (\<lambda>_.
     if mp_source_type p = MO_TASK then
       (case parse_uuid (case mp_source_reference p of None \<Rightarrow> [] | Some s \<Rightarrow> s) of
          None \<Rightarrow> Inl InvalidMemoryDataError
        | Some tid \<Rightarrow>
            requireE InvalidMemoryDataError
              (row_find (\<lambda>t. t_id t = tid \<and> t_user_id t = ic_user_id i) (w_tasks w) \<noteq> None))
     else Inr ())"

section \<open>Creation\<close>

definition new_memory ::
  "identity_context \<Rightarrow> memory_proposal \<Rightarrow> string \<Rightarrow> string option \<Rightarrow> 'z memory_world_scheme \<Rightarrow> memory" where
  "new_memory i p fp key w =
     \<lparr>m_id = w_next w, m_user_id = ic_user_id i, m_source_device_id = mp_source_device_id p,
      m_class = mp_class p, m_status = MS_ACTIVE, m_source_type = mp_source_type p,
      m_source_reference = mp_source_reference p, m_content = mp_content p,
      m_normalized_content = Some (normalize_memory_text w (mp_content p)), m_summary = mp_summary p,
      m_subject = mp_subject p, m_confidence = mp_confidence p, m_importance = mp_importance p,
      m_sensitivity = mp_sensitivity p, m_fingerprint = fp, m_deduplication_key = key,
      m_created_at = w_now w, m_updated_at = w_now w, m_expires_at = mp_expires_at p,
      m_archived_at = None, m_deleted_at = None, m_version = 1, m_metadata = mp_metadata p\<rparr>"

text \<open>An active duplicate is reused, unless it is due and expires now.\<close>

definition reuse_duplicate ::
  "identity_context \<Rightarrow> memory_proposal \<Rightarrow> memory_actor_type \<Rightarrow> string option \<Rightarrow> 'z memory_world_scheme \<Rightarrow>
     app_error + memory option \<times> 'z memory_world_scheme" where
  "reuse_duplicate i p actor key w =
     (case key of
        None \<Rightarrow> Inr (None, w)
      | Some k \<Rightarrow>
          (case active_duplicate (ic_user_id i) (mp_class p) k w of
             None \<Rightarrow> Inr (None, w)
           | Some e \<Rightarrow>
               bindE (expire_memory e w) (\<lambda>((expired, e'), w1).
               if expired then Inr (None, w1)
               else
                 bindE (append_memory_event e' ME_DEDUPLICATED (Some MS_ACTIVE) MS_ACTIVE actor
                          (Some (show_nat (ic_user_id i))) ''EXACT_CANONICAL_DUPLICATE''
                          [(''source_type'', JStr (memory_source_value (mp_source_type p)))] w1) (\<lambda>w2.
                 Inr (Some e', w2)))))"

definition persist_memory ::
  "identity_context \<Rightarrow> memory_proposal \<Rightarrow> memory_actor_type \<Rightarrow> authorization_decision \<Rightarrow> string \<Rightarrow> string option \<Rightarrow>
     'z memory_world_scheme \<Rightarrow> app_error + memory option \<times> 'z memory_world_scheme" where
  "persist_memory i p actor d fp key w =
     (let m = new_memory i p fp key w; w1 = draw w
      in case insert_memory m (w_memories w1) of
           Some rows \<Rightarrow>
             bindE (append_memory_event m ME_CREATED None MS_ACTIVE actor (Some (show_nat (ic_user_id i)))
                      ''MEMORY_STORED'' [] (w1\<lparr>w_memories := rows\<rparr>)) (\<lambda>w2.
             bindE (audit_memory i m d AE_MEMORY_CREATED ''MEMORY_STORED'' w2) (\<lambda>w3.
             Inr (Some m, w3)))
         | None \<Rightarrow>
             (case key of
                None \<Rightarrow> Inl MemoryConcurrentModificationError
              | Some k \<Rightarrow>
                  (case active_duplicate (ic_user_id i) (mp_class p) k w1 of
                     None \<Rightarrow> Inl MemoryConcurrentModificationError
                   | Some e \<Rightarrow> Inr (Some e, w1))))"

definition store_memory ::
  "identity_context \<Rightarrow> memory_proposal \<Rightarrow> memory_actor_type \<Rightarrow> authorization_decision \<Rightarrow> 'z memory_world_scheme \<Rightarrow>
     app_error + memory option \<times> 'z memory_world_scheme" where
  "store_memory i p actor d w =
     bindE (requireE InvalidMemoryDataError
              (case mp_expires_at p of None \<Rightarrow> True | Some e \<Rightarrow> \<not> at_or_after (w_now w) e)) (\<lambda>_.
     bindE (validate_provenance i p (task_world.truncate w)) (\<lambda>_.
     let fp = memory_fingerprint w (mp_class p) (mp_content p) (mp_subject p);
         key = (if mp_class p = MC_HISTORICAL_DECISION then None else Some fp)
     in bindE (reuse_duplicate i p actor key w) (\<lambda>(existing, w1).
        case existing of
          Some e \<Rightarrow> Inr (Some e, w1)
        | None \<Rightarrow> persist_memory i p actor d fp key w1)))"

definition create_memory ::
  "identity_context \<Rightarrow> memory_proposal \<Rightarrow> memory_actor_type \<Rightarrow> 'z memory_world_scheme \<Rightarrow>
     app_error + memory memory_result \<times> 'z memory_world_scheme" where
  "create_memory i p actor w =
     memory_guarded i ''memory.write'' ''create'' (mp_confirmation_id p) (store_memory i p actor) w"

definition explicit_proposal :: "memory_create_request \<Rightarrow> memory_proposal" where
  "explicit_proposal r =
     \<lparr>mp_class = mq_class r, mp_content = mq_content r, mp_summary = mq_summary r, mp_subject = mq_subject r,
      mp_source_type = MO_USER_EXPLICIT, mp_source_reference = mq_source_reference r,
      mp_source_device_id = mq_source_device_id r, mp_confidence = 100, mp_importance = mq_importance r,
      mp_sensitivity = mq_sensitivity r, mp_expires_at = mq_expires_at r, mp_metadata = mq_metadata r,
      mp_confirmation_id = mq_confirmation_id r\<rparr>"

definition create_explicit ::
  "identity_context \<Rightarrow> memory_create_request \<Rightarrow> 'z memory_world_scheme \<Rightarrow>
     app_error + memory memory_result \<times> 'z memory_world_scheme" where
  "create_explicit i r w = bindE (make_proposal (explicit_proposal r)) (\<lambda>p. create_memory i p MA_USER w)"

definition create_internal ::
  "identity_context \<Rightarrow> memory_proposal \<Rightarrow> 'z memory_world_scheme \<Rightarrow>
     app_error + memory memory_result \<times> 'z memory_world_scheme" where
  "create_internal i p w =
     (if mp_source_type p \<in> {MO_USER_EXPLICIT, MO_FUTURE_AI_PROPOSAL} then Inl InvalidMemoryDataError
      else create_memory i p (if mp_source_type p = MO_DEVICE then MA_DEVICE else MA_SYSTEM) w)"

section \<open>Reading\<close>

record memory_query =
  my_status :: memory_status
  my_class :: "memory_class option"
  my_source_type :: "memory_source_type option"
  my_subject :: "string option"
  my_min_importance :: "int option"
  my_created_after :: "timestamp option"
  my_created_before :: "timestamp option"
  my_limit :: nat
  my_offset :: nat

definition matches_query :: "uuid \<Rightarrow> memory_query \<Rightarrow> memory \<Rightarrow> bool" where
  "matches_query user_id q m \<longleftrightarrow>
     m_user_id m = user_id \<and> m_status m = my_status q \<and>
     (case my_class q of
        None \<Rightarrow> my_status q = MS_ACTIVE \<longrightarrow> m_class m \<noteq> MC_DISCARDABLE
      | Some c \<Rightarrow> m_class m = c) \<and>
     (case my_source_type q of None \<Rightarrow> True | Some s \<Rightarrow> m_source_type m = s) \<and>
     (case my_subject q of None \<Rightarrow> True | Some s \<Rightarrow> m_subject m = Some s) \<and>
     (case my_min_importance q of None \<Rightarrow> True | Some n \<Rightarrow> m_importance m \<ge> n) \<and>
     (case my_created_after q of None \<Rightarrow> True | Some t \<Rightarrow> m_created_at m \<ge> t) \<and>
     (case my_created_before q of None \<Rightarrow> True | Some t \<Rightarrow> m_created_at m \<le> t)"

definition list_owned_memories ::
  "identity_context \<Rightarrow> memory_query \<Rightarrow> 'z memory_world_scheme \<Rightarrow>
     app_error + memory list memory_result \<times> 'z memory_world_scheme" where
  "list_owned_memories i q w =
     memory_guarded i ''memory.read'' ''read'' None (\<lambda>d w1.
       bindE (materialize_due_expirations (ic_user_id i) w1) (\<lambda>w2.
       Inr (Some (take (my_limit q) (drop (my_offset q)
              (sort_key (\<lambda>m. (- m_created_at m, - int (m_id m)))
                (filter (matches_query (ic_user_id i) q) (w_memories w2))))), w2))) w"

definition get_owned_memory ::
  "identity_context \<Rightarrow> uuid \<Rightarrow> 'z memory_world_scheme \<Rightarrow> app_error + memory memory_result \<times> 'z memory_world_scheme" where
  "get_owned_memory i mid w =
     memory_guarded i ''memory.read'' ''read'' None (\<lambda>d w1.
       case active_owned (ic_user_id i) mid w1 of
         None \<Rightarrow> Inr (None, w1)
       | Some m \<Rightarrow>
           bindE (expire_memory m w1) (\<lambda>((expired, m'), w2). Inr (if expired then None else Some m', w2))) w"

section \<open>Update\<close>

definition revision_snapshot :: "memory \<Rightarrow> 'z core_world_scheme \<Rightarrow> memory_revision" where
  "revision_snapshot m w =
     \<lparr>mr_id = w_next w, mr_memory_id = m_id m, mr_revision_number = m_version m, mr_class = m_class m,
      mr_source_type = m_source_type m, mr_source_reference = m_source_reference m,
      mr_content = m_content m, mr_normalized_content = m_normalized_content m,
      mr_summary = m_summary m, mr_subject = m_subject m, mr_confidence = m_confidence m,
      mr_importance = m_importance m, mr_sensitivity = m_sensitivity m, mr_expires_at = m_expires_at m,
      mr_fingerprint = m_fingerprint m, mr_recorded_at = w_now w, mr_actor_type = MA_USER,
      mr_metadata = m_metadata m\<rparr>"

text \<open>\<open>sent new old\<close>: the value of a field the client may have left out.\<close>

definition sent :: "'a option \<Rightarrow> 'a \<Rightarrow> 'a" where
  "sent new old = (case new of None \<Rightarrow> old | Some x \<Rightarrow> x)"

definition updated_row :: "memory_update_request \<Rightarrow> memory \<Rightarrow> 'z memory_world_scheme \<Rightarrow> memory \<Rightarrow> memory" where
  "updated_row r m w row =
     (let content = sent (mu_content r) (m_content m);
          subject = sent (mu_subject r) (m_subject m);
          fp = memory_fingerprint w (m_class m) content subject;
          row1 = row\<lparr>m_summary := sent (mu_summary r) (m_summary row),
                     m_subject := sent (mu_subject r) (m_subject row),
                     m_importance := sent (mu_importance r) (m_importance row),
                     m_sensitivity := sent (mu_sensitivity r) (m_sensitivity row),
                     m_expires_at := sent (mu_expires_at r) (m_expires_at row),
                     m_metadata := (case mu_metadata r of None \<Rightarrow> m_metadata row
                                    | Some None \<Rightarrow> [] | Some (Some x) \<Rightarrow> x)\<rparr>;
          row2 = (if mu_content r \<noteq> None
                  then row1\<lparr>m_content := content, m_normalized_content := Some (normalize_memory_text w content)\<rparr>
                  else row1);
          row3 = (if mu_content r \<noteq> None \<or> mu_subject r \<noteq> None
                  then row2\<lparr>m_fingerprint := fp, m_deduplication_key := Some fp\<rparr> else row2)
      in row3\<lparr>m_updated_at := w_now w, m_version := mu_expected_version r + 1\<rparr>)"

definition apply_update ::
  "identity_context \<Rightarrow> memory_update_request \<Rightarrow> memory \<Rightarrow> authorization_decision \<Rightarrow> 'z memory_world_scheme \<Rightarrow>
     app_error + memory option \<times> 'z memory_world_scheme" where
  "apply_update i r m d w =
     (let expires_at = sent (mu_expires_at r) (m_expires_at m)
      in if m_class m = MC_TEMPORARY_CONTEXT \<and> expires_at = None then Inl InvalidMemoryDataError
         else if (case expires_at of None \<Rightarrow> False | Some e \<Rightarrow> at_or_after (w_now w) e) then Inl InvalidMemoryDataError
         else
           (case insert_revision (revision_snapshot m w) (w_revisions w) of
              None \<Rightarrow> Inl MemoryDuplicateConflictError
            | Some revisions \<Rightarrow>
                (case filter (\<lambda>x. m_id x = m_id m \<and> m_user_id x = ic_user_id i \<and> m_status x = MS_ACTIVE \<and>
                                  m_version x = mu_expected_version r) (w_memories w) of
                   [row] \<Rightarrow>
                     (let m' = updated_row r m w row
                      in case write_memory m' (w_memories w) of
                           None \<Rightarrow> Inl MemoryDuplicateConflictError
                         | Some rows \<Rightarrow>
                             bindE (append_memory_event m' ME_UPDATED (Some MS_ACTIVE) MS_ACTIVE MA_USER
                                      (Some (show_nat (ic_user_id i))) ''EXPLICIT_UPDATE''
                                      [(''previous_version'', JInt (mu_expected_version r))]
                                      ((draw w)\<lparr>w_revisions := revisions, w_memories := rows\<rparr>)) (\<lambda>w1.
                             bindE (audit_memory i m' d AE_MEMORY_UPDATED ''EXPLICIT_UPDATE'' w1) (\<lambda>w2.
                             Inr (Some m', w2))))
                 | _ \<Rightarrow> Inl MemoryConcurrentModificationError)))"

definition update_owned ::
  "identity_context \<Rightarrow> uuid \<Rightarrow> memory_update_request \<Rightarrow> 'z memory_world_scheme \<Rightarrow>
     app_error + memory memory_result \<times> 'z memory_world_scheme" where
  "update_owned i mid r w =
     memory_guarded i ''memory.write'' ''update'' (mu_confirmation_id r) (\<lambda>d w1.
       case active_owned (ic_user_id i) mid w1 of
         None \<Rightarrow> Inr (None, w1)
       | Some m \<Rightarrow>
           bindE (expire_memory m w1) (\<lambda>((expired, m1), w2).
           if expired then Inr (None, w2)
           else if m_class m1 = MC_HISTORICAL_DECISION then Inl MemoryImmutableError
           else if m_version m1 \<noteq> mu_expected_version r then Inl MemoryConcurrentModificationError
           else apply_update i r m1 d w2)) w"

section \<open>Archive and deletion\<close>

definition archived_row :: "memory \<Rightarrow> timestamp \<Rightarrow> int \<Rightarrow> memory" where
  "archived_row row now expected_version =
     row\<lparr>m_status := MS_ARCHIVED, m_archived_at := Some now, m_updated_at := now,
         m_version := expected_version + 1\<rparr>"

definition archive_row ::
  "identity_context \<Rightarrow> memory_archive_request \<Rightarrow> memory \<Rightarrow> authorization_decision \<Rightarrow> 'z memory_world_scheme \<Rightarrow>
     app_error + memory option \<times> 'z memory_world_scheme" where
  "archive_row i r m d w =
     (case filter (\<lambda>x. m_id x = m_id m \<and> m_user_id x = ic_user_id i \<and> m_status x = MS_ACTIVE \<and>
                       m_version x = mx_expected_version r) (w_memories w) of
        [row] \<Rightarrow>
          (let m' = archived_row row (w_now w) (mx_expected_version r)
           in case write_memory m' (w_memories w) of
                None \<Rightarrow> Inl PyIntegrityError
              | Some rows \<Rightarrow>
                  bindE (append_memory_event m' ME_ARCHIVED (Some MS_ACTIVE) MS_ARCHIVED MA_USER
                           (Some (show_nat (ic_user_id i))) ''USER_ARCHIVED'' [] (w\<lparr>w_memories := rows\<rparr>)) (\<lambda>w1.
                  bindE (audit_memory i m' d AE_MEMORY_ARCHIVED ''USER_ARCHIVED'' w1) (\<lambda>w2.
                  Inr (Some m', w2))))
      | _ \<Rightarrow> Inl MemoryConcurrentModificationError)"

definition archive_owned ::
  "identity_context \<Rightarrow> uuid \<Rightarrow> memory_archive_request \<Rightarrow> 'z memory_world_scheme \<Rightarrow>
     app_error + memory memory_result \<times> 'z memory_world_scheme" where
  "archive_owned i mid r w =
     memory_guarded i ''memory.write'' ''archive'' (mx_confirmation_id r) (\<lambda>d w1.
       case owned_non_deleted (ic_user_id i) mid w1 of
         None \<Rightarrow> Inr (None, w1)
       | Some m \<Rightarrow>
           if m_status m = MS_ARCHIVED then Inr (Some m, w1)
           else if m_status m = MS_EXPIRED then Inr (None, w1)
           else
             bindE (expire_memory m w1) (\<lambda>((expired, m1), w2).
             if expired then Inr (None, w2)
             else if m_version m1 \<noteq> mx_expected_version r then Inl MemoryConcurrentModificationError
             else archive_row i r m1 d w2)) w"

definition DELETED_CONTENT :: string where
  "DELETED_CONTENT = ''[DELETED]''"

definition deleted_row :: "memory \<Rightarrow> timestamp \<Rightarrow> string \<Rightarrow> int \<Rightarrow> memory" where
  "deleted_row row now tombstone expected_version =
     row\<lparr>m_status := MS_DELETED, m_content := DELETED_CONTENT, m_normalized_content := None,
         m_summary := None, m_subject := None, m_source_reference := None, m_fingerprint := tombstone,
         m_deduplication_key := None, m_metadata := [], m_deleted_at := Some now, m_updated_at := now,
         m_version := expected_version + 1\<rparr>"

definition scrub_revision :: "uuid \<Rightarrow> string \<Rightarrow> memory_revision \<Rightarrow> memory_revision" where
  "scrub_revision mid tombstone r =
     (if mr_memory_id r = mid
      then r\<lparr>mr_content := DELETED_CONTENT, mr_normalized_content := None, mr_summary := None,
             mr_subject := None, mr_source_reference := None, mr_fingerprint := tombstone, mr_metadata := []\<rparr>
      else r)"

definition delete_row ::
  "identity_context \<Rightarrow> int \<Rightarrow> memory \<Rightarrow> authorization_decision \<Rightarrow> 'z memory_world_scheme \<Rightarrow>
     app_error + memory option \<times> 'z memory_world_scheme" where
  "delete_row i expected_version m d w =
     (let tombstone = w_sha256 w (''deleted:'' @ show_nat (m_id m))
      in case filter (\<lambda>x. m_id x = m_id m \<and> m_user_id x = ic_user_id i \<and> m_status x \<noteq> MS_DELETED \<and>
                          m_version x = expected_version) (w_memories w) of
           [row] \<Rightarrow>
             (let m' = deleted_row row (w_now w) tombstone expected_version;
                  revisions = map (scrub_revision (m_id m) tombstone) (w_revisions w)
              in case write_memory m' (w_memories w) of
                   None \<Rightarrow> Inl PyIntegrityError
                 | Some rows \<Rightarrow>
                     if \<not> list_all revision_row_ok (filter (\<lambda>x. mr_memory_id x = m_id m) revisions)
                     then Inl PyIntegrityError
                     else
                       bindE (append_memory_event m' ME_DELETED (Some (m_status m)) MS_DELETED MA_USER
                                (Some (show_nat (ic_user_id i))) ''PRIVACY_DELETE'' []
                                (w\<lparr>w_memories := rows, w_revisions := revisions\<rparr>)) (\<lambda>w1.
                       bindE (audit_memory i m' d AE_MEMORY_DELETED ''PRIVACY_DELETE'' w1) (\<lambda>w2.
                       Inr (Some m', w2))))
         | _ \<Rightarrow> Inl MemoryConcurrentModificationError)"

definition delete_owned ::
  "identity_context \<Rightarrow> uuid \<Rightarrow> int \<Rightarrow> uuid option \<Rightarrow> 'z memory_world_scheme \<Rightarrow>
     app_error + memory memory_result \<times> 'z memory_world_scheme" where
  "delete_owned i mid expected_version confirmation_id w =
     memory_guarded i ''memory.delete'' ''delete'' confirmation_id (\<lambda>d w1.
       case row_find (\<lambda>m. m_id m = mid \<and> m_user_id m = ic_user_id i) (w_memories w1) of
         None \<Rightarrow> Inr (None, w1)
       | Some m \<Rightarrow>
           if m_status m = MS_DELETED then Inr (Some m, w1)
           else if m_version m \<noteq> expected_version then Inl MemoryConcurrentModificationError
           else delete_row i expected_version m d w1) w"

section \<open>Revisions and context\<close>

definition revisions_owned ::
  "identity_context \<Rightarrow> uuid \<Rightarrow> 'z memory_world_scheme \<Rightarrow>
     app_error + memory_revision list memory_result \<times> 'z memory_world_scheme" where
  "revisions_owned i mid w =
     memory_guarded i ''memory.read'' ''read'' None (\<lambda>d w1.
       case owned_non_deleted (ic_user_id i) mid w1 of
         None \<Rightarrow> Inr (None, w1)
       | Some m \<Rightarrow>
           Inr (Some (sort_key (\<lambda>r. (mr_revision_number r, mr_id r))
                        (filter (\<lambda>r. mr_memory_id r = mid) (w_revisions w1))), w1)) w"

definition context_item :: "memory \<Rightarrow> memory_context_item" where
  "context_item m =
     \<lparr>mi_id = m_id m, mi_class = m_class m, mi_source_type = m_source_type m,
      mi_source_reference = m_source_reference m, mi_subject = m_subject m,
      mi_text = (case m_summary m of None \<Rightarrow> m_content m | Some s \<Rightarrow> if s = [] then m_content m else s),
      mi_importance = m_importance m, mi_sensitivity = m_sensitivity m, mi_updated_at = m_updated_at m\<rparr>"

definition context_records :: "uuid \<Rightarrow> nat \<Rightarrow> memory_class \<Rightarrow> memory list \<Rightarrow> memory list" where
  "context_records user_id limit c rows =
     take limit (sort_key (\<lambda>m. (- m_importance m, - m_updated_at m, m_id m))
       (filter (\<lambda>m. m_user_id m = user_id \<and> m_status m = MS_ACTIVE \<and> m_class m = c) rows))"

definition context_pack :: "uuid \<Rightarrow> nat \<Rightarrow> memory list \<Rightarrow> memory_context_pack" where
  "context_pack user_id limit rows =
     \<lparr>mk_persistent_preferences = map context_item (context_records user_id limit MC_PERSISTENT_PREFERENCE rows),
      mk_operational_context = map context_item (context_records user_id limit MC_OPERATIONAL rows),
      mk_historical_decisions = map context_item (context_records user_id limit MC_HISTORICAL_DECISION rows),
      mk_temporary_context = map context_item (context_records user_id limit MC_TEMPORARY_CONTEXT rows)\<rparr>"

definition build_context_pack ::
  "identity_context \<Rightarrow> int \<Rightarrow> 'z memory_world_scheme \<Rightarrow>
     app_error + memory_context_pack memory_result \<times> 'z memory_world_scheme" where
  "build_context_pack i limit w =
     (if \<not> (1 \<le> limit \<and> limit \<le> 5) then Inl InvalidMemoryDataError
      else
        memory_guarded i ''memory.read'' ''read'' None (\<lambda>d w1.
          bindE (materialize_due_expirations (ic_user_id i) w1) (\<lambda>w2.
          Inr (Some (context_pack (ic_user_id i) (nat limit) (w_memories w2)), w2))) w)"

end
