(* ===== verification/Memory_Writes.thy ===== *)
theory Memory_Writes
  imports Memory_Engine
begin

text \<open>
  The atomic writes of the Memory Core and the invariant they keep: histories follow the life of a
  memory, versions count the changes, active rows have unique canonical keys, deleted rows and their
  revisions hold no content, the rows of other users stay as they are.
\<close>

section \<open>Atomic writes\<close>

text \<open>What the memory operations leave alone: the tables of the tasks, the clock, the runtime's tables.\<close>

definition mem_frame :: "'z memory_world_scheme \<Rightarrow> 'z memory_world_scheme \<Rightarrow> bool" where
  "mem_frame w w' \<longleftrightarrow>
     task_frame w w' \<and> w_now w' = w_now w \<and> w_sha256 w' = w_sha256 w \<and> w_nfkc w' = w_nfkc w \<and>
     w_casefold w' = w_casefold w \<and> memory_world.more w' = memory_world.more w"

definition same_memories :: "'z memory_world_scheme \<Rightarrow> 'z memory_world_scheme \<Rightarrow> bool" where
  "same_memories w w' \<longleftrightarrow>
     w_memories w' = w_memories w \<and> w_revisions w' = w_revisions w \<and> w_memory_events w' = w_memory_events w"

definition event_of :: "memory \<Rightarrow> memory_event_type \<Rightarrow> memory_status option \<Rightarrow> memory_event \<Rightarrow> bool" where
  "event_of m kind from e \<longleftrightarrow>
     me_memory_id e = m_id m \<and> me_user_id e = m_user_id m \<and> me_event_type e = kind \<and>
     me_from_status e = from \<and> me_to_status e = m_status m"

definition dedup_key_of :: "memory \<Rightarrow> string option" where
  "dedup_key_of m = (if m_class m = MC_HISTORICAL_DECISION then None else Some (m_fingerprint m))"

definition fingerprinted :: "'z memory_world_scheme \<Rightarrow> memory \<Rightarrow> bool" where
  "fingerprinted w m \<longleftrightarrow> m_fingerprint m = memory_fingerprint w (m_class m) (m_content m) (m_subject m)"

definition new_row :: "'z memory_world_scheme \<Rightarrow> memory \<Rightarrow> bool" where
  "new_row w m \<longleftrightarrow>
     m_status m = MS_ACTIVE \<and> m_version m = 1 \<and> fingerprinted w m \<and> m_deduplication_key m = dedup_key_of m"

definition same_text :: "memory \<Rightarrow> memory \<Rightarrow> bool" where
  "same_text m m' \<longleftrightarrow>
     m_content m' = m_content m \<and> m_subject m' = m_subject m \<and> m_fingerprint m' = m_fingerprint m"

definition changed_row :: "'z memory_world_scheme \<Rightarrow> memory \<Rightarrow> memory \<Rightarrow> bool" where
  "changed_row w m m' \<longleftrightarrow>
     m_id m' = m_id m \<and> m_user_id m' = m_user_id m \<and> m_class m' = m_class m \<and>
     m_version m' = m_version m + 1 \<and>
     (m_status m' \<in> {MS_ARCHIVED, MS_EXPIRED} \<and> same_text m m' \<or>
      m_status m' = MS_ACTIVE \<and> m_class m \<noteq> MC_HISTORICAL_DECISION \<and>
        (same_text m m' \<and> m_deduplication_key m' = m_deduplication_key m \<or>
         fingerprinted w m' \<and> m_deduplication_key m' = dedup_key_of m'))"

definition scrubbed :: "memory \<Rightarrow> bool" where
  "scrubbed m \<longleftrightarrow>
     m_content m = DELETED_CONTENT \<and> m_normalized_content m = None \<and> m_summary m = None \<and>
     m_subject m = None \<and> m_source_reference m = None \<and> m_deduplication_key m = None \<and> m_metadata m = []"

definition scrubbed_revision :: "memory_revision \<Rightarrow> bool" where
  "scrubbed_revision r \<longleftrightarrow>
     mr_content r = DELETED_CONTENT \<and> mr_normalized_content r = None \<and> mr_summary r = None \<and>
     mr_subject r = None \<and> mr_source_reference r = None \<and> mr_metadata r = []"

inductive memory_write :: "uuid \<Rightarrow> 'z memory_world_scheme \<Rightarrow> 'z memory_world_scheme \<Rightarrow> bool" for uid where
  other: "mem_frame w w' \<Longrightarrow> same_memories w w' \<Longrightarrow> memory_write uid w w'"
| touch: "mem_frame w w' \<Longrightarrow> m \<in> set (w_memories w) \<Longrightarrow> m_user_id m = uid \<Longrightarrow> m_status m = MS_ACTIVE \<Longrightarrow>
    event_of m ME_DEDUPLICATED (Some MS_ACTIVE) e \<Longrightarrow> w_memories w' = w_memories w \<Longrightarrow>
    w_revisions w' = w_revisions w \<Longrightarrow> w_memory_events w' = row_add e (w_memory_events w) \<Longrightarrow> memory_write uid w w'"
| create: "mem_frame w w' \<Longrightarrow> w_next w \<le> m_id m \<Longrightarrow> m_id m < w_next w' \<Longrightarrow> m_user_id m = uid \<Longrightarrow> new_row w m \<Longrightarrow>
    insert_memory m (w_memories w) = Some (w_memories w') \<Longrightarrow> w_revisions w' = w_revisions w \<Longrightarrow>
    event_of m ME_CREATED None e \<Longrightarrow> w_memory_events w' = row_add e (w_memory_events w) \<Longrightarrow> memory_write uid w w'"
| change: "mem_frame w w' \<Longrightarrow> m \<in> set (w_memories w) \<Longrightarrow> m_user_id m = uid \<Longrightarrow> m_status m = MS_ACTIVE \<Longrightarrow>
    changed_row w m m' \<Longrightarrow> write_memory m' (w_memories w) = Some (w_memories w') \<Longrightarrow>
    w_revisions w' = w_revisions w \<or>
      (\<exists>r. w_revisions w' = row_add r (w_revisions w) \<and> mr_memory_id r = m_id m \<and> mr_revision_number r = m_version m) \<and>
      m_status m' = MS_ACTIVE \<Longrightarrow>
    kind \<noteq> ME_DEDUPLICATED \<Longrightarrow> event_of m' kind (Some MS_ACTIVE) e \<Longrightarrow>
    w_memory_events w' = row_add e (w_memory_events w) \<Longrightarrow> memory_write uid w w'"
| erase: "mem_frame w w' \<Longrightarrow> m \<in> set (w_memories w) \<Longrightarrow> m_user_id m = uid \<Longrightarrow> m_status m \<noteq> MS_DELETED \<Longrightarrow>
    m' = deleted_row m (w_now w) tombstone (m_version m) \<Longrightarrow>
    write_memory m' (w_memories w) = Some (w_memories w') \<Longrightarrow>
    w_revisions w' = map (scrub_revision (m_id m) tombstone) (w_revisions w) \<Longrightarrow>
    event_of m' ME_DELETED (Some (m_status m)) e \<Longrightarrow>
    w_memory_events w' = row_add e (w_memory_events w) \<Longrightarrow> memory_write uid w w'"

abbreviation memory_writes :: "uuid \<Rightarrow> 'z memory_world_scheme \<Rightarrow> 'z memory_world_scheme \<Rightarrow> bool" where
  "memory_writes uid \<equiv> (memory_write uid)\<^sup>*\<^sup>*"

section \<open>The invariant\<close>

definition memory_trail :: "uuid \<Rightarrow> 'z memory_world_scheme \<Rightarrow> (memory_status option \<times> memory_status) list" where
  "memory_trail mid w =
     map (\<lambda>e. (me_from_status e, me_to_status e)) (filter (\<lambda>e. me_memory_id e = mid) (w_memory_events w))"

definition memory_changes :: "uuid \<Rightarrow> 'z memory_world_scheme \<Rightarrow> memory_event list" where
  "memory_changes mid w =
     filter (\<lambda>e. me_memory_id e = mid \<and> me_event_type e \<noteq> ME_DEDUPLICATED) (w_memory_events w)"

definition memory_ok :: "'z memory_world_scheme \<Rightarrow> memory \<Rightarrow> bool" where
  "memory_ok w m \<longleftrightarrow>
     memory_row_ok m \<and>
     trail memory_allowed None (memory_trail (m_id m) w) \<and>
     trail_end None (memory_trail (m_id m) w) = Some (m_status m) \<and>
     m_version m = int (length (memory_changes (m_id m) w)) \<and>
     (m_status m \<noteq> MS_DELETED \<longrightarrow> fingerprinted w m) \<and>
     (m_status m = MS_ACTIVE \<longrightarrow> m_deduplication_key m = dedup_key_of m) \<and>
     (m_status m = MS_DELETED \<longrightarrow> scrubbed m)"

definition revision_ok :: "'z memory_world_scheme \<Rightarrow> memory_revision \<Rightarrow> bool" where
  "revision_ok w r \<longleftrightarrow>
     (\<exists>m \<in> set (w_memories w). m_id m = mr_memory_id r \<and> mr_revision_number r < m_version m \<and>
        (m_status m = MS_DELETED \<longrightarrow> scrubbed_revision r))"

definition memory_inv :: "'z memory_world_scheme \<Rightarrow> bool" where
  "memory_inv w \<longleftrightarrow>
     unique_keys m_id (w_memories w) \<and> keys_below m_id (w_next w) (w_memories w) \<and>
     keys_below me_memory_id (w_next w) (w_memory_events w) \<and>
     (\<forall>m \<in> set (w_memories w). memory_ok w m) \<and>
     (\<forall>r \<in> set (w_revisions w). revision_ok w r) \<and>
     (\<forall>m \<in> set (w_memories w). \<forall>x \<in> set (w_memories w). same_active_key m x \<longrightarrow> m_id m = m_id x)"

definition memory_row_progress :: "memory \<Rightarrow> memory \<Rightarrow> bool" where
  "memory_row_progress m m' \<longleftrightarrow>
     m_id m' = m_id m \<and> m_user_id m' = m_user_id m \<and> m_class m' = m_class m \<and> m_version m \<le> m_version m' \<and>
     (m_status m = MS_DELETED \<longrightarrow> m' = m) \<and> (m_status m \<noteq> MS_ACTIVE \<longrightarrow> m_status m' \<noteq> MS_ACTIVE) \<and>
     (m_class m = MC_HISTORICAL_DECISION \<and> m_status m' \<noteq> MS_DELETED \<longrightarrow> same_text m m')"

definition memory_progress :: "'z memory_world_scheme \<Rightarrow> 'z memory_world_scheme \<Rightarrow> bool" where
  "memory_progress w w' \<longleftrightarrow> (\<forall>m \<in> set (w_memories w). \<exists>m' \<in> set (w_memories w'). memory_row_progress m m')"

text \<open>What belongs to other users: their memories, the revisions of these, their events.\<close>

definition foreign_view ::
  "uuid \<Rightarrow> 'z memory_world_scheme \<Rightarrow> memory list \<times> memory_revision list \<times> memory_event list" where
  "foreign_view uid w =
     (filter (\<lambda>m. m_user_id m \<noteq> uid) (w_memories w),
      filter (\<lambda>r. mr_memory_id r \<in> m_id ` set (filter (\<lambda>m. m_user_id m \<noteq> uid) (w_memories w))) (w_revisions w),
      filter (\<lambda>e. me_user_id e \<noteq> uid) (w_memory_events w))"

lemma memory_invD:
  assumes "memory_inv w"
  shows "unique_keys m_id (w_memories w)" "keys_below m_id (w_next w) (w_memories w)"
    "keys_below me_memory_id (w_next w) (w_memory_events w)"
    "m \<in> set (w_memories w) \<Longrightarrow> memory_ok w m" "r \<in> set (w_revisions w) \<Longrightarrow> revision_ok w r"
    "m \<in> set (w_memories w) \<Longrightarrow> x \<in> set (w_memories w) \<Longrightarrow> same_active_key m x \<Longrightarrow> m_id m = m_id x"
  using assms by (simp_all add: memory_inv_def)

lemma mem_frame_next: "mem_frame w w' \<Longrightarrow> w_next w \<le> w_next w'"
  by (simp add: mem_frame_def task_frame_def)

lemma mem_frame_fingerprinted:
  assumes "mem_frame w w'"
  shows "fingerprinted w' m \<longleftrightarrow> fingerprinted w m"
proof -
  have c: "canonical_text w' = canonical_text w" "w_sha256 w' = w_sha256 w"
    using assms by (simp_all add: fun_eq_iff mem_frame_def canonical_text_def normalize_memory_text_def)
  show ?thesis unfolding fingerprinted_def memory_fingerprint_def fingerprint_payload_def c ..
qed

lemma memory_trail_add:
  assumes "w_memory_events w' = row_add e (w_memory_events w)"
  shows "memory_trail mid w' = memory_trail mid w @ (if me_memory_id e = mid then [(me_from_status e, me_to_status e)] else [])"
    and "memory_changes mid w' =
      memory_changes mid w @ (if me_memory_id e = mid \<and> me_event_type e \<noteq> ME_DEDUPLICATED then [e] else [])"
  using assms by (simp_all add: memory_trail_def memory_changes_def row_add_def)

lemma memory_ok_other:
  assumes "mem_frame w w'" and "w_memory_events w' = row_add e (w_memory_events w)" and "me_memory_id e \<noteq> m_id m"
    and "memory_ok w m"
  shows "memory_ok w' m"
  using assms by (simp add: memory_ok_def mem_frame_fingerprinted memory_trail_add)

lemma write_memory_Some:
  "write_memory m rows = Some rows' \<longleftrightarrow>
     memory_row_ok m \<and> (\<forall>x \<in> set rows. m_id x \<noteq> m_id m \<longrightarrow> \<not> same_active_key m x) \<and> rows' = row_put m_id m rows"
  by (auto simp: write_memory_def row_find_None)

lemma same_active_key_sym: "same_active_key m x \<Longrightarrow> same_active_key x m"
  unfolding same_active_key_def by metis

text \<open>Every atomic write keeps the invariant: first the writes of one row.\<close>

lemma row_write_inv:
  assumes inv: "memory_inv w" and fr: "mem_frame w w'" and m: "m \<in> set (w_memories w)" and id: "m_id m' = m_id m"
    and wr: "write_memory m' (w_memories w) = Some (w_memories w')"
    and ev: "w_memory_events w' = row_add e (w_memory_events w)" "event_of m' kind (Some (m_status m)) e" "kind \<noteq> ME_DEDUPLICATED"
    and v: "m_version m' = m_version m + 1" and al: "m_status m' \<in> memory_allowed (m_status m)"
    and fp: "m_status m' \<noteq> MS_DELETED \<longrightarrow> fingerprinted w m'"
    and dk: "m_status m' = MS_ACTIVE \<longrightarrow> m_deduplication_key m' = dedup_key_of m'"
    and sc: "m_status m' = MS_DELETED \<longrightarrow> scrubbed m'"
    and rv: "\<forall>r \<in> set (w_revisions w'). revision_ok w' r"
  shows "memory_inv w'"
proof -
  note i = memory_invD [OF inv]
  from wr have row: "memory_row_ok m'" and nodup: "\<forall>x \<in> set (w_memories w). m_id x \<noteq> m_id m' \<longrightarrow> \<not> same_active_key m' x"
    and rows: "w_memories w' = row_put m_id m' (w_memories w)" by (auto simp: write_memory_Some)
  have e: "me_memory_id e = m_id m" "me_from_status e = Some (m_status m)" "me_to_status e = m_status m'"
    "me_event_type e \<noteq> ME_DEDUPLICATED" using ev by (simp_all add: event_of_def id)
  have ok: "memory_ok w m" using i(4) m by blast
  then have "memory_ok w' m'"
    using trail_snoc [of memory_allowed None "memory_trail (m_id m) w" "m_status m" "m_status m'"] al row v fp dk sc
    by (simp add: memory_ok_def memory_trail_add [OF ev(1)] id e mem_frame_fingerprinted [OF fr])
  moreover have "memory_ok w' x" if "x \<in> set (w_memories w)" "m_id x \<noteq> m_id m" for x
    using that e i(4) by (intro memory_ok_other [OF fr ev(1)]) auto
  ultimately have all: "\<forall>x \<in> set (w_memories w'). memory_ok w' x" by (auto simp: rows id dest!: row_put_mem)
  have dup: "m_id x = m_id y" if "x \<in> set (w_memories w')" "y \<in> set (w_memories w')" "same_active_key x y" for x y
  proof -
    from that(1,2) consider "x = m'" "y = m'" | "x = m'" "y \<in> set (w_memories w)" "m_id y \<noteq> m_id m'"
      | "y = m'" "x \<in> set (w_memories w)" "m_id x \<noteq> m_id m'" | "x \<in> set (w_memories w)" "y \<in> set (w_memories w)"
      unfolding rows by (auto dest!: row_put_mem)
    then show ?thesis using nodup that(3) i(6) same_active_key_sym by cases blast+
  qed
  have "m_id m < w_next w" using i(2) m by (simp add: keys_below_def)
  then have kb: "keys_below me_memory_id (w_next w) (w_memory_events w')" "keys_below m_id (w_next w) (w_memories w')"
    using i(2,3) e(1) by (simp_all add: ev(1) rows table_simps)
  have "keys_below me_memory_id (w_next w') (w_memory_events w')" "keys_below m_id (w_next w') (w_memories w')"
    using keys_below_mono [OF kb(1) mem_frame_next [OF fr]] keys_below_mono [OF kb(2) mem_frame_next [OF fr]] .
  with all dup rv i(1) show ?thesis unfolding memory_inv_def by (simp add: rows table_simps)
qed

lemma memory_write_inv:
  assumes "memory_write uid w w'" and inv: "memory_inv w"
  shows "memory_inv w'"
  using assms(1)
proof cases
  case other
  have same: "w_memories w' = w_memories w" "w_revisions w' = w_revisions w" "w_memory_events w' = w_memory_events w"
    using other(2) by (simp_all add: same_memories_def)
  have "memory_ok w' m \<longleftrightarrow> memory_ok w m" for m
    by (simp add: memory_ok_def memory_trail_def memory_changes_def same mem_frame_fingerprinted [OF other(1)])
  with inv keys_below_mono [OF memory_invD(2) [OF inv] mem_frame_next [OF other(1)]]
    keys_below_mono [OF memory_invD(3) [OF inv] mem_frame_next [OF other(1)]] show ?thesis
    by (simp add: memory_inv_def same revision_ok_def)
next
  case (touch m e)
  note i = memory_invD [OF inv]
  have e: "me_memory_id e = m_id m" "me_from_status e = Some (m_status m)" "me_to_status e = m_status m"
    "me_event_type e = ME_DEDUPLICATED" using touch by (simp_all add: event_of_def)
  have ok: "memory_ok w m" using i(4) touch(2) by blast
  then have "memory_ok w' m"
    using trail_snoc [of memory_allowed None "memory_trail (m_id m) w" "m_status m" "m_status m"] touch(4)
    by (simp add: memory_ok_def memory_trail_add [OF touch(8)] e mem_frame_fingerprinted [OF touch(1)])
  moreover have "memory_ok w' x" if "x \<in> set (w_memories w)" "m_id x \<noteq> m_id m" for x
    using that e i(4) by (intro memory_ok_other [OF touch(1) touch(8)]) auto
  moreover have "x = m" if "x \<in> set (w_memories w)" "m_id x = m_id m" for x
    using unique_keys_eq [OF i(1) that(1) touch(2) that(2)] .
  ultimately have all: "\<forall>x \<in> set (w_memories w). memory_ok w' x" by blast
  have "m_id m < w_next w" using i(2) touch(2) by (simp add: keys_below_def)
  then have kb: "keys_below me_memory_id (w_next w) (w_memory_events w')" using i(3) e(1) by (simp add: touch(8) table_simps)
  from inv all keys_below_mono [OF kb mem_frame_next [OF touch(1)]] keys_below_mono [OF i(2) mem_frame_next [OF touch(1)]]
  show ?thesis by (simp add: memory_inv_def touch(6,7) revision_ok_def)
next
  case (create m e)
  note i = memory_invD [OF inv]
  from create(6) have row: "memory_row_ok m" and nodup: "\<forall>x \<in> set (w_memories w). \<not> same_active_key m x"
    and rows: "w_memories w' = row_add m (w_memories w)"
    by (auto simp: insert_memory_def row_find_None split: if_splits)
  have fresh: "m_id m \<notin> m_id ` set (w_memories w)" "m_id m \<notin> me_memory_id ` set (w_memory_events w)"
    using keys_below_fresh [OF i(2) create(2)] keys_below_fresh [OF i(3) create(2)] .
  then have "\<forall>x \<in> set (w_memory_events w). me_memory_id x \<noteq> m_id m" by force
  then have empty: "memory_trail (m_id m) w = []" "memory_changes (m_id m) w = []"
    by (auto simp: memory_trail_def memory_changes_def filter_empty_conv)
  have e: "me_memory_id e = m_id m" "me_from_status e = None" "me_to_status e = m_status m" "me_event_type e = ME_CREATED"
    using create(8) by (simp_all add: event_of_def)
  have "memory_ok w' m"
    using create(5) row by (simp add: memory_ok_def memory_trail_add [OF create(9)] empty e new_row_def mem_frame_fingerprinted [OF create(1)])
  moreover have "memory_ok w' x" if "x \<in> set (w_memories w)" for x
    using that e i(4) fresh(1) by (intro memory_ok_other [OF create(1) create(9)]) auto
  ultimately have all: "\<forall>x \<in> set (w_memories w'). memory_ok w' x" by (simp add: rows table_simps)
  have dup: "m_id x = m_id y" if "x \<in> set (w_memories w')" "y \<in> set (w_memories w')" "same_active_key x y" for x y
  proof -
    from that(1,2) consider "x = m" "y = m" | "x = m" "y \<in> set (w_memories w)" | "y = m" "x \<in> set (w_memories w)"
      | "x \<in> set (w_memories w)" "y \<in> set (w_memories w)"
      unfolding rows by (auto simp: table_simps)
    then show ?thesis
    proof cases
      case 1
      then show ?thesis by simp
    next
      case 2
      with nodup that(3) show ?thesis by simp
    next
      case 3
      with nodup same_active_key_sym [OF that(3)] show ?thesis by simp
    next
      case 4
      then show ?thesis by (rule i(6) [OF _ _ that(3)])
    qed
  qed
  have rev: "\<forall>r \<in> set (w_revisions w'). revision_ok w' r"
    using i(5) by (auto simp: create(7) revision_ok_def rows table_simps)
  from i(1) fresh(1) create(3) keys_below_mono [OF i(2) mem_frame_next [OF create(1)]]
    keys_below_mono [OF i(3) mem_frame_next [OF create(1)]]
  have "unique_keys m_id (w_memories w')" "keys_below m_id (w_next w') (w_memories w')"
    "keys_below me_memory_id (w_next w') (w_memory_events w')" by (simp_all add: rows create(9) e table_simps)
  with all dup rev show ?thesis unfolding memory_inv_def by blast
next
  case (change m m' kind e)
  note i = memory_invD [OF inv] and ch = change(5) [unfolded changed_row_def]
  have ok: "memory_ok w m" using i(4) change(2) by blast
  have rows: "w_memories w' = row_put m_id m' (w_memories w)" using change(6) by (simp add: write_memory_Some)
  have mem': "m' \<in> set (w_memories w')" using change(2) ch by (simp add: rows row_put_intro [of m])
  have old: "revision_ok w' r" if "r \<in> set (w_revisions w)" for r
  proof -
    from i(5) [OF that] obtain x where x: "x \<in> set (w_memories w)" "m_id x = mr_memory_id r" "mr_revision_number r < m_version x"
      "m_status x = MS_DELETED \<longrightarrow> scrubbed_revision r" by (auto simp: revision_ok_def)
    show ?thesis
    proof (cases "m_id x = m_id m")
      case True
      then have "x = m" using unique_keys_eq [OF i(1) x(1) change(2)] by blast
      with x ch mem' show ?thesis unfolding revision_ok_def by (intro bexI [of _ m']) auto
    next
      case False
      with x ch show ?thesis unfolding revision_ok_def rows by (intro bexI [of _ x]) (auto intro: row_put_keep)
    qed
  qed
  have rev: "\<forall>r \<in> set (w_revisions w'). revision_ok w' r"
  proof
    fix r
    assume r: "r \<in> set (w_revisions w')"
    show "revision_ok w' r"
    proof (cases "r \<in> set (w_revisions w)")
      case False
      with r change(7) have "mr_memory_id r = m_id m" "mr_revision_number r = m_version m" "m_status m' = MS_ACTIVE"
        by (auto simp: table_simps)
      with ch mem' show ?thesis unfolding revision_ok_def by (intro bexI [of _ m']) auto
    qed (rule old)
  qed
  have st: "m_status m' \<in> memory_allowed (m_status m)" "m_status m' \<noteq> MS_DELETED" using ch change(4) by auto
  have fp: "fingerprinted w m'"
    using ch ok change(4) by (auto simp: memory_ok_def fingerprinted_def same_text_def)
  have dk: "m_status m' = MS_ACTIVE \<longrightarrow> m_deduplication_key m' = dedup_key_of m'"
    using ch ok change(4) by (auto simp: memory_ok_def dedup_key_of_def same_text_def)
  show ?thesis
    by (rule row_write_inv [OF inv change(1,2) _ change(6,10) _ change(8) _ st(1) _ dk _ rev])
       (use ch change(4,9) st(2) fp in auto)
next
  case (erase m m' tombstone e)
  note i = memory_invD [OF inv]
  have m': "m_id m' = m_id m" "m_status m' = MS_DELETED" "m_version m' = m_version m + 1" "scrubbed m'"
    by (simp_all add: erase(5) deleted_row_def scrubbed_def)
  have rows: "w_memories w' = row_put m_id m' (w_memories w)" using erase(6) by (simp add: write_memory_Some)
  have mem': "m' \<in> set (w_memories w')" using erase(2) by (simp add: rows row_put_intro [of m] m')
  have rev: "revision_ok w' r'" if "r' \<in> set (w_revisions w')" for r'
  proof -
    from that obtain r where r: "r \<in> set (w_revisions w)" "r' = scrub_revision (m_id m) tombstone r" by (auto simp: erase(7))
    from i(5) [OF r(1)] obtain x where x: "x \<in> set (w_memories w)" "m_id x = mr_memory_id r" "mr_revision_number r < m_version x"
      "m_status x = MS_DELETED \<longrightarrow> scrubbed_revision r" by (auto simp: revision_ok_def)
    have r': "mr_memory_id r' = mr_memory_id r" "mr_revision_number r' = mr_revision_number r"
      by (simp_all add: r(2) scrub_revision_def)
    show ?thesis
    proof (cases "m_id x = m_id m")
      case True
      then have "x = m" using unique_keys_eq [OF i(1) x(1) erase(2)] by blast
      with x r' m' mem' show ?thesis unfolding revision_ok_def
        by (intro bexI [of _ m']) (auto simp: r(2) scrub_revision_def scrubbed_revision_def)
    next
      case False
      with x r' m' show ?thesis unfolding revision_ok_def rows
        by (intro bexI [of _ x]) (auto simp: r(2) scrub_revision_def intro: row_put_keep)
    qed
  qed
  have "m_status m' \<in> memory_allowed (m_status m)" using erase(4) m' by (cases "m_status m") simp_all
  then show ?thesis
    by (intro row_write_inv [OF inv erase(1,2) m'(1) erase(6,9,8)]) (use m' rev in auto)
qed

lemma memory_writes_inv: "memory_writes uid w w' \<Longrightarrow> memory_inv w \<Longrightarrow> memory_inv w'"
  by (induction rule: rtranclp_induct) (auto intro: memory_write_inv)


section \<open>Progress and isolation\<close>

lemma memory_row_progress_refl [simp]: "memory_row_progress m m"
  by (simp add: memory_row_progress_def same_text_def)

lemma memory_row_progress_trans:
  "memory_row_progress a b \<Longrightarrow> memory_row_progress b c \<Longrightarrow> memory_row_progress a c"
  unfolding memory_row_progress_def same_text_def by (cases "m_status b = MS_DELETED") auto

lemma memory_progress_same: "w_memories w' = w_memories w \<Longrightarrow> memory_progress w w'"
  using memory_row_progress_refl unfolding memory_progress_def by metis

lemma memory_progress_put:
  assumes "m \<in> set (w_memories w)" and "unique_keys m_id (w_memories w)" and "memory_row_progress m m'"
    and "w_memories w' = row_put m_id m' (w_memories w)"
  shows "memory_progress w w'"
  unfolding memory_progress_def
proof
  fix x
  assume x: "x \<in> set (w_memories w)"
  have id: "m_id m' = m_id m" using assms(3) by (simp add: memory_row_progress_def)
  show "\<exists>x' \<in> set (w_memories w'). memory_row_progress x x'"
  proof (cases "m_id x = m_id m")
    case True
    then have "x = m" using unique_keys_eq [OF assms(2) x assms(1)] by blast
    with assms(3) id assms(1) show ?thesis by (intro bexI [of _ m']) (simp_all add: assms(4) row_put_intro [of m])
  next
    case False
    with x id show ?thesis by (intro bexI [of _ x]) (simp_all add: assms(4) row_put_keep)
  qed
qed

lemma filter_row_put_outside:
  assumes "\<not> P r" and "\<And>x. x \<in> set rows \<Longrightarrow> key x = key r \<Longrightarrow> \<not> P x"
  shows "filter P (row_put key r rows) = filter P rows"
  using assms(2) by (induction rows) (auto simp: row_put_def assms(1))

lemma memory_write_progress:
  assumes "memory_write uid w w'" and inv: "memory_inv w"
  shows "memory_progress w w'"
  using assms(1)
proof cases
  case other
  then show ?thesis by (simp add: memory_progress_same same_memories_def)
next
  case touch
  then show ?thesis by (simp add: memory_progress_same)
next
  case (create m e)
  then have "w_memories w' = row_add m (w_memories w)" by (simp add: insert_memory_def split: if_splits)
  then have "set (w_memories w) \<subseteq> set (w_memories w')" by (auto simp: table_simps)
  then show ?thesis unfolding memory_progress_def by (metis memory_row_progress_refl subsetD)
next
  case (change m m' kind e)
  have "memory_row_progress m m'" using change(4,5) by (auto simp: memory_row_progress_def changed_row_def)
  with change(6) show ?thesis
    by (intro memory_progress_put [OF change(2) memory_invD(1) [OF inv]]) (simp_all add: write_memory_Some)
next
  case (erase m m' tombstone e)
  have "memory_row_progress m m'" using erase(4,5) by (auto simp: memory_row_progress_def deleted_row_def)
  with erase(6) show ?thesis
    by (intro memory_progress_put [OF erase(2) memory_invD(1) [OF inv]]) (simp_all add: write_memory_Some)
qed

lemma foreign_view_cong:
  assumes "filter (\<lambda>m. m_user_id m \<noteq> uid) (w_memories w') = filter (\<lambda>m. m_user_id m \<noteq> uid) (w_memories w)"
    and "filter (\<lambda>r. mr_memory_id r \<in> m_id ` set (filter (\<lambda>m. m_user_id m \<noteq> uid) (w_memories w))) (w_revisions w') =
      filter (\<lambda>r. mr_memory_id r \<in> m_id ` set (filter (\<lambda>m. m_user_id m \<noteq> uid) (w_memories w))) (w_revisions w)"
    and "filter (\<lambda>e. me_user_id e \<noteq> uid) (w_memory_events w') = filter (\<lambda>e. me_user_id e \<noteq> uid) (w_memory_events w)"
  shows "foreign_view uid w' = foreign_view uid w"
  unfolding foreign_view_def assms(1,3) using assms(2) by simp

lemma memory_write_isolated:
  assumes "memory_write uid w w'" and inv: "memory_inv w"
  shows "foreign_view uid w' = foreign_view uid w"
proof -
  note i = memory_invD [OF inv]
  let ?F = "m_id ` set (filter (\<lambda>m. m_user_id m \<noteq> uid) (w_memories w))"
  have own: "m_id m \<notin> ?F" if "m \<in> set (w_memories w)" "m_user_id m = uid" for m
    using that unique_keys_eq [OF i(1) that(1)] by auto
  have put: "filter (\<lambda>m. m_user_id m \<noteq> uid) (row_put m_id m' (w_memories w)) = filter (\<lambda>m. m_user_id m \<noteq> uid) (w_memories w)"
    if "m \<in> set (w_memories w)" "m_user_id m = uid" "m_id m' = m_id m" "m_user_id m' = uid" for m m'
    using that unique_keys_eq [OF i(1) _ that(1)] by (intro filter_row_put_outside) auto
  show ?thesis using assms(1)
  proof cases
    case other
    then show ?thesis by (simp add: foreign_view_def same_memories_def)
  next
    case (touch m e)
    then show ?thesis by (intro foreign_view_cong) (simp_all add: row_add_def event_of_def)
  next
    case (create m e)
    then have "w_memories w' = row_add m (w_memories w)" by (simp add: insert_memory_def split: if_splits)
    with create show ?thesis by (intro foreign_view_cong) (simp_all add: row_add_def event_of_def)
  next
    case (change m m' kind e)
    have rows: "w_memories w' = row_put m_id m' (w_memories w)" using change(6) by (simp add: write_memory_Some)
    show ?thesis
    proof (rule foreign_view_cong)
      show "filter (\<lambda>r. mr_memory_id r \<in> ?F) (w_revisions w') = filter (\<lambda>r. mr_memory_id r \<in> ?F) (w_revisions w)"
        using change(7) own [OF change(2,3)] by (auto simp: row_add_def)
    qed (use change(3,5) put [OF change(2,3), of m'] change(9,10) in \<open>auto simp: rows row_add_def event_of_def changed_row_def\<close>)
  next
    case (erase m m' tombstone e)
    have rows: "w_memories w' = row_put m_id m' (w_memories w)" using erase(6) by (simp add: write_memory_Some)
    have m': "m_id m' = m_id m" "m_user_id m' = m_user_id m" by (simp_all add: erase(5) deleted_row_def)
    have "filter (\<lambda>r. mr_memory_id r \<in> ?F) (map (scrub_revision (m_id m) tombstone) rs) = filter (\<lambda>r. mr_memory_id r \<in> ?F) rs" for rs
      using own [OF erase(2,3)] by (induction rs) (auto simp: scrub_revision_def)
    then show ?thesis
      by (intro foreign_view_cong)
         (use erase(3) put [OF erase(2,3) m'(1)] m' erase(8,9) in \<open>auto simp: rows erase(7) row_add_def event_of_def\<close>)
  qed
qed

lemma memory_writes_keep:
  assumes "memory_writes uid w w'" and "memory_inv w"
  shows "memory_inv w' \<and> memory_progress w w' \<and> foreign_view uid w' = foreign_view uid w"
  using assms
proof (induction rule: rtranclp_induct)
  case base
  then show ?case by (simp add: memory_progress_same)
next
  case (step w1 w2)
  then have inv: "memory_inv w1" and p: "memory_progress w w1" and f: "foreign_view uid w1 = foreign_view uid w" by simp_all
  from memory_write_progress [OF step(2) inv] p have "memory_progress w w2"
    unfolding memory_progress_def by (meson memory_row_progress_trans)
  with memory_write_inv [OF step(2) inv] memory_write_isolated [OF step(2) inv] f show ?case by simp
qed

end
