(* ===== verification/Memory_Correct.thy ===== *)
theory Memory_Correct
  imports Memory_Writes
begin

text \<open>
  Every operation of the Memory Core is a sequence of atomic writes; what follows for the service:
  privacy of deletion, isolation of users, histories, deduplication, immutability of historical
  decisions, bounds of the context pack, the contract of creation and update.
\<close>

section \<open>Sample data\<close>

definition memory_capability :: "uuid \<Rightarrow> string \<Rightarrow> string list \<Rightarrow> capability" where
  "memory_capability cid key actions =
     sample_capability\<lparr>cap_id := cid, cap_key := key, cap_allowed_actions := JList (map JStr actions)\<rparr>"

definition memory_permission :: "uuid \<Rightarrow> uuid \<Rightarrow> string list \<Rightarrow> permission" where
  "memory_permission pid cid actions =
     (sample_permission CP_NEVER)\<lparr>p_id := pid, p_capability_id := cid,
       p_scope := \<lparr>sc_resource_type = ''memory'', sc_resource_ids = [], sc_operations = actions\<rparr>\<rparr>"

definition sample_memory :: "uuid \<Rightarrow> uuid \<Rightarrow> memory_class \<Rightarrow> memory" where
  "sample_memory mid uid c =
     \<lparr>m_id = mid, m_user_id = uid, m_source_device_id = None, m_class = c, m_status = MS_ACTIVE,
      m_source_type = MO_USER_EXPLICIT, m_source_reference = None, m_content = ''tea'',
      m_normalized_content = Some ''tea'', m_summary = None, m_subject = None, m_confidence = 100,
      m_importance = 50, m_sensitivity = PRIVATE, m_fingerprint = replicate 64 (CHR ''f''),
      m_deduplication_key = (if c = MC_HISTORICAL_DECISION then None else Some (replicate 64 (CHR ''f''))),
      m_created_at = 0, m_updated_at = 0, m_expires_at = None, m_archived_at = None, m_deleted_at = None,
      m_version = 1, m_metadata = []\<rparr>"

definition sample_memory_event :: "uuid \<Rightarrow> uuid \<Rightarrow> memory_event" where
  "sample_memory_event mid uid =
     \<lparr>me_id = mid, me_memory_id = mid, me_user_id = uid, me_event_type = ME_CREATED, me_from_status = None,
      me_to_status = MS_ACTIVE, me_timestamp = 0, me_actor_type = MA_USER, me_actor_id = None,
      me_reason_code = ''MEMORY_STORED'', me_metadata = []\<rparr>"

text \<open>User 1 may do everything on memories; memory 30 is the user's, memory 31 belongs to user 2.\<close>

definition sample_memories :: "permission list \<Rightarrow> memory_class \<Rightarrow> memory_world" where
  "sample_memories ps c = task_world.extend
     ((sample_task_world [] [] [])\<lparr>
        w_capabilities := [memory_capability 21 ''memory.read'' [''read''],
          memory_capability 22 ''memory.write'' [''create'', ''update'', ''archive''],
          memory_capability 23 ''memory.delete'' [''delete'']],
        w_permissions := ps\<rparr>)
     (memory_world.fields (\<lambda>s. s) py_lower [sample_memory 30 1 c, sample_memory 31 2 c] []
        [sample_memory_event 30 1, sample_memory_event 31 2])"

definition memory_grants :: "permission list" where
  "memory_grants = [memory_permission 24 21 [''read''],
     memory_permission 25 22 [''archive'', ''create'', ''update''], memory_permission 26 23 [''delete'']]"


inductive memory_call :: "identity_context \<Rightarrow> 'z memory_world_scheme \<Rightarrow> 'z memory_world_scheme \<Rightarrow> bool" for i where
  create_explicit: "create_explicit i c w = Inr (res, w') \<Longrightarrow> memory_call i w w'"
| create_internal: "create_internal i p w = Inr (res, w') \<Longrightarrow> memory_call i w w'"
| list: "list_owned_memories i q w = Inr (ress, w') \<Longrightarrow> memory_call i w w'"
| get: "get_owned_memory i mid w = Inr (res, w') \<Longrightarrow> memory_call i w w'"
| update: "update_owned i mid u w = Inr (res, w') \<Longrightarrow> memory_call i w w'"
| archive: "archive_owned i mid a w = Inr (res, w') \<Longrightarrow> memory_call i w w'"
| delete: "delete_owned i mid ev cid w = Inr (res, w') \<Longrightarrow> memory_call i w w'"
| revisions: "revisions_owned i mid w = Inr (resr, w') \<Longrightarrow> memory_call i w w'"
| pack: "build_context_pack i n w = Inr (resp, w') \<Longrightarrow> memory_call i w w'"

inductive memory_step :: "'z memory_world_scheme \<Rightarrow> 'z memory_world_scheme \<Rightarrow> bool" where
  call: "memory_call i w w' \<Longrightarrow> memory_step w w'"
| authority: "authorize i rq w = Inr (d, w') \<Longrightarrow> memory_step w w'"
| tick: "w_now w \<le> t \<Longrightarrow> memory_step w (w\<lparr>w_now := t\<rparr>)"

definition pack_items :: "memory_context_pack \<Rightarrow> memory_context_item list" where
  "pack_items p = mk_persistent_preferences p @ mk_operational_context p @ mk_historical_decisions p @ mk_temporary_context p"

section \<open>Every operation is a sequence of atomic writes\<close>

definition sample_update :: memory_update_request where
  "sample_update = \<lparr>mu_expected_version = 1, mu_content = Some ''coffee'', mu_summary = None, mu_subject = None,
     mu_importance = Some 60, mu_sensitivity = None, mu_expires_at = None, mu_metadata = None, mu_confirmation_id = None\<rparr>"

definition sample_proposal :: memory_proposal where
  "sample_proposal = \<lparr>mp_class = MC_OPERATIONAL, mp_content = ''Green tea'', mp_summary = None, mp_subject = None,
     mp_source_type = MO_USER_EXPLICIT, mp_source_reference = None, mp_source_device_id = None, mp_confidence = 100,
     mp_importance = 50, mp_sensitivity = PRIVATE, mp_expires_at = None, mp_metadata = [], mp_confirmation_id = None\<rparr>"

definition sample_preferences :: memory_world where
  "sample_preferences = sample_memories memory_grants MC_PERSISTENT_PREFERENCE"

definition sample_decisions :: memory_world where
  "sample_decisions = sample_memories memory_grants MC_HISTORICAL_DECISION"

lemma more_memories:
  "task_world.more w' = task_world.more w \<Longrightarrow> w_memories w' = w_memories w"
  "task_world.more w' = task_world.more w \<Longrightarrow> w_revisions w' = w_revisions w"
  "task_world.more w' = task_world.more w \<Longrightarrow> w_memory_events w' = w_memory_events w"
  "task_world.more w' = task_world.more w \<Longrightarrow> w_nfkc w' = w_nfkc w"
  "task_world.more w' = task_world.more w \<Longrightarrow> w_casefold w' = w_casefold w"
  "task_world.more w' = task_world.more w \<Longrightarrow> memory_world.more w' = memory_world.more w"
  for w :: "'z memory_world_scheme"
  by (cases w; cases w'; simp)+

lemma auth_more_task_more: "auth_world.more w' = auth_world.more w \<Longrightarrow> task_world.more w' = task_world.more w"
  for w :: "'z task_world_scheme"
  by (cases w; cases w'; simp)

lemma authorize_memory_write:
  assumes "authorize i r w = Inr (d, w')"
  shows "memory_write uid w w'"
proof (rule memory_write.other)
  have m: "task_world.more w' = task_world.more w"
    using authorize_effects [OF assms] by (intro auth_more_task_more) simp
  show "mem_frame w w'"
    using authorize_effects [OF assms] authorize_frame [OF assms] by (simp add: mem_frame_def more_memories [OF m])
  show "same_memories w w'" by (simp add: same_memories_def more_memories [OF m])
qed

lemma draw_memory_tables [simp]:
  "w_memories (draw w) = w_memories w" "w_revisions (draw w) = w_revisions w"
  "w_memory_events (draw w) = w_memory_events w" "w_nfkc (draw w) = w_nfkc w"
  "w_casefold (draw w) = w_casefold w" "task_world.more (draw v) = task_world.more v"
  "memory_world.more (draw w) = memory_world.more w"
  by (simp_all add: draw_def)

lemma audit_append_tasks [simp]:
  "w_tasks (audit_append e w) = w_tasks w" "w_attempts (audit_append e w) = w_attempts w"
  "w_task_events (audit_append e w) = w_task_events w" "task_world.more (audit_append e w) = task_world.more w"
  by (simp_all add: audit_append_def)

lemma audit_append_memories [simp]:
  "w_memories (audit_append e w) = w_memories w" "w_revisions (audit_append e w) = w_revisions w"
  "w_memory_events (audit_append e w) = w_memory_events w" "w_nfkc (audit_append e w) = w_nfkc w"
  "w_casefold (audit_append e w) = w_casefold w" "memory_world.more (audit_append e w) = memory_world.more w"
  by (simp_all add: audit_append_def)

lemma record_audit_memory_write: "record_audit q w = Inr w' \<Longrightarrow> memory_write uid w w'"
  by (intro memory_write.other)
     (auto simp: record_audit_Inr mem_frame_def same_memories_def task_frame_def)

lemma audit_memory_write: "audit_memory i m d ev reason w = Inr w' \<Longrightarrow> memory_write uid w w'"
  unfolding audit_memory_def bindE_eq_Inr by (blast intro: record_audit_memory_write)

lemma append_memory_event_Inr:
  assumes "append_memory_event m kind from to actor aid reason payload w = Inr w'" and "to = m_status m"
  shows "\<exists>e. event_of m kind from e \<and> w' = (draw w)\<lparr>w_memory_events := row_add e (w_memory_events w)\<rparr>"
proof -
  from assms(1) obtain s where
    w': "w' = (draw w)\<lparr>w_memory_events :=
      row_add (new_memory_event m kind from to actor aid reason s w) (w_memory_events w)\<rparr>"
    unfolding append_memory_event_def bindE_eq_Inr by auto
  show ?thesis
    by (intro exI [of _ "new_memory_event m kind from to actor aid reason s w"])
       (simp add: w' event_of_def new_memory_event_def assms(2))
qed

lemma filter_the_row:
  assumes "unique_keys key rows" and "m \<in> set rows" and "P m" and "\<And>x. P x \<Longrightarrow> key x = key m"
  shows "filter P rows = [m]"
proof -
  from assms(2) obtain xs ys where rows: "rows = xs @ m # ys" by (auto dest: split_list)
  have "key m \<notin> key ` (set xs \<union> set ys)" using assms(1) by (simp add: rows unique_keys_def image_Un)
  then have "\<forall>x \<in> set xs \<union> set ys. key x \<noteq> key m" by (metis imageI)
  then have "\<forall>x \<in> set xs \<union> set ys. \<not> P x" using assms(4) by blast
  with assms(3) show ?thesis by (simp add: rows)
qed

lemma expired_row_simps [simp]:
  "m_id (expired_row m now v) = m_id m" "m_status (expired_row m now v) = MS_EXPIRED"
  "m_user_id (expired_row m now v) = m_user_id m"
  by (simp_all add: expired_row_def)

lemma expired_row_changed:
  "m_status m = MS_ACTIVE \<Longrightarrow> v = m_version m \<Longrightarrow> changed_row w m (expired_row m now v)"
  by (simp add: changed_row_def expired_row_def same_text_def)

lemma expire_memory_cases:
  assumes ex: "expire_memory m w = Inr ((b, m'), w')" and inv: "memory_inv w" and m: "m \<in> set (w_memories w)"
  shows "(\<not> memory_due m (w_now w) \<and> m' = m \<and> w' = w \<and> b = (m_status m = MS_EXPIRED)) \<or>
    (memory_due m (w_now w) \<and> b \<and> m' = expired_row m (w_now w) (m_version m) \<and> m' \<in> set (w_memories w') \<and>
     memory_write (m_user_id m) w w' \<and> w_memories w' = row_put m_id m' (w_memories w) \<and> w_now w' = w_now w)"
proof (cases "memory_due m (w_now w)")
  case False
  with ex show ?thesis by (auto simp: expire_memory_def)
next
  case True
  let ?P = "\<lambda>x. m_id x = m_id m \<and> m_status x = MS_ACTIVE \<and> m_version x = m_version m"
  have act: "m_status m = MS_ACTIVE" using True by (simp add: memory_due_def)
  have one: "filter ?P (w_memories w) = [m]"
    using m act by (intro filter_the_row [OF memory_invD(1) [OF inv]]) simp_all
  let ?m = "expired_row m (w_now w) (m_version m)"
  have "(case write_memory ?m (w_memories w) of
      None \<Rightarrow> Inl PyIntegrityError
    | Some rows \<Rightarrow> bindE (append_memory_event ?m ME_EXPIRED (Some MS_ACTIVE) MS_EXPIRED MA_SYSTEM None
        ''EXPIRATION_OBSERVED'' [] (w\<lparr>w_memories := rows\<rparr>)) (\<lambda>w1. Inr ((True, ?m), w1))) = Inr ((b, m'), w')"
    using ex unfolding expire_memory_def one Let_def list.case if_not_P [OF not_not [THEN iffD2, OF True]] .
  then obtain rows where wr: "write_memory ?m (w_memories w) = Some rows"
    and k: "bindE (append_memory_event ?m ME_EXPIRED (Some MS_ACTIVE) MS_EXPIRED MA_SYSTEM None
      ''EXPIRATION_OBSERVED'' [] (w\<lparr>w_memories := rows\<rparr>)) (\<lambda>w1. Inr ((True, ?m), w1)) = Inr ((b, m'), w')"
    by (cases "write_memory ?m (w_memories w)") simp_all
  from k have ae: "append_memory_event ?m ME_EXPIRED (Some MS_ACTIVE) MS_EXPIRED MA_SYSTEM None
      ''EXPIRATION_OBSERVED'' [] (w\<lparr>w_memories := rows\<rparr>) = Inr w'" and b: "b" and m': "m' = ?m"
    unfolding bindE_eq_Inr sum.inject prod.inject by blast+
  from append_memory_event_Inr [OF ae] obtain e where e: "event_of m' ME_EXPIRED (Some MS_ACTIVE) e"
    and w': "w' = (draw (w\<lparr>w_memories := rows\<rparr>))\<lparr>w_memory_events := row_add e (w_memory_events w)\<rparr>"
    by (auto simp: expired_row_def m')
  have rows: "rows = row_put m_id m' (w_memories w)" using wr by (simp add: write_memory_Some m')
  have "memory_write (m_user_id m) w w'"
  proof (rule memory_write.change [OF _ m refl act])
    show "mem_frame w w'" by (simp add: w' mem_frame_def task_frame_def draw_def)
    show "changed_row w m m'" by (simp add: m' act expired_row_changed)
    show "write_memory m' (w_memories w) = Some (w_memories w')" using wr by (simp add: w' m' draw_def)
  qed (use e in \<open>simp_all add: w' draw_def\<close>)
  moreover have "m' \<in> set rows" using m by (simp add: rows m' row_put_intro [of m] expired_row_def)
  ultimately show ?thesis using True b m' rows by (simp add: w' draw_def)
qed


lemma memory_guarded_parts:
  assumes "memory_guarded i key action cid body w = Inr (res, w')"
  shows "\<exists>w1. authorize i (memory_authorization_request key action cid) w = Inr (mv_decision res, w1) \<and>
    (dc_decision (mv_decision res) \<noteq> ALLOW \<and> mv_value res = None \<and> w' = w1 \<or>
     dc_decision (mv_decision res) = ALLOW \<and> body (mv_decision res) w1 = Inr (mv_value res, w'))"
proof -
  from assms obtain d w1 where a: "authorize i (memory_authorization_request key action cid) w = Inr (d, w1)"
    and k: "(if dc_decision d \<noteq> ALLOW then Inr (\<lparr>mv_value = None, mv_decision = d\<rparr>, w1)
      else bindE (body d w1) (\<lambda>(v, w2). Inr (\<lparr>mv_value = v, mv_decision = d\<rparr>, w2))) = Inr (res, w')"
    unfolding memory_guarded_def bindE_eq_Inr by auto
  show ?thesis
  proof (cases "dc_decision d = ALLOW")
    case True
    with k obtain v where "body d w1 = Inr (v, w')" "res = \<lparr>mv_value = v, mv_decision = d\<rparr>" by (auto simp: bindE_eq_Inr)
    with a True show ?thesis by simp
  next
    case False
    with k have "res = \<lparr>mv_value = None, mv_decision = d\<rparr>" "w' = w1" by auto
    with a False show ?thesis by simp
  qed
qed

lemma memory_guarded_writes:
  assumes g: "memory_guarded i key action cid body w = Inr (res, w')" and inv: "memory_inv w"
    and body: "\<And>d w1 v w2. memory_inv w1 \<Longrightarrow> body d w1 = Inr (v, w2) \<Longrightarrow> memory_writes uid w1 w2"
  shows "memory_writes uid w w'"
proof -
  from memory_guarded_parts [OF g] obtain w1 where
    a: "authorize i (memory_authorization_request key action cid) w = Inr (mv_decision res, w1)"
    and k: "w' = w1 \<or> body (mv_decision res) w1 = Inr (mv_value res, w')" by blast
  have w: "memory_write uid w w1" using authorize_memory_write [OF a] .
  from k show ?thesis
  proof
    assume "w' = w1"
    with w show ?thesis by blast
  next
    assume "body (mv_decision res) w1 = Inr (mv_value res, w')"
    from body [OF memory_write_inv [OF w inv] this] w show ?thesis by (rule converse_rtranclp_into_rtranclp [rotated])
  qed
qed

lemma expire_memory_writes:
  assumes "expire_memory m w = Inr ((b, m'), w')" and "memory_inv w" and "m \<in> set (w_memories w)" and "m_user_id m = uid"
  shows "memory_writes uid w w'"
  using expire_memory_cases [OF assms(1-3)] assms(4) by auto

lemma expire_memories_writes:
  assumes "expire_memories ms w = Inr w'" and "memory_inv w" and "set ms \<subseteq> set (w_memories w)"
    and "distinct (map m_id ms)" and "\<forall>m \<in> set ms. m_user_id m = uid"
  shows "memory_writes uid w w' \<and> w_now w' = w_now w \<and>
    (\<forall>x \<in> set (w_memories w'). m_status x = MS_ACTIVE \<longrightarrow> x \<in> set (w_memories w) \<and> (x \<in> set ms \<longrightarrow> \<not> memory_due x (w_now w)))"
  using assms
proof (induction ms arbitrary: w)
  case (Cons m ms)
  from Cons.prems(1) obtain b m1 w1 where ex: "expire_memory m w = Inr ((b, m1), w1)" and rest: "expire_memories ms w1 = Inr w'"
    unfolding expire_memories.simps bindE_eq_Inr by auto
  have m: "m \<in> set (w_memories w)" "m_user_id m = uid" using Cons.prems(3,5) by simp_all
  note c = expire_memory_cases [OF ex Cons.prems(2) m(1)]
  have w1: "memory_writes uid w w1" "w_now w1 = w_now w" using c m(2) by auto
  have inv1: "memory_inv w1" using memory_writes_inv [OF w1(1) Cons.prems(2)] .
  have sub: "set ms \<subseteq> set (w_memories w1)"
  proof
    fix x
    assume x: "x \<in> set ms"
    have "m_id m \<notin> m_id ` set ms" using Cons.prems(4) by simp
    then have "m_id x \<noteq> m_id m" using x by (metis imageI)
    moreover have "x \<in> set (w_memories w)" using x Cons.prems(3) by auto
    ultimately have "x \<in> set (w_memories w)" "m_id x \<noteq> m_id m" by blast+
    with c show "x \<in> set (w_memories w1)" by (auto simp: expired_row_def intro!: row_put_keep)
  qed
  have old: "x \<in> set (w_memories w) \<and> (x = m \<longrightarrow> \<not> memory_due x (w_now w))"
    if st: "x \<in> set (w_memories w1)" "m_status x = MS_ACTIVE" for x
  proof (cases "memory_due m (w_now w)")
    case True
    with c have "w_memories w1 = row_put m_id m1 (w_memories w)" "m_status m1 = MS_EXPIRED" "m_id m1 = m_id m" by auto
    with st have "x \<in> set (w_memories w) \<and> m_id x \<noteq> m_id m" by (auto dest!: row_put_mem)
    then show ?thesis by auto
  next
    case False
    with c st show ?thesis by auto
  qed
  from Cons.IH [OF rest inv1 sub] Cons.prems(4,5) have ih: "memory_writes uid w1 w' \<and> w_now w' = w_now w1 \<and>
    (\<forall>x \<in> set (w_memories w'). m_status x = MS_ACTIVE \<longrightarrow> x \<in> set (w_memories w1) \<and> (x \<in> set ms \<longrightarrow> \<not> memory_due x (w_now w1)))"
    by simp
  with w1 old show ?case by (metis (no_types, lifting) rtranclp_trans set_ConsD)
qed auto

lemma materialize_writes:
  assumes "materialize_due_expirations uid w = Inr w'" and "memory_inv w"
  shows "memory_writes uid w w' \<and>
    (\<forall>x \<in> set (w_memories w'). m_user_id x = uid \<and> m_status x = MS_ACTIVE \<longrightarrow> \<not> memory_due x (w_now w'))"
proof -
  let ?P = "\<lambda>m. m_user_id m = uid \<and> m_status m = MS_ACTIVE \<and> (case m_expires_at m of None \<Rightarrow> False | Some e \<Rightarrow> e \<le> w_now w)"
  have ex: "expire_memories (filter ?P (w_memories w)) w = Inr w'" using assms(1) by (simp add: materialize_due_expirations_def)
  have d: "distinct (map m_id (filter ?P (w_memories w)))"
    using memory_invD(1) [OF assms(2)] unfolding unique_keys_def by (rule distinct_map_filter)
  have sub: "set (filter ?P (w_memories w)) \<subseteq> set (w_memories w)" by (rule filter_is_subset)
  have own: "\<forall>m \<in> set (filter ?P (w_memories w)). m_user_id m = uid" by simp
  from expire_memories_writes [OF ex assms(2) sub d own] have
    h: "memory_writes uid w w'" "w_now w' = w_now w"
    "\<forall>x \<in> set (w_memories w'). m_status x = MS_ACTIVE \<longrightarrow>
       x \<in> set (w_memories w) \<and> (x \<in> set (filter ?P (w_memories w)) \<longrightarrow> \<not> memory_due x (w_now w))" by blast+
  have "\<not> memory_due x (w_now w')" if "x \<in> set (w_memories w')" "m_user_id x = uid" "m_status x = MS_ACTIVE" for x
    using h(2,3) that by (auto simp: memory_due_def at_or_after_def split: option.splits)
  with h(1) show ?thesis by blast
qed

lemma list_owned_memories_writes:
  assumes "list_owned_memories i q w = Inr (res, w')" and "memory_inv w"
  shows "memory_writes (ic_user_id i) w w'"
  using assms(1) [unfolded list_owned_memories_def] assms(2)
  by (rule memory_guarded_writes) (auto simp: bindE_eq_Inr dest: materialize_writes)

lemma build_context_pack_writes:
  assumes "build_context_pack i n w = Inr (res, w')" and "memory_inv w"
  shows "memory_writes (ic_user_id i) w w'"
proof -
  have "memory_guarded i ''memory.read'' ''read'' None (\<lambda>d w1.
          bindE (materialize_due_expirations (ic_user_id i) w1) (\<lambda>w2.
          Inr (Some (context_pack (ic_user_id i) (nat n) (w_memories w2)), w2))) w = Inr (res, w')"
    using assms(1) by (simp add: build_context_pack_def split: if_splits)
  then show ?thesis using assms(2)
    by (rule memory_guarded_writes) (auto simp: bindE_eq_Inr dest: materialize_writes)
qed

lemma active_owned_Some: "active_owned uid mid w = Some m \<Longrightarrow>
    m \<in> set (w_memories w) \<and> m_id m = mid \<and> m_user_id m = uid \<and> m_status m = MS_ACTIVE"
  by (auto simp: active_owned_def dest: row_find_Some)

lemma owned_non_deleted_Some: "owned_non_deleted uid mid w = Some m \<Longrightarrow>
    m \<in> set (w_memories w) \<and> m_id m = mid \<and> m_user_id m = uid \<and> m_status m \<noteq> MS_DELETED"
  by (auto simp: owned_non_deleted_def dest: row_find_Some)

lemma get_owned_memory_writes:
  assumes "get_owned_memory i mid w = Inr (res, w')" and "memory_inv w"
  shows "memory_writes (ic_user_id i) w w'"
  using assms(1) [unfolded get_owned_memory_def] assms(2)
proof (rule memory_guarded_writes)
  fix d and w1 :: "'a memory_world_scheme" and v w2
  assume inv: "memory_inv w1" and k: "(case active_owned (ic_user_id i) mid w1 of None \<Rightarrow> Inr (None, w1)
    | Some m \<Rightarrow> bindE (expire_memory m w1) (\<lambda>((expired, m'), w2). Inr (if expired then None else Some m', w2))) = Inr (v, w2)"
  show "memory_writes (ic_user_id i) w1 w2"
  proof (cases "active_owned (ic_user_id i) mid w1")
    case (Some m)
    with k obtain b m' where "expire_memory m w1 = Inr ((b, m'), w2)" by (auto simp: bindE_eq_Inr)
    then show ?thesis using expire_memory_writes inv active_owned_Some [OF Some] by blast
  qed (use k in simp)
qed

lemma revisions_owned_writes:
  assumes "revisions_owned i mid w = Inr (res, w')" and "memory_inv w"
  shows "memory_writes (ic_user_id i) w w'"
  using assms(1) [unfolded revisions_owned_def] assms(2)
  by (rule memory_guarded_writes) (auto split: option.splits)


lemma active_duplicate_Some: "active_duplicate uid c k w = Some m \<Longrightarrow>
    m \<in> set (w_memories w) \<and> m_user_id m = uid \<and> m_class m = c \<and> m_deduplication_key m = Some k \<and> m_status m = MS_ACTIVE"
  by (auto simp: active_duplicate_def dest: row_find_Some)

lemma reuse_duplicate_writes:
  assumes "reuse_duplicate i p actor key w = Inr (v, w')" and inv: "memory_inv w"
  shows "memory_writes (ic_user_id i) w w'"
proof (cases "key = None \<or> active_duplicate (ic_user_id i) (mp_class p) (the key) w = None")
  case True
  with assms(1) have "w' = w" by (auto simp: reuse_duplicate_def split: option.splits)
  then show ?thesis by simp
next
  case False
  then obtain k m where k: "key = Some k" and m: "active_duplicate (ic_user_id i) (mp_class p) k w = Some m" by auto
  note m' = active_duplicate_Some [OF m]
  from assms(1) obtain b m1 w1 where ex: "expire_memory m w = Inr ((b, m1), w1)"
    and c: "(if b then Inr (None, w1)
        else bindE (append_memory_event m1 ME_DEDUPLICATED (Some MS_ACTIVE) MS_ACTIVE actor
            (Some (show_nat (ic_user_id i))) ''EXACT_CANONICAL_DUPLICATE''
            [(''source_type'', JStr (memory_source_value (mp_source_type p)))] w1) (\<lambda>w2. Inr (Some m1, w2))) = Inr (v, w')"
    unfolding reuse_duplicate_def k option.case m bindE_eq_Inr by auto
  show ?thesis
  proof (cases b)
    case True
    with c expire_memory_writes [OF ex inv] m' show ?thesis by simp
  next
    case False
    with expire_memory_cases [OF ex inv] m' have w1: "m1 = m" "w1 = w" by auto
    from c False have ae: "append_memory_event m1 ME_DEDUPLICATED (Some MS_ACTIVE) MS_ACTIVE actor
            (Some (show_nat (ic_user_id i))) ''EXACT_CANONICAL_DUPLICATE''
            [(''source_type'', JStr (memory_source_value (mp_source_type p)))] w1 = Inr w'"
      unfolding if_not_P [OF False] bindE_eq_Inr sum.inject prod.inject by blast
    from append_memory_event_Inr [OF ae] m' w1 obtain e where "event_of m ME_DEDUPLICATED (Some MS_ACTIVE) e"
      and w': "w' = (draw w)\<lparr>w_memory_events := row_add e (w_memory_events w)\<rparr>" by auto
    then have "memory_write (ic_user_id i) w w'" using m'
      by (intro memory_write.touch [of w w' m]) (auto simp: w' mem_frame_def task_frame_def draw_def)
    then show ?thesis by blast
  qed
qed

lemma persist_memory_writes:
  assumes "persist_memory i p actor d fp key w = Inr (v, w')"
    and "fp = memory_fingerprint w (mp_class p) (mp_content p) (mp_subject p)"
    and "key = (if mp_class p = MC_HISTORICAL_DECISION then None else Some fp)"
  shows "memory_writes (ic_user_id i) w w'"
proof -
  let ?m = "new_memory i p fp key w"
  have skip: "memory_write (ic_user_id i) w (draw w)"
    by (intro memory_write.other) (simp_all add: mem_frame_def task_frame_def same_memories_def)
  show ?thesis
  proof (cases "insert_memory ?m (w_memories (draw w))")
    case None
    with assms(1) have "w' = draw w" by (auto simp: persist_memory_def Let_def split: option.splits)
    with skip show ?thesis by blast
  next
    case (Some rows)
    let ?w1 = "(draw w)\<lparr>w_memories := rows\<rparr>"
    from assms(1) Some obtain w2 where ae: "append_memory_event ?m ME_CREATED None MS_ACTIVE actor
        (Some (show_nat (ic_user_id i))) ''MEMORY_STORED'' [] ?w1 = Inr w2"
      and au: "audit_memory i ?m d AE_MEMORY_CREATED ''MEMORY_STORED'' w2 = Inr w'"
      unfolding persist_memory_def Let_def by (auto simp: bindE_eq_Inr)
    have st: "m_status ?m = MS_ACTIVE" by (simp add: new_memory_def)
    from append_memory_event_Inr [OF ae] st obtain e where e: "event_of ?m ME_CREATED None e"
      and w2: "w2 = (draw ?w1)\<lparr>w_memory_events := row_add e (w_memory_events w)\<rparr>" by auto
    have "memory_write (ic_user_id i) w w2"
    proof (rule memory_write.create [of w w2 ?m])
      show "new_row w ?m"
        using assms(2,3) by (simp add: new_row_def new_memory_def fingerprinted_def dedup_key_of_def)
      show "insert_memory ?m (w_memories w) = Some (w_memories w2)" using Some by (simp add: w2)
      show "event_of ?m ME_CREATED None e" by (rule e)
    qed (simp_all add: w2 mem_frame_def task_frame_def draw_def new_memory_def)
    with audit_memory_write [OF au] show ?thesis by (meson r_into_rtranclp rtranclp_trans)
  qed
qed

lemma memory_writes_fingerprint:
  assumes "memory_writes uid w w'"
  shows "memory_fingerprint w' = memory_fingerprint w"
  using assms
proof (induction rule: rtranclp_induct)
  case (step y z)
  have "mem_frame y z" using step(2) by cases
  then have c: "canonical_text z = canonical_text y" "w_sha256 z = w_sha256 y"
    by (simp_all add: fun_eq_iff mem_frame_def canonical_text_def normalize_memory_text_def)
  have "memory_fingerprint z = memory_fingerprint y"
    by (intro ext) (simp only: memory_fingerprint_def fingerprint_payload_def c)
  with step show ?case by simp
qed simp

lemma store_memory_writes:
  assumes "store_memory i p actor d w = Inr (v, w')" and inv: "memory_inv w"
  shows "memory_writes (ic_user_id i) w w'"
proof -
  let ?fp = "memory_fingerprint w (mp_class p) (mp_content p) (mp_subject p)"
  let ?key = "if mp_class p = MC_HISTORICAL_DECISION then None else Some ?fp"
  from assms(1) obtain e w1 where r: "reuse_duplicate i p actor ?key w = Inr (e, w1)"
    and k: "(case e of Some m \<Rightarrow> Inr (Some m, w1) | None \<Rightarrow> persist_memory i p actor d ?fp ?key w1) = Inr (v, w')"
    unfolding store_memory_def Let_def bindE_eq_Inr by auto
  have w1: "memory_writes (ic_user_id i) w w1" using reuse_duplicate_writes [OF r inv] .
  show ?thesis
  proof (cases e)
    case None
    with k have "persist_memory i p actor d ?fp ?key w1 = Inr (v, w')" by simp
    from persist_memory_writes [OF this] memory_writes_fingerprint [OF w1] w1 show ?thesis by (auto intro: rtranclp_trans)
  next
    case (Some m)
    with k w1 show ?thesis by simp
  qed
qed

lemma create_memory_writes:
  "create_memory i p actor w = Inr (res, w') \<Longrightarrow> memory_inv w \<Longrightarrow> memory_writes (ic_user_id i) w w'"
  unfolding create_memory_def by (rule memory_guarded_writes) (auto intro: store_memory_writes)

lemma create_explicit_writes:
  "create_explicit i r w = Inr (res, w') \<Longrightarrow> memory_inv w \<Longrightarrow> memory_writes (ic_user_id i) w w'"
  unfolding create_explicit_def bindE_eq_Inr using create_memory_writes by blast

lemma create_internal_writes:
  "create_internal i p w = Inr (res, w') \<Longrightarrow> memory_inv w \<Longrightarrow> memory_writes (ic_user_id i) w w'"
  unfolding create_internal_def by (auto split: if_splits intro: create_memory_writes)

text \<open>The writes of update, archive and delete start from the row the caller found.\<close>

lemma updated_row_changed:
  assumes "m_class row \<noteq> MC_HISTORICAL_DECISION" and "m_status row = MS_ACTIVE" and "m_version row = mu_expected_version r"
  shows "changed_row w row (updated_row r row w row)"
  using assms
  by (cases "mu_content r"; cases "mu_subject r")
     (simp_all add: updated_row_def Let_def sent_def changed_row_def same_text_def fingerprinted_def dedup_key_of_def)

lemma updated_row_simps [simp]:
  "m_id (updated_row r m w row) = m_id row" "m_status (updated_row r m w row) = m_status row"
  by (simp_all add: updated_row_def Let_def)

lemma apply_update_parts:
  assumes u: "apply_update i r m d w = Inr (v, w')" and inv: "memory_inv w" and m: "m \<in> set (w_memories w)"
    and own: "m_user_id m = ic_user_id i" and act: "m_status m = MS_ACTIVE" and cl: "m_class m \<noteq> MC_HISTORICAL_DECISION"
    and ver: "m_version m = mu_expected_version r"
  shows "v = Some (updated_row r m w m) \<and> memory_writes (ic_user_id i) w w' \<and>
    w_revisions w' = row_add (revision_snapshot m w) (w_revisions w) \<and>
    w_memories w' = row_put m_id (updated_row r m w m) (w_memories w)"
proof -
  let ?P = "\<lambda>x. m_id x = m_id m \<and> m_user_id x = ic_user_id i \<and> m_status x = MS_ACTIVE \<and> m_version x = mu_expected_version r"
  let ?m = "updated_row r m w m" and ?s = "revision_snapshot m w"
  have one: "filter ?P (w_memories w) = [m]"
    using m own act ver by (intro filter_the_row [OF memory_invD(1) [OF inv]]) simp_all
  from u obtain revs rows w1 where rv: "insert_revision ?s (w_revisions w) = Some revs"
    and wr: "write_memory ?m (w_memories w) = Some rows"
    and ae: "append_memory_event ?m ME_UPDATED (Some MS_ACTIVE) MS_ACTIVE MA_USER (Some (show_nat (ic_user_id i)))
      ''EXPLICIT_UPDATE'' [(''previous_version'', JInt (mu_expected_version r))]
      ((draw w)\<lparr>w_revisions := revs, w_memories := rows\<rparr>) = Inr w1"
    and au: "audit_memory i ?m d AE_MEMORY_UPDATED ''EXPLICIT_UPDATE'' w1 = Inr w'" and v: "v = Some ?m"
    unfolding apply_update_def one Let_def list.case by (auto simp: bindE_eq_Inr split: if_splits option.splits)
  from append_memory_event_Inr [OF ae] act obtain e where e: "event_of ?m ME_UPDATED (Some MS_ACTIVE) e"
    and w1: "w1 = (draw ((draw w)\<lparr>w_revisions := revs, w_memories := rows\<rparr>))\<lparr>w_memory_events := row_add e (w_memory_events w)\<rparr>"
    by auto
  have revs: "revs = row_add ?s (w_revisions w)" using rv by (simp add: insert_revision_def split: if_splits)
  have rows: "rows = row_put m_id ?m (w_memories w)" using wr by (simp add: write_memory_Some)
  have "memory_write (ic_user_id i) w w1"
  proof (rule memory_write.change [OF _ m own act updated_row_changed [OF cl act ver, of w]])
    show "write_memory ?m (w_memories w) = Some (w_memories w1)" using wr by (simp add: w1)
    show "event_of ?m ME_UPDATED (Some MS_ACTIVE) e" by (rule e)
    show "w_revisions w1 = w_revisions w \<or>
      (\<exists>r. w_revisions w1 = row_add r (w_revisions w) \<and> mr_memory_id r = m_id m \<and> mr_revision_number r = m_version m) \<and>
      m_status ?m = MS_ACTIVE" by (simp add: w1 revs act) (auto simp: revision_snapshot_def)
  qed (simp_all add: w1 mem_frame_def task_frame_def draw_def)
  with audit_memory_write [OF au] have "memory_writes (ic_user_id i) w w'" by (meson r_into_rtranclp rtranclp_trans)
  moreover have "w_revisions w' = revs \<and> w_memories w' = rows"
    using au unfolding audit_memory_def bindE_eq_Inr by (auto simp: record_audit_Inr w1)
  ultimately show ?thesis using v revs rows by simp
qed


lemma update_body_parts:
  assumes "(case active_owned (ic_user_id i) mid w of
         None \<Rightarrow> Inr (None, w)
       | Some m \<Rightarrow>
           bindE (expire_memory m w) (\<lambda>((expired, m1), w2).
           if expired then Inr (None, w2)
           else if m_class m1 = MC_HISTORICAL_DECISION then Inl MemoryImmutableError
           else if m_version m1 \<noteq> mu_expected_version r then Inl MemoryConcurrentModificationError
           else apply_update i r m1 d w2)) = Inr (v, w')" and inv: "memory_inv w"
  shows "v = None \<and> memory_writes (ic_user_id i) w w' \<or>
    (\<exists>m \<in> set (w_memories w). m_id m = mid \<and> m_user_id m = ic_user_id i \<and> m_status m = MS_ACTIVE \<and>
       m_class m \<noteq> MC_HISTORICAL_DECISION \<and> m_version m = mu_expected_version r \<and> apply_update i r m d w = Inr (v, w'))"
proof (cases "active_owned (ic_user_id i) mid w")
  case None
  with assms(1) show ?thesis by simp
next
  case (Some m)
  note m = active_owned_Some [OF Some]
  from assms(1) obtain b m1 w1 where ex: "expire_memory m w = Inr ((b, m1), w1)"
    and k: "(if b then Inr (None, w1)
           else if m_class m1 = MC_HISTORICAL_DECISION then Inl MemoryImmutableError
           else if m_version m1 \<noteq> mu_expected_version r then Inl MemoryConcurrentModificationError
           else apply_update i r m1 d w1) = Inr (v, w')"
    unfolding Some option.case bindE_eq_Inr by auto
  show ?thesis
  proof (cases b)
    case True
    with k expire_memory_writes [OF ex inv] m show ?thesis by simp
  next
    case False
    with expire_memory_cases [OF ex inv] m have "m1 = m" "w1 = w" by auto
    with k False m show ?thesis by (auto split: if_splits)
  qed
qed

lemma update_owned_writes:
  assumes "update_owned i mid r w = Inr (res, w')" and "memory_inv w"
  shows "memory_writes (ic_user_id i) w w'"
  using assms(1) [unfolded update_owned_def] assms(2)
proof (rule memory_guarded_writes, goal_cases)
  case (1 d w1 v w2)
  from update_body_parts [OF 1(2,1)] show ?case using apply_update_parts 1(1) by blast
qed

lemma archive_row_writes:
  assumes a: "archive_row i r m d w = Inr (v, w')" and inv: "memory_inv w" and m: "m \<in> set (w_memories w)"
    and own: "m_user_id m = ic_user_id i" and ver: "m_version m = mx_expected_version r"
  shows "memory_writes (ic_user_id i) w w'"
proof -
  let ?P = "\<lambda>x. m_id x = m_id m \<and> m_user_id x = ic_user_id i \<and> m_status x = MS_ACTIVE \<and> m_version x = mx_expected_version r"
  let ?m = "archived_row m (w_now w) (mx_expected_version r)"
  from a have "filter ?P (w_memories w) \<noteq> []" by (auto simp: archive_row_def)
  then have act: "m_status m = MS_ACTIVE"
    using unique_keys_eq [OF memory_invD(1) [OF inv] _ m] by (auto simp: filter_empty_conv)
  have one: "filter ?P (w_memories w) = [m]"
    using m own act ver by (intro filter_the_row [OF memory_invD(1) [OF inv]]) simp_all
  from a obtain rows w1 where wr: "write_memory ?m (w_memories w) = Some rows"
    and ae: "append_memory_event ?m ME_ARCHIVED (Some MS_ACTIVE) MS_ARCHIVED MA_USER (Some (show_nat (ic_user_id i)))
      ''USER_ARCHIVED'' [] (w\<lparr>w_memories := rows\<rparr>) = Inr w1"
    and au: "audit_memory i ?m d AE_MEMORY_ARCHIVED ''USER_ARCHIVED'' w1 = Inr w'"
    unfolding archive_row_def one Let_def list.case by (auto simp: bindE_eq_Inr split: option.splits)
  have st: "m_status ?m = MS_ARCHIVED" by (simp add: archived_row_def)
  from append_memory_event_Inr [OF ae] st obtain e where e: "event_of ?m ME_ARCHIVED (Some MS_ACTIVE) e"
    and w1: "w1 = (draw (w\<lparr>w_memories := rows\<rparr>))\<lparr>w_memory_events := row_add e (w_memory_events w)\<rparr>" by auto
  have "memory_write (ic_user_id i) w w1"
  proof (rule memory_write.change [OF _ m own act])
    show "changed_row w m ?m" using ver by (simp add: changed_row_def archived_row_def same_text_def)
    show "write_memory ?m (w_memories w) = Some (w_memories w1)" using wr by (simp add: w1)
    show "event_of ?m ME_ARCHIVED (Some MS_ACTIVE) e" by (rule e)
  qed (simp_all add: w1 mem_frame_def task_frame_def draw_def)
  with audit_memory_write [OF au] show ?thesis by (meson r_into_rtranclp rtranclp_trans)
qed

lemma archive_owned_writes:
  assumes "archive_owned i mid r w = Inr (res, w')" and "memory_inv w"
  shows "memory_writes (ic_user_id i) w w'"
  using assms(1) [unfolded archive_owned_def] assms(2)
proof (rule memory_guarded_writes, goal_cases)
  case (1 d w1 v w2)
  show ?case
  proof (cases "owned_non_deleted (ic_user_id i) mid w1")
    case None
    with 1 show ?thesis by simp
  next
    case (Some m)
    note m = owned_non_deleted_Some [OF Some]
    show ?thesis
    proof (cases "m_status m = MS_ARCHIVED \<or> m_status m = MS_EXPIRED")
      case True
      with 1(2) Some show ?thesis by auto
    next
      case False
      with 1(2) Some obtain b m1 w3 where ex: "expire_memory m w1 = Inr ((b, m1), w3)"
        and k: "(if b then Inr (None, w3)
             else if m_version m1 \<noteq> mx_expected_version r then Inl MemoryConcurrentModificationError
             else archive_row i r m1 d w3) = Inr (v, w2)"
        by (auto simp: bindE_eq_Inr)
      show ?thesis
      proof (cases b)
        case True
        with k expire_memory_writes [OF ex 1(1)] m show ?thesis by simp
      next
        case False
        with expire_memory_cases [OF ex 1(1)] m have "m1 = m" "w3 = w1" by auto
        with k False have "archive_row i r m d w1 = Inr (v, w2)" "m_version m = mx_expected_version r"
          by (auto split: if_splits)
        then show ?thesis using archive_row_writes 1(1) m by blast
      qed
    qed
  qed
qed

lemma delete_row_parts:
  assumes a: "delete_row i ev m d w = Inr (v, w')" and inv: "memory_inv w" and m: "m \<in> set (w_memories w)"
    and own: "m_user_id m = ic_user_id i" and ver: "m_version m = ev" and live: "m_status m \<noteq> MS_DELETED"
  shows "memory_writes (ic_user_id i) w w' \<and>
    (\<exists>m' \<in> set (w_memories w'). v = Some m' \<and> m_id m' = m_id m \<and> m_status m' = MS_DELETED)"
proof -
  let ?P = "\<lambda>x. m_id x = m_id m \<and> m_user_id x = ic_user_id i \<and> m_status x \<noteq> MS_DELETED \<and> m_version x = ev"
  let ?t = "w_sha256 w (''deleted:'' @ show_nat (m_id m))"
  let ?m = "deleted_row m (w_now w) ?t ev" and ?rs = "map (scrub_revision (m_id m) ?t) (w_revisions w)"
  have one: "filter ?P (w_memories w) = [m]"
    using m own live ver by (intro filter_the_row [OF memory_invD(1) [OF inv]]) simp_all
  from a obtain rows w1 where wr: "write_memory ?m (w_memories w) = Some rows"
    and ae: "append_memory_event ?m ME_DELETED (Some (m_status m)) MS_DELETED MA_USER (Some (show_nat (ic_user_id i)))
      ''PRIVACY_DELETE'' [] (w\<lparr>w_memories := rows, w_revisions := ?rs\<rparr>) = Inr w1"
    and au: "audit_memory i ?m d AE_MEMORY_DELETED ''PRIVACY_DELETE'' w1 = Inr w'" and v: "v = Some ?m"
    unfolding delete_row_def one Let_def list.case by (auto simp: bindE_eq_Inr split: option.splits if_splits)
  have st: "m_status ?m = MS_DELETED" "m_id ?m = m_id m" by (simp_all add: deleted_row_def)
  from append_memory_event_Inr [OF ae] st obtain e where e: "event_of ?m ME_DELETED (Some (m_status m)) e"
    and w1: "w1 = (draw (w\<lparr>w_memories := rows, w_revisions := ?rs\<rparr>))\<lparr>w_memory_events := row_add e (w_memory_events w)\<rparr>" by auto
  have "memory_write (ic_user_id i) w w1"
  proof (rule memory_write.erase [OF _ m own live])
    show "?m = deleted_row m (w_now w) ?t (m_version m)" by (simp add: ver)
    show "write_memory ?m (w_memories w) = Some (w_memories w1)" using wr by (simp add: w1)
    show "event_of ?m ME_DELETED (Some (m_status m)) e" by (rule e)
  qed (simp_all add: w1 mem_frame_def task_frame_def draw_def)
  with audit_memory_write [OF au] have "memory_writes (ic_user_id i) w w'" by (meson r_into_rtranclp rtranclp_trans)
  moreover have "w_memories w' = rows" using au unfolding audit_memory_def bindE_eq_Inr by (auto simp: record_audit_Inr w1)
  moreover have "?m \<in> set rows" using wr m st by (simp add: write_memory_Some row_put_intro [of m])
  ultimately show ?thesis using v st by auto
qed

lemma delete_owned_parts:
  assumes "delete_owned i mid ev cid w = Inr (res, w')" and inv: "memory_inv w"
  shows "memory_writes (ic_user_id i) w w' \<and>
    (mv_value res \<noteq> None \<longrightarrow> (\<exists>m \<in> set (w_memories w'). mv_value res = Some m \<and> m_id m = mid \<and> m_status m = MS_DELETED))"
proof -
  let ?body = "\<lambda>d w1. case row_find (\<lambda>m. m_id m = mid \<and> m_user_id m = ic_user_id i) (w_memories w1) of
         None \<Rightarrow> Inr (None, w1)
       | Some m \<Rightarrow>
           if m_status m = MS_DELETED then Inr (Some m, w1)
           else if m_version m \<noteq> ev then Inl MemoryConcurrentModificationError
           else delete_row i ev m d w1"
  have body: "memory_writes (ic_user_id i) w1 w2 \<and>
      (v \<noteq> None \<longrightarrow> (\<exists>m \<in> set (w_memories w2). v = Some m \<and> m_id m = mid \<and> m_status m = MS_DELETED))"
    if "memory_inv w1" "?body d w1 = Inr (v, w2)" for d w1 v w2
  proof (cases "row_find (\<lambda>m. m_id m = mid \<and> m_user_id m = ic_user_id i) (w_memories w1)")
    case None
    with that show ?thesis by simp
  next
    case (Some m)
    from row_find_Some [OF Some] have m: "m \<in> set (w_memories w1)" "m_id m = mid" "m_user_id m = ic_user_id i" by simp_all
    show ?thesis
    proof (cases "m_status m = MS_DELETED")
      case True
      with that(2) Some m show ?thesis by auto
    next
      case False
      with that(2) Some have "delete_row i ev m d w1 = Inr (v, w2)" "m_version m = ev" by (auto split: if_splits)
      from delete_row_parts [OF this(1) that(1) m(1,3) this(2) False] m(2) show ?thesis by auto
    qed
  qed
  have writes: "memory_writes (ic_user_id i) w w'"
    by (rule memory_guarded_writes [OF assms(1) [unfolded delete_owned_def] inv]) (use body in blast)
  from memory_guarded_parts [OF assms(1) [unfolded delete_owned_def]] obtain w1 where
    a: "authorize i (memory_authorization_request ''memory.delete'' ''delete'' cid) w = Inr (mv_decision res, w1)"
    and k: "mv_value res = None \<or> ?body (mv_decision res) w1 = Inr (mv_value res, w')" by blast
  have inv1: "memory_inv w1" using memory_write_inv [OF authorize_memory_write [OF a] inv] .
  show ?thesis
  proof (cases "mv_value res")
    case None
    with writes show ?thesis by simp
  next
    case (Some m)
    with k have "?body (mv_decision res) w1 = Inr (mv_value res, w')" by simp
    from body [OF inv1 this] writes show ?thesis by blast
  qed
qed

section \<open>Steps\<close>

lemma memory_call_writes:
  assumes "memory_call i w w'" and inv: "memory_inv w"
  shows "memory_writes (ic_user_id i) w w'"
  using assms(1)
proof cases
  case (delete mid ev cid res)
  with delete_owned_parts inv show ?thesis by blast
qed (use inv in \<open>blast intro: create_explicit_writes create_internal_writes list_owned_memories_writes
       get_owned_memory_writes update_owned_writes archive_owned_writes revisions_owned_writes build_context_pack_writes\<close>)+

lemma memory_inv_tick:
  "memory_inv (w\<lparr>w_now := t\<rparr>) \<longleftrightarrow> memory_inv w" "memory_progress w (w\<lparr>w_now := t\<rparr>)"
proof -
  have c: "canonical_text (w\<lparr>w_now := t\<rparr>) = canonical_text w"
    by (simp add: fun_eq_iff canonical_text_def normalize_memory_text_def)
  have f: "fingerprinted (w\<lparr>w_now := t\<rparr>) m \<longleftrightarrow> fingerprinted w m" for m
    unfolding fingerprinted_def memory_fingerprint_def fingerprint_payload_def c by simp
  then show "memory_inv (w\<lparr>w_now := t\<rparr>) \<longleftrightarrow> memory_inv w"
    by (simp add: memory_inv_def memory_ok_def revision_ok_def memory_trail_def memory_changes_def)
  show "memory_progress w (w\<lparr>w_now := t\<rparr>)" by (simp add: memory_progress_same)
qed

lemma memory_step_keep:
  assumes "memory_step w w'" and inv: "memory_inv w"
  shows "memory_inv w' \<and> memory_progress w w'"
proof -
  have "(\<exists>uid. memory_writes uid w w') \<or> (\<exists>t. w' = w\<lparr>w_now := t\<rparr>)"
    using assms(1)
  proof cases
    case (call i)
    then show ?thesis using memory_call_writes inv by blast
  next
    case (authority i rq d)
    then show ?thesis using authorize_memory_write by blast
  qed blast
  then show ?thesis using memory_writes_keep inv memory_inv_tick by blast
qed

lemma memory_steps_keep:
  assumes "memory_step\<^sup>*\<^sup>* w w'" and "memory_inv w"
  shows "memory_inv w' \<and> memory_progress w w'"
  using assms
proof (induction rule: rtranclp_induct)
  case base
  then show ?case by (simp add: memory_progress_same)
next
  case (step w1 w2)
  then have inv: "memory_inv w1" and p: "memory_progress w w1" by simp_all
  from memory_step_keep [OF step(2) inv] p show ?case
    unfolding memory_progress_def by (meson memory_row_progress_trans)
qed


section \<open>Theorems\<close>

text \<open>
  C20: After delete_owned succeeded, in every later state the row of the memory and all its
  revisions hold no content, summary, subject, source reference or metadata, and the row stays
  deleted.
\<close>

theorem deleted_memory_leaves_nothing:
  assumes inv: "memory_inv w" and del: "delete_owned i mid ev cid w = Inr (res, w1)" and "mv_value res \<noteq> None"
    and steps: "memory_step\<^sup>*\<^sup>* w1 w2"
  shows "(\<forall>m \<in> set (w_memories w2). m_id m = mid \<longrightarrow> m_status m = MS_DELETED \<and> scrubbed m) \<and>
    (\<forall>r \<in> set (w_revisions w2). mr_memory_id r = mid \<longrightarrow> scrubbed_revision r)"
proof -
  from delete_owned_parts [OF del inv] assms(3) obtain m where w1: "memory_writes (ic_user_id i) w w1"
    and m: "m \<in> set (w_memories w1)" "m_id m = mid" "m_status m = MS_DELETED" by blast
  have inv1: "memory_inv w1" using memory_writes_inv [OF w1 inv] .
  from memory_steps_keep [OF steps inv1] m have inv2: "memory_inv w2" and m2: "m \<in> set (w_memories w2)"
    by (auto simp: memory_progress_def memory_row_progress_def)
  have only: "x = m" if "x \<in> set (w_memories w2)" "m_id x = mid" for x
    using unique_keys_eq [OF memory_invD(1) [OF inv2] that(1) m2] that(2) m(2) by simp
  have "scrubbed m" using memory_invD(4) [OF inv2 m2] m(3) by (simp add: memory_ok_def)
  moreover have "scrubbed_revision r" if "r \<in> set (w_revisions w2)" "mr_memory_id r = mid" for r
    using memory_invD(5) [OF inv2 that(1)] only m(3) that(2) by (auto simp: revision_ok_def)
  ultimately show ?thesis using only m(3) by blast
qed

text \<open>
  C21: A call of the memory service on behalf of one user leaves the memories, revisions and
  memory events of every other user as they were.
\<close>

theorem other_users_untouched:
  assumes "memory_inv w" and "memory_call i w w'"
  shows "foreign_view (ic_user_id i) w' = foreign_view (ic_user_id i) w"
  using memory_writes_keep [OF memory_call_writes [OF assms(2,1)] assms(1)] by blast

theorem memory_history_is_path:
  assumes "memory_inv w" and "memory_step\<^sup>*\<^sup>* w w'" and "m \<in> set (w_memories w')"
  shows "trail memory_allowed None (memory_trail (m_id m) w') \<and>
    trail_end None (memory_trail (m_id m) w') = Some (m_status m) \<and>
    m_version m = int (length (memory_changes (m_id m) w'))"
proof -
  have "memory_inv w'" using memory_steps_keep [OF assms(2,1)] by blast
  from memory_invD(4) [OF this assms(3)] show ?thesis by (simp add: memory_ok_def)
qed

text \<open>
  C22: In every reachable state two active memories of one user and class with the same canonical
  content and subject are the same row (historical decisions excepted).
\<close>

theorem no_active_duplicates:
  assumes "memory_inv w" and "memory_step\<^sup>*\<^sup>* w w'" and m: "m \<in> set (w_memories w')" and x: "x \<in> set (w_memories w')"
    and act: "m_status m = MS_ACTIVE" "m_status x = MS_ACTIVE" and own: "m_user_id m = m_user_id x"
    and cl: "m_class m = m_class x" "m_class x \<noteq> MC_HISTORICAL_DECISION"
    and canon: "fingerprint_payload w' (m_class m) (m_content m) (m_subject m) =
      fingerprint_payload w' (m_class x) (m_content x) (m_subject x)"
  shows "m = x"
proof -
  have inv: "memory_inv w'" using memory_steps_keep [OF assms(2,1)] by blast
  have ok: "memory_ok w' m" "memory_ok w' x" using memory_invD(4) [OF inv] m x by blast+
  then have "m_fingerprint m = m_fingerprint x"
    using act canon by (simp add: memory_ok_def fingerprinted_def memory_fingerprint_def)
  with ok act own cl have "same_active_key m x" by (simp add: same_active_key_def memory_ok_def dedup_key_of_def)
  from memory_invD(6) [OF inv m x this] show ?thesis using unique_keys_eq [OF memory_invD(1) [OF inv] m x] by blast
qed

text \<open>
  C23: The content, subject and fingerprint of a historical decision never change until it is
  deleted.
\<close>

theorem historical_decision_is_immutable:
  assumes "memory_inv w" and "m \<in> set (w_memories w)" and "m_class m = MC_HISTORICAL_DECISION" and "memory_step\<^sup>*\<^sup>* w w'"
  shows "\<exists>m' \<in> set (w_memories w'). m_id m' = m_id m \<and>
    (m_status m' = MS_DELETED \<or> m_content m' = m_content m \<and> m_subject m' = m_subject m \<and> m_fingerprint m' = m_fingerprint m)"
proof -
  from memory_steps_keep [OF assms(4,1)] assms(2) obtain m' where "m' \<in> set (w_memories w')" "memory_row_progress m m'"
    unfolding memory_progress_def by blast
  with assms(3) show ?thesis unfolding memory_row_progress_def same_text_def by blast
qed

text \<open>
  When the permissions engine does not allow it, a memory operation returns the decision
  without a value and leaves memories, revisions and memory events unchanged.
\<close>

theorem unauthorized_memory_call_does_nothing:
  assumes "memory_guarded i key action cid body w = Inr (res, w')" and "dc_decision (mv_decision res) \<noteq> ALLOW"
  shows "mv_value res = None \<and> w_memories w' = w_memories w \<and> w_revisions w' = w_revisions w \<and>
    w_memory_events w' = w_memory_events w"
proof -
  from memory_guarded_parts [OF assms(1)] assms(2) have
    a: "authorize i (memory_authorization_request key action cid) w = Inr (mv_decision res, w')" and "mv_value res = None" by auto
  moreover have t: "task_world.more w' = task_world.more w"
    using authorize_effects [OF a] by (intro auth_more_task_more) simp
  ultimately show ?thesis by (simp add: more_memories [OF t])
qed

text \<open>
  C24: A successful update requires the stored version, increments it, and records the previous
  content, subject and fingerprint as the revision of that number.
\<close>

theorem update_keeps_the_old_version:
  assumes inv: "memory_inv w" and u: "update_owned i mid r w = Inr (res, w')" and "mv_value res = Some m'"
  shows "\<exists>m \<in> set (w_memories w). m_id m = mid \<and> m_version m = mu_expected_version r \<and> m_version m' = m_version m + 1 \<and>
    m' \<in> set (w_memories w') \<and>
    (\<exists>v \<in> set (w_revisions w'). mr_memory_id v = mid \<and> mr_revision_number v = m_version m \<and>
       mr_content v = m_content m \<and> mr_subject v = m_subject m \<and> mr_fingerprint v = m_fingerprint m)"
proof -
  from memory_guarded_parts [OF u [unfolded update_owned_def]] assms(3) obtain w1 where
    a: "authorize i (memory_authorization_request ''memory.write'' ''update'' (mu_confirmation_id r)) w = Inr (mv_decision res, w1)"
    and k: "(case active_owned (ic_user_id i) mid w1 of
         None \<Rightarrow> Inr (None, w1)
       | Some m \<Rightarrow>
           bindE (expire_memory m w1) (\<lambda>((expired, m1), w2).
           if expired then Inr (None, w2)
           else if m_class m1 = MC_HISTORICAL_DECISION then Inl MemoryImmutableError
           else if m_version m1 \<noteq> mu_expected_version r then Inl MemoryConcurrentModificationError
           else apply_update i r m1 (mv_decision res) w2)) = Inr (Some m', w')" by auto
  have inv1: "memory_inv w1" using memory_write_inv [OF authorize_memory_write [OF a] inv] .
  have same: "w_memories w1 = w_memories w" using authorize_effects [OF a] by (intro more_memories auth_more_task_more) simp
  from update_body_parts [OF k inv1] obtain m where m: "m \<in> set (w_memories w1)" "m_id m = mid" "m_user_id m = ic_user_id i"
    "m_status m = MS_ACTIVE" "m_class m \<noteq> MC_HISTORICAL_DECISION" "m_version m = mu_expected_version r"
    and ap: "apply_update i r m (mv_decision res) w1 = Inr (Some m', w')" by blast
  from apply_update_parts [OF ap inv1 m(1,3-6)] have p: "m' = updated_row r m w1 m"
    "w_revisions w' = row_add (revision_snapshot m w1) (w_revisions w1)" "w_memories w' = row_put m_id m' (w_memories w1)" by auto
  have "m' \<in> set (w_memories w')" using m(1) by (simp add: p row_put_intro [of m])
  moreover have "m_version m' = m_version m + 1" by (simp add: p(1) updated_row_def Let_def m(6))
  ultimately show ?thesis using m same
    by (intro bexI [of _ m] conjI bexI [of _ "revision_snapshot m w1"]) (simp_all add: p(2) table_simps revision_snapshot_def)
qed


lemma context_records_spec:
  assumes "m \<in> set (context_records uid n c rows)"
  shows "m \<in> set rows \<and> m_user_id m = uid \<and> m_status m = MS_ACTIVE \<and> m_class m = c"
  using assms unfolding context_records_def by (auto dest!: in_set_takeD)

lemma context_records_sorted: "sorted_wrt (\<lambda>a b. mi_importance b \<le> mi_importance a) (map context_item (context_records uid n c rows))"
proof -
  have "sorted (map (\<lambda>m. (- m_importance m, - m_updated_at m, m_id m)) (context_records uid n c rows))"
    unfolding context_records_def take_map [symmetric] by (intro sorted_wrt_take sorted_sort_key)
  then show ?thesis
    by (auto simp: sorted_map sorted_wrt_map context_item_def less_eq_prod_def elim!: sorted_wrt_mono_rel [rotated])
qed

text \<open>
  C25: A context pack holds at most four times the requested limit (at most five per category) of
  the caller's own active, unexpired memories, preferences by falling importance.
\<close>

theorem context_pack_is_bounded:
  assumes inv: "memory_inv w" and b: "build_context_pack i n w = Inr (res, w')" and "mv_value res = Some p"
  shows "length (pack_items p) \<le> 4 * nat n \<and> nat n \<le> 5 \<and>
    (\<forall>c \<in> set (pack_items p). \<exists>m \<in> set (w_memories w'). c = context_item m \<and> m_user_id m = ic_user_id i \<and>
       m_status m = MS_ACTIVE \<and> \<not> memory_due m (w_now w') \<and> m_class m \<noteq> MC_DISCARDABLE) \<and>
    sorted_wrt (\<lambda>x y. mi_importance y \<le> mi_importance x) (mk_persistent_preferences p)"
proof -
  from b have n: "1 \<le> n" "n \<le> 5" and g: "memory_guarded i ''memory.read'' ''read'' None (\<lambda>d w1.
          bindE (materialize_due_expirations (ic_user_id i) w1) (\<lambda>w2.
          Inr (Some (context_pack (ic_user_id i) (nat n) (w_memories w2)), w2))) w = Inr (res, w')"
    by (simp_all add: build_context_pack_def split: if_splits)
  from memory_guarded_parts [OF g] assms(3) obtain w1 where
    a: "authorize i (memory_authorization_request ''memory.read'' ''read'' None) w = Inr (mv_decision res, w1)"
    and m: "materialize_due_expirations (ic_user_id i) w1 = Inr w'" and p: "p = context_pack (ic_user_id i) (nat n) (w_memories w')"
    by (auto simp: bindE_eq_Inr)
  have "memory_inv w1" using memory_write_inv [OF authorize_memory_write [OF a] inv] .
  from materialize_writes [OF m this] have due: "\<forall>x \<in> set (w_memories w'). m_user_id x = ic_user_id i \<and> m_status x = MS_ACTIVE \<longrightarrow>
    \<not> memory_due x (w_now w')" by blast
  let ?r = "\<lambda>c. context_records (ic_user_id i) (nat n) c (w_memories w')"
  have items: "pack_items p = map context_item (?r MC_PERSISTENT_PREFERENCE @ ?r MC_OPERATIONAL @ ?r MC_HISTORICAL_DECISION @ ?r MC_TEMPORARY_CONTEXT)"
    by (simp add: p pack_items_def context_pack_def)
  have len: "length (?r c) \<le> nat n" for c by (simp add: context_records_def)
  have "length (pack_items p) \<le> 4 * nat n"
    using len [of MC_PERSISTENT_PREFERENCE] len [of MC_OPERATIONAL] len [of MC_HISTORICAL_DECISION] len [of MC_TEMPORARY_CONTEXT]
    by (simp add: items)
  moreover have "\<exists>m \<in> set (w_memories w'). c = context_item m \<and> m_user_id m = ic_user_id i \<and>
       m_status m = MS_ACTIVE \<and> \<not> memory_due m (w_now w') \<and> m_class m \<noteq> MC_DISCARDABLE" if "c \<in> set (pack_items p)" for c
  proof -
    from that obtain m k where "m \<in> set (?r k)" "c = context_item m" "k \<noteq> MC_DISCARDABLE" by (auto simp: items)
    with context_records_spec [of m "ic_user_id i" "nat n" k "w_memories w'"] due show ?thesis by (intro bexI [of _ m]) auto
  qed
  ultimately show ?thesis using n context_records_sorted by (simp add: p context_pack_def)
qed

lemma store_memory_result:
  assumes s: "store_memory i p actor d w = Inr (Some m, w')" and inv: "memory_inv w"
  shows "m \<in> set (w_memories w') \<and> m_user_id m = ic_user_id i \<and> m_status m = MS_ACTIVE \<and> m_class m = mp_class p \<and>
    m_fingerprint m = memory_fingerprint w (mp_class p) (mp_content p) (mp_subject p)"
proof -
  let ?fp = "memory_fingerprint w (mp_class p) (mp_content p) (mp_subject p)"
  let ?key = "if mp_class p = MC_HISTORICAL_DECISION then None else Some ?fp"
  from s obtain e w1 where r: "reuse_duplicate i p actor ?key w = Inr (e, w1)"
    and k: "(case e of Some m \<Rightarrow> Inr (Some m, w1) | None \<Rightarrow> persist_memory i p actor d ?fp ?key w1) = Inr (Some m, w')"
    unfolding store_memory_def Let_def bindE_eq_Inr by auto
  have w1: "memory_writes (ic_user_id i) w w1" using reuse_duplicate_writes [OF r inv] .
  have inv1: "memory_inv w1" using memory_writes_inv [OF w1 inv] .
  have dup: "x \<in> set (w_memories v) \<and> m_user_id x = ic_user_id i \<and> m_status x = MS_ACTIVE \<and> m_class x = mp_class p \<and>
      m_fingerprint x = ?fp"
    if x: "active_duplicate (ic_user_id i) (mp_class p) k v = Some x" and v: "memory_inv v" and key: "?key = Some k"
    for x k and v :: "'a memory_world_scheme"
  proof -
    note x' = active_duplicate_Some [OF x]
    have "memory_ok v x" using memory_invD(4) [OF v] x' by blast
    then have "dedup_key_of x = Some k" using x' by (simp add: memory_ok_def)
    with x' key show ?thesis by (auto simp: dedup_key_of_def split: if_splits)
  qed
  show ?thesis
  proof (cases e)
    case None
    let ?m = "new_memory i p ?fp ?key w1"
    from k None have pm: "persist_memory i p actor d ?fp ?key w1 = Inr (Some m, w')" by simp
    show ?thesis
    proof (cases "insert_memory ?m (w_memories (draw w1))")
      case None
      with pm obtain k' where k': "?key = Some k'" "active_duplicate (ic_user_id i) (mp_class p) k' (draw w1) = Some m" "w' = draw w1"
        unfolding persist_memory_def Let_def by (auto split: option.splits)
      have "memory_inv (draw w1)"
        by (rule memory_write_inv [OF memory_write.other inv1]) (simp_all add: mem_frame_def task_frame_def same_memories_def)
      from dup [OF k'(2) this k'(1)] show ?thesis unfolding k'(3) .
    next
      case (Some rows)
      with pm obtain w2 where ae: "append_memory_event ?m ME_CREATED None MS_ACTIVE actor
          (Some (show_nat (ic_user_id i))) ''MEMORY_STORED'' [] ((draw w1)\<lparr>w_memories := rows\<rparr>) = Inr w2"
        and au: "audit_memory i ?m d AE_MEMORY_CREATED ''MEMORY_STORED'' w2 = Inr w'" and m: "m = ?m"
        unfolding persist_memory_def Let_def by (auto simp: bindE_eq_Inr)
      have st: "m_status ?m = MS_ACTIVE" by (simp add: new_memory_def)
      have "w_memories w2 = rows" using append_memory_event_Inr [OF ae] st by auto
      then have "w_memories w' = row_add ?m (w_memories w1)"
        using au Some unfolding audit_memory_def bindE_eq_Inr by (auto simp: record_audit_Inr insert_memory_def split: if_splits)
      then show ?thesis by (simp add: m table_simps) (simp add: new_memory_def)
    qed
  next
    case (Some x)
    with k have w': "m = x" "w' = w1" by simp_all
    obtain k' where key: "?key = Some k'" using r Some by (auto simp: reuse_duplicate_def split: option.splits)
    with r Some obtain y b y' w3 where y: "active_duplicate (ic_user_id i) (mp_class p) k' w = Some y"
      and ex: "expire_memory y w = Inr ((b, y'), w3)" and nb: "\<not> b" and "x = y'" and k2: "append_memory_event y' ME_DEDUPLICATED
        (Some MS_ACTIVE) MS_ACTIVE actor (Some (show_nat (ic_user_id i))) ''EXACT_CANONICAL_DUPLICATE''
        [(''source_type'', JStr (memory_source_value (mp_source_type p)))] w3 = Inr w1"
      unfolding reuse_duplicate_def key option.case by (auto simp: bindE_eq_Inr split: option.splits if_splits)
    have "y' = y" "w3 = w" using expire_memory_cases [OF ex inv] active_duplicate_Some [OF y] nb by auto
    moreover have "w_memories w1 = w_memories w3"
      using k2 unfolding append_memory_event_def bindE_eq_Inr by auto
    ultimately show ?thesis using dup [OF y inv key] w' \<open>x = y'\<close> by simp
  qed
qed

text \<open>
  A successful creation stores, or finds by deduplication, an active memory of the caller
  with the class and the canonical fingerprint of the request.
\<close>

theorem created_memory_is_the_request:
  assumes inv: "memory_inv w" and c: "create_memory i p actor w = Inr (res, w')" and v: "mv_value res = Some m"
  shows "m \<in> set (w_memories w') \<and> m_user_id m = ic_user_id i \<and> m_status m = MS_ACTIVE \<and> m_class m = mp_class p \<and>
    m_fingerprint m = memory_fingerprint w' (mp_class p) (mp_content p) (mp_subject p)"
proof -
  from memory_guarded_parts [OF c [unfolded create_memory_def]] v obtain w1 where
    a: "authorize i (memory_authorization_request ''memory.write'' ''create'' (mp_confirmation_id p)) w = Inr (mv_decision res, w1)"
    and s: "store_memory i p actor (mv_decision res) w1 = Inr (Some m, w')" by auto
  have inv1: "memory_inv w1" using memory_write_inv [OF authorize_memory_write [OF a] inv] .
  from store_memory_result [OF s inv1] memory_writes_fingerprint [OF store_memory_writes [OF s inv1]] show ?thesis by simp
qed

lemma sample_preferences_inv: "memory_inv sample_preferences"
  by code_simp

lemma sample_delete:
  "\<exists>res m. delete_owned sample_identity 30 1 None sample_preferences =
     Inr (res, world_after (delete_owned sample_identity 30 1 None sample_preferences) sample_preferences) \<and> mv_value res = Some m"
proof -
  let ?r = "delete_owned sample_identity 30 1 None sample_preferences"
  have "\<not> isl ?r \<and> mv_value (returned ?r) \<noteq> None" by code_simp
  with returned_world [of ?r sample_preferences] show ?thesis by blast
qed

lemma sample_update_returns:
  "\<exists>res m. update_owned sample_identity 30 sample_update sample_preferences =
     Inr (res, world_after (update_owned sample_identity 30 sample_update sample_preferences) sample_preferences) \<and>
     mv_value res = Some m"
proof -
  let ?r = "update_owned sample_identity 30 sample_update sample_preferences"
  have "\<not> isl ?r \<and> mv_value (returned ?r) \<noteq> None" by code_simp
  with returned_world [of ?r sample_preferences] show ?thesis by blast
qed

theorem deleted_memory_leaves_nothing_witness:
  "let w = world_after (delete_owned sample_identity 30 1 None sample_preferences) sample_preferences
   in list_all (\<lambda>m. m_id m \<noteq> 30 \<or> scrubbed m) (w_memories w)"
proof -
  from sample_delete obtain res m where d: "delete_owned sample_identity 30 1 None sample_preferences =
     Inr (res, world_after (delete_owned sample_identity 30 1 None sample_preferences) sample_preferences)" and m: "mv_value res = Some m" by blast
  have "mv_value res \<noteq> None" using m by simp
  from deleted_memory_leaves_nothing [OF sample_preferences_inv d this rtranclp.rtrancl_refl] show ?thesis
    unfolding Let_def list_all_iff by blast
qed

theorem other_users_untouched_witness:
  "foreign_view 1 (world_after (delete_owned sample_identity 30 1 None sample_preferences) sample_preferences) =
     foreign_view 1 sample_preferences"
proof -
  from sample_delete have "memory_call sample_identity sample_preferences
    (world_after (delete_owned sample_identity 30 1 None sample_preferences) sample_preferences)"
    by (blast intro: memory_call.delete)
  from other_users_untouched [OF sample_preferences_inv this] show ?thesis by (simp add: sample_identity_def)
qed

theorem update_keeps_the_old_version_witness:
  "let w = world_after (update_owned sample_identity 30 sample_update sample_preferences) sample_preferences
   in \<exists>v \<in> set (w_revisions w). mr_memory_id v = 30 \<and> mr_revision_number v = 1"
proof -
  from sample_update_returns obtain res m where u: "update_owned sample_identity 30 sample_update sample_preferences =
     Inr (res, world_after (update_owned sample_identity 30 sample_update sample_preferences) sample_preferences)"
    and m: "mv_value res = Some m" by blast
  from update_keeps_the_old_version [OF sample_preferences_inv u m] show ?thesis
    unfolding Let_def by (auto simp: sample_update_def)
qed

lemma sample_update_step:
  "memory_step\<^sup>*\<^sup>* sample_preferences (world_after (update_owned sample_identity 30 sample_update sample_preferences) sample_preferences)"
  using sample_update_returns by (blast intro: r_into_rtranclp memory_step.call memory_call.update)

theorem memory_history_is_path_witness:
  "let w = world_after (update_owned sample_identity 30 sample_update sample_preferences) sample_preferences
   in trail memory_allowed None (memory_trail 30 w) \<and> trail_end None (memory_trail 30 w) = Some MS_ACTIVE"
proof -
  let ?w = "world_after (update_owned sample_identity 30 sample_update sample_preferences) sample_preferences"
  have "w_memories ?w \<noteq> [] \<and> m_id (hd (w_memories ?w)) = 30 \<and> m_status (hd (w_memories ?w)) = MS_ACTIVE" by code_simp
  then have "hd (w_memories ?w) \<in> set (w_memories ?w)" "m_id (hd (w_memories ?w)) = 30" "m_status (hd (w_memories ?w)) = MS_ACTIVE" by simp_all
  from memory_history_is_path [OF sample_preferences_inv sample_update_step this(1)] this(2,3) show ?thesis by simp
qed

theorem no_active_duplicates_witness:
  "hd (w_memories sample_preferences) = w_memories sample_preferences ! 0"
proof -
  let ?m = "hd (w_memories sample_preferences)"
  have ok: "w_memories sample_preferences \<noteq> [] \<and> m_status ?m = MS_ACTIVE \<and> m_class ?m \<noteq> MC_HISTORICAL_DECISION" by code_simp
  then have h: "w_memories sample_preferences ! 0 = ?m" and m: "?m \<in> set (w_memories sample_preferences)"
    by (simp_all add: hd_conv_nth)
  show ?thesis
    by (rule no_active_duplicates [OF sample_preferences_inv rtranclp.rtrancl_refl])
       (use ok m in \<open>simp_all only: h simp_thms\<close>)
qed

theorem historical_decision_is_immutable_witness:
  "\<exists>m' \<in> set (w_memories (sample_decisions\<lparr>w_now := 2000\<rparr>)). m_id m' = 30"
proof -
  let ?m = "hd (w_memories sample_decisions)"
  have ok: "memory_inv sample_decisions \<and> w_memories sample_decisions \<noteq> [] \<and> m_class ?m = MC_HISTORICAL_DECISION \<and>
    m_id ?m = 30 \<and> w_now sample_decisions \<le> 2000" by code_simp
  then have "memory_step\<^sup>*\<^sup>* sample_decisions (sample_decisions\<lparr>w_now := 2000\<rparr>)"
    by (intro r_into_rtranclp memory_step.tick) blast
  from historical_decision_is_immutable [OF _ _ _ this, of ?m] ok show ?thesis by auto
qed

theorem unauthorized_memory_call_does_nothing_witness:
  "let w = sample_memories [] MC_OPERATIONAL in
   w_memories (world_after (memory_guarded sample_identity ''memory.read'' ''read'' None (\<lambda>d w1. Inr (Some (), w1)) w) w) = w_memories w"
proof -
  let ?w = "sample_memories [] MC_OPERATIONAL"
  let ?r = "memory_guarded sample_identity ''memory.read'' ''read'' None (\<lambda>d w1. Inr (Some (), w1)) ?w"
  have ok: "\<not> isl ?r \<and> dc_decision (mv_decision (returned ?r)) \<noteq> ALLOW" by code_simp
  with returned_world [of ?r ?w] have "?r = Inr (returned ?r, world_after ?r ?w)" by blast
  from unauthorized_memory_call_does_nothing [OF this] ok show ?thesis unfolding Let_def by blast
qed

theorem context_pack_is_bounded_witness:
  "let r = build_context_pack sample_identity 3 sample_preferences in length (pack_items (the (mv_value (returned r)))) \<le> 12"
proof -
  let ?r = "build_context_pack sample_identity 3 sample_preferences"
  have ok: "\<not> isl ?r \<and> mv_value (returned ?r) \<noteq> None" by code_simp
  with returned_world [of ?r sample_preferences] have "?r = Inr (returned ?r, world_after ?r sample_preferences)" by blast
  moreover have "mv_value (returned ?r) = Some (the (mv_value (returned ?r)))" using ok by simp
  ultimately show ?thesis using context_pack_is_bounded [OF sample_preferences_inv, of sample_identity 3] unfolding Let_def by fastforce
qed

theorem created_memory_is_the_request_witness:
  "let r = create_memory sample_identity sample_proposal MA_USER sample_preferences
   in m_user_id (the (mv_value (returned r))) = 1 \<and> m_class (the (mv_value (returned r))) = MC_OPERATIONAL"
proof -
  let ?r = "create_memory sample_identity sample_proposal MA_USER sample_preferences"
  have ok: "\<not> isl ?r \<and> mv_value (returned ?r) \<noteq> None" by code_simp
  with returned_world [of ?r sample_preferences] have r: "?r = Inr (returned ?r, world_after ?r sample_preferences)" by blast
  have v: "mv_value (returned ?r) = Some (the (mv_value (returned ?r)))" using ok by simp
  from created_memory_is_the_request [OF sample_preferences_inv r v] show ?thesis
    unfolding Let_def by (simp add: sample_identity_def sample_proposal_def)
qed

end
