(* ===== verification/AI_Model.thy ===== *)
theory AI_Model
  imports Memory_Correct
begin

text \<open>
  \<^verbatim>\<open>ai_router/enums.py\<close>, \<^verbatim>\<open>ai_router/schemas.py\<close> and \<^verbatim>\<open>ai_router/catalog.py\<close>: the vocabulary of the
  AI Router, its immutable contracts with their validators, the price estimate and the model
  catalog with the three catalogs the backend builds.
\<close>

section \<open>Enumerations\<close>

datatype model_class = MC_FAST | MC_STANDARD | MC_ADVANCED | MC_REALTIME | MC_EMBEDDING | MC_LOCAL

primrec model_class_value :: "model_class \<Rightarrow> string" where
  "model_class_value MC_FAST = ''FAST''"
| "model_class_value MC_STANDARD = ''STANDARD''"
| "model_class_value MC_ADVANCED = ''ADVANCED''"
| "model_class_value MC_REALTIME = ''REALTIME''"
| "model_class_value MC_EMBEDDING = ''EMBEDDING''"
| "model_class_value MC_LOCAL = ''LOCAL''"

datatype complexity = CX_TRIVIAL | CX_LOW | CX_MEDIUM | CX_HIGH | CX_VERY_HIGH

datatype model_capability =
    TEXT_GENERATION | STRUCTURED_OUTPUT | TOOL_CALLING | STREAMING | AUDIO_REALTIME | EMBEDDINGS

primrec model_capability_value :: "model_capability \<Rightarrow> string" where
  "model_capability_value TEXT_GENERATION = ''TEXT_GENERATION''"
| "model_capability_value STRUCTURED_OUTPUT = ''STRUCTURED_OUTPUT''"
| "model_capability_value TOOL_CALLING = ''TOOL_CALLING''"
| "model_capability_value STREAMING = ''STREAMING''"
| "model_capability_value AUDIO_REALTIME = ''AUDIO_REALTIME''"
| "model_capability_value EMBEDDINGS = ''EMBEDDINGS''"

text \<open>The capabilities in the order of their values, in which a decision lists them.\<close>

definition capability_order :: "model_capability list" where
  "capability_order = [AUDIO_REALTIME, EMBEDDINGS, STREAMING, STRUCTURED_OUTPUT, TEXT_GENERATION, TOOL_CALLING]"

datatype quality_tier = QT_FAST | QT_STANDARD | QT_ADVANCED | QT_SPECIALIZED

primrec quality_int :: "quality_tier \<Rightarrow> int" where
  "quality_int QT_FAST = 1"
| "quality_int QT_STANDARD = 2"
| "quality_int QT_ADVANCED = 3"
| "quality_int QT_SPECIALIZED = 4"

datatype latency_tier = LT_LOW | LT_NORMAL | LT_HIGH

datatype provider_health = PH_AVAILABLE | PH_DEGRADED | PH_UNAVAILABLE | PH_DISABLED

datatype failure_category =
    PROVIDER_UNAVAILABLE | RATE_LIMITED | TIMEOUT | AUTHENTICATION_ERROR | INVALID_REQUEST
  | CONTEXT_LIMIT | CONTENT_POLICY | UNSUPPORTED_CAPABILITY | MALFORMED_RESPONSE
  | INTERNAL_PROVIDER_ERROR | CANCELLED_CALL

datatype routing_reason =
    RR_DEFAULT_STANDARD | RR_LOW_COMPLEXITY_FAST | RR_HIGH_COMPLEXITY_ADVANCED | RR_REQUIRED_CAPABILITY
  | RR_REALTIME_REQUIRED | RR_EMBEDDING_REQUIRED | RR_LOCAL_ONLY_REQUIRED | RR_SENSITIVITY_RESTRICTION
  | RR_CONTEXT_LIMIT | RR_OUTPUT_LIMIT | RR_PROVIDER_UNAVAILABLE | RR_NO_ELIGIBLE_MODEL
  | RR_EQUIVALENT_PROVIDER_FALLBACK | RR_QUALITY_ESCALATION | RR_COST_NEUTRAL_OPTIMIZATION
  | RR_BUDGET_WARNING | RR_HARD_BUDGET_EXCEEDED

primrec routing_reason_value :: "routing_reason \<Rightarrow> string" where
  "routing_reason_value RR_DEFAULT_STANDARD = ''DEFAULT_STANDARD''"
| "routing_reason_value RR_LOW_COMPLEXITY_FAST = ''LOW_COMPLEXITY_FAST''"
| "routing_reason_value RR_HIGH_COMPLEXITY_ADVANCED = ''HIGH_COMPLEXITY_ADVANCED''"
| "routing_reason_value RR_REQUIRED_CAPABILITY = ''REQUIRED_CAPABILITY''"
| "routing_reason_value RR_REALTIME_REQUIRED = ''REALTIME_REQUIRED''"
| "routing_reason_value RR_EMBEDDING_REQUIRED = ''EMBEDDING_REQUIRED''"
| "routing_reason_value RR_LOCAL_ONLY_REQUIRED = ''LOCAL_ONLY_REQUIRED''"
| "routing_reason_value RR_SENSITIVITY_RESTRICTION = ''SENSITIVITY_RESTRICTION''"
| "routing_reason_value RR_CONTEXT_LIMIT = ''CONTEXT_LIMIT''"
| "routing_reason_value RR_OUTPUT_LIMIT = ''OUTPUT_LIMIT''"
| "routing_reason_value RR_PROVIDER_UNAVAILABLE = ''PROVIDER_UNAVAILABLE''"
| "routing_reason_value RR_NO_ELIGIBLE_MODEL = ''NO_ELIGIBLE_MODEL''"
| "routing_reason_value RR_EQUIVALENT_PROVIDER_FALLBACK = ''EQUIVALENT_PROVIDER_FALLBACK''"
| "routing_reason_value RR_QUALITY_ESCALATION = ''QUALITY_ESCALATION''"
| "routing_reason_value RR_COST_NEUTRAL_OPTIMIZATION = ''COST_NEUTRAL_OPTIMIZATION''"
| "routing_reason_value RR_BUDGET_WARNING = ''BUDGET_WARNING''"
| "routing_reason_value RR_HARD_BUDGET_EXCEEDED = ''HARD_BUDGET_EXCEEDED''"

datatype routing_outcome = RO_SELECTED | RO_DENIED

datatype usage_outcome = UO_SUCCESS | UO_FAILURE

definition is_retryable_failure :: "failure_category \<Rightarrow> bool" where
  "is_retryable_failure c \<longleftrightarrow> c \<in> {PROVIDER_UNAVAILABLE, RATE_LIMITED, TIMEOUT, INTERNAL_PROVIDER_ERROR}"

section \<open>Prices\<close>

record pricing =
  pr_currency :: string
  pr_input :: int
  pr_cached_input :: "int option"
  pr_output :: int
  pr_version :: string
  pr_effective_date :: "nat \<times> nat \<times> nat"

definition valid_pricing :: "pricing \<Rightarrow> bool" where
  "valid_pricing p \<longleftrightarrow>
     length (pr_currency p) = 3 \<and> list_all is_upper_alpha (pr_currency p) \<and>
     0 \<le> pr_input p \<and> (case pr_cached_input p of None \<Rightarrow> True | Some c \<Rightarrow> 0 \<le> c) \<and>
     0 \<le> pr_output p \<and> bounded 1 64 (pr_version p)"

definition cost_microunits :: "pricing \<Rightarrow> int \<Rightarrow> int \<Rightarrow> int \<Rightarrow> int" where
  "cost_microunits p input_tokens output_tokens cached_tokens =
     (let cached_rate = (case pr_cached_input p of None \<Rightarrow> pr_input p | Some r \<Rightarrow> r);
          uncached_tokens = input_tokens - cached_tokens;
          input_cost = uncached_tokens * pr_input p;
          cached_cost = cached_tokens * cached_rate;
          output_cost = output_tokens * pr_output p
      in (input_cost + cached_cost + output_cost + 999999) div 1000000)"

definition estimate_microunits :: "pricing \<Rightarrow> int \<Rightarrow> int \<Rightarrow> int \<Rightarrow> app_error + int" where
  "estimate_microunits p input_tokens output_tokens cached_tokens =
     (if input_tokens < 0 \<or> output_tokens < 0 \<or> cached_tokens < 0 then Inl PyValueError
      else if cached_tokens > input_tokens then Inl PyValueError
      else Inr (cost_microunits p input_tokens output_tokens cached_tokens))"

section \<open>Providers and models\<close>

definition catalog_key_pattern :: "string \<Rightarrow> bool" where
  "catalog_key_pattern s =
     (case s of [] \<Rightarrow> False
      | c # cs \<Rightarrow> (is_lower_alpha c \<or> is_digit_char c) \<and>
          list_all (\<lambda>x. is_lower_alpha x \<or> is_digit_char x \<or> x \<in> set ''._-'') cs)"

definition parse_catalog_key :: "string \<Rightarrow> app_error + string" where
  "parse_catalog_key raw =
     (let s = py_strip raw
      in bindE (requireE PyValueError (bounded 2 128 s \<and> catalog_key_pattern s)) (\<lambda>_. Inr s))"

record provider_definition =
  pv_key :: string
  pv_enabled :: bool
  pv_local :: bool
  pv_max_sensitivity :: data_sensitivity
  pv_private_data_approved :: bool
  pv_sensitive_data_approved :: bool
  pv_critical_data_approved :: bool

definition validate_approval_chain :: "provider_definition \<Rightarrow> app_error + unit" where
  "validate_approval_chain p =
     (if pv_critical_data_approved p \<and> (\<not> pv_local p \<or> \<not> pv_sensitive_data_approved p) then Inl PyValueError
      else requireE PyValueError (\<not> (pv_sensitive_data_approved p \<and> \<not> pv_private_data_approved p)))"

definition make_provider :: "provider_definition \<Rightarrow> app_error + provider_definition" where
  "make_provider p =
     bindE (parse_catalog_key (pv_key p)) (\<lambda>key.
     let q = p\<lparr>pv_key := key\<rparr> in bindE (validate_approval_chain q) (\<lambda>_. Inr q))"

record model_definition =
  md_provider_key :: string
  md_model_id :: string
  md_class :: model_class
  md_enabled :: bool
  md_routing_enabled :: bool
  md_evaluation_enabled :: bool
  md_capabilities :: "model_capability set"
  md_context_limit :: int
  md_output_limit :: int
  md_max_sensitivity :: data_sensitivity
  md_quality_tier :: quality_tier
  md_latency_tier :: latency_tier
  md_pricing :: pricing
  md_deprecated :: bool
  md_fallback_priority :: int

definition validate_model_capabilities :: "model_definition \<Rightarrow> app_error + unit" where
  "validate_model_capabilities m =
     (if md_output_limit m > md_context_limit m then Inl PyValueError
      else if md_class m = MC_REALTIME \<and> AUDIO_REALTIME \<notin> md_capabilities m then Inl PyValueError
      else if md_class m = MC_EMBEDDING \<and> EMBEDDINGS \<notin> md_capabilities m then Inl PyValueError
      else if md_enabled m \<and> \<not> md_routing_enabled m \<and> \<not> md_evaluation_enabled m then Inl PyValueError
      else Inr ())"

definition make_model :: "model_definition \<Rightarrow> app_error + model_definition" where
  "make_model m =
     bindE (parse_catalog_key (md_provider_key m)) (\<lambda>provider_key.
     bindE (parse_catalog_key (md_model_id m)) (\<lambda>model_id.
     bindE (requireE PyValueError
              (1 \<le> md_context_limit m \<and> md_context_limit m \<le> 2000000 \<and>
               1 \<le> md_output_limit m \<and> md_output_limit m \<le> 131072 \<and> valid_pricing (md_pricing m) \<and>
               0 \<le> md_fallback_priority m \<and> md_fallback_priority m \<le> 10000)) (\<lambda>_.
     let q = m\<lparr>md_provider_key := provider_key, md_model_id := model_id\<rparr>
     in bindE (validate_model_capabilities q) (\<lambda>_. Inr q))))"

record model_reference =
  mf_provider_key :: string
  mf_model_id :: string
  mf_class :: model_class
  mf_quality_tier :: quality_tier

definition reference_of :: "model_definition \<Rightarrow> model_reference" where
  "reference_of m =
     \<lparr>mf_provider_key = md_provider_key m, mf_model_id = md_model_id m, mf_class = md_class m,
      mf_quality_tier = md_quality_tier m\<rparr>"

section \<open>The catalog\<close>

text \<open>Two dictionaries in insertion order; the constructor refuses duplicates and dangling references.\<close>

record model_catalog =
  cat_providers :: "provider_definition list"
  cat_all_models :: "model_definition list"

definition catalog_provider :: "model_catalog \<Rightarrow> string \<Rightarrow> app_error + provider_definition" where
  "catalog_provider c key = someE PyKeyError (row_find (\<lambda>p. pv_key p = key) (cat_providers c))"

definition catalog_model :: "model_catalog \<Rightarrow> model_reference \<Rightarrow> app_error + model_definition" where
  "catalog_model c r =
     someE PyKeyError
       (row_find (\<lambda>m. md_provider_key m = mf_provider_key r \<and> md_model_id m = mf_model_id r) (cat_all_models c))"

definition catalog_models :: "model_catalog \<Rightarrow> model_definition list" where
  "catalog_models c = filter md_routing_enabled (cat_all_models c)"

definition evaluation_models :: "model_catalog \<Rightarrow> model_definition list" where
  "evaluation_models c = filter md_evaluation_enabled (cat_all_models c)"

fun add_providers :: "provider_definition list \<Rightarrow> provider_definition list \<Rightarrow> app_error + provider_definition list" where
  "add_providers acc [] = Inr acc"
| "add_providers acc (p # ps) =
     (if row_find (\<lambda>x. pv_key x = pv_key p) acc \<noteq> None then Inl PyValueError else add_providers (acc @ [p]) ps)"

fun add_models ::
  "provider_definition list \<Rightarrow> model_definition list \<Rightarrow> model_definition list \<Rightarrow> app_error + model_definition list" where
  "add_models providers acc [] = Inr acc"
| "add_models providers acc (m # ms) =
     (if row_find (\<lambda>x. md_provider_key x = md_provider_key m \<and> md_model_id x = md_model_id m) acc \<noteq> None
      then Inl PyValueError
      else if row_find (\<lambda>p. pv_key p = md_provider_key m) providers = None then Inl PyValueError
      else add_models providers (acc @ [m]) ms)"

definition make_catalog :: "provider_definition list \<Rightarrow> model_definition list \<Rightarrow> app_error + model_catalog" where
  "make_catalog providers models =
     bindE (add_providers [] providers) (\<lambda>ps.
     bindE (add_models ps [] models) (\<lambda>ms.
     bindE (requireE PyValueError (ps \<noteq> [])) (\<lambda>_.
     bindE (requireE PyValueError (ms \<noteq> [])) (\<lambda>_.
     Inr \<lparr>cat_providers = ps, cat_all_models = ms\<rparr>))))"

section \<open>The catalogs of the backend\<close>

text \<open>The defaults of the optional fields of the two definitions.\<close>

definition default_provider :: "string \<Rightarrow> data_sensitivity \<Rightarrow> provider_definition" where
  "default_provider key sensitivity =
     \<lparr>pv_key = key, pv_enabled = False, pv_local = False, pv_max_sensitivity = sensitivity,
      pv_private_data_approved = False, pv_sensitive_data_approved = False, pv_critical_data_approved = False\<rparr>"

definition default_model ::
  "string \<Rightarrow> string \<Rightarrow> model_class \<Rightarrow> model_capability set \<Rightarrow> int \<times> int \<Rightarrow> data_sensitivity \<Rightarrow> quality_tier \<Rightarrow>
     latency_tier \<Rightarrow> pricing \<Rightarrow> model_definition" where
  "default_model provider_key model_id c capabilities limits sensitivity quality latency price =
     \<lparr>md_provider_key = provider_key, md_model_id = model_id, md_class = c, md_enabled = False,
      md_routing_enabled = True, md_evaluation_enabled = False, md_capabilities = capabilities,
      md_context_limit = fst limits, md_output_limit = snd limits, md_max_sensitivity = sensitivity,
      md_quality_tier = quality, md_latency_tier = latency, md_pricing = price, md_deprecated = False,
      md_fallback_priority = 100\<rparr>"

definition RESERVED_PRICING :: pricing where
  "RESERVED_PRICING = \<lparr>pr_currency = ''USD'', pr_input = 250000, pr_cached_input = None, pr_output = 1000000,
     pr_version = ''phase5-reserved-not-live'', pr_effective_date = (2026, 9, 1)\<rparr>"

definition validated_catalog :: "provider_definition list \<Rightarrow> model_definition list \<Rightarrow> app_error + model_catalog" where
  "validated_catalog providers models =
     bindE (parse_all make_provider providers) (\<lambda>ps. bindE (parse_all make_model models) (\<lambda>ms. make_catalog ps ms))"

definition build_default_catalog :: "app_error + model_catalog" where
  "build_default_catalog =
     validated_catalog
       [default_provider ''cloud-reserved'' PUBLIC,
        (default_provider ''local-reserved'' CRITICAL_DATA)
          \<lparr>pv_local := True, pv_private_data_approved := True, pv_sensitive_data_approved := True,
           pv_critical_data_approved := True\<rparr>]
       [default_model ''cloud-reserved'' ''fast-reserved'' MC_FAST {TEXT_GENERATION, STRUCTURED_OUTPUT}
          (16384, 4096) PUBLIC QT_FAST LT_LOW RESERVED_PRICING,
        default_model ''cloud-reserved'' ''standard-reserved'' MC_STANDARD
          {TEXT_GENERATION, STRUCTURED_OUTPUT, TOOL_CALLING, STREAMING} (65536, 16384) PUBLIC QT_STANDARD LT_NORMAL
          RESERVED_PRICING,
        default_model ''cloud-reserved'' ''advanced-reserved'' MC_ADVANCED
          {TEXT_GENERATION, STRUCTURED_OUTPUT, TOOL_CALLING, STREAMING} (131072, 32768) PUBLIC QT_ADVANCED LT_HIGH
          RESERVED_PRICING,
        default_model ''cloud-reserved'' ''realtime-reserved'' MC_REALTIME {AUDIO_REALTIME, TEXT_GENERATION}
          (32768, 4096) PUBLIC QT_SPECIALIZED LT_LOW RESERVED_PRICING,
        default_model ''cloud-reserved'' ''embedding-reserved'' MC_EMBEDDING {EMBEDDINGS}
          (32768, 1) PUBLIC QT_SPECIALIZED LT_NORMAL RESERVED_PRICING,
        default_model ''local-reserved'' ''local-reserved'' MC_LOCAL {TEXT_GENERATION, STRUCTURED_OUTPUT}
          (32768, 8192) CRITICAL_DATA QT_STANDARD LT_NORMAL RESERVED_PRICING]"

definition OPENAI_LUNA_PRICING :: pricing where
  "OPENAI_LUNA_PRICING = \<lparr>pr_currency = ''USD'', pr_input = 200000, pr_cached_input = None, pr_output = 1200000,
     pr_version = ''openai-2026-09'', pr_effective_date = (2026, 9, 3)\<rparr>"

definition OPENAI_TERRA_PRICING :: pricing where
  "OPENAI_TERRA_PRICING = \<lparr>pr_currency = ''USD'', pr_input = 2000000, pr_cached_input = None, pr_output = 12000000,
     pr_version = ''openai-2026-09'', pr_effective_date = (2026, 9, 3)\<rparr>"

definition OPENAI_SOL_PRICING :: pricing where
  "OPENAI_SOL_PRICING = \<lparr>pr_currency = ''USD'', pr_input = 4000000, pr_cached_input = None, pr_output = 20000000,
     pr_version = ''openai-2026-09'', pr_effective_date = (2026, 9, 3)\<rparr>"

definition OPENAI_NANO_PRICING :: pricing where
  "OPENAI_NANO_PRICING = \<lparr>pr_currency = ''USD'', pr_input = 50000, pr_cached_input = Some 5000, pr_output = 400000,
     pr_version = ''openai-2026-09-05'', pr_effective_date = (2026, 9, 5)\<rparr>"

definition build_openai_staging_catalog :: "app_error + model_catalog" where
  "build_openai_staging_catalog =
     validated_catalog
       [(default_provider ''openai'' PRIVATE)\<lparr>pv_enabled := True, pv_private_data_approved := True\<rparr>]
       [(default_model ''openai'' ''gpt-5-nano'' MC_FAST {TEXT_GENERATION, STRUCTURED_OUTPUT} (400000, 128000)
          PRIVATE QT_FAST LT_LOW OPENAI_NANO_PRICING)
            \<lparr>md_enabled := True, md_routing_enabled := False, md_evaluation_enabled := True, md_fallback_priority := 5\<rparr>,
        (default_model ''openai'' ''gpt-5.6-luna'' MC_FAST {TEXT_GENERATION, STRUCTURED_OUTPUT} (1050000, 128000)
          PRIVATE QT_FAST LT_LOW OPENAI_LUNA_PRICING)\<lparr>md_enabled := True, md_fallback_priority := 10\<rparr>,
        (default_model ''openai'' ''gpt-5.6-terra'' MC_STANDARD {TEXT_GENERATION, STRUCTURED_OUTPUT} (1050000, 128000)
          PRIVATE QT_STANDARD LT_NORMAL OPENAI_TERRA_PRICING)\<lparr>md_enabled := True, md_fallback_priority := 20\<rparr>,
        (default_model ''openai'' ''gpt-5.6-sol'' MC_ADVANCED {TEXT_GENERATION, STRUCTURED_OUTPUT} (1050000, 128000)
          PRIVATE QT_ADVANCED LT_HIGH OPENAI_SOL_PRICING)\<lparr>md_enabled := True, md_fallback_priority := 30\<rparr>]"

definition build_staging_catalog :: "bool \<Rightarrow> app_error + model_catalog" where
  "build_staging_catalog openai_enabled =
     bindE build_openai_staging_catalog (\<lambda>openai.
     bindE (catalog_provider openai ''openai'') (\<lambda>p.
     make_catalog [p\<lparr>pv_enabled := openai_enabled\<rparr>]
       (map (\<lambda>m. m\<lparr>md_enabled := openai_enabled\<rparr>) (cat_all_models openai))))"

section \<open>Routing contracts\<close>

record routing_request =
  rt_task_type :: string
  rt_task_id :: "uuid option"
  rt_complexity :: complexity
  rt_required_capabilities :: "model_capability set"
  rt_sensitivity :: data_sensitivity
  rt_context_sensitivities :: "data_sensitivity list"
  rt_estimated_input_tokens :: int
  rt_requested_output_tokens :: int
  rt_realtime_required :: bool
  rt_embedding_required :: bool
  rt_structured_output_required :: bool
  rt_tool_calling_required :: bool
  rt_local_only :: bool

definition task_type_pattern :: "string \<Rightarrow> bool" where
  "task_type_pattern s =
     (case s of [] \<Rightarrow> False
      | c # cs \<Rightarrow> is_lower_alpha c \<and> list_all (\<lambda>x. is_lower_alpha x \<or> is_digit_char x \<or> x \<in> set ''._-'') cs)"

definition make_routing_request :: "routing_request \<Rightarrow> app_error + routing_request" where
  "make_routing_request r =
     (let task_type = py_strip (rt_task_type r)
      in if \<not> (bounded 1 128 task_type \<and> task_type_pattern task_type) then Inl PyValueError
         else if \<not> length (rt_context_sensitivities r) \<le> 256 then Inl PyValueError
         else if \<not> (0 \<le> rt_estimated_input_tokens r \<and> rt_estimated_input_tokens r \<le> 2000000) then Inl PyValueError
         else if \<not> (1 \<le> rt_requested_output_tokens r \<and> rt_requested_output_tokens r \<le> 65536) then Inl PyValueError
         else if rt_realtime_required r \<and> rt_embedding_required r then Inl PyValueError
         else if rt_embedding_required r \<and> (rt_structured_output_required r \<or> rt_tool_calling_required r)
         then Inl PyValueError
         else Inr (r\<lparr>rt_task_type := task_type\<rparr>))"

definition effective_sensitivity :: "routing_request \<Rightarrow> data_sensitivity" where
  "effective_sensitivity r = projr (highest_sensitivity (rt_sensitivity r # rt_context_sensitivities r))"

definition effective_capabilities :: "routing_request \<Rightarrow> model_capability set" where
  "effective_capabilities r =
     (let c1 = rt_required_capabilities r;
          c2 = (if rt_embedding_required r then insert EMBEDDINGS c1
                else if rt_realtime_required r then insert AUDIO_REALTIME c1
                else insert TEXT_GENERATION c1);
          c3 = (if rt_structured_output_required r then insert STRUCTURED_OUTPUT c2 else c2)
      in if rt_tool_calling_required r then insert TOOL_CALLING c3 else c3)"

record routing_decision =
  rd_id :: uuid
  rd_user_id :: uuid
  rd_task_id :: "uuid option"
  rd_outcome :: routing_outcome
  rd_selected_model :: "model_reference option"
  rd_reason_codes :: "routing_reason list"
  rd_policy_version :: string
  rd_required_capabilities :: "model_capability list"
  rd_effective_sensitivity :: data_sensitivity
  rd_fallback_chain :: "model_reference list"
  rd_estimated_cost :: "int option"
  rd_created_at :: timestamp

definition valid_routing_decision :: "routing_decision \<Rightarrow> bool" where
  "valid_routing_decision d \<longleftrightarrow>
     (rd_outcome d = RO_SELECTED \<longrightarrow> rd_selected_model d \<noteq> None) \<and>
     (rd_outcome d = RO_DENIED \<longrightarrow> rd_selected_model d = None) \<and> rd_reason_codes d \<noteq> [] \<and>
     (case rd_estimated_cost d of None \<Rightarrow> True | Some c \<Rightarrow> 0 \<le> c)"

record provider_request =
  pq_input_text :: string
  pq_output_token_budget :: int
  pq_structured_output_required :: bool
  pq_tool_calling_required :: bool

definition make_provider_request :: "provider_request \<Rightarrow> app_error + provider_request" where
  "make_provider_request r =
     bindE (requireE PyValueError (bounded 1 500000 (pq_input_text r))) (\<lambda>_.
     bindE (requireE PyValueError (1 \<le> pq_output_token_budget r \<and> pq_output_token_budget r \<le> 65536)) (\<lambda>_.
     Inr r))"

record provider_response =
  ps_output_text :: string
  ps_input_tokens :: int
  ps_output_tokens :: int
  ps_cached_tokens :: int
  ps_actual_cost :: "int option"

definition valid_provider_response :: "provider_response \<Rightarrow> bool" where
  "valid_provider_response r \<longleftrightarrow>
     length (ps_output_text r) \<le> 1000000 \<and> 0 \<le> ps_input_tokens r \<and> 0 \<le> ps_output_tokens r \<and>
     0 \<le> ps_cached_tokens r \<and> ps_cached_tokens r \<le> ps_input_tokens r \<and>
     (case ps_actual_cost r of None \<Rightarrow> True | Some c \<Rightarrow> 0 \<le> c)"

record attempt_failure =
  af_model :: model_reference
  af_category :: failure_category
  af_retryable :: bool

record ai_execution =
  ax_routing_decision :: routing_decision
  ax_final_model :: model_reference
  ax_response :: provider_response
  ax_failures :: "attempt_failure list"

type_synonym health_snapshot = "(string \<times> provider_health) list"

definition status_for :: "health_snapshot \<Rightarrow> string \<Rightarrow> provider_health" where
  "status_for h key = (case map_of h key of None \<Rightarrow> PH_AVAILABLE | Some s \<Rightarrow> s)"

text \<open>In a catalog every model has its provider and is found by its own reference.\<close>

definition catalog_ok :: "model_catalog \<Rightarrow> bool" where
  "catalog_ok c \<longleftrightarrow>
     distinct (map (\<lambda>m. (md_provider_key m, md_model_id m)) (cat_all_models c)) \<and>
     list_all (\<lambda>m. \<not> isl (catalog_provider c (md_provider_key m))) (cat_all_models c)"

section \<open>Lemmas\<close>

lemma cost_nonneg: "valid_pricing p \<Longrightarrow> 0 \<le> i \<Longrightarrow> 0 \<le> out \<Longrightarrow> 0 \<le> cost_microunits p i out 0"
  by (auto simp: cost_microunits_def valid_pricing_def Let_def intro!: pos_imp_zdiv_nonneg_iff [THEN iffD2] add_nonneg_nonneg)

text \<open>The estimate is the exact price in microunits, rounded up.\<close>

lemma cost_ceiling:
  fixes p i out c
  defines "exact \<equiv> (i - c) * pr_input p + c * (case pr_cached_input p of None \<Rightarrow> pr_input p | Some r \<Rightarrow> r) + out * pr_output p"
  shows "exact \<le> 1000000 * cost_microunits p i out c" "1000000 * cost_microunits p i out c < exact + 1000000"
proof -
  have c: "cost_microunits p i out c = (exact + 999999) div 1000000"
    by (simp add: cost_microunits_def exact_def Let_def)
  show "exact \<le> 1000000 * cost_microunits p i out c" "1000000 * cost_microunits p i out c < exact + 1000000"
    unfolding c by linarith+
qed

lemma effective_sensitivity_Max:
  "effective_sensitivity r = Max (insert (rt_sensitivity r) (set (rt_context_sensitivities r)))"
  by (simp add: effective_sensitivity_def highest_sensitivity_Max)

lemma capability_order_complete [simp]: "x \<in> set capability_order"
  by (cases x) (simp_all add: capability_order_def)

lemma add_models_Inr:
  assumes "add_models ps acc ms = Inr qs" and "distinct (map (\<lambda>m. (md_provider_key m, md_model_id m)) acc)"
    and "list_all (\<lambda>m. row_find (\<lambda>p. pv_key p = md_provider_key m) ps \<noteq> None) acc"
  shows "distinct (map (\<lambda>m. (md_provider_key m, md_model_id m)) qs) \<and>
     list_all (\<lambda>m. row_find (\<lambda>p. pv_key p = md_provider_key m) ps \<noteq> None) qs"
  using assms
proof (induction ps acc ms rule: add_models.induct)
  case (2 ps acc m ms)
  from 2(2) have f: "row_find (\<lambda>x. md_provider_key x = md_provider_key m \<and> md_model_id x = md_model_id m) acc = None"
    "row_find (\<lambda>p. pv_key p = md_provider_key m) ps \<noteq> None" and r: "add_models ps (acc @ [m]) ms = Inr qs"
    by (simp_all split: if_splits)
  have "(md_provider_key m, md_model_id m) \<notin> (\<lambda>m. (md_provider_key m, md_model_id m)) ` set acc"
    using f(1) by (auto simp: row_find_None)
  then show ?case by (intro 2(1)) (use f r 2(3,4) in simp_all)
qed simp

lemma make_catalog_ok:
  assumes "make_catalog ps ms = Inr c"
  shows "catalog_ok c"
proof -
  from assms have "add_providers [] ps = Inr (cat_providers c)" and m: "add_models (cat_providers c) [] ms = Inr (cat_all_models c)"
    by (auto simp: make_catalog_def result_simps)
  from add_models_Inr [OF m] show ?thesis
    by (auto simp: catalog_ok_def list_all_iff catalog_provider_def someE_def split: option.splits)
qed

lemma catalog_ok_provider:
  assumes "catalog_ok c" and "m \<in> set (cat_all_models c)"
  shows "\<exists>p. catalog_provider c (md_provider_key m) = Inr p \<and> p \<in> set (cat_providers c) \<and> pv_key p = md_provider_key m"
proof -
  from assms have "\<not> isl (catalog_provider c (md_provider_key m))" by (auto simp: catalog_ok_def list_all_iff)
  then obtain p where p: "catalog_provider c (md_provider_key m) = Inr p"
    by (cases "catalog_provider c (md_provider_key m)") auto
  with row_find_Some [of "\<lambda>p. pv_key p = md_provider_key m" "cat_providers c" p] show ?thesis
    by (auto simp: catalog_provider_def someE_eq_Inr)
qed

lemma catalog_ok_model:
  assumes "catalog_ok c" and "m \<in> set (cat_all_models c)"
  shows "catalog_model c (reference_of m) = Inr m"
proof -
  let ?P = "\<lambda>x. md_provider_key x = md_provider_key m \<and> md_model_id x = md_model_id m"
  from assms(2) row_find_None [of ?P "cat_all_models c"] obtain x where x: "row_find ?P (cat_all_models c) = Some x" by fastforce
  from row_find_Some [OF x] have "x \<in> set (cat_all_models c)" "?P x" by auto
  moreover have "inj_on (\<lambda>m. (md_provider_key m, md_model_id m)) (set (cat_all_models c))"
    using assms(1) by (simp add: catalog_ok_def distinct_map)
  ultimately have "x = m" using assms(2) by (auto dest: inj_onD)
  with x show ?thesis by (simp add: catalog_model_def reference_of_def)
qed

end
