(* ===== verification/AI_Policy.thy ===== *)
theory AI_Policy
  imports AI_Model "HOL-Library.Multiset"
begin

text \<open>
  \<^verbatim>\<open>ai_router/policy.py\<close>: the deterministic choice of a model. The decision is a cascade of filters
  over the routable models of the catalog, a sort of the survivors and a budget check; \<open>eligible_model\<close>
  says in one predicate what the cascade lets through. A call of \<^verbatim>\<open>catalog.provider\<close> may raise
  \<^verbatim>\<open>KeyError\<close>; its first occurrence in \<^verbatim>\<open>decide\<close> covers the later ones, so it is checked there.
\<close>

section \<open>Budgets\<close>

definition AI_POLICY_VERSION :: string where
  "AI_POLICY_VERSION = ''ai-router-v1''"

record cost_budget =
  cb_soft_request :: "int option"
  cb_hard_request :: "int option"
  cb_daily_soft :: "int option"
  cb_monthly_soft :: "int option"
  cb_daily_hard :: "int option"
  cb_monthly_hard :: "int option"

definition make_budget :: "cost_budget \<Rightarrow> app_error + cost_budget" where
  "make_budget b =
     (if list_ex (\<lambda>v. case v of None \<Rightarrow> False | Some x \<Rightarrow> x < 0)
           [cb_soft_request b, cb_hard_request b, cb_daily_soft b, cb_monthly_soft b, cb_daily_hard b, cb_monthly_hard b]
      then Inl PyValueError
      else case (cb_soft_request b, cb_hard_request b) of
             (Some s, Some h) \<Rightarrow> if s > h then Inl PyValueError else Inr b
           | _ \<Rightarrow> Inr b)"

definition no_budget :: cost_budget where
  "no_budget = \<lparr>cb_soft_request = None, cb_hard_request = None, cb_daily_soft = None, cb_monthly_soft = None,
     cb_daily_hard = None, cb_monthly_hard = None\<rparr>"

record cost_usage =
  cu_daily :: int
  cu_monthly :: int

definition make_usage :: "int \<Rightarrow> int \<Rightarrow> app_error + cost_usage" where
  "make_usage daily monthly =
     (if daily < 0 \<or> monthly < 0 then Inl PyValueError else Inr \<lparr>cu_daily = daily, cu_monthly = monthly\<rparr>)"

definition exceeds :: "int \<Rightarrow> int option \<Rightarrow> bool" where
  "exceeds cost limit = (case limit of None \<Rightarrow> False | Some l \<Rightarrow> cost > l)"

definition over_hard_budget :: "cost_budget \<Rightarrow> cost_usage \<Rightarrow> int \<Rightarrow> bool" where
  "over_hard_budget b u cost \<longleftrightarrow>
     exceeds cost (cb_hard_request b) \<or> exceeds (cu_daily u + cost) (cb_daily_hard b) \<or>
     exceeds (cu_monthly u + cost) (cb_monthly_hard b)"

definition over_soft_budget :: "cost_budget \<Rightarrow> cost_usage \<Rightarrow> int \<Rightarrow> bool" where
  "over_soft_budget b u cost \<longleftrightarrow>
     exceeds cost (cb_soft_request b) \<or> exceeds (cu_daily u + cost) (cb_daily_soft b) \<or>
     exceeds (cu_monthly u + cost) (cb_monthly_soft b)"

section \<open>Eligibility\<close>

definition sensitivity_allows :: "data_sensitivity \<Rightarrow> provider_definition \<Rightarrow> model_definition \<Rightarrow> bool" where
  "sensitivity_allows s p m =
     (if sensitivity_rank s > sensitivity_rank (pv_max_sensitivity p) then False
      else if sensitivity_rank s > sensitivity_rank (md_max_sensitivity m) then False
      else if s = PRIVATE \<and> \<not> pv_private_data_approved p then False
      else if s = SENSITIVE \<and> \<not> pv_sensitive_data_approved p then False
      else if s = CRITICAL_DATA then pv_local p \<and> pv_critical_data_approved p
      else True)"

fun general_model_rank :: "model_class \<Rightarrow> int option" where
  "general_model_rank MC_FAST = Some 1"
| "general_model_rank MC_STANDARD = Some 2"
| "general_model_rank MC_ADVANCED = Some 3"
| "general_model_rank _ = None"

primrec quality_floor :: "complexity \<Rightarrow> quality_tier" where
  "quality_floor CX_TRIVIAL = QT_FAST"
| "quality_floor CX_LOW = QT_FAST"
| "quality_floor CX_MEDIUM = QT_STANDARD"
| "quality_floor CX_HIGH = QT_ADVANCED"
| "quality_floor CX_VERY_HIGH = QT_ADVANCED"

definition target_class :: "routing_request \<Rightarrow> model_class \<times> routing_reason" where
  "target_class r =
     (if rt_embedding_required r then (MC_EMBEDDING, RR_EMBEDDING_REQUIRED)
      else if rt_realtime_required r then (MC_REALTIME, RR_REALTIME_REQUIRED)
      else if rt_local_only r then (MC_LOCAL, RR_LOCAL_ONLY_REQUIRED)
      else if rt_complexity r \<in> {CX_TRIVIAL, CX_LOW} then (MC_FAST, RR_LOW_COMPLEXITY_FAST)
      else if rt_complexity r = CX_MEDIUM then (MC_STANDARD, RR_DEFAULT_STANDARD)
      else (MC_ADVANCED, RR_HIGH_COMPLEXITY_ADVANCED))"

definition base_capability :: "routing_request \<Rightarrow> model_capability" where
  "base_capability r =
     (if rt_embedding_required r then EMBEDDINGS
      else if rt_realtime_required r then AUDIO_REALTIME else TEXT_GENERATION)"

definition meets_class :: "model_definition \<Rightarrow> model_class \<Rightarrow> routing_request \<Rightarrow> bool" where
  "meets_class m target r =
     (if target \<in> {MC_REALTIME, MC_EMBEDDING} then md_class m = target
      else if target = MC_LOCAL
      then md_class m = MC_LOCAL \<and> quality_int (md_quality_tier m) \<ge> quality_int (quality_floor (rt_complexity r))
      else
        (case general_model_rank (md_class m) of
           None \<Rightarrow> False
         | Some model_rank \<Rightarrow>
             model_rank \<ge> the (general_model_rank target) \<and>
             quality_int (md_quality_tier m) \<ge> quality_int (quality_floor (rt_complexity r))))"

definition provider_of :: "model_catalog \<Rightarrow> model_definition \<Rightarrow> provider_definition" where
  "provider_of c m = projr (catalog_provider c (md_provider_key m))"

definition model_cost :: "routing_request \<Rightarrow> model_definition \<Rightarrow> int" where
  "model_cost r m = cost_microunits (md_pricing m) (rt_estimated_input_tokens r) (rt_requested_output_tokens r) 0"

definition selection_key ::
  "model_catalog \<Rightarrow> routing_request \<Rightarrow> health_snapshot \<Rightarrow> model_definition \<Rightarrow>
     int \<times> int \<times> int \<times> int \<times> int \<times> int \<times> string \<times> string" where
  "selection_key c r health m =
     ((case general_model_rank (md_class m) of None \<Rightarrow> 4 | Some k \<Rightarrow> k),
      quality_int (md_quality_tier m),
      (if status_for health (md_provider_key m) = PH_AVAILABLE then 0 else 1),
      int (sensitivity_rank (pv_max_sensitivity (provider_of c m))),
      model_cost r m,
      md_fallback_priority m,
      md_provider_key m,
      md_model_id m)"

section \<open>The decision\<close>

definition routing_denied ::
  "uuid \<Rightarrow> timestamp \<Rightarrow> uuid \<Rightarrow> routing_request \<Rightarrow> routing_reason \<Rightarrow> routing_decision" where
  "routing_denied decision_id now user_id r reason =
     \<lparr>rd_id = decision_id, rd_user_id = user_id, rd_task_id = rt_task_id r, rd_outcome = RO_DENIED,
      rd_selected_model = None, rd_reason_codes = [reason], rd_policy_version = AI_POLICY_VERSION,
      rd_required_capabilities = filter (\<lambda>x. x \<in> effective_capabilities r) capability_order,
      rd_effective_sensitivity = effective_sensitivity r, rd_fallback_chain = [], rd_estimated_cost = None,
      rd_created_at = now\<rparr>"

definition same_tier :: "model_definition \<Rightarrow> model_definition \<Rightarrow> bool" where
  "same_tier a b \<longleftrightarrow> md_class a = md_class b \<and> md_quality_tier a = md_quality_tier b"

definition fallback_models ::
  "model_catalog \<Rightarrow> routing_request \<Rightarrow> health_snapshot \<Rightarrow> model_definition \<Rightarrow> model_definition list \<Rightarrow>
     model_definition list" where
  "fallback_models c r health selected ordered =
     sort_key (\<lambda>m. ((if same_tier m selected then 0 else 1 :: int), selection_key c r health m)) (tl ordered)"

definition is_quality_escalation :: "model_definition \<Rightarrow> model_class \<Rightarrow> bool" where
  "is_quality_escalation selected target =
     (case (general_model_rank target, general_model_rank (md_class selected)) of
        (Some t, Some s) \<Rightarrow> s > t
      | _ \<Rightarrow> False)"

text \<open>\<^verbatim>\<open>tuple(dict.fromkeys(xs))\<close> keeps the first of equal elements.\<close>

fun dict_fromkeys :: "'a list \<Rightarrow> 'a list" where
  "dict_fromkeys [] = []"
| "dict_fromkeys (x # xs) = x # dict_fromkeys (removeAll x xs)"

definition selection_reasons ::
  "cost_budget \<Rightarrow> cost_usage \<Rightarrow> routing_request \<Rightarrow> model_definition \<Rightarrow> model_definition list \<Rightarrow>
     model_definition list \<Rightarrow> routing_reason list" where
  "selection_reasons b u r selected ordered fallbacks =
     (let (target, base_reason) = target_class r
      in dict_fromkeys
        ([base_reason]
         @ (if effective_capabilities r - {base_capability r} \<noteq> {} then [RR_REQUIRED_CAPABILITY] else [])
         @ (if is_quality_escalation selected target then [RR_QUALITY_ESCALATION] else [])
         @ (if length (filter (\<lambda>m. same_tier m selected) ordered) > 1 then [RR_COST_NEUTRAL_OPTIMIZATION] else [])
         @ (if over_soft_budget b u (model_cost r selected) then [RR_BUDGET_WARNING] else [])
         @ (if list_ex (\<lambda>m. md_provider_key m \<noteq> md_provider_key selected \<and> same_tier m selected) fallbacks
            then [RR_EQUIVALENT_PROVIDER_FALLBACK] else [])))"

definition usable_model :: "model_catalog \<Rightarrow> health_snapshot \<Rightarrow> model_definition \<Rightarrow> bool" where
  "usable_model c health m \<longleftrightarrow>
     md_enabled m \<and> \<not> md_deprecated m \<and> pv_enabled (provider_of c m) \<and>
     status_for health (md_provider_key m) \<notin> {PH_UNAVAILABLE, PH_DISABLED}"

definition select_model ::
  "model_catalog \<Rightarrow> cost_budget \<Rightarrow> cost_usage \<Rightarrow> uuid \<Rightarrow> timestamp \<Rightarrow> uuid \<Rightarrow> routing_request \<Rightarrow> health_snapshot \<Rightarrow>
     model_definition list \<Rightarrow> routing_decision" where
  "select_model c b u decision_id now user_id r health candidates =
     (let ordered = sort_key (selection_key c r health) candidates;
          selected = hd ordered;
          cost = model_cost r selected
      in if over_hard_budget b u cost
         then routing_denied decision_id now user_id r RR_HARD_BUDGET_EXCEEDED
         else
           (let fallbacks = fallback_models c r health selected ordered
            in \<lparr>rd_id = decision_id, rd_user_id = user_id, rd_task_id = rt_task_id r, rd_outcome = RO_SELECTED,
                rd_selected_model = Some (reference_of selected),
                rd_reason_codes = selection_reasons b u r selected ordered fallbacks,
                rd_policy_version = AI_POLICY_VERSION,
                rd_required_capabilities = filter (\<lambda>x. x \<in> effective_capabilities r) capability_order,
                rd_effective_sensitivity = effective_sensitivity r,
                rd_fallback_chain = map reference_of fallbacks,
                rd_estimated_cost = Some cost, rd_created_at = now\<rparr>))"

definition decide ::
  "model_catalog \<Rightarrow> cost_budget \<Rightarrow> uuid \<Rightarrow> timestamp \<Rightarrow> uuid \<Rightarrow> routing_request \<Rightarrow> health_snapshot \<Rightarrow> cost_usage \<Rightarrow>
     app_error + routing_decision" where
  "decide c b decision_id now user_id r health u =
     (let target = fst (target_class r);
          deny = (\<lambda>reason. Inr (routing_denied decision_id now user_id r reason));
          missing = list_ex (\<lambda>m. md_enabled m \<and> \<not> md_deprecated m \<and> isl (catalog_provider c (md_provider_key m)))
                      (catalog_models c);
          available = filter (usable_model c health) (catalog_models c);
          class_candidates = filter (\<lambda>m. meets_class m target r) available;
          local_candidates = (if rt_local_only r then filter (\<lambda>m. pv_local (provider_of c m)) class_candidates
                              else class_candidates);
          capable = filter (\<lambda>m. effective_capabilities r \<subseteq> md_capabilities m) local_candidates;
          permitted = filter (\<lambda>m. sensitivity_allows (effective_sensitivity r) (provider_of c m) m) capable;
          output_eligible = filter (\<lambda>m. rt_requested_output_tokens r \<le> md_output_limit m) permitted;
          total_tokens = rt_estimated_input_tokens r + rt_requested_output_tokens r;
          context_eligible = filter (\<lambda>m. total_tokens \<le> md_context_limit m) output_eligible
      in if missing then Inl PyKeyError
         else if available = [] then deny RR_PROVIDER_UNAVAILABLE
         else if local_candidates = [] then deny (if rt_local_only r then RR_LOCAL_ONLY_REQUIRED else RR_NO_ELIGIBLE_MODEL)
         else if capable = [] then deny RR_REQUIRED_CAPABILITY
         else if permitted = [] then deny RR_SENSITIVITY_RESTRICTION
         else if output_eligible = [] then deny RR_OUTPUT_LIMIT
         else if context_eligible = [] then deny RR_CONTEXT_LIMIT
         else if rt_estimated_input_tokens r < 0 \<or> rt_requested_output_tokens r < 0 then Inl PyValueError
         else Inr (select_model c b u decision_id now user_id r health context_eligible))"

section \<open>What the cascade lets through\<close>

definition eligible_model :: "model_catalog \<Rightarrow> routing_request \<Rightarrow> health_snapshot \<Rightarrow> model_definition \<Rightarrow> bool" where
  "eligible_model c r health m \<longleftrightarrow>
     m \<in> set (cat_all_models c) \<and> md_routing_enabled m \<and> usable_model c health m \<and>
     meets_class m (fst (target_class r)) r \<and> (rt_local_only r \<longrightarrow> pv_local (provider_of c m)) \<and>
     effective_capabilities r \<subseteq> md_capabilities m \<and>
     sensitivity_allows (effective_sensitivity r) (provider_of c m) m \<and>
     rt_requested_output_tokens r \<le> md_output_limit m \<and>
     rt_estimated_input_tokens r + rt_requested_output_tokens r \<le> md_context_limit m"

definition decision_chain :: "routing_decision \<Rightarrow> model_reference list" where
  "decision_chain d = (case rd_selected_model d of None \<Rightarrow> [] | Some m \<Rightarrow> m # rd_fallback_chain d)"

definition candidates :: "model_catalog \<Rightarrow> routing_request \<Rightarrow> health_snapshot \<Rightarrow> model_definition list" where
  "candidates c r health = filter (eligible_model c r health) (cat_all_models c)"

section \<open>Correctness of the decision\<close>

lemma usable_not_missing:
  assumes "catalog_ok c"
  shows "\<not> list_ex (\<lambda>m. md_enabled m \<and> \<not> md_deprecated m \<and> isl (catalog_provider c (md_provider_key m))) (catalog_models c)"
  using assms by (auto simp: list_ex_iff catalog_models_def catalog_ok_def list_all_iff)

lemma provider_of_catalog:
  assumes "catalog_ok c" and "m \<in> set (cat_all_models c)"
  shows "provider_of c m \<in> set (cat_providers c) \<and> pv_key (provider_of c m) = md_provider_key m"
  using catalog_ok_provider [OF assms] by (auto simp: provider_of_def)

lemma decide_cases:
  assumes "decide c b did now uid r health u = Inr d"
  shows "candidates c r health = [] \<and> (\<exists>reason. d = routing_denied did now uid r reason) \<or>
    candidates c r health \<noteq> [] \<and> d = select_model c b u did now uid r health (candidates c r health)"
proof -
  define available where "available = filter (usable_model c health) (catalog_models c)"
  define cls where "cls = filter (\<lambda>m. meets_class m (fst (target_class r)) r) available"
  define loc where "loc = (if rt_local_only r then filter (\<lambda>m. pv_local (provider_of c m)) cls else cls)"
  define cap where "cap = filter (\<lambda>m. effective_capabilities r \<subseteq> md_capabilities m) loc"
  define perm where "perm = filter (\<lambda>m. sensitivity_allows (effective_sensitivity r) (provider_of c m) m) cap"
  define out where "out = filter (\<lambda>m. rt_requested_output_tokens r \<le> md_output_limit m) perm"
  define ctx where "ctx = filter (\<lambda>m. rt_estimated_input_tokens r + rt_requested_output_tokens r \<le> md_context_limit m) out"
  note defs = available_def cls_def loc_def cap_def perm_def out_def ctx_def
  have c: "candidates c r health = ctx"
    unfolding defs candidates_def catalog_models_def eligible_model_def
    by (auto simp: conj_ac intro!: filter_cong)
  have empties: "available = [] \<Longrightarrow> ctx = []" "loc = [] \<Longrightarrow> ctx = []" "cap = [] \<Longrightarrow> ctx = []" "perm = [] \<Longrightarrow> ctx = []" "out = [] \<Longrightarrow> ctx = []"
    unfolding ctx_def out_def perm_def cap_def loc_def cls_def by simp_all
  show ?thesis
    using assms unfolding decide_def Let_def defs [symmetric] c
    using empties by (auto split: if_splits)
qed

lemma decide_returns:
  assumes "catalog_ok c" and "0 \<le> rt_estimated_input_tokens r" and "0 \<le> rt_requested_output_tokens r"
  shows "\<exists>d. decide c b did now uid r health u = Inr d"
  using usable_not_missing [OF assms(1)] assms(2,3) unfolding decide_def Let_def by (simp split: if_split)

lemma sort_key_hd_least:
  assumes "x \<in> set xs"
  shows "f (hd (sort_key f xs)) \<le> f x"
proof -
  have s: "sorted (map f (sort_key f xs))" and x: "x \<in> set (sort_key f xs)" using assms by simp_all
  then show ?thesis by (cases "sort_key f xs") auto
qed

lemma sort_key_hd_tl: "xs \<noteq> [] \<Longrightarrow> hd (sort_key f xs) # tl (sort_key f xs) = sort_key f xs"
  by (cases "sort_key f xs") (auto dest: arg_cong [where f = set])

lemma select_model_chain:
  fixes c :: model_catalog and r :: routing_request and health :: health_snapshot
  assumes "ms \<noteq> []"
  defines "best \<equiv> hd (sort_key (selection_key c r health) ms)"
  shows "best \<in> set ms"
    and "m \<in> set ms \<Longrightarrow> selection_key c r health best \<le> selection_key c r health m"
    and "over_hard_budget b u (model_cost r best) \<Longrightarrow>
      select_model c b u did now uid r health ms = routing_denied did now uid r RR_HARD_BUDGET_EXCEEDED"
    and "\<not> over_hard_budget b u (model_cost r best) \<Longrightarrow>
      rd_outcome (select_model c b u did now uid r health ms) = RO_SELECTED \<and>
      rd_selected_model (select_model c b u did now uid r health ms) = Some (reference_of best) \<and>
      mset (decision_chain (select_model c b u did now uid r health ms)) = mset (map reference_of ms)"
proof -
  let ?o = "sort_key (selection_key c r health) ms"
  have o: "best # tl ?o = ?o" using sort_key_hd_tl [OF assms(1)] by (simp add: best_def)
  then have "best \<in> set ?o" by (metis list.set_intros(1))
  then show "best \<in> set ms" by simp
  show "selection_key c r health best \<le> selection_key c r health m" if "m \<in> set ms"
    unfolding best_def using sort_key_hd_least [OF that] .
  show "select_model c b u did now uid r health ms = routing_denied did now uid r RR_HARD_BUDGET_EXCEEDED"
    if "over_hard_budget b u (model_cost r best)"
    using that by (simp add: select_model_def Let_def best_def)
  assume nb: "\<not> over_hard_budget b u (model_cost r best)"
  have "mset (best # fallback_models c r health best ?o) = mset ms"
    using arg_cong [OF o, of mset] by (simp add: fallback_models_def)
  then have "mset (map reference_of (best # fallback_models c r health best ?o)) = mset (map reference_of ms)"
    by (simp only: mset_map)
  with nb show "rd_outcome (select_model c b u did now uid r health ms) = RO_SELECTED \<and>
      rd_selected_model (select_model c b u did now uid r health ms) = Some (reference_of best) \<and>
      mset (decision_chain (select_model c b u did now uid r health ms)) = mset (map reference_of ms)"
    by (simp add: select_model_def Let_def best_def decision_chain_def)
qed

text \<open>
  C26: The cascade of filters, sort and budget check selects exactly the eligible model with the
  least selection key and lists every other eligible model as a fallback; it denies exactly when
  no model is eligible or the best one exceeds a hard budget.
\<close>

theorem decide_selects_best:
  assumes "decide c b did now uid r health u = Inr d"
  shows "if candidates c r health = [] then rd_outcome d = RO_DENIED \<and> decision_chain d = []
    else \<exists>m \<in> set (candidates c r health).
        (\<forall>x \<in> set (candidates c r health). selection_key c r health m \<le> selection_key c r health x) \<and>
        (if over_hard_budget b u (model_cost r m)
         then rd_outcome d = RO_DENIED \<and> rd_reason_codes d = [RR_HARD_BUDGET_EXCEEDED]
         else rd_outcome d = RO_SELECTED \<and> rd_selected_model d = Some (reference_of m) \<and>
           mset (decision_chain d) = mset (map reference_of (candidates c r health)))"
proof (cases "candidates c r health = []")
  case True
  with decide_cases [OF assms] show ?thesis by (auto simp: routing_denied_def decision_chain_def)
next
  case False
  let ?m = "hd (sort_key (selection_key c r health) (candidates c r health))"
  from decide_cases [OF assms] False have d: "d = select_model c b u did now uid r health (candidates c r health)" by blast
  note s = select_model_chain [OF False, where c = c and r = r and health = health]
  have "if over_hard_budget b u (model_cost r ?m)
         then rd_outcome d = RO_DENIED \<and> rd_reason_codes d = [RR_HARD_BUDGET_EXCEEDED]
         else rd_outcome d = RO_SELECTED \<and> rd_selected_model d = Some (reference_of ?m) \<and>
           mset (decision_chain d) = mset (map reference_of (candidates c r health))"
    using s(3,4) [where b = b and u = u and did = did and now = now and uid = uid] d by (simp add: routing_denied_def)
  then have "\<exists>m \<in> set (candidates c r health).
      (\<forall>x \<in> set (candidates c r health). selection_key c r health m \<le> selection_key c r health x) \<and>
      (if over_hard_budget b u (model_cost r m)
       then rd_outcome d = RO_DENIED \<and> rd_reason_codes d = [RR_HARD_BUDGET_EXCEEDED]
       else rd_outcome d = RO_SELECTED \<and> rd_selected_model d = Some (reference_of m) \<and>
         mset (decision_chain d) = mset (map reference_of (candidates c r health)))"
    using s(1,2) by (intro bexI [of _ ?m]) blast+
  with False show ?thesis by (simp only: if_False)
qed

lemma decision_chain_eligible:
  assumes d: "decide c b did now uid r health u = Inr d" and ok: "catalog_ok c" and x: "x \<in> set (decision_chain d)"
  shows "\<exists>m. catalog_model c x = Inr m \<and> x = reference_of m \<and> eligible_model c r health m"
proof -
  have "set (decision_chain d) \<subseteq> reference_of ` set (candidates c r health)"
  proof (cases "candidates c r health = []")
    case True
    with decide_cases [OF d] show ?thesis by (auto simp: routing_denied_def decision_chain_def)
  next
    case False
    then have sel: "d = select_model c b u did now uid r health (candidates c r health)" using decide_cases [OF d] by blast
    note s = select_model_chain(3,4) [OF False, where c = c and r = r and health = health and b = b and u = u and did = did and now = now and uid = uid]
    show ?thesis
    proof (cases "over_hard_budget b u (model_cost r (hd (sort_key (selection_key c r health) (candidates c r health))))")
      case True
      with s(1) sel show ?thesis by (simp add: routing_denied_def decision_chain_def)
    next
      case False
      with s(2) sel have "mset (decision_chain d) = mset (map reference_of (candidates c r health))" by blast
      then show ?thesis by (metis set_mset_mset list.set_map order_refl)
    qed
  qed
  with x obtain m where m: "m \<in> set (candidates c r health)" "x = reference_of m" by blast
  then have "m \<in> set (cat_all_models c)" "eligible_model c r health m" by (simp_all add: candidates_def)
  with catalog_ok_model [OF ok] m show ?thesis by blast
qed

lemma eligible_critical:
  assumes "eligible_model c r health m" and "effective_sensitivity r = CRITICAL_DATA"
  shows "pv_local (provider_of c m) \<and> pv_critical_data_approved (provider_of c m)"
  using assms by (simp add: eligible_model_def sensitivity_allows_def split: if_splits)

lemma decide_id: "decide c b did now uid r health u = Inr d \<Longrightarrow> rd_id d = did \<and> rd_user_id d = uid"
  by (auto simp: decide_def Let_def select_model_def routing_denied_def split: if_splits)

end
