(* ===== verification/AI_Router.thy ===== *)
theory AI_Router
  imports AI_Policy
begin

text \<open>
  \<^verbatim>\<open>ai_router/service.py\<close>, with the tables of \<^verbatim>\<open>ai_router/models.py\<close> and the registry of
  \<^verbatim>\<open>ai_router/provider.py\<close>: a routing decision is stored before any provider is called, the chain
  of the decision is tried in order for a bounded number of attempts, and each attempt leaves a usage
  row. The provider adapters are network clients, a parameter: \<open>ar_generate\<close> answers the n-th call with a
  response or a classified failure, \<open>ar_latency\<close> is its measured duration in milliseconds.

  Its callers catch the two errors of \<^verbatim>\<open>invoke\<close> and commit what was written before the raise. So
  \<open>invoke\<close> returns the raised error or the execution together with the world; \<open>Inl\<close> outside is the
  uncaught exception that rolls everything back.
\<close>

section \<open>Tables\<close>

record routing_record =
  rc_id :: uuid
  rc_user_id :: uuid
  rc_task_id :: "uuid option"
  rc_outcome :: routing_outcome
  rc_provider_key :: "string option"
  rc_model_id :: "string option"
  rc_model_class :: "model_class option"
  rc_selected_quality :: "int option"
  rc_policy_version :: string
  rc_reason_codes :: "string list"
  rc_required_capabilities :: "string list"
  rc_effective_sensitivity :: data_sensitivity
  rc_estimated_input_tokens :: int
  rc_requested_output_tokens :: int
  rc_fallback_chain :: "json list"
  rc_estimated_cost :: "int option"
  rc_created_at :: timestamp

definition routing_row_ok :: "routing_record \<Rightarrow> bool" where
  "routing_row_ok r \<longleftrightarrow>
     (rc_outcome r = RO_SELECTED \<and> rc_provider_key r \<noteq> None \<and> rc_model_id r \<noteq> None \<and>
        rc_model_class r \<noteq> None \<and> rc_selected_quality r \<noteq> None \<or>
      rc_outcome r = RO_DENIED \<and> rc_provider_key r = None \<and> rc_model_id r = None \<and>
        rc_model_class r = None \<and> rc_selected_quality r = None) \<and>
     (case rc_selected_quality r of None \<Rightarrow> True | Some q \<Rightarrow> 1 \<le> q \<and> q \<le> 4) \<and>
     0 \<le> rc_estimated_input_tokens r \<and> 0 < rc_requested_output_tokens r \<and>
     (case rc_estimated_cost r of None \<Rightarrow> True | Some x \<Rightarrow> 0 \<le> x) \<and>
     length (json_text (JList (map JStr (rc_reason_codes r)))) \<le> 4096 \<and>
     length (json_text (JList (map JStr (rc_required_capabilities r)))) \<le> 4096 \<and>
     length (json_text (JList (rc_fallback_chain r))) \<le> 8192"

record usage_record =
  us_id :: uuid
  us_user_id :: uuid
  us_task_id :: "uuid option"
  us_routing_decision_id :: uuid
  us_provider_key :: string
  us_model_id :: string
  us_attempt_number :: int
  us_input_tokens :: int
  us_output_tokens :: int
  us_cached_tokens :: int
  us_latency_ms :: int
  us_outcome :: usage_outcome
  us_failure_category :: "failure_category option"
  us_estimated_cost :: int
  us_actual_cost :: "int option"
  us_timestamp :: timestamp

definition usage_row_ok :: "usage_record \<Rightarrow> bool" where
  "usage_row_ok r \<longleftrightarrow>
     1 \<le> us_attempt_number r \<and> 0 \<le> us_input_tokens r \<and> 0 \<le> us_output_tokens r \<and> 0 \<le> us_cached_tokens r \<and>
     0 \<le> us_latency_ms r \<and>
     (us_outcome r = UO_SUCCESS \<and> us_failure_category r = None \<or>
      us_outcome r = UO_FAILURE \<and> us_failure_category r \<noteq> None) \<and>
     0 \<le> us_estimated_cost r \<and> (case us_actual_cost r of None \<Rightarrow> True | Some x \<Rightarrow> 0 \<le> x)"

record ai_world = memory_world +
  w_routings :: "routing_record list"
  w_usages :: "usage_record list"

definition insert_usage :: "usage_record \<Rightarrow> usage_record list \<Rightarrow> usage_record list option" where
  "insert_usage r rows =
     (if usage_row_ok r \<and>
         row_find (\<lambda>x. us_routing_decision_id x = us_routing_decision_id r \<and>
                       us_attempt_number x = us_attempt_number r) rows = None
      then Some (row_add r rows) else None)"

section \<open>The service and its adapters\<close>

record ai_router =
  ar_catalog :: model_catalog
  ar_budget :: cost_budget
  ar_adapters :: "string list"
  ar_generate :: "nat \<Rightarrow> string \<Rightarrow> string \<Rightarrow> provider_request \<Rightarrow> failure_category + provider_response"
  ar_latency :: "nat \<Rightarrow> int"
  ar_max_attempts :: nat

definition make_retry_policy :: "int \<Rightarrow> app_error + nat" where
  "make_retry_policy max_attempts =
     (if \<not> (1 \<le> max_attempts \<and> max_attempts \<le> 10) then Inl PyValueError else Inr (nat max_attempts))"

definition decision_record :: "routing_decision \<Rightarrow> routing_request \<Rightarrow> routing_record" where
  "decision_record d r =
     (let selected = rd_selected_model d
      in \<lparr>rc_id = rd_id d, rc_user_id = rd_user_id d, rc_task_id = rd_task_id d, rc_outcome = rd_outcome d,
          rc_provider_key = map_option mf_provider_key selected, rc_model_id = map_option mf_model_id selected,
          rc_model_class = map_option mf_class selected,
          rc_selected_quality = map_option (\<lambda>m. quality_int (mf_quality_tier m)) selected,
          rc_policy_version = rd_policy_version d,
          rc_reason_codes = map routing_reason_value (rd_reason_codes d),
          rc_required_capabilities = map model_capability_value (rd_required_capabilities d),
          rc_effective_sensitivity = rd_effective_sensitivity d,
          rc_estimated_input_tokens = rt_estimated_input_tokens r,
          rc_requested_output_tokens = rt_requested_output_tokens r,
          rc_fallback_chain =
            map (\<lambda>m. JObj [(''provider_key'', JStr (mf_provider_key m)), (''model_id'', JStr (mf_model_id m)),
                           (''model_class'', JStr (model_class_value (mf_class m))),
                           (''quality_tier'', JInt (quality_int (mf_quality_tier m)))]) (rd_fallback_chain d),
          rc_estimated_cost = rd_estimated_cost d, rc_created_at = rd_created_at d\<rparr>)"

definition AUDITED_DENIALS :: "routing_reason list" where
  "AUDITED_DENIALS = [RR_SENSITIVITY_RESTRICTION, RR_HARD_BUDGET_EXCEEDED, RR_LOCAL_ONLY_REQUIRED]"

definition routing_audit :: "identity_context \<Rightarrow> routing_decision \<Rightarrow> audit_record" where
  "routing_audit i d =
     (blank_audit (ic_user_id i) (ic_device_id i) (ic_session_id i) AT_SYSTEM AE_AI_ROUTING_DENIED AR_DENIED)
       \<lparr>aq_resource_type := Some ''ai_routing_decision'', aq_resource_id := Some (show_nat (rd_id d)),
        aq_reason_codes := map routing_reason_value (rd_reason_codes d), aq_task_id := rd_task_id d,
        aq_metadata := [(''sensitivity'', JStr (sensitivity_value (rd_effective_sensitivity d)))]\<rparr>"

definition audit_denial ::
  "identity_context \<Rightarrow> routing_decision \<Rightarrow> 'z ai_world_scheme \<Rightarrow> app_error + 'z ai_world_scheme" where
  "audit_denial i d w =
     (if \<not> list_ex (\<lambda>x. x \<in> set AUDITED_DENIALS) (rd_reason_codes d) then Inr w
      else record_audit (routing_audit i d) w)"

definition route ::
  "ai_router \<Rightarrow> identity_context \<Rightarrow> routing_request \<Rightarrow> health_snapshot \<Rightarrow> cost_usage \<Rightarrow> 'z ai_world_scheme \<Rightarrow>
     app_error + routing_decision \<times> 'z ai_world_scheme" where
  "route R i r health u w =
     bindE (decide (ar_catalog R) (ar_budget R) (w_next w) (w_now w) (ic_user_id i) r health u) (\<lambda>d.
     let w1 = draw w; row = decision_record d r
     in if \<not> routing_row_ok row then Inl PyIntegrityError
        else
          (let w2 = w1\<lparr>w_routings := row_add row (w_routings w1)\<rparr>
           in if rd_outcome d = RO_DENIED then bindE (audit_denial i d w2) (\<lambda>w3. Inr (d, w3))
              else if rd_selected_model d = None then Inl AIRoutingDeniedError
              else Inr (d, w2)))"

section \<open>Attempts\<close>

definition call_provider ::
  "ai_router \<Rightarrow> nat \<Rightarrow> model_reference \<Rightarrow> provider_request \<Rightarrow> failure_category + provider_response" where
  "call_provider R n m q =
     (if mf_provider_key m \<notin> set (ar_adapters R) then Inl PROVIDER_UNAVAILABLE
      else case ar_generate R n (mf_provider_key m) (mf_model_id m) q of
             Inl c \<Rightarrow> Inl c
           | Inr resp \<Rightarrow>
               if ps_output_tokens resp > pq_output_token_budget q then Inl MALFORMED_RESPONSE else Inr resp)"

definition success_usage ::
  "identity_context \<Rightarrow> routing_decision \<Rightarrow> routing_request \<Rightarrow> model_reference \<Rightarrow> int \<Rightarrow> int \<Rightarrow> provider_response \<Rightarrow>
     int \<Rightarrow> 'z ai_world_scheme \<Rightarrow> usage_record" where
  "success_usage i d r m attempt latency resp estimated w =
     \<lparr>us_id = w_next w, us_user_id = ic_user_id i, us_task_id = rt_task_id r, us_routing_decision_id = rd_id d,
      us_provider_key = mf_provider_key m, us_model_id = mf_model_id m, us_attempt_number = attempt,
      us_input_tokens = ps_input_tokens resp, us_output_tokens = ps_output_tokens resp,
      us_cached_tokens = ps_cached_tokens resp, us_latency_ms = latency, us_outcome = UO_SUCCESS,
      us_failure_category = None, us_estimated_cost = estimated, us_actual_cost = ps_actual_cost resp,
      us_timestamp = w_now w\<rparr>"

definition failure_usage ::
  "identity_context \<Rightarrow> routing_decision \<Rightarrow> routing_request \<Rightarrow> model_reference \<Rightarrow> int \<Rightarrow> int \<Rightarrow> failure_category \<Rightarrow>
     int \<Rightarrow> 'z ai_world_scheme \<Rightarrow> usage_record" where
  "failure_usage i d r m attempt latency category estimated w =
     \<lparr>us_id = w_next w, us_user_id = ic_user_id i, us_task_id = rt_task_id r, us_routing_decision_id = rd_id d,
      us_provider_key = mf_provider_key m, us_model_id = mf_model_id m, us_attempt_number = attempt,
      us_input_tokens = 0, us_output_tokens = 0, us_cached_tokens = 0, us_latency_ms = latency,
      us_outcome = UO_FAILURE, us_failure_category = Some category, us_estimated_cost = estimated,
      us_actual_cost = None, us_timestamp = w_now w\<rparr>"

definition store_usage :: "usage_record \<Rightarrow> 'z ai_world_scheme \<Rightarrow> app_error + 'z ai_world_scheme" where
  "store_usage row w =
     (case insert_usage row (w_usages w) of
        None \<Rightarrow> Inl PyIntegrityError
      | Some rows \<Rightarrow> Inr ((draw w)\<lparr>w_usages := rows\<rparr>))"

definition record_success_usage ::
  "ai_router \<Rightarrow> identity_context \<Rightarrow> routing_decision \<Rightarrow> routing_request \<Rightarrow> model_reference \<Rightarrow> int \<Rightarrow> int \<Rightarrow>
     provider_response \<Rightarrow> 'z ai_world_scheme \<Rightarrow> app_error + 'z ai_world_scheme" where
  "record_success_usage R i d r m attempt latency resp w =
     bindE (catalog_model (ar_catalog R) m) (\<lambda>model.
     bindE (estimate_microunits (md_pricing model) (ps_input_tokens resp) (ps_output_tokens resp) 0) (\<lambda>estimated.
     store_usage (success_usage i d r m attempt latency resp estimated w) w))"

definition record_failure_usage ::
  "ai_router \<Rightarrow> identity_context \<Rightarrow> routing_decision \<Rightarrow> routing_request \<Rightarrow> model_reference \<Rightarrow> int \<Rightarrow> int \<Rightarrow>
     failure_category \<Rightarrow> 'z ai_world_scheme \<Rightarrow> app_error + 'z ai_world_scheme" where
  "record_failure_usage R i d r m attempt latency category w =
     bindE (catalog_model (ar_catalog R) m) (\<lambda>model.
     bindE (estimate_microunits (md_pricing model) (rt_estimated_input_tokens r) (rt_requested_output_tokens r) 0)
       (\<lambda>estimated. store_usage (failure_usage i d r m attempt latency category estimated w) w))"

fun attempt_chain ::
  "ai_router \<Rightarrow> identity_context \<Rightarrow> routing_decision \<Rightarrow> routing_request \<Rightarrow> provider_request \<Rightarrow>
     model_reference list \<Rightarrow> int \<Rightarrow> attempt_failure list \<Rightarrow> 'z ai_world_scheme \<Rightarrow>
     app_error + (app_error + ai_execution) \<times> 'z ai_world_scheme" where
  "attempt_chain R i d r q [] attempt failures w = Inr (Inl AIProviderExecutionError, w)"
| "attempt_chain R i d r q (m # ms) attempt failures w =
     (let latency = max 0 (ar_latency R (w_next w))
      in case call_provider R (w_next w) m q of
           Inl category \<Rightarrow>
             bindE (record_failure_usage R i d r m attempt latency category w) (\<lambda>w1.
             let f = \<lparr>af_model = m, af_category = category, af_retryable = is_retryable_failure category\<rparr>
             in if \<not> is_retryable_failure category then Inr (Inl AIProviderExecutionError, w1)
                else attempt_chain R i d r q ms (attempt + 1) (failures @ [f]) w1)
         | Inr resp \<Rightarrow>
             bindE (record_success_usage R i d r m attempt latency resp w) (\<lambda>w1.
             Inr (Inr \<lparr>ax_routing_decision = d, ax_final_model = m, ax_response = resp, ax_failures = failures\<rparr>, w1)))"

definition invoke ::
  "ai_router \<Rightarrow> identity_context \<Rightarrow> routing_request \<Rightarrow> provider_request \<Rightarrow> health_snapshot \<Rightarrow> cost_usage \<Rightarrow>
     'z ai_world_scheme \<Rightarrow> app_error + (app_error + ai_execution) \<times> 'z ai_world_scheme" where
  "invoke R i r q health u w =
     (if pq_output_token_budget q > rt_requested_output_tokens r \<or>
         pq_structured_output_required q \<and> \<not> rt_structured_output_required r \<or>
         pq_tool_calling_required q \<and> \<not> rt_tool_calling_required r
      then Inr (Inl AIRoutingDeniedError, w)
      else
        bindE (route R i r health u w) (\<lambda>(d, w1).
        if rd_outcome d = RO_DENIED then Inr (Inl AIRoutingDeniedError, w1)
        else case rd_selected_model d of
               None \<Rightarrow> Inr (Inl AIRoutingDeniedError, w1)
             | Some selected \<Rightarrow>
                 attempt_chain R i d r q (take (ar_max_attempts R) (selected # rd_fallback_chain d)) 1 [] w1))"

definition list_usage :: "identity_context \<Rightarrow> int \<Rightarrow> int \<Rightarrow> 'z ai_world_scheme \<Rightarrow> usage_record list" where
  "list_usage i limit offset w =
     (let bounded_limit = min (max limit 1) 100; bounded_offset = max offset 0
      in take (nat bounded_limit) (drop (nat bounded_offset)
           (rev (sort_key (\<lambda>r. (us_timestamp r, us_id r)) (filter (\<lambda>r. us_user_id r = ic_user_id i) (w_usages w))))))"

section \<open>Attempts are bounded and accounted for\<close>

definition attempt_target :: "usage_record \<Rightarrow> string \<times> string" where
  "attempt_target u = (us_provider_key u, us_model_id u)"

definition reference_target :: "model_reference \<Rightarrow> string \<times> string" where
  "reference_target m = (mf_provider_key m, mf_model_id m)"

definition retryable_attempt :: "usage_record \<Rightarrow> bool" where
  "retryable_attempt u \<longleftrightarrow> (case us_failure_category u of None \<Rightarrow> False | Some c \<Rightarrow> is_retryable_failure c)"

text \<open>What the rows of one chain of attempts look like.\<close>

definition attempts_of ::
  "identity_context \<Rightarrow> routing_decision \<Rightarrow> model_reference list \<Rightarrow> int \<Rightarrow> app_error + ai_execution \<Rightarrow> usage_record list \<Rightarrow> bool" where
  "attempts_of i d ms attempt res us \<longleftrightarrow>
     map attempt_target us = take (length us) (map reference_target ms) \<and>
     map us_attempt_number us = map (\<lambda>k. attempt + int k) [0..<length us] \<and>
     list_all (\<lambda>u. us_routing_decision_id u = rd_id d \<and> us_user_id u = ic_user_id i) us \<and>
     list_all retryable_attempt (butlast us) \<and>
     (case res of
        Inl e \<Rightarrow> e = AIProviderExecutionError \<and> list_all (\<lambda>u. us_outcome u = UO_FAILURE) us
      | Inr x \<Rightarrow> us \<noteq> [] \<and> us_outcome (last us) = UO_SUCCESS \<and> ax_routing_decision x = d \<and>
          attempt_target (last us) = reference_target (ax_final_model x) \<and>
          length (ax_failures x) \<ge> length us - 1)"

text \<open>
  The effect of \<open>invoke\<close> on the world: no table but the audit log, the routing decisions and the usage
  rows is written, and those only grow.
\<close>

definition ai_grows :: "'z ai_world_scheme \<Rightarrow> 'z ai_world_scheme \<Rightarrow> bool" where
  "ai_grows w w' \<longleftrightarrow>
     (\<exists>n au rs us. w_next w \<le> n \<and>
        w' = w\<lparr>w_next := n, w_audit := w_audit w @ au, w_routings := w_routings w @ rs, w_usages := w_usages w @ us\<rparr>)"

lemma store_usage_Inr:
  "store_usage row w = Inr w' \<Longrightarrow> w' = w\<lparr>w_next := Suc (w_next w), w_usages := w_usages w @ [row]\<rparr>"
  by (auto simp: store_usage_def insert_usage_def draw_def row_add_def split: option.splits if_splits)

lemma record_success_usage_Inr:
  assumes "record_success_usage R i d r m attempt latency resp w = Inr w'"
  shows "\<exists>u. w' = w\<lparr>w_next := Suc (w_next w), w_usages := w_usages w @ [u]\<rparr> \<and> attempt_target u = reference_target m \<and>
    us_attempt_number u = attempt \<and> us_routing_decision_id u = rd_id d \<and> us_user_id u = ic_user_id i \<and>
    us_outcome u = UO_SUCCESS \<and> us_failure_category u = None"
proof -
  from assms obtain e where "store_usage (success_usage i d r m attempt latency resp e w) w = Inr w'"
    unfolding record_success_usage_def bindE_eq_Inr by blast
  from store_usage_Inr [OF this] show ?thesis
    by (intro exI [of _ "success_usage i d r m attempt latency resp e w"]) (simp add: success_usage_def attempt_target_def reference_target_def)
qed

lemma record_failure_usage_Inr:
  assumes "record_failure_usage R i d r m attempt latency category w = Inr w'"
  shows "\<exists>u. w' = w\<lparr>w_next := Suc (w_next w), w_usages := w_usages w @ [u]\<rparr> \<and> attempt_target u = reference_target m \<and>
    us_attempt_number u = attempt \<and> us_routing_decision_id u = rd_id d \<and> us_user_id u = ic_user_id i \<and>
    us_outcome u = UO_FAILURE \<and> us_failure_category u = Some category"
proof -
  from assms obtain e where "store_usage (failure_usage i d r m attempt latency category e w) w = Inr w'"
    unfolding record_failure_usage_def bindE_eq_Inr by blast
  from store_usage_Inr [OF this] show ?thesis
    by (intro exI [of _ "failure_usage i d r m attempt latency category e w"]) (simp add: failure_usage_def attempt_target_def reference_target_def)
qed

lemma attempts_of_Cons:
  assumes "attempts_of i d ms (attempt + 1) res us" and "attempt_target u = reference_target m"
    and "us_attempt_number u = attempt" and "us_routing_decision_id u = rd_id d" and "us_user_id u = ic_user_id i"
    and "us_outcome u = UO_FAILURE" and "retryable_attempt u"
    and "\<And>x. res = Inr x \<Longrightarrow> length us \<le> length (ax_failures x)"
  shows "attempts_of i d (m # ms) attempt res (u # us)"
proof -
  have "map (\<lambda>k. attempt + int k) [0..<Suc (length us)] = attempt # map (\<lambda>k. attempt + 1 + int k) [0..<length us]"
    by (simp add: upt_conv_Cons map_Suc_upt [symmetric] del: upt_Suc)
  with assms show ?thesis unfolding attempts_of_def by (auto split: sum.splits)
qed

lemma attempt_chain_spec:
  assumes "attempt_chain R i d r q ms attempt failures w = Inr (res, w')"
  shows "\<exists>us. w' = w\<lparr>w_next := w_next w + length us, w_usages := w_usages w @ us\<rparr> \<and> attempts_of i d ms attempt res us \<and>
    (\<forall>x. res = Inr x \<longrightarrow> Suc (length (ax_failures x)) = length failures + length us)"
  using assms
proof (induction ms arbitrary: attempt failures w)
  case Nil
  then show ?case by (auto simp: attempts_of_def intro!: exI [of _ "[]"])
next
  case (Cons m ms)
  let ?lat = "max 0 (ar_latency R (w_next w))"
  show ?case
  proof (cases "call_provider R (w_next w) m q")
    case (Inr resp)
    with Cons.prems obtain x where rec: "record_success_usage R i d r m attempt ?lat resp w = Inr w'"
      and x: "x = \<lparr>ax_routing_decision = d, ax_final_model = m, ax_response = resp, ax_failures = failures\<rparr>" "res = Inr x"
      by (auto simp: bindE_eq_Inr Let_def)
    from record_success_usage_Inr [OF rec] obtain u where
      "w' = w\<lparr>w_next := Suc (w_next w), w_usages := w_usages w @ [u]\<rparr>" "attempt_target u = reference_target m"
      "us_attempt_number u = attempt" "us_routing_decision_id u = rd_id d" "us_user_id u = ic_user_id i"
      "us_outcome u = UO_SUCCESS" by blast
    then show ?thesis using x by (intro exI [of _ "[u]"]) (simp add: attempts_of_def)
  next
    case (Inl category)
    let ?f = "\<lparr>af_model = m, af_category = category, af_retryable = is_retryable_failure category\<rparr>"
    from Cons.prems Inl obtain w1 where rec: "record_failure_usage R i d r m attempt ?lat category w = Inr w1"
      and k: "(if \<not> is_retryable_failure category then Inr (Inl AIProviderExecutionError, w1)
        else attempt_chain R i d r q ms (attempt + 1) (failures @ [?f]) w1) = Inr (res, w')"
      by (auto simp: bindE_eq_Inr Let_def)
    from record_failure_usage_Inr [OF rec] obtain u where
      u: "w1 = w\<lparr>w_next := Suc (w_next w), w_usages := w_usages w @ [u]\<rparr>" "attempt_target u = reference_target m"
      "us_attempt_number u = attempt" "us_routing_decision_id u = rd_id d" "us_user_id u = ic_user_id i"
      "us_outcome u = UO_FAILURE" "us_failure_category u = Some category" by blast
    show ?thesis
    proof (cases "is_retryable_failure category")
      case False
      with k u show ?thesis by (intro exI [of _ "[u]"]) (auto simp: attempts_of_def)
    next
      case True
      with k have "attempt_chain R i d r q ms (attempt + 1) (failures @ [?f]) w1 = Inr (res, w')" by simp
      from Cons.IH [OF this] obtain us where us: "w' = w1\<lparr>w_next := w_next w1 + length us, w_usages := w_usages w1 @ us\<rparr>"
        "attempts_of i d ms (attempt + 1) res us"
        "\<forall>x. res = Inr x \<longrightarrow> Suc (length (ax_failures x)) = length (failures @ [?f]) + length us" by blast
      have "attempts_of i d (m # ms) attempt res (u # us)"
        by (rule attempts_of_Cons [OF us(2) u(2-6)]) (use True u(7) us(3) in \<open>auto simp: retryable_attempt_def\<close>)
      with us u(1) show ?thesis by (intro exI [of _ "u # us"]) auto
    qed
  qed
qed

lemma audit_denial_Inr:
  assumes "audit_denial i d w = Inr w'"
  shows "w' = w \<or> (\<exists>e. w' = w\<lparr>w_next := Suc (w_next w), w_audit := w_audit w @ [e]\<rparr>)"
  using assms by (auto simp: audit_denial_def record_audit_Inr audit_append_def draw_def row_add_def split: if_splits)

lemma route_parts:
  assumes "route R i r health u w = Inr (d, w')"
  shows "decide (ar_catalog R) (ar_budget R) (w_next w) (w_now w) (ic_user_id i) r health u = Inr d \<and>
    routing_row_ok (decision_record d r) \<and> w_next w < w_next w' \<and>
    (\<exists>au n. w' = w\<lparr>w_next := n, w_audit := w_audit w @ au, w_routings := w_routings w @ [decision_record d r]\<rparr>)"
proof -
  let ?row = "decision_record d r"
  let ?w2 = "(draw w)\<lparr>w_routings := row_add ?row (w_routings (draw w))\<rparr>"
  from assms have d: "decide (ar_catalog R) (ar_budget R) (w_next w) (w_now w) (ic_user_id i) r health u = Inr d"
    and ok: "routing_row_ok ?row"
    and k: "(if rd_outcome d = RO_DENIED then bindE (audit_denial i d ?w2) (\<lambda>w3. Inr (d, w3))
       else if rd_selected_model d = None then Inl AIRoutingDeniedError else Inr (d, ?w2)) = Inr (d, w')"
    by (auto simp: route_def Let_def bindE_eq_Inr split: if_splits)
  have w2: "?w2 = w\<lparr>w_next := Suc (w_next w), w_audit := w_audit w @ [], w_routings := w_routings w @ [?row]\<rparr>"
    by (simp add: draw_def row_add_def)
  from k have "w' = ?w2 \<or> audit_denial i d ?w2 = Inr w'" by (auto simp: bindE_eq_Inr split: if_splits)
  then consider "w' = ?w2" | e where "w' = ?w2\<lparr>w_next := Suc (w_next ?w2), w_audit := w_audit ?w2 @ [e]\<rparr>"
    using audit_denial_Inr by blast
  then have "w_next w < w_next w' \<and>
    (\<exists>au n. w' = w\<lparr>w_next := n, w_audit := w_audit w @ au, w_routings := w_routings w @ [decision_record d r]\<rparr>)"
  proof cases
    case 1
    then show ?thesis unfolding w2 by (intro conjI exI [of _ "[]"] exI [of _ "Suc (w_next w)"]) simp_all
  next
    case 2
    then show ?thesis unfolding w2 by (intro conjI exI [of _ "[e]"] exI [of _ "Suc (Suc (w_next w))"]) simp_all
  qed
  with d ok show ?thesis by blast
qed

lemma invoke_parts:
  assumes "invoke R i r q health u w = Inr (res, w')"
  shows "ai_grows w w' \<and>
    (res = Inl AIRoutingDeniedError \<and> w_usages w' = w_usages w \<or>
     (\<exists>d us. decide (ar_catalog R) (ar_budget R) (w_next w) (w_now w) (ic_user_id i) r health u = Inr d \<and>
        decision_record d r \<in> set (w_routings w') \<and> rd_outcome d \<noteq> RO_DENIED \<and> w_usages w' = w_usages w @ us \<and>
        attempts_of i d (take (ar_max_attempts R) (decision_chain d)) 1 res us))"
proof (cases "pq_output_token_budget q > rt_requested_output_tokens r \<or>
         pq_structured_output_required q \<and> \<not> rt_structured_output_required r \<or>
         pq_tool_calling_required q \<and> \<not> rt_tool_calling_required r")
  case True
  with assms have "res = Inl AIRoutingDeniedError" "w' = w" by (auto simp: invoke_def)
  then show ?thesis by (auto simp: ai_grows_def intro!: exI [of _ "w_next w"] exI [of _ "[]"])
next
  case False
  with assms obtain d w1 where rt: "route R i r health u w = Inr (d, w1)"
    and k: "(if rd_outcome d = RO_DENIED then Inr (Inl AIRoutingDeniedError, w1)
        else case rd_selected_model d of
               None \<Rightarrow> Inr (Inl AIRoutingDeniedError, w1)
             | Some selected \<Rightarrow>
                 attempt_chain R i d r q (take (ar_max_attempts R) (selected # rd_fallback_chain d)) 1 [] w1) = Inr (res, w')"
    unfolding invoke_def if_not_P [OF False] bindE_eq_Inr by auto
  from route_parts [OF rt] obtain au n where
    d: "decide (ar_catalog R) (ar_budget R) (w_next w) (w_now w) (ic_user_id i) r health u = Inr d"
    and lt: "w_next w < w_next w1"
    and w1: "w1 = w\<lparr>w_next := n, w_audit := w_audit w @ au, w_routings := w_routings w @ [decision_record d r]\<rparr>" by blast
  have g: "ai_grows w (w1\<lparr>w_next := w_next w1 + k, w_usages := w_usages w1 @ us\<rparr>)" for us k
    unfolding ai_grows_def using lt w1
    by (intro exI [of _ "w_next w1 + k"] exI [of _ au] exI [of _ "[decision_record d r]"] exI [of _ us]) simp
  show ?thesis
  proof (cases "rd_outcome d = RO_DENIED \<or> rd_selected_model d = None")
    case True
    with k have r: "res = Inl AIRoutingDeniedError" "w' = w1" by (auto split: if_splits)
    have "ai_grows w w1" unfolding ai_grows_def using lt w1
      by (intro exI [of _ n] exI [of _ au] exI [of _ "[decision_record d r]"] exI [of _ "[]"]) simp
    with r w1 show ?thesis by simp
  next
    case False
    then obtain s where s: "rd_selected_model d = Some s" by blast
    with False k have "attempt_chain R i d r q (take (ar_max_attempts R) (decision_chain d)) 1 [] w1 = Inr (res, w')"
      by (simp add: decision_chain_def)
    from attempt_chain_spec [OF this] obtain us where
      w': "w' = w1\<lparr>w_next := w_next w1 + length us, w_usages := w_usages w1 @ us\<rparr>"
      and us: "attempts_of i d (take (ar_max_attempts R) (decision_chain d)) 1 res us" by blast
    have "decision_record d r \<in> set (w_routings w')" "w_usages w' = w_usages w @ us" using w' w1 by simp_all
    with d False us g [of us "length us"] w' show ?thesis by metis
  qed
qed

lemma attempts_of_targets:
  assumes "attempts_of i d ms n res us" and "x \<in> set us"
  shows "\<exists>m \<in> set ms. attempt_target x = reference_target m"
proof -
  have "map attempt_target us = take (length us) (map reference_target ms)" using assms(1) by (simp add: attempts_of_def)
  moreover have "attempt_target x \<in> set (map attempt_target us)" using assms(2) by simp
  ultimately have "attempt_target x \<in> set (take (length us) (map reference_target ms))" by simp
  then show ?thesis by (auto dest!: in_set_takeD)
qed

lemma attempts_of_length:
  assumes "attempts_of i d ms n res us"
  shows "length us \<le> length ms"
proof -
  have "map attempt_target us = take (length us) (map reference_target ms)" using assms by (simp add: attempts_of_def)
  from arg_cong [OF this, of length] show ?thesis by simp
qed

text \<open>Every provider that was contacted is one the policy found eligible for this request.\<close>

lemma invoke_targets_eligible:
  assumes "invoke R i r q health u w = Inr (res, w')" and ok: "catalog_ok (ar_catalog R)"
    and "x \<in> set (w_usages w') - set (w_usages w)"
  shows "\<exists>m \<in> set (cat_all_models (ar_catalog R)). attempt_target x = (md_provider_key m, md_model_id m) \<and>
    eligible_model (ar_catalog R) r health m"
proof -
  from invoke_parts [OF assms(1)] assms(3) obtain d us where
    d: "decide (ar_catalog R) (ar_budget R) (w_next w) (w_now w) (ic_user_id i) r health u = Inr d"
    and us: "attempts_of i d (take (ar_max_attempts R) (decision_chain d)) 1 res us" "x \<in> set us" by auto
  from attempts_of_targets [OF us] obtain ref where "ref \<in> set (decision_chain d)" "attempt_target x = reference_target ref"
    by (auto dest: in_set_takeD)
  with decision_chain_eligible [OF d ok] obtain m where "ref = reference_of m" "eligible_model (ar_catalog R) r health m" by blast
  with \<open>attempt_target x = reference_target ref\<close> show ?thesis
    by (intro bexI [of _ m]) (simp_all add: reference_target_def reference_of_def eligible_model_def)
qed

text \<open>
  C28: One invoke contacts at most max_attempts providers, numbers the attempts from 1 without
  gap, goes on only after a retryable failure, and ends with the success it returns.
\<close>

theorem attempts_are_bounded:
  assumes "invoke R i r q health u w = Inr (res, w')"
  shows "\<exists>us. w_usages w' = w_usages w @ us \<and> length us \<le> ar_max_attempts R \<and>
    map us_attempt_number us = map (\<lambda>k. 1 + int k) [0..<length us] \<and> list_all retryable_attempt (butlast us) \<and>
    (\<forall>x. res = Inr x \<longrightarrow> us \<noteq> [] \<and> us_outcome (last us) = UO_SUCCESS \<and>
       attempt_target (last us) = reference_target (ax_final_model x))"
proof -
  from invoke_parts [OF assms] consider "res = Inl AIRoutingDeniedError" "w_usages w' = w_usages w"
    | d us where "w_usages w' = w_usages w @ us" "attempts_of i d (take (ar_max_attempts R) (decision_chain d)) 1 res us" by blast
  then show ?thesis
  proof cases
    case (2 d us)
    from attempts_of_length [OF 2(2)] have "length us \<le> ar_max_attempts R" by simp
    with 2 show ?thesis by (auto simp: attempts_of_def split: sum.splits)
  qed auto
qed

text \<open>
  C27: When the request or any context item is CRITICAL, every provider that invoke contacts is a
  local provider approved for critical data.
\<close>

theorem critical_data_stays_local:
  assumes "invoke R i r q health u w = Inr (res, w')" and "catalog_ok (ar_catalog R)"
    and "CRITICAL_DATA \<in> insert (rt_sensitivity r) (set (rt_context_sensitivities r))"
    and "x \<in> set (w_usages w') - set (w_usages w)"
  shows "\<exists>p \<in> set (cat_providers (ar_catalog R)). pv_key p = us_provider_key x \<and> pv_local p \<and> pv_critical_data_approved p"
proof -
  have "s \<le> CRITICAL_DATA" for s by (cases s) (simp_all add: less_eq_data_sensitivity_def)
  then have "effective_sensitivity r = CRITICAL_DATA"
    unfolding effective_sensitivity_Max using assms(3) by (intro Max_eqI) auto
  moreover from invoke_targets_eligible [OF assms(1,2,4)] obtain m where m: "m \<in> set (cat_all_models (ar_catalog R))"
    "attempt_target x = (md_provider_key m, md_model_id m)" "eligible_model (ar_catalog R) r health m" by blast
  ultimately have "pv_local (provider_of (ar_catalog R) m)" "pv_critical_data_approved (provider_of (ar_catalog R) m)"
    using eligible_critical by blast+
  with provider_of_catalog [OF assms(2) m(1)] m(2) show ?thesis by (auto simp: attempt_target_def)
qed

end
