(* ===== verification/AI_Correct.thy ===== *)
theory AI_Correct
  imports AI_Router
begin

text \<open>
  What the AI Router guarantees beyond the choice of models: an answer is reached whenever a provider of
  the tried prefix answers after retryable failures, the staging catalog never sends sensitive data, and
  the samples on which the properties of the router are evaluated.
\<close>

section \<open>Fallback reaches a provider that works\<close>

definition priced :: "model_catalog \<Rightarrow> model_reference \<Rightarrow> bool" where
  "priced c m \<longleftrightarrow> (case catalog_model c m of Inl e \<Rightarrow> False | Inr md \<Rightarrow> valid_pricing (md_pricing md))"

definition sample_ai_request :: routing_request where
  "sample_ai_request = \<lparr>rt_task_type = ''chat'', rt_task_id = None, rt_complexity = CX_LOW,
     rt_required_capabilities = {TEXT_GENERATION}, rt_sensitivity = PRIVATE, rt_context_sensitivities = [],
     rt_estimated_input_tokens = 100, rt_requested_output_tokens = 50, rt_realtime_required = False,
     rt_embedding_required = False, rt_structured_output_required = False, rt_tool_calling_required = False,
     rt_local_only = False\<rparr>"

definition sample_prompt :: provider_request where
  "sample_prompt = \<lparr>pq_input_text = ''hello'', pq_output_token_budget = 50, pq_structured_output_required = False,
     pq_tool_calling_required = False\<rparr>"

definition sample_answer :: "string \<Rightarrow> provider_response" where
  "sample_answer text = \<lparr>ps_output_text = text, ps_input_tokens = 100, ps_output_tokens = 20, ps_cached_tokens = 0,
     ps_actual_cost = None\<rparr>"

text \<open>The staging catalog; the first call of the router times out, later calls answer.\<close>

definition sample_router :: "string \<Rightarrow> ai_router" where
  "sample_router text = \<lparr>ar_catalog = projr (build_staging_catalog True), ar_budget = no_budget, ar_adapters = [''openai''],
     ar_generate = (\<lambda>n provider model q. if model = ''gpt-5.6-luna'' then Inl TIMEOUT else Inr (sample_answer text)),
     ar_latency = (\<lambda>n. 3), ar_max_attempts = 3\<rparr>"

text \<open>A catalog with one local provider approved for critical data.\<close>

definition local_router :: ai_router where
  "local_router = (sample_router ''ok'')\<lparr>ar_catalog := \<lparr>
     cat_providers = [(default_provider ''home'' CRITICAL_DATA)\<lparr>pv_enabled := True, pv_local := True,
       pv_private_data_approved := True, pv_sensitive_data_approved := True, pv_critical_data_approved := True\<rparr>],
     cat_all_models = [(default_model ''home'' ''small'' MC_FAST {TEXT_GENERATION} (4096, 1024) CRITICAL_DATA QT_FAST
       LT_LOW RESERVED_PRICING)\<lparr>md_enabled := True\<rparr>]\<rparr>, ar_adapters := [''home'']\<rparr>"

definition sample_ai_world :: ai_world where
  "sample_ai_world = memory_world.extend (sample_memories memory_grants MC_OPERATIONAL) (ai_world.fields [] [])"

definition no_usage :: cost_usage where
  "no_usage = \<lparr>cu_daily = 0, cu_monthly = 0\<rparr>"

lemma priced_estimate:
  assumes "priced c m" and "0 \<le> a" and "0 \<le> b"
  shows "\<exists>md e. catalog_model c m = Inr md \<and> estimate_microunits (md_pricing md) a b 0 = Inr e \<and> 0 \<le> e"
  using assms cost_nonneg [of _ a b] by (auto simp: priced_def estimate_microunits_def split: sum.splits)

lemma usage_stored:
  assumes "usage_row_ok row" and "\<forall>x \<in> set (w_usages w). us_routing_decision_id x = us_routing_decision_id row \<longrightarrow>
    us_attempt_number x < us_attempt_number row"
  shows "store_usage row w = Inr (w\<lparr>w_next := Suc (w_next w), w_usages := w_usages w @ [row]\<rparr>)"
proof -
  have "row_find (\<lambda>x. us_routing_decision_id x = us_routing_decision_id row \<and>
                       us_attempt_number x = us_attempt_number row) (w_usages w) = None"
    using assms(2) by (fastforce simp: row_find_None)
  with assms(1) show ?thesis by (simp add: store_usage_def insert_usage_def draw_def row_add_def)
qed

lemma attempt_chain_reaches:
  assumes "k < length ms" and "call_provider R (w_next w + k) (ms ! k) q = Inr resp"
    and "\<forall>j<k. \<exists>c. call_provider R (w_next w + j) (ms ! j) q = Inl c \<and> is_retryable_failure c"
    and "list_all (priced (ar_catalog R)) ms" and "0 \<le> rt_estimated_input_tokens r" and "0 \<le> rt_requested_output_tokens r"
    and "valid_provider_response resp" and "1 \<le> attempt"
    and "\<forall>x \<in> set (w_usages w). us_routing_decision_id x = rd_id d \<longrightarrow> us_attempt_number x < attempt"
  shows "\<exists>x w'. attempt_chain R i d r q ms attempt failures w = Inr (Inr x, w') \<and> ax_response x = resp \<and>
    ax_final_model x = ms ! k"
  using assms
proof (induction ms arbitrary: k w attempt failures)
  case (Cons m ms)
  let ?lat = "max 0 (ar_latency R (w_next w))"
  show ?case
  proof (cases k)
    case 0
    from Cons.prems priced_estimate [of "ar_catalog R" m "ps_input_tokens resp" "ps_output_tokens resp"]
    obtain md e where e: "catalog_model (ar_catalog R) m = Inr md" "0 \<le> e"
      "estimate_microunits (md_pricing md) (ps_input_tokens resp) (ps_output_tokens resp) 0 = Inr e"
      by (auto simp: valid_provider_response_def)
    have "usage_row_ok (success_usage i d r m attempt ?lat resp e w)"
      using Cons.prems(7,8) e(2) by (auto simp: usage_row_ok_def success_usage_def valid_provider_response_def)
    from usage_stored [OF this, of w] Cons.prems(9) e have "\<exists>w1. record_success_usage R i d r m attempt ?lat resp w = Inr w1"
      by (simp add: record_success_usage_def) (simp add: success_usage_def)
    with Cons.prems(2) 0 show ?thesis by auto
  next
    case (Suc j)
    with Cons.prems(3) obtain c where c: "call_provider R (w_next w) m q = Inl c" "is_retryable_failure c"
      by (metis add_0_right nth_Cons_0 zero_less_Suc)
    from Cons.prems priced_estimate [of "ar_catalog R" m "rt_estimated_input_tokens r" "rt_requested_output_tokens r"]
    obtain md e where e: "catalog_model (ar_catalog R) m = Inr md" "0 \<le> e"
      "estimate_microunits (md_pricing md) (rt_estimated_input_tokens r) (rt_requested_output_tokens r) 0 = Inr e" by auto
    let ?row = "failure_usage i d r m attempt ?lat c e w"
    let ?w1 = "w\<lparr>w_next := Suc (w_next w), w_usages := w_usages w @ [?row]\<rparr>"
    have "usage_row_ok ?row" using Cons.prems(8) e(2) by (simp add: usage_row_ok_def failure_usage_def)
    from usage_stored [OF this, of w] Cons.prems(9) have "store_usage ?row w = Inr ?w1" by (simp add: failure_usage_def)
    with e have rec: "record_failure_usage R i d r m attempt ?lat c w = Inr ?w1" by (simp add: record_failure_usage_def)
    let ?f = "failures @ [\<lparr>af_model = m, af_category = c, af_retryable = is_retryable_failure c\<rparr>]"
    have "\<exists>x w'. attempt_chain R i d r q ms (attempt + 1) ?f ?w1 = Inr (Inr x, w') \<and> ax_response x = resp \<and>
      ax_final_model x = ms ! j"
    proof (rule Cons.IH)
      show "\<forall>l<j. \<exists>c. call_provider R (w_next ?w1 + l) (ms ! l) q = Inl c \<and> is_retryable_failure c"
      proof (intro allI impI)
        fix l assume "l < j"
        with Cons.prems(3) Suc have "\<exists>c. call_provider R (w_next w + Suc l) ((m # ms) ! Suc l) q = Inl c \<and> is_retryable_failure c"
          by blast
        then show "\<exists>c. call_provider R (w_next ?w1 + l) (ms ! l) q = Inl c \<and> is_retryable_failure c" by simp
      qed
    qed (use Cons.prems Suc in \<open>auto simp: failure_usage_def\<close>)
    with Suc c rec show ?thesis by (simp add: Let_def)
  qed
qed simp

text \<open>
  C29: If the k-th provider of the tried chain answers within the token budget and all before it
  fail with retryable categories, invoke returns that answer.
\<close>

theorem invoke_falls_back:
  assumes rt: "route R i r health u w = Inr (d, w1)" and sel: "rd_outcome d = RO_SELECTED"
    and q: "pq_output_token_budget q \<le> rt_requested_output_tokens r"
      "pq_structured_output_required q \<Longrightarrow> rt_structured_output_required r"
      "pq_tool_calling_required q \<Longrightarrow> rt_tool_calling_required r"
    and k: "k < length (decision_chain d)" "k < ar_max_attempts R"
    and answers: "call_provider R (w_next w1 + k) (decision_chain d ! k) q = Inr resp" "valid_provider_response resp"
    and fails: "\<forall>j<k. \<exists>c. call_provider R (w_next w1 + j) (decision_chain d ! j) q = Inl c \<and> is_retryable_failure c"
    and priced: "list_all (priced (ar_catalog R)) (decision_chain d)"
    and fresh: "\<forall>x \<in> set (w_usages w). us_routing_decision_id x < w_next w"
  shows "\<exists>x w'. invoke R i r q health u w = Inr (Inr x, w') \<and> ax_response x = resp \<and>
    ax_final_model x = decision_chain d ! k"
proof -
  from route_parts [OF rt] obtain n au where
    d: "decide (ar_catalog R) (ar_budget R) (w_next w) (w_now w) (ic_user_id i) r health u = Inr d"
    and ok: "routing_row_ok (decision_record d r)"
    and w1: "w1 = w\<lparr>w_next := n, w_audit := w_audit w @ au, w_routings := w_routings w @ [decision_record d r]\<rparr>" by blast
  let ?ms = "take (ar_max_attempts R) (decision_chain d)"
  have tokens: "0 \<le> rt_estimated_input_tokens r" "0 \<le> rt_requested_output_tokens r"
    using ok by (simp_all add: routing_row_ok_def decision_record_def Let_def)
  have "\<exists>x w'. attempt_chain R i d r q ?ms 1 [] w1 = Inr (Inr x, w') \<and> ax_response x = resp \<and> ax_final_model x = ?ms ! k"
  proof (rule attempt_chain_reaches)
    show "list_all (priced (ar_catalog R)) ?ms" using priced by (auto simp: list_all_iff dest: in_set_takeD)
    show "\<forall>x \<in> set (w_usages w1). us_routing_decision_id x = rd_id d \<longrightarrow> us_attempt_number x < 1"
      using fresh decide_id [OF d] w1 by auto
  qed (use k answers fails tokens in simp_all)
  moreover obtain m where m: "rd_selected_model d = Some m"
    using k(1) by (cases "rd_selected_model d") (auto simp: decision_chain_def)
  ultimately show ?thesis using rt sel q k
    by (auto simp: invoke_def decision_chain_def)
qed

section \<open>The staging catalog\<close>

lemma staging_sensitivity:
  "case build_staging_catalog b of Inl e \<Rightarrow> False
   | Inr c \<Rightarrow> catalog_ok c \<and> list_all (\<lambda>m. md_max_sensitivity m = PRIVATE) (cat_all_models c)"
proof (cases b)
  case True
  have "case build_staging_catalog True of Inl e \<Rightarrow> False
    | Inr c \<Rightarrow> catalog_ok c \<and> list_all (\<lambda>m. md_max_sensitivity m = PRIVATE) (cat_all_models c)" by code_simp
  with True show ?thesis by (simp only:)
next
  case False
  have "case build_staging_catalog False of Inl e \<Rightarrow> False
    | Inr c \<Rightarrow> catalog_ok c \<and> list_all (\<lambda>m. md_max_sensitivity m = PRIVATE) (cat_all_models c)" by code_simp
  with False show ?thesis by (simp only:)
qed

text \<open>
  With the staging catalog, a request of effective sensitivity above PRIVATE is denied and
  contacts no provider.
\<close>

theorem staging_never_sends_sensitive_data:
  assumes "build_staging_catalog openai_enabled = Inr c" and "ar_catalog R = c"
    and "PRIVATE < effective_sensitivity r" and "invoke R i r q health u w = Inr (res, w')"
  shows "res = Inl AIRoutingDeniedError \<and> w_usages w' = w_usages w"
proof -
  have "list_all (\<lambda>m. md_max_sensitivity m = PRIVATE) (cat_all_models c)"
    using staging_sensitivity [of openai_enabled] assms(1) by simp
  then have priv: "list_all (\<lambda>m. md_max_sensitivity m = PRIVATE) (cat_all_models (ar_catalog R))" using assms(2) by simp
  have "\<not> eligible_model (ar_catalog R) r health m" for m
    using priv assms(3) by (auto simp: eligible_model_def sensitivity_allows_def list_all_iff less_data_sensitivity_def)
  then have none: "candidates (ar_catalog R) r health = []" by (simp add: candidates_def)
  have "rd_outcome d = RO_DENIED" if "decide (ar_catalog R) (ar_budget R) (w_next w) (w_now w) (ic_user_id i) r health u = Inr d" for d
    using decide_cases [OF that] none by (auto simp: routing_denied_def)
  with invoke_parts [OF assms(4)] show ?thesis by blast
qed

section \<open>Samples\<close>

theorem decide_selects_best_witness:
  "let d = decide (projr (build_staging_catalog True)) no_budget 7 0 1 sample_ai_request [] no_usage
   in rd_outcome (projr d) = RO_SELECTED"
proof -
  let ?d = "decide (projr (build_staging_catalog True)) no_budget 7 0 1 sample_ai_request [] no_usage"
  have ok: "\<not> isl ?d \<and> candidates (projr (build_staging_catalog True)) sample_ai_request [] \<noteq> []" by code_simp
  then have "?d = Inr (projr ?d)" by (simp add: sum.expand)
  from decide_selects_best [OF this] ok show ?thesis
    by (auto simp: over_hard_budget_def no_budget_def exceeds_def Let_def)
qed

theorem attempts_are_bounded_witness:
  "let r = invoke (sample_router ''ok'') sample_identity sample_ai_request sample_prompt [] no_usage sample_ai_world
   in \<exists>us. w_usages (world_after r sample_ai_world) = us \<and> length us \<le> 3"
proof -
  let ?r = "invoke (sample_router ''ok'') sample_identity sample_ai_request sample_prompt [] no_usage sample_ai_world"
  have ok: "\<not> isl ?r \<and> w_usages sample_ai_world = [] \<and> ar_max_attempts (sample_router ''ok'') = 3" by code_simp
  with returned_world [of ?r sample_ai_world] have "?r = Inr (returned ?r, world_after ?r sample_ai_world)" by blast
  from attempts_are_bounded [OF this] ok show ?thesis by (auto simp: Let_def)
qed

theorem critical_data_stays_local_witness:
  "let r = invoke local_router sample_identity (sample_ai_request\<lparr>rt_sensitivity := CRITICAL_DATA\<rparr>) sample_prompt [] no_usage
       sample_ai_world
   in \<exists>p \<in> set (cat_providers (ar_catalog local_router)).
        pv_key p = us_provider_key (hd (w_usages (world_after r sample_ai_world))) \<and> pv_local p"
proof -
  let ?q = "sample_ai_request\<lparr>rt_sensitivity := CRITICAL_DATA\<rparr>"
  let ?r = "invoke local_router sample_identity ?q sample_prompt [] no_usage sample_ai_world"
  have ok: "\<not> isl ?r \<and> w_usages sample_ai_world = [] \<and> w_usages (world_after ?r sample_ai_world) \<noteq> []" by code_simp
  have cat: "catalog_ok (ar_catalog local_router)" by code_simp
  have "?r = Inr (returned ?r, world_after ?r sample_ai_world)" using ok returned_world [of ?r sample_ai_world] by blast
  moreover have "hd (w_usages (world_after ?r sample_ai_world)) \<in> set (w_usages (world_after ?r sample_ai_world)) - set (w_usages sample_ai_world)"
    using ok by simp
  moreover have "CRITICAL_DATA \<in> insert (rt_sensitivity ?q) (set (rt_context_sensitivities ?q))" by simp
  ultimately show ?thesis using critical_data_stays_local [of local_router sample_identity ?q sample_prompt "[]" no_usage sample_ai_world] cat
    unfolding Let_def by blast
qed

theorem staging_never_sends_sensitive_data_witness:
  "let r = invoke (sample_router ''ok'') sample_identity (sample_ai_request\<lparr>rt_context_sensitivities := [SENSITIVE]\<rparr>) sample_prompt
       [] no_usage sample_ai_world
   in returned r = Inl AIRoutingDeniedError"
proof -
  let ?q = "sample_ai_request\<lparr>rt_context_sensitivities := [SENSITIVE]\<rparr>"
  let ?r = "invoke (sample_router ''ok'') sample_identity ?q sample_prompt [] no_usage sample_ai_world"
  have ok: "\<not> isl ?r \<and> PRIVATE < effective_sensitivity ?q \<and> \<not> isl (build_staging_catalog True)" by code_simp
  then have c: "build_staging_catalog True = Inr (projr (build_staging_catalog True))" by (simp add: sum.expand)
  have a: "ar_catalog (sample_router ''ok'') = projr (build_staging_catalog True)" by (simp add: sample_router_def)
  have "?r = Inr (returned ?r, world_after ?r sample_ai_world)" using ok returned_world [of ?r sample_ai_world] by blast
  from staging_never_sends_sensitive_data [OF c a _ this] ok show ?thesis unfolding Let_def by blast
qed

theorem invoke_falls_back_witness:
  "let r = invoke (sample_router ''ok'') sample_identity sample_ai_request sample_prompt [] no_usage sample_ai_world
   in \<exists>x. returned r = Inr x \<and> ax_response x = sample_answer ''ok''"
proof -
  let ?R = "sample_router ''ok''"
  let ?rt = "route ?R sample_identity sample_ai_request [] no_usage sample_ai_world"
  let ?d = "returned ?rt" and ?w1 = "world_after ?rt sample_ai_world"
  have ok: "\<not> isl ?rt \<and> rd_outcome ?d = RO_SELECTED \<and> length (decision_chain ?d) = 3 \<and> ar_max_attempts ?R = 3 \<and>
    call_provider ?R (w_next ?w1 + 0) (decision_chain ?d ! 0) sample_prompt = Inl TIMEOUT \<and>
    call_provider ?R (w_next ?w1 + 1) (decision_chain ?d ! 1) sample_prompt = Inr (sample_answer ''ok'') \<and>
    list_all (priced (ar_catalog ?R)) (decision_chain ?d) \<and> w_usages sample_ai_world = []" by code_simp
  have v: "valid_provider_response (sample_answer ''ok'')" by code_simp
  from ok returned_world [of ?rt sample_ai_world] have rt: "?rt = Inr (?d, ?w1)" by blast
  have "\<exists>x w'. invoke ?R sample_identity sample_ai_request sample_prompt [] no_usage sample_ai_world = Inr (Inr x, w') \<and>
    ax_response x = sample_answer ''ok'' \<and> ax_final_model x = decision_chain ?d ! 1"
    by (rule invoke_falls_back [OF rt])
       (use ok v in \<open>simp_all add: sample_prompt_def sample_ai_request_def is_retryable_failure_def\<close>)
  then show ?thesis by (auto simp: returned_def)
qed

end
