(* ===== verification/Orch_Model.thy ===== *)
theory Orch_Model
  imports AI_Correct
begin

text \<open>
  \<^verbatim>\<open>orchestrator/enums.py\<close>, \<^verbatim>\<open>orchestrator/state_machine.py\<close>, \<^verbatim>\<open>orchestrator/policy.py\<close>,
  \<^verbatim>\<open>orchestrator/schemas.py\<close> and \<^verbatim>\<open>orchestrator/models.py\<close>: the vocabulary of the Orchestrator, its
  lifecycle, the policy of safe modes, the request, the untrusted plan with its validation, and the
  four tables.
\<close>

section \<open>Enumerations\<close>

datatype intent_category = IC_INFORMATIONAL | IC_MEMORY | IC_ACTION | IC_DESTRUCTIVE | IC_UNSUPPORTED

primrec intent_category_value :: "intent_category \<Rightarrow> string" where
  "intent_category_value IC_INFORMATIONAL = ''INFORMATIONAL''"
| "intent_category_value IC_MEMORY = ''MEMORY''"
| "intent_category_value IC_ACTION = ''ACTION''"
| "intent_category_value IC_DESTRUCTIVE = ''DESTRUCTIVE''"
| "intent_category_value IC_UNSUPPORTED = ''UNSUPPORTED''"

datatype orchestration_state =
    OS_RECEIVED | OS_CONTEXT_PREPARED | OS_ROUTED | OS_PROPOSAL_GENERATED | OS_PLAN_VALIDATED
  | OS_WAITING_PERMISSION | OS_WAITING_CONFIRMATION | OS_READY_FOR_EXECUTION | OS_COMPLETED_NO_ACTION
  | OS_DENIED | OS_FAILED | OS_CANCELLED | OS_EXPIRED

datatype orchestration_step_type =
    OT_RECEIVED | OT_CONTEXT_SELECTED | OT_AI_ROUTED | OT_PROPOSAL_VALIDATED | OT_TASK_LINKED
  | OT_AUTHORITY_BLOCKED | OT_EXECUTION_ENVELOPE_CREATED | OT_CANCELLED | OT_EXPIRED | OT_FAILED

datatype orchestration_reason =
    OR_REQUEST_RECEIVED | OR_CONTEXT_READY | OR_ROUTING_SELECTED | OR_INFORMATIONAL_COMPLETE | OR_PLAN_VALID
  | OR_UNSUPPORTED_INTENT | OR_INVALID_MODEL_PROPOSAL | OR_PLAN_INTEGRITY_FAILURE | OR_INVALID_CAPABILITY_ACTION
  | OR_PERMISSION_REQUIRED | OR_CONFIRMATION_REQUIRED | OR_AUTHORIZATION_DENIED | OR_FINANCIAL_EXECUTION_PROHIBITED
  | OR_SENSITIVITY_ROUTING_DENIED | OR_FEATURE_DISABLED | OR_SAFE_MODE_BLOCKED | OR_MAINTENANCE_BLOCKED
  | OR_TASK_CANCELLED | OR_WORKFLOW_EXPIRED | OR_READY_FOR_FUTURE_EXECUTION | OR_PROVIDER_FAILURE

primrec orchestration_reason_value :: "orchestration_reason \<Rightarrow> string" where
  "orchestration_reason_value OR_REQUEST_RECEIVED = ''REQUEST_RECEIVED''"
| "orchestration_reason_value OR_CONTEXT_READY = ''CONTEXT_READY''"
| "orchestration_reason_value OR_ROUTING_SELECTED = ''ROUTING_SELECTED''"
| "orchestration_reason_value OR_INFORMATIONAL_COMPLETE = ''INFORMATIONAL_COMPLETE''"
| "orchestration_reason_value OR_PLAN_VALID = ''PLAN_VALID''"
| "orchestration_reason_value OR_UNSUPPORTED_INTENT = ''UNSUPPORTED_INTENT''"
| "orchestration_reason_value OR_INVALID_MODEL_PROPOSAL = ''INVALID_MODEL_PROPOSAL''"
| "orchestration_reason_value OR_PLAN_INTEGRITY_FAILURE = ''PLAN_INTEGRITY_FAILURE''"
| "orchestration_reason_value OR_INVALID_CAPABILITY_ACTION = ''INVALID_CAPABILITY_ACTION''"
| "orchestration_reason_value OR_PERMISSION_REQUIRED = ''PERMISSION_REQUIRED''"
| "orchestration_reason_value OR_CONFIRMATION_REQUIRED = ''CONFIRMATION_REQUIRED''"
| "orchestration_reason_value OR_AUTHORIZATION_DENIED = ''AUTHORIZATION_DENIED''"
| "orchestration_reason_value OR_FINANCIAL_EXECUTION_PROHIBITED = ''FINANCIAL_EXECUTION_PROHIBITED''"
| "orchestration_reason_value OR_SENSITIVITY_ROUTING_DENIED = ''SENSITIVITY_ROUTING_DENIED''"
| "orchestration_reason_value OR_FEATURE_DISABLED = ''FEATURE_DISABLED''"
| "orchestration_reason_value OR_SAFE_MODE_BLOCKED = ''SAFE_MODE_BLOCKED''"
| "orchestration_reason_value OR_MAINTENANCE_BLOCKED = ''MAINTENANCE_BLOCKED''"
| "orchestration_reason_value OR_TASK_CANCELLED = ''TASK_CANCELLED''"
| "orchestration_reason_value OR_WORKFLOW_EXPIRED = ''WORKFLOW_EXPIRED''"
| "orchestration_reason_value OR_READY_FOR_FUTURE_EXECUTION = ''READY_FOR_FUTURE_EXECUTION''"
| "orchestration_reason_value OR_PROVIDER_FAILURE = ''PROVIDER_FAILURE''"

datatype safe_mode = SM_NORMAL | SM_SAFE_MODE | SM_MAINTENANCE

datatype side_effect_class = SE_NONE | SE_READ_ONLY | SE_EXTERNAL | SE_DESTRUCTIVE | SE_FINANCIAL

primrec side_effect_value :: "side_effect_class \<Rightarrow> string" where
  "side_effect_value SE_NONE = ''NONE''"
| "side_effect_value SE_READ_ONLY = ''READ_ONLY''"
| "side_effect_value SE_EXTERNAL = ''EXTERNAL''"
| "side_effect_value SE_DESTRUCTIVE = ''DESTRUCTIVE''"
| "side_effect_value SE_FINANCIAL = ''FINANCIAL''"

datatype orchestration_actor = OA_USER | OA_SYSTEM

section \<open>Lifecycle\<close>

primrec orchestration_allowed :: "orchestration_state \<Rightarrow> orchestration_state set" where
  "orchestration_allowed OS_RECEIVED = {OS_CONTEXT_PREPARED, OS_DENIED, OS_FAILED, OS_CANCELLED, OS_EXPIRED}"
| "orchestration_allowed OS_CONTEXT_PREPARED = {OS_ROUTED, OS_DENIED, OS_FAILED, OS_CANCELLED, OS_EXPIRED}"
| "orchestration_allowed OS_ROUTED = {OS_PROPOSAL_GENERATED, OS_DENIED, OS_FAILED, OS_CANCELLED, OS_EXPIRED}"
| "orchestration_allowed OS_PROPOSAL_GENERATED =
     {OS_PLAN_VALIDATED, OS_COMPLETED_NO_ACTION, OS_DENIED, OS_FAILED, OS_CANCELLED, OS_EXPIRED}"
| "orchestration_allowed OS_PLAN_VALIDATED =
     {OS_WAITING_PERMISSION, OS_WAITING_CONFIRMATION, OS_READY_FOR_EXECUTION, OS_DENIED, OS_FAILED, OS_CANCELLED,
      OS_EXPIRED}"
| "orchestration_allowed OS_WAITING_PERMISSION =
     {OS_WAITING_CONFIRMATION, OS_READY_FOR_EXECUTION, OS_DENIED, OS_CANCELLED, OS_EXPIRED}"
| "orchestration_allowed OS_WAITING_CONFIRMATION = {OS_READY_FOR_EXECUTION, OS_DENIED, OS_CANCELLED, OS_EXPIRED}"
| "orchestration_allowed OS_READY_FOR_EXECUTION = {OS_CANCELLED, OS_EXPIRED}"
| "orchestration_allowed OS_COMPLETED_NO_ACTION = {}"
| "orchestration_allowed OS_DENIED = {}"
| "orchestration_allowed OS_FAILED = {}"
| "orchestration_allowed OS_CANCELLED = {}"
| "orchestration_allowed OS_EXPIRED = {}"

definition orchestration_is_terminal :: "orchestration_state \<Rightarrow> bool" where
  "orchestration_is_terminal s \<longleftrightarrow> s \<in> {OS_COMPLETED_NO_ACTION, OS_DENIED, OS_FAILED, OS_CANCELLED, OS_EXPIRED}"

definition orchestration_require :: "orchestration_state \<Rightarrow> orchestration_state \<Rightarrow> app_error + unit" where
  "orchestration_require current target =
     requireE InvalidOrchestrationTransitionError (target \<in> orchestration_allowed current)"

interpretation orchestration_machine: lifecycle orchestration_allowed orchestration_is_terminal
proof
  show "orchestration_is_terminal s = (orchestration_allowed s = {})" for s
    by (cases s) (simp_all add: orchestration_is_terminal_def)
qed

section \<open>Policy\<close>

definition ORCHESTRATOR_POLICY_VERSION :: string where
  "ORCHESTRATOR_POLICY_VERSION = ''orchestrator-v1''"

record orchestrator_policy =
  op_safe_mode :: safe_mode
  op_ai_enabled :: bool
  op_action_workflows_enabled :: bool

definition permits_intent :: "orchestrator_policy \<Rightarrow> intent_category \<Rightarrow> bool" where
  "permits_intent p category =
     (if op_safe_mode p = SM_MAINTENANCE then False
      else if category = IC_UNSUPPORTED then False
      else if category \<in> {IC_ACTION, IC_DESTRUCTIVE} then
        op_safe_mode p = SM_NORMAL \<and> op_ai_enabled p \<and> op_action_workflows_enabled p
      else op_ai_enabled p)"

definition permits_execution_readiness :: "orchestrator_policy \<Rightarrow> bool" where
  "permits_execution_readiness p \<longleftrightarrow> op_safe_mode p = SM_NORMAL \<and> op_action_workflows_enabled p"

definition policy_complexity :: "intent_category \<Rightarrow> nat \<Rightarrow> complexity" where
  "policy_complexity category input_length =
     (if category = IC_DESTRUCTIVE then CX_HIGH
      else if category = IC_ACTION then (if input_length > 4000 then CX_HIGH else CX_MEDIUM)
      else if input_length \<le> 500 then CX_LOW
      else if input_length \<le> 4000 then CX_MEDIUM
      else CX_HIGH)"

definition pack_groups :: "memory_context_pack option \<Rightarrow> memory_context_item list list" where
  "pack_groups pack =
     (case pack of
        None \<Rightarrow> []
      | Some p \<Rightarrow> [mk_persistent_preferences p, mk_operational_context p, mk_historical_decisions p,
                   mk_temporary_context p])"

definition context_sensitivity :: "(string \<Rightarrow> string) \<Rightarrow> memory_context_pack option \<Rightarrow> string \<Rightarrow> data_sensitivity" where
  "context_sensitivity casefold pack input_text =
     projr (highest_sensitivity
       ((if input_text \<noteq> [] then classify_text_sensitivity casefold input_text else PRIVATE)
        # map mi_sensitivity (concat (pack_groups pack))))"

section \<open>Requests\<close>

definition MAX_ARGUMENT_BYTES :: nat where
  "MAX_ARGUMENT_BYTES = 8192"

record orchestration_request =
  oq_category :: intent_category
  oq_label :: string
  oq_input_text :: string
  oq_idempotency_key :: string
  oq_use_memory_context :: bool
  oq_memory_items :: int
  oq_requested_output_tokens :: int
  oq_expires_at :: "timestamp option"

definition intent_label_pattern :: "string \<Rightarrow> bool" where
  "intent_label_pattern s =
     (case s of [] \<Rightarrow> False
      | c # cs \<Rightarrow> is_lower_alpha c \<and> list_all (\<lambda>x. is_lower_alpha x \<or> is_digit_char x \<or> x \<in> set ''._-'') cs)"

definition parse_intent_label :: "string \<Rightarrow> app_error + string" where
  "parse_intent_label raw =
     (let s = py_strip raw
      in bindE (requireE PyValueError (bounded 1 128 s \<and> intent_label_pattern s)) (\<lambda>_. Inr s))"

definition idempotency_key_pattern :: "string \<Rightarrow> bool" where
  "idempotency_key_pattern s =
     (case s of [] \<Rightarrow> False
      | c # cs \<Rightarrow> (is_lower_alpha c \<or> is_upper_alpha c \<or> is_digit_char c) \<and>
          list_all (\<lambda>x. is_lower_alpha x \<or> is_upper_alpha x \<or> is_digit_char x \<or> x \<in> set ''._:-'') cs)"

definition parse_idempotency_key :: "string \<Rightarrow> app_error + string" where
  "parse_idempotency_key raw =
     (let s = py_strip raw
      in bindE (requireE PyValueError (bounded 8 128 s \<and> idempotency_key_pattern s)) (\<lambda>_. Inr s))"

definition make_orchestration_request :: "orchestration_request \<Rightarrow> datetime option \<Rightarrow> app_error + orchestration_request" where
  "make_orchestration_request r expires_at =
     bindE (parse_intent_label (oq_label r)) (\<lambda>label.
     bindE (requireE PyValueError (bounded 1 50000 (oq_input_text r))) (\<lambda>_.
     bindE (parse_idempotency_key (oq_idempotency_key r)) (\<lambda>key.
     bindE (requireE PyValueError (1 \<le> oq_memory_items r \<and> oq_memory_items r \<le> 5)) (\<lambda>_.
     bindE (requireE PyValueError (1 \<le> oq_requested_output_tokens r \<and> oq_requested_output_tokens r \<le> 8192)) (\<lambda>_.
     bindE (normalize_expiry expires_at) (\<lambda>expiry.
     Inr (r\<lparr>oq_label := label, oq_idempotency_key := key, oq_expires_at := expiry\<rparr>)))))))"

definition intent_json :: "orchestration_request \<Rightarrow> json" where
  "intent_json r = JObj [(''category'', JStr (intent_category_value (oq_category r))), (''label'', JStr (oq_label r))]"

definition orchestration_fingerprint :: "'z core_world_scheme \<Rightarrow> orchestration_request \<Rightarrow> string" where
  "orchestration_fingerprint w r =
     w_sha256 w (json_dumps (JObj
       [(''input_sha256'', JStr (w_sha256 w (oq_input_text r))),
        (''intent'', intent_json r),
        (''memory_items_per_category'', JInt (oq_memory_items r)),
        (''requested_output_tokens'', JInt (oq_requested_output_tokens r)),
        (''use_memory_context'', JBool (oq_use_memory_context r)),
        (''expires_at'', case oq_expires_at r of None \<Rightarrow> JNull | Some t \<Rightarrow> JStr (show_int t))]))"

section \<open>Untrusted plans\<close>

record candidate_action =
  ca_capability_key :: string
  ca_action :: string
  ca_scope :: permission_scope
  ca_arguments :: metadata
  ca_side_effect :: side_effect_class

record candidate_plan =
  cp_summary :: string
  cp_actions :: "candidate_action list"

text \<open>
  Validation of a JSON document against the models: unknown fields are forbidden, a missing field takes
  its default or is an error, a value of another JSON type is an error.
\<close>

fun json_str :: "json \<Rightarrow> app_error + string" where
  "json_str (JStr s) = Inr s"
| "json_str _ = Inl PyValueError"

fun json_list :: "json \<Rightarrow> app_error + json list" where
  "json_list (JList xs) = Inr xs"
| "json_list _ = Inl PyValueError"

fun json_obj :: "json \<Rightarrow> app_error + (string \<times> json) list" where
  "json_obj (JObj fs) = Inr fs"
| "json_obj _ = Inl PyValueError"

definition known_fields :: "string list \<Rightarrow> (string \<times> json) list \<Rightarrow> app_error + unit" where
  "known_fields names fs = requireE PyValueError (list_all (\<lambda>(k, v). k \<in> set names) fs)"

definition required_field :: "string \<Rightarrow> (string \<times> json) list \<Rightarrow> app_error + json" where
  "required_field name fs = someE PyValueError (map_of fs name)"

definition field_or :: "json \<Rightarrow> string \<Rightarrow> (string \<times> json) list \<Rightarrow> json" where
  "field_or fallback name fs = (case map_of fs name of None \<Rightarrow> fallback | Some v \<Rightarrow> v)"

definition validate_scope :: "json \<Rightarrow> app_error + permission_scope" where
  "validate_scope v =
     bindE (json_obj v) (\<lambda>fs.
     bindE (known_fields [''resource_type'', ''resource_ids'', ''operations''] fs) (\<lambda>_.
     bindE (bindE (required_field ''resource_type'' fs) json_str) (\<lambda>resource_type.
     bindE (bindE (json_list (field_or (JList []) ''resource_ids'' fs)) (parse_all json_str)) (\<lambda>resource_ids.
     bindE (bindE (bindE (required_field ''operations'' fs) json_list) (parse_all json_str)) (\<lambda>operations.
     make_scope resource_type resource_ids operations)))))"

definition parse_side_effect :: "string \<Rightarrow> app_error + side_effect_class" where
  "parse_side_effect s =
     someE PyValueError (row_find (\<lambda>c. side_effect_value c = s) [SE_NONE, SE_READ_ONLY, SE_EXTERNAL, SE_DESTRUCTIVE, SE_FINANCIAL])"

definition validate_candidate_action :: "json \<Rightarrow> app_error + candidate_action" where
  "validate_candidate_action v =
     bindE (json_obj v) (\<lambda>fs.
     bindE (known_fields [''capability_key'', ''action'', ''scope'', ''arguments'', ''side_effect_class''] fs) (\<lambda>_.
     bindE (bindE (bindE (required_field ''capability_key'' fs) json_str) parse_capability_key) (\<lambda>capability_key.
     bindE (bindE (bindE (required_field ''action'' fs) json_str) parse_action_name) (\<lambda>action.
     bindE (bindE (required_field ''scope'' fs) validate_scope) (\<lambda>sc.
     bindE (bindE (json_obj (field_or (JObj []) ''arguments'' fs)) (sanitize_metadata MAX_ARGUMENT_BYTES)) (\<lambda>arguments.
     bindE (bindE (bindE (required_field ''side_effect_class'' fs) json_str) parse_side_effect) (\<lambda>effect.
     bindE (requireE PyValueError (action \<in> set (sc_operations sc))) (\<lambda>_.
     Inr \<lparr>ca_capability_key = capability_key, ca_action = action, ca_scope = sc, ca_arguments = arguments,
          ca_side_effect = effect\<rparr>))))))))"

definition validate_candidate_plan :: "json \<Rightarrow> app_error + candidate_plan" where
  "validate_candidate_plan v =
     bindE (json_obj v) (\<lambda>fs.
     bindE (known_fields [''summary'', ''actions''] fs) (\<lambda>_.
     bindE (bindE (bindE (required_field ''summary'' fs) json_str) (parse_text 500)) (\<lambda>summary.
     bindE (json_list (field_or (JList []) ''actions'' fs)) (\<lambda>items.
     bindE (requireE PyValueError (length items \<le> 1)) (\<lambda>_.
     bindE (parse_all validate_candidate_action items) (\<lambda>actions.
     Inr \<lparr>cp_summary = summary, cp_actions = actions\<rparr>))))))"

text \<open>\<^verbatim>\<open>model_dump(mode="json")\<close>, the stored payload and the text the fingerprint is taken of.\<close>

definition scope_dump :: "permission_scope \<Rightarrow> json" where
  "scope_dump sc =
     JObj [(''resource_type'', JStr (sc_resource_type sc)), (''resource_ids'', JList (map JStr (sc_resource_ids sc))),
           (''operations'', JList (map JStr (sc_operations sc)))]"

definition action_dump :: "candidate_action \<Rightarrow> json" where
  "action_dump a =
     JObj [(''capability_key'', JStr (ca_capability_key a)), (''action'', JStr (ca_action a)),
           (''scope'', scope_dump (ca_scope a)), (''arguments'', JObj (ca_arguments a)),
           (''side_effect_class'', JStr (side_effect_value (ca_side_effect a)))]"

definition plan_dump :: "candidate_plan \<Rightarrow> json" where
  "plan_dump p = JObj [(''summary'', JStr (cp_summary p)), (''actions'', JList (map action_dump (cp_actions p)))]"

definition plan_fingerprint :: "'z core_world_scheme \<Rightarrow> candidate_plan \<Rightarrow> string" where
  "plan_fingerprint w p = w_sha256 w (json_dumps (plan_dump p))"

section \<open>Tables\<close>

record workflow =
  ow_id :: uuid
  ow_user_id :: uuid
  ow_device_id :: "uuid option"
  ow_intent_category :: intent_category
  ow_state :: orchestration_state
  ow_safe_mode :: safe_mode
  ow_idempotency_key :: string
  ow_request_fingerprint :: string
  ow_plan_fingerprint :: "string option"
  ow_task_id :: "uuid option"
  ow_routing_decision_id :: "uuid option"
  ow_authorization_decision_id :: "uuid option"
  ow_confirmation_request_id :: "uuid option"
  ow_failure_reason :: "string option"
  ow_intent_metadata :: metadata
  ow_version :: int
  ow_created_at :: timestamp
  ow_updated_at :: timestamp
  ow_expires_at :: "timestamp option"

record orchestration_step =
  os_id :: uuid
  os_workflow_id :: uuid
  os_user_id :: uuid
  os_step_type :: orchestration_step_type
  os_from_state :: "orchestration_state option"
  os_to_state :: orchestration_state
  os_reason_code :: string
  os_actor_type :: orchestration_actor
  os_metadata :: metadata
  os_created_at :: timestamp

record validated_plan =
  vp_id :: uuid
  vp_workflow_id :: uuid
  vp_fingerprint :: string
  vp_plan_payload :: json
  vp_created_at :: timestamp

record action_envelope =
  en_id :: uuid
  en_workflow_id :: uuid
  en_user_id :: uuid
  en_device_id :: "uuid option"
  en_task_id :: uuid
  en_capability_key :: string
  en_action :: string
  en_arguments :: metadata
  en_scope_digest :: string
  en_plan_fingerprint :: string
  en_permission_id :: uuid
  en_authorization_decision_id :: uuid
  en_confirmation_request_id :: "uuid option"
  en_risk_level :: int
  en_safe_mode :: safe_mode
  en_policy_version :: string
  en_idempotency_key :: string
  en_expires_at :: "timestamp option"
  en_created_at :: timestamp

record orch_world = ai_world +
  w_workflows :: "workflow list"
  w_steps :: "orchestration_step list"
  w_plans :: "validated_plan list"
  w_envelopes :: "action_envelope list"

definition workflow_row_ok :: "workflow \<Rightarrow> bool" where
  "workflow_row_ok x \<longleftrightarrow>
     length (ow_request_fingerprint x) = 64 \<and>
     (case ow_plan_fingerprint x of None \<Rightarrow> True | Some f \<Rightarrow> length f = 64) \<and> 1 \<le> ow_version x \<and>
     length (json_text (JObj (ow_intent_metadata x))) \<le> 4096"

definition insert_workflow :: "workflow \<Rightarrow> workflow list \<Rightarrow> workflow list option" where
  "insert_workflow x rows =
     (if workflow_row_ok x \<and>
         row_find (\<lambda>y. ow_user_id y = ow_user_id x \<and> ow_idempotency_key y = ow_idempotency_key x) rows = None
      then Some (row_add x rows) else None)"

definition insert_plan :: "validated_plan \<Rightarrow> validated_plan list \<Rightarrow> validated_plan list option" where
  "insert_plan p rows =
     (if length (vp_fingerprint p) = 64 \<and> length (json_text (vp_plan_payload p)) \<le> 16384 \<and>
         row_find (\<lambda>y. vp_workflow_id y = vp_workflow_id p) rows = None
      then Some (row_add p rows) else None)"

definition envelope_row_ok :: "action_envelope \<Rightarrow> bool" where
  "envelope_row_ok e \<longleftrightarrow>
     length (en_plan_fingerprint e) = 64 \<and> length (en_scope_digest e) = 64 \<and>
     length (json_text (JObj (en_arguments e))) \<le> 8192 \<and> 0 \<le> en_risk_level e \<and> en_risk_level e \<le> 5 \<and>
     en_safe_mode e = SM_NORMAL"

definition insert_envelope :: "action_envelope \<Rightarrow> action_envelope list \<Rightarrow> action_envelope list option" where
  "insert_envelope e rows =
     (if envelope_row_ok e \<and> row_find (\<lambda>y. en_workflow_id y = en_workflow_id e) rows = None
      then Some (row_add e rows) else None)"

section \<open>Responses\<close>

record orchestration_response =
  ors_id :: uuid
  ors_device_id :: "uuid option"
  ors_intent_category :: intent_category
  ors_state :: orchestration_state
  ors_safe_mode :: safe_mode
  ors_task_id :: "uuid option"
  ors_routing_decision_id :: "uuid option"
  ors_authorization_decision_id :: "uuid option"
  ors_confirmation_request_id :: "uuid option"
  ors_plan_fingerprint :: "string option"
  ors_failure_reason :: "string option"
  ors_version :: int
  ors_created_at :: timestamp
  ors_updated_at :: timestamp
  ors_expires_at :: "timestamp option"

definition response_of :: "workflow \<Rightarrow> orchestration_response" where
  "response_of x =
     \<lparr>ors_id = ow_id x, ors_device_id = ow_device_id x, ors_intent_category = ow_intent_category x,
      ors_state = ow_state x, ors_safe_mode = ow_safe_mode x, ors_task_id = ow_task_id x,
      ors_routing_decision_id = ow_routing_decision_id x,
      ors_authorization_decision_id = ow_authorization_decision_id x,
      ors_confirmation_request_id = ow_confirmation_request_id x, ors_plan_fingerprint = ow_plan_fingerprint x,
      ors_failure_reason = ow_failure_reason x, ors_version = ow_version x, ors_created_at = ow_created_at x,
      ors_updated_at = ow_updated_at x, ors_expires_at = ow_expires_at x\<rparr>"

record orchestration_result =
  or_workflow :: orchestration_response
  or_answer :: "string option"
  or_envelope_created :: bool

record authorization_evaluation =
  av_decision_id :: uuid
  av_permission_id :: "uuid option"
  av_risk_level :: risk_level
  av_confirmation_id :: "uuid option"
  av_financial_guard_triggered :: bool

record authorized_envelope =
  nv_id :: uuid
  nv_workflow_id :: uuid
  nv_task_id :: uuid
  nv_user_id :: uuid
  nv_device_id :: "uuid option"
  nv_capability_key :: string
  nv_action :: string
  nv_arguments :: metadata
  nv_scope_digest :: string
  nv_plan_fingerprint :: string
  nv_authorization :: authorization_evaluation
  nv_safe_mode :: safe_mode
  nv_policy_version :: string
  nv_idempotency_key :: string
  nv_expires_at :: "timestamp option"

end
