(* ===== verification/Orch_Frames.thy ===== *)
theory Orch_Frames
  imports Orch_Engine
begin

text \<open>
  What the operations of the other components leave alone when the Orchestrator calls them: the
  identity of every task row, the stored decisions, and the tables of the Orchestrator itself; and that
  validation of a stored plan finds the action that was validated before.
\<close>

section \<open>Tasks are kept\<close>

definition task_identity :: "task \<Rightarrow> uuid \<times> uuid \<times> string \<times> string \<times> permission_scope" where
  "task_identity t = (t_id t, t_user_id t, t_capability_key t, t_action t, t_scope t)"

definition tasks_kept :: "'z task_world_scheme \<Rightarrow> 'z task_world_scheme \<Rightarrow> bool" where
  "tasks_kept w w' \<longleftrightarrow>
     w_next w \<le> w_next w' \<and> w_now w' = w_now w \<and> w_sha256 w' = w_sha256 w \<and>
     set (w_decisions w) \<subseteq> set (w_decisions w') \<and>
     task_identity ` set (w_tasks w) \<subseteq> task_identity ` set (w_tasks w')"

text \<open>The key under which the Orchestrator creates the task of a workflow.\<close>

definition orch_key :: "uuid \<Rightarrow> string" where
  "orch_key n = ''orch:'' @ uuid_text n"

definition no_task_for :: "uuid \<Rightarrow> 'z task_world_scheme \<Rightarrow> bool" where
  "no_task_for n w \<longleftrightarrow> orch_key n \<notin> t_idempotency_key ` set (w_tasks w)"

text \<open>No task carries the key of an identifier that is still to be drawn: random identifiers are not foreseen.\<close>

definition unforeseen :: "'z task_world_scheme \<Rightarrow> bool" where
  "unforeseen w \<longleftrightarrow> (\<forall>n. w_next w \<le> n \<longrightarrow> no_task_for n w)"

definition orch_same :: "'z orch_world_scheme \<Rightarrow> 'z orch_world_scheme \<Rightarrow> bool" where
  "orch_same w w' \<longleftrightarrow>
     w_workflows w' = w_workflows w \<and> w_steps w' = w_steps w \<and> w_plans w' = w_plans w \<and>
     w_envelopes w' = w_envelopes w"

definition action_normal :: "candidate_action \<Rightarrow> bool" where
  "action_normal a \<longleftrightarrow>
     parse_capability_key (ca_capability_key a) = Inr (ca_capability_key a) \<and>
     parse_action_name (ca_action a) = Inr (ca_action a) \<and>
     validate_scope (scope_dump (ca_scope a)) = Inr (ca_scope a)"

definition same_action :: "candidate_action \<Rightarrow> candidate_action \<Rightarrow> bool" where
  "same_action a b \<longleftrightarrow>
     ca_capability_key a = ca_capability_key b \<and> ca_action a = ca_action b \<and> ca_scope a = ca_scope b"

section \<open>Keys of the tasks of workflows\<close>

fun digits_value :: "nat \<Rightarrow> string \<Rightarrow> nat" where
  "digits_value acc [] = acc"
| "digits_value acc (c # cs) = digits_value (10 * acc + (of_char c - 48)) cs"

text \<open>Effect of a task operation as the Orchestrator sees it.\<close>

definition task_call :: "'z task_world_scheme \<Rightarrow> 'z task_world_scheme \<Rightarrow> bool" where
  "task_call w w' \<longleftrightarrow>
     tasks_kept w w' \<and> task_inv w' \<and> task_world.more w' = task_world.more w \<and>
     t_idempotency_key ` set (w_tasks w') = t_idempotency_key ` set (w_tasks w)"

lemma tasks_kept_refl [simp]: "tasks_kept w w"
  by (simp add: tasks_kept_def)

lemma tasks_kept_trans: "tasks_kept w w1 \<Longrightarrow> tasks_kept w1 w2 \<Longrightarrow> tasks_kept w w2"
  unfolding tasks_kept_def by (metis (no_types, lifting) order_trans)

lemma tasks_kept_frame:
  "task_frame w w' \<Longrightarrow> w_now w' = w_now w \<Longrightarrow> w_sha256 w' = w_sha256 w \<Longrightarrow> tasks_kept w w'"
  by (simp add: tasks_kept_def task_frame_def)

lemma authorize_kept: "authorize i r w = Inr (d, w') \<Longrightarrow> tasks_kept w w'"
  using authorize_effects authorize_frame by (blast intro: tasks_kept_frame)

lemma record_audit_kept: "record_audit q w = Inr w' \<Longrightarrow> tasks_kept w w'"
  by (rule tasks_kept_frame [OF record_audit_frame]) (auto simp: record_audit_Inr)

lemma task_transition_kept:
  assumes tr: "task_transition t target v ev reason actor aid m extra w = Inr (t', w')" and keep: "keeps_row extra"
    and inv: "task_inv w"
  shows "tasks_kept w w' \<and> task_world.more w' = task_world.more w \<and>
    map t_idempotency_key (w_tasks w') = map t_idempotency_key (w_tasks w)"
proof -
  from task_transition_spec [OF tr] obtain row e where row: "row \<in> set (w_tasks w)"
    and t': "t' = extra (stamp target (w_now w) v row)"
    and w': "w' = (draw w)\<lparr>w_tasks := row_put t_id t' (w_tasks w), w_task_events := row_add e (w_task_events w)\<rparr>" by blast
  have id: "task_identity t' = task_identity row" "t_idempotency_key t' = t_idempotency_key row" "t_id t' = t_id row"
    using keep by (simp_all add: t' keeps_row_def task_identity_def)
  have u: "unique_keys t_id (w_tasks w)" using inv by (simp add: task_inv_def task_base_inv_def)
  have key: "f t' = f row \<Longrightarrow> map f (row_put t_id t' (w_tasks w)) = map f (w_tasks w)" for f :: "task \<Rightarrow> 'b"
    by (rule map_row_put_same [OF u row id(3) [symmetric]])
  have "task_identity ` set (w_tasks w') = task_identity ` set (w_tasks w)"
    using arg_cong [OF key [of task_identity, OF id(1)], of set] by (simp add: w')
  then show ?thesis using key [of t_idempotency_key, OF id(2)] by (simp add: tasks_kept_def w')
qed

lemma task_call_refl: "task_inv w \<Longrightarrow> task_call w w"
  by (simp add: task_call_def)

lemma task_call_trans: "task_call w w1 \<Longrightarrow> task_call w1 w2 \<Longrightarrow> task_call w w2"
  unfolding task_call_def using tasks_kept_trans by (metis (no_types, lifting))

lemma task_call_transition:
  assumes "task_transition t target v ev reason actor aid m extra w = Inr (t', w')" and "keeps_row extra"
    and "task_inv w" and "task_inv w'"
  shows "task_call w w'"
  using task_transition_kept [OF assms(1-3)] assms(4) by (metis task_call_def list.set_map)

lemma frame_more: "auth_world.more w' = auth_world.more w \<Longrightarrow> task_world.more w' = task_world.more w \<and> w_tasks w' = w_tasks w"
  for w :: "'z task_world_scheme"
  using auth_more_task_more more_tasks by blast

lemma authorize_call:
  assumes "authorize i r w = Inr (d, w')" and "task_inv w"
  shows "task_call w w'"
  using authorize_kept [OF assms(1)] task_frame_inv [OF authorize_frame [OF assms(1)] assms(2)]
    authorize_effects [OF assms(1)] frame_more [of w' w] by (simp add: task_call_def)

lemma record_audit_call:
  assumes "record_audit q w = Inr w'" and "task_inv w"
  shows "task_call w w'"
proof -
  have "auth_world.more w' = auth_world.more w" using assms(1) by (auto simp: record_audit_Inr)
  then show ?thesis using record_audit_kept [OF assms(1)] task_frame_inv [OF record_audit_frame [OF assms(1)] assms(2)]
    frame_more [of w' w] by (simp add: task_call_def)
qed

lemma expire_if_due_call:
  assumes "expire_if_due t w = Inr ((b, t'), w')" and inv: "task_inv w"
  shows "task_call w w'"
  using expire_if_due_cases [OF assms(1)] expire_if_due_inv [OF inv assms(1)] inv
  by (auto intro: task_call_refl task_call_transition simp: keeps_row_def)

lemma get_owned_task_call:
  assumes "get_owned_task i tid w = Inr (t', w')" and inv: "task_inv w"
  shows "task_call w w' \<and> t' \<in> set (w_tasks w') \<and> t_id t' = tid"
proof -
  from get_owned_task_parts [OF assms(1)] obtain t b where o: "owned_task (ic_user_id i) tid w = Inr t"
    and e: "expire_if_due t w = Inr ((b, t'), w')" by blast
  from expire_if_due_cases [OF e] owned_task_Inr [OF o] show ?thesis using expire_if_due_call [OF e inv] by auto
qed

lemma cancel_task_call:
  assumes "cancel_task i tid v w = Inr (t', w')" and inv: "task_inv w"
  shows "task_call w w'"
proof -
  from cancel_task_parts [OF assms(1)] obtain t b t1 w1 where e: "expire_if_due t w = Inr ((b, t1), w1)"
    and k: "w' = w1 \<or> (\<exists>w2 q. task_transition t1 TS_CANCELLED v TE_CANCELLED TR_USER_CANCELLED TK_USER
       (Some (show_nat (ic_user_id i))) [] id w1 = Inr (t', w2) \<and> record_audit q w2 = Inr w')"
    by blast
  note c1 = expire_if_due_call [OF e inv]
  then have inv1: "task_inv w1" by (simp add: task_call_def)
  have inv': "task_inv w'" using cancel_task_inv [OF assms] .
  from k show ?thesis
  proof (elim disjE exE conjE)
    fix w2 q assume tr: "task_transition t1 TS_CANCELLED v TE_CANCELLED TR_USER_CANCELLED TK_USER
       (Some (show_nat (ic_user_id i))) [] id w1 = Inr (t', w2)" and au: "record_audit q w2 = Inr w'"
    have m: "auth_world.more w' = auth_world.more w2" "w_decisions w' = w_decisions w2" using au by (auto simp: record_audit_Inr)
    have "keeps_row id" by (simp add: keeps_row_def)
    from task_transition_kept [OF tr this inv1] record_audit_kept [OF au] frame_more [OF m(1)] inv'
    have "task_call w1 w'" unfolding task_call_def using tasks_kept_trans by (metis (no_types, lifting) list.set_map)
    with c1 show ?thesis by (rule task_call_trans)
  qed (use c1 in simp)
qed

lemma reevaluate_task_call:
  assumes "reevaluate_task i tid v w = Inr (t', w')" and inv: "task_inv w"
  shows "task_call w w' \<and> t' \<in> set (w_tasks w') \<and> t_id t' = tid"
proof -
  from reevaluate_task_parts [OF assms(1)] obtain t b t1 w1 where o: "owned_task (ic_user_id i) tid w = Inr t"
    and e: "expire_if_due t w = Inr ((b, t1), w1)"
    and k: "b \<and> t' = t1 \<and> w' = w1 \<or>
     \<not> b \<and> (\<exists>d w2. authorize (i\<lparr>ic_device_id := t_device_id t1\<rparr>) (reevaluation_request t1) w1 = Inr (d, w2) \<and>
        (t' = t1 \<and> w' = w2 \<or>
         task_transition t1 (reevaluation_target d) v TE_STATE_CHANGED TR_AUTHORIZATION_REEVALUATED TK_SYSTEM
           None [] (reevaluation_values d t1) w2 = Inr (t', w')))" by blast
  note c1 = expire_if_due_call [OF e inv] and o' = owned_task_Inr [OF o]
  have inv1: "task_inv w1" using c1 by (simp add: task_call_def)
  have mem: "t1 \<in> set (w_tasks w1)" "t_id t1 = tid" using expire_if_due_cases [OF e] o' by auto
  have inv': "task_inv w'" using reevaluate_task_inv [OF assms] .
  from k show ?thesis
  proof (elim disjE exE conjE)
    assume "t' = t1" "w' = w1" with c1 mem show ?thesis by simp
  next
    fix d w2 assume a: "authorize (i\<lparr>ic_device_id := t_device_id t1\<rparr>) (reevaluation_request t1) w1 = Inr (d, w2)"
      and "t' = t1" "w' = w2"
    moreover have "w_tasks w2 = w_tasks w1" using authorize_effects [OF a] frame_more [of w2 w1] by simp
    ultimately show ?thesis using task_call_trans [OF c1 authorize_call [OF a inv1]] mem by simp
  next
    fix d w2 assume a: "authorize (i\<lparr>ic_device_id := t_device_id t1\<rparr>) (reevaluation_request t1) w1 = Inr (d, w2)"
      and tr: "task_transition t1 (reevaluation_target d) v TE_STATE_CHANGED TR_AUTHORIZATION_REEVALUATED TK_SYSTEM
           None [] (reevaluation_values d t1) w2 = Inr (t', w')"
    note c2 = authorize_call [OF a inv1]
    have "task_inv w2" using c2 by (simp add: task_call_def)
    from task_call_transition [OF tr keeps_row_reevaluation this inv'] task_call_trans [OF c1 c2]
    have "task_call w w'" by (blast intro: task_call_trans)
    with task_transition_stored(1,2) [OF tr keeps_row_reevaluation] mem show ?thesis by simp
  qed
qed

lemma create_task_call:
  assumes c: "create_task i r w = Inr (res, w')" and inv: "task_inv w"
    and new: "tc_idempotency_key r \<notin> t_idempotency_key ` set (w_tasks w)"
  shows "tasks_kept w w' \<and> task_inv w' \<and> task_world.more w' = task_world.more w \<and>
    t_idempotency_key ` set (w_tasks w') \<subseteq> insert (tc_idempotency_key r) (t_idempotency_key ` set (w_tasks w)) \<and>
    (\<forall>t. cr_task res = Some t \<longrightarrow> t \<in> set (w_tasks w') \<and> t_user_id t = ic_user_id i \<and>
       t_capability_key t = tc_capability_key r \<and> t_action t = tc_action r \<and> t_scope t = tc_scope r \<and>
       (\<exists>d. cr_decision res = Some d \<and> dc_decision_id d = t_authorization_decision_id t))"
proof -
  have none: "idempotent_existing (ic_user_id i) (tc_idempotency_key r) fp v \<noteq> Inr (Some e)"
    if "w_tasks v = w_tasks w" for fp e and v :: "'a task_world_scheme"
    using new that idempotent_existing_Some [of "ic_user_id i" "tc_idempotency_key r" fp v e] by (metis image_eqI)
  from create_task_parts [OF c] none [OF refl] consider "res = \<lparr>cr_task = None, cr_hard_denied = True, cr_decision = None\<rparr>" "w' = w"
    | i' d where "authorize i' (task_authorization_request r) w = Inr (d, w')" "cr_task res = None"
    | dev i' d w1 st reason where "authorize i' (task_authorization_request r) w = Inr (d, w1)"
      "persist_task i r dev d st reason w1 = Inr (res, w')" by (auto 0 3)
  then show ?thesis
  proof cases
    case 1
    with inv show ?thesis by auto
  next
    case 2
    from authorize_call [OF 2(1) inv] 2(2) show ?thesis by (auto simp: task_call_def)
  next
    case 3
    have m: "task_world.more w1 = task_world.more w" "w_tasks w1 = w_tasks w"
      using authorize_effects [OF 3(1)] frame_more [of w1 w] by simp_all
    from persist_task_parts [OF 3(2)] none [OF m(2)] obtain t e q where t: "t = new_task i r dev d st w1"
      and au: "record_audit q ((draw (draw w1))\<lparr>w_tasks := row_add t (w_tasks w1), w_task_events := row_add e (w_task_events w1)\<rparr>) = Inr w'"
      and res: "res = \<lparr>cr_task = Some t, cr_hard_denied = False, cr_decision = Some d\<rparr>" by (auto 0 3)
    let ?w2 = "(draw (draw w1))\<lparr>w_tasks := row_add t (w_tasks w1), w_task_events := row_add e (w_task_events w1)\<rparr>"
    have au': "auth_world.more w' = auth_world.more ?w2" using au by (auto simp: record_audit_Inr)
    have tw: "w_tasks w' = row_add t (w_tasks w1)" "task_world.more w' = task_world.more w1"
      using frame_more [OF au'] by simp_all
    have "tasks_kept w1 ?w2" by (auto simp: tasks_kept_def table_simps)
    with authorize_kept [OF 3(1)] record_audit_kept [OF au] have "tasks_kept w w'" by (blast intro: tasks_kept_trans)
    with create_task_inv [OF c inv] tw m t res show ?thesis by (auto simp: table_simps)
  qed
qed

section \<open>Memory and AI Router\<close>

lemma mem_frame_refl: "mem_frame w w"
  by (simp add: mem_frame_def task_frame_def)

lemma mem_frame_trans: "mem_frame w w1 \<Longrightarrow> mem_frame w1 w2 \<Longrightarrow> mem_frame w w2"
  by (auto simp: mem_frame_def task_frame_def)

lemma expire_memory_frame: "expire_memory m w = Inr ((b, m'), w') \<Longrightarrow> mem_frame w w'"
  unfolding expire_memory_def append_memory_event_def
  by (auto simp: Let_def bindE_eq_Inr mem_frame_def task_frame_def draw_def split: if_splits list.splits option.splits)

lemma expire_memories_frame: "expire_memories ms w = Inr w' \<Longrightarrow> mem_frame w w'"
proof (induction ms arbitrary: w)
  case (Cons m ms)
  from Cons.prems obtain b m' w1 where "expire_memory m w = Inr ((b, m'), w1)" "expire_memories ms w1 = Inr w'"
    by (auto simp: bindE_eq_Inr)
  with Cons.IH expire_memory_frame mem_frame_trans show ?case by blast
qed (simp add: mem_frame_refl)

lemma authorize_mem_frame: "authorize i r w = Inr (d, w') \<Longrightarrow> mem_frame w w'"
proof -
  assume a: "authorize i r w = Inr (d, w')"
  have m: "task_world.more w' = task_world.more w" using authorize_effects [OF a] by (intro auth_more_task_more) simp
  show ?thesis using authorize_effects [OF a] authorize_frame [OF a] by (simp add: mem_frame_def more_memories [OF m])
qed

lemma build_context_pack_frame:
  assumes "build_context_pack i n w = Inr (res, w')"
  shows "mem_frame w w'"
proof -
  from assms have "memory_guarded i ''memory.read'' ''read'' None (\<lambda>d w1.
          bindE (materialize_due_expirations (ic_user_id i) w1) (\<lambda>w2.
          Inr (Some (context_pack (ic_user_id i) (nat n) (w_memories w2)), w2))) w = Inr (res, w')"
    by (simp add: build_context_pack_def split: if_splits)
  from memory_guarded_parts [OF this] obtain w1 where
    "authorize i (memory_authorization_request ''memory.read'' ''read'' None) w = Inr (mv_decision res, w1)"
    "w' = w1 \<or> materialize_due_expirations (ic_user_id i) w1 = Inr w'" by (auto simp: bindE_eq_Inr)
  then show ?thesis using authorize_mem_frame expire_memories_frame mem_frame_trans
    unfolding materialize_due_expirations_def by blast
qed

lemma mem_frame_orch: "mem_frame w w' \<Longrightarrow> orch_same w w'"
  for w :: "'z orch_world_scheme"
  unfolding mem_frame_def orch_same_def by (cases w; cases w'; simp)

lemma ai_grows_frame: "ai_grows w w' \<Longrightarrow> task_frame w w' \<and> w_now w' = w_now w \<and> w_sha256 w' = w_sha256 w"
  by (auto simp: ai_grows_def task_frame_def)

lemma ai_grows_orch: "ai_grows w w' \<Longrightarrow> orch_same w w'"
  for w :: "'z orch_world_scheme"
  by (auto simp: ai_grows_def orch_same_def)

lemma task_more_orch: "task_world.more w' = task_world.more w \<Longrightarrow> orch_same w w'"
  for w :: "'z orch_world_scheme"
  unfolding orch_same_def by (cases w; cases w'; simp)

section \<open>Stored plans\<close>

lemma py_strip_idem: "py_strip (py_strip s) = py_strip s"
proof -
  let ?x = "dropWhile py_isspace s"
  let ?y = "rev (dropWhile py_isspace (rev ?x))"
  have "dropWhile py_isspace ?y = ?y"
  proof (cases "?y = []")
    case False
    obtain z where z: "rev ?x = z @ dropWhile py_isspace (rev ?x)" by (metis takeWhile_dropWhile_id)
    from arg_cong [OF this, of rev] have x: "?x = ?y @ rev z" by simp
    then have "hd ?x = hd ?y" using False hd_append2 by metis
    moreover have "?x \<noteq> []" using x False by (metis append_is_Nil_conv)
    ultimately have "\<not> py_isspace (hd ?y)" using hd_dropWhile by metis
    with False show ?thesis by (cases ?y) simp_all
  next
    case True
    then show ?thesis by (simp only: dropWhile.simps)
  qed
  then show ?thesis by (simp add: py_strip_def)
qed

lemma pattern_char_plain:
  "is_lower_alpha c \<or> is_digit_char c \<or> c = CHR ''_'' \<Longrightarrow> \<not> py_isspace c \<and> py_lower_char c = c"
  by (auto simp: is_lower_alpha_def is_digit_char_def py_isspace_def py_lower_char_def Let_def)

lemma py_strip_plain: "list_all (\<lambda>c. \<not> py_isspace c) s \<Longrightarrow> py_strip s = s"
proof -
  have d: "list_all (\<lambda>c. \<not> py_isspace c) x \<Longrightarrow> dropWhile py_isspace x = x" for x by (cases x) auto
  assume "list_all (\<lambda>c. \<not> py_isspace c) s"
  with d [of s] d [of "rev s"] show ?thesis by (simp add: py_strip_def)
qed

lemma ident_plain: "ident_pattern s \<Longrightarrow> py_lower (py_strip s) = s"
proof -
  assume "ident_pattern s"
  then have "list_all (\<lambda>c. is_lower_alpha c \<or> is_digit_char c \<or> c = CHR ''_'') s"
    by (cases s) (auto simp: ident_pattern_def)
  then have all: "list_all (\<lambda>c. \<not> py_isspace c \<and> py_lower_char c = c) s"
    using pattern_char_plain by (auto simp: list_all_iff)
  then have "py_strip s = s" by (intro py_strip_plain) (auto simp: list_all_iff)
  with all show ?thesis by (simp add: py_lower_def list_all_iff map_idI)
qed

lemma parse_capability_key_idem: "parse_capability_key raw = Inr s \<Longrightarrow> parse_capability_key s = Inr s"
  by (auto simp: parse_capability_key_def result_simps Let_def py_strip_idem)

lemma parse_resource_id_idem: "parse_resource_id raw = Inr s \<Longrightarrow> parse_resource_id s = Inr s"
  by (auto simp: parse_resource_id_def result_simps Let_def py_strip_idem)

lemma parse_action_name_idem: "parse_action_name raw = Inr s \<Longrightarrow> parse_action_name s = Inr s"
  by (auto simp: parse_action_name_def result_simps Let_def ident_plain)

lemma parse_all_id: "(\<And>x. x \<in> set xs \<Longrightarrow> f x = Inr x) \<Longrightarrow> parse_all f xs = Inr xs"
  by (induction xs) simp_all

lemma parse_all_str [simp]: "parse_all json_str (map JStr xs) = Inr xs"
  by (induction xs) simp_all

lemma parse_all_idem:
  assumes "parse_all f xs = Inr ys" and "\<And>x y. f x = Inr y \<Longrightarrow> f y = Inr y"
  shows "\<forall>y \<in> set ys. f y = Inr y"
  using parse_all_Inr [OF assms(1)] assms(2) by blast

lemma normalize_unique_values_idem: "normalize_unique_values v = Inr u \<Longrightarrow> normalize_unique_values u = Inr u"
  using normalize_unique_values_Inr [of v u]
  by (simp add: normalize_unique_values_def result_simps distinct_remdups_id sorted_sort_id)

lemma make_scope_idem:
  assumes "make_scope rt ids ops = Inr sc"
  shows "make_scope (sc_resource_type sc) (sc_resource_ids sc) (sc_operations sc) = Inr sc"
proof -
  from assms obtain rt' ids1 ids' ops1 ops' where p: "parse_action_name rt = Inr rt'" "length ids \<le> 32"
    "parse_all parse_resource_id ids = Inr ids1" "normalize_unique_values ids1 = Inr ids'"
    "1 \<le> length ops \<and> length ops \<le> 32" "parse_all parse_action_name ops = Inr ops1"
    "normalize_unique_values ops1 = Inr ops'"
    and sc: "sc = \<lparr>sc_resource_type = rt', sc_resource_ids = ids', sc_operations = ops'\<rparr>"
    unfolding make_scope_def bindE_eq_Inr by (auto simp: result_simps)
  note n = normalize_unique_values_Inr [OF p(4)] normalize_unique_values_Inr [OF p(7)]
  have "parse_all parse_resource_id ids' = Inr ids'"
    using parse_all_idem [OF p(3) parse_resource_id_idem] n by (intro parse_all_id) auto
  moreover have "parse_all parse_action_name ops' = Inr ops'"
    using parse_all_idem [OF p(6) parse_action_name_idem] n by (intro parse_all_id) auto
  moreover have "length ids' \<le> 32" "1 \<le> length ops' \<and> length ops' \<le> 32"
    using p(2,5) n parse_all_Inr [OF p(3)] parse_all_Inr [OF p(6)] by auto
  ultimately show ?thesis
    using parse_action_name_idem [OF p(1)] normalize_unique_values_idem [OF p(4)] normalize_unique_values_idem [OF p(7)]
    by (simp add: make_scope_def sc)
qed

lemma validate_scope_idem: "validate_scope v = Inr sc \<Longrightarrow> validate_scope (scope_dump sc) = Inr sc"
proof -
  assume "validate_scope v = Inr sc"
  then obtain rt ids ops where "make_scope rt ids ops = Inr sc"
    unfolding validate_scope_def bindE_eq_Inr by blast
  from make_scope_idem [OF this] show ?thesis
    by (simp add: validate_scope_def scope_dump_def known_fields_def required_field_def field_or_def)
qed

lemma validate_action_normal:
  assumes "validate_candidate_action v = Inr a"
  shows "action_normal a"
  using assms unfolding validate_candidate_action_def action_normal_def bindE_eq_Inr
  by (elim exE conjE) (auto intro: parse_capability_key_idem parse_action_name_idem validate_scope_idem)

lemma validate_plan_normal:
  assumes "validate_candidate_plan v = Inr p" and "a \<in> set (cp_actions p)"
  shows "action_normal a"
proof -
  from assms(1) obtain items where "parse_all validate_candidate_action items = Inr (cp_actions p)"
    unfolding validate_candidate_plan_def bindE_eq_Inr by (auto simp: result_simps)
  from parse_all_Inr [OF this] assms(2) validate_action_normal show ?thesis by blast
qed

lemma validate_stored_action:
  assumes "validate_candidate_action (action_dump a) = Inr b" and "action_normal a"
  shows "same_action b a"
  using assms
  by (auto simp: validate_candidate_action_def action_dump_def known_fields_def required_field_def field_or_def
      action_normal_def same_action_def result_simps)

lemma validate_stored_plan:
  assumes "validate_candidate_plan (plan_dump p) = Inr q" and "cp_actions p = [a]" and "action_normal a"
  shows "\<exists>b. cp_actions q = [b] \<and> same_action b a"
  using assms validate_stored_action [of a]
  by (auto simp: validate_candidate_plan_def plan_dump_def known_fields_def required_field_def field_or_def result_simps)

lemma digits_value_append: "digits_value acc (s @ t) = digits_value (digits_value acc s) t"
  by (induction acc s rule: digits_value.induct) simp_all

lemma digit_char_value: "d < 10 \<Longrightarrow> (of_char (digit_char d) :: nat) = 48 + d"
  by (simp add: digit_char_def)

lemma show_nat_value: "digits_value 0 (show_nat n) = n"
proof (induction n rule: show_nat.induct)
  case (1 n)
  then show ?case by (subst show_nat.simps) (auto simp: digits_value_append digit_char_value)
qed

lemma zeros_value: "digits_value 0 (replicate k (CHR ''0'') @ s) = digits_value 0 s"
  by (induction k) simp_all

lemma orch_key_inj [simp]: "orch_key n = orch_key m \<longleftrightarrow> n = m"
proof
  assume "orch_key n = orch_key m"
  then have "digits_value 0 (uuid_text n) = digits_value 0 (uuid_text m)" by (simp add: orch_key_def)
  then show "n = m" by (simp add: uuid_text_def zeros_value show_nat_value)
qed simp

end
