(* ===== verification/Orch_Writes.thy ===== *)
theory Orch_Writes
  imports Orch_Frames
begin

text \<open>
  The invariant of the Orchestrator: histories of workflows are paths of the lifecycle, a linked task
  is the task of the stored plan, an envelope carries a stored ALLOW decision for the planned action;
  and its preservation by every stage of \<^verbatim>\<open>orchestrator/service.py\<close>.
\<close>

section \<open>The invariant\<close>

definition orch_trail :: "uuid \<Rightarrow> 'z orch_world_scheme \<Rightarrow> (orchestration_state option \<times> orchestration_state) list" where
  "orch_trail wid w = map (\<lambda>s. (os_from_state s, os_to_state s)) (filter (\<lambda>s. os_workflow_id s = wid) (w_steps w))"

text \<open>The stored plan of a workflow, with its fingerprint and its only action.\<close>

definition plan_of :: "'z orch_world_scheme \<Rightarrow> uuid \<Rightarrow> string \<Rightarrow> candidate_action \<Rightarrow> bool" where
  "plan_of w wid f a \<longleftrightarrow>
     (\<exists>p \<in> set (w_plans w). \<exists>plan. vp_workflow_id p = wid \<and> vp_fingerprint p = f \<and>
        vp_plan_payload p = plan_dump plan \<and> cp_actions plan = [a] \<and> action_normal a)"

definition task_for :: "'z task_world_scheme \<Rightarrow> uuid \<Rightarrow> uuid \<Rightarrow> candidate_action \<Rightarrow> bool" where
  "task_for w uid tid a \<longleftrightarrow>
     (tid, uid, ca_capability_key a, ca_action a, ca_scope a) \<in> task_identity ` set (w_tasks w)"

definition linked :: "'z orch_world_scheme \<Rightarrow> workflow \<Rightarrow> bool" where
  "linked w x \<longleftrightarrow>
     (\<forall>t. ow_task_id x = Some t \<longrightarrow> (\<exists>f a. plan_of w (ow_id x) f a \<and> task_for w (ow_user_id x) t a))"

definition allow_for :: "decision_record list \<Rightarrow> uuid \<Rightarrow> uuid \<Rightarrow> candidate_action \<Rightarrow> bool" where
  "allow_for ds did uid a \<longleftrightarrow>
     (\<exists>d \<in> set ds. ad_id d = did \<and> ad_decision d = ALLOW \<and> ad_user_id d = uid \<and>
        ad_capability_key d = ca_capability_key a \<and> ad_action d = ca_action a \<and> ad_scope d = ca_scope a)"

definition holds :: "'z orch_world_scheme \<Rightarrow> uuid \<Rightarrow> uuid \<Rightarrow> bool" where
  "holds w wid uid \<longleftrightarrow> (wid, uid) \<in> (\<lambda>x. (ow_id x, ow_user_id x)) ` set (w_workflows w)"

definition envelope_ok :: "'z orch_world_scheme \<Rightarrow> action_envelope \<Rightarrow> bool" where
  "envelope_ok w e \<longleftrightarrow>
     holds w (en_workflow_id e) (en_user_id e) \<and> en_safe_mode e = SM_NORMAL \<and>
     (\<exists>a. plan_of w (en_workflow_id e) (en_plan_fingerprint e) a \<and> task_for w (en_user_id e) (en_task_id e) a \<and>
        en_capability_key e = ca_capability_key a \<and> en_action e = ca_action a \<and>
        en_scope_digest e = scope_digest w (ca_scope a) \<and>
        allow_for (w_decisions w) (en_authorization_decision_id e) (en_user_id e) a)"

definition has_envelope :: "'z orch_world_scheme \<Rightarrow> uuid \<Rightarrow> bool" where
  "has_envelope w wid \<longleftrightarrow> wid \<in> en_workflow_id ` set (w_envelopes w)"

definition workflow_ok :: "'z orch_world_scheme \<Rightarrow> workflow \<Rightarrow> bool" where
  "workflow_ok w x \<longleftrightarrow>
     trail orchestration_allowed None (orch_trail (ow_id x) w) \<and>
     trail_end None (orch_trail (ow_id x) w) = Some (ow_state x) \<and>
     ow_version x = int (length (orch_trail (ow_id x) w)) \<and> linked w x \<and>
     (ow_state x = OS_READY_FOR_EXECUTION \<longrightarrow> has_envelope w (ow_id x))"

definition orch_tables :: "'z orch_world_scheme \<Rightarrow> bool" where
  "orch_tables w \<longleftrightarrow>
     unique_keys ow_id (w_workflows w) \<and> keys_below ow_id (w_next w) (w_workflows w) \<and>
     distinct (map (\<lambda>x. (ow_user_id x, ow_idempotency_key x)) (w_workflows w)) \<and>
     keys_below os_workflow_id (w_next w) (w_steps w) \<and>
     unique_keys vp_workflow_id (w_plans w) \<and> unique_keys en_workflow_id (w_envelopes w) \<and>
     (\<forall>x \<in> set (w_workflows w). workflow_ok w x) \<and> (\<forall>e \<in> set (w_envelopes w). envelope_ok w e)"

definition orch_inv :: "'z orch_world_scheme \<Rightarrow> bool" where
  "orch_inv w \<longleftrightarrow> task_inv w \<and> unforeseen w \<and> orch_tables w"

text \<open>Growth: what was stored stays, the digest function is the same.\<close>

definition orch_grows :: "'z orch_world_scheme \<Rightarrow> 'z orch_world_scheme \<Rightarrow> bool" where
  "orch_grows w w' \<longleftrightarrow>
     w_next w \<le> w_next w' \<and> w_sha256 w' = w_sha256 w \<and>
     set (w_decisions w) \<subseteq> set (w_decisions w') \<and>
     task_identity ` set (w_tasks w) \<subseteq> task_identity ` set (w_tasks w') \<and>
     set (w_plans w) \<subseteq> set (w_plans w') \<and> set (w_envelopes w) \<subseteq> set (w_envelopes w') \<and>
     (\<lambda>x. (ow_id x, ow_user_id x)) ` set (w_workflows w) \<subseteq> (\<lambda>x. (ow_id x, ow_user_id x)) ` set (w_workflows w')"

definition orch_call :: "'z orch_world_scheme \<Rightarrow> 'z orch_world_scheme \<Rightarrow> bool" where
  "orch_call w w' \<longleftrightarrow>
     orch_inv w' \<and> orch_grows w w' \<and> t_idempotency_key ` set (w_tasks w') = t_idempotency_key ` set (w_tasks w)"

text \<open>Extra values of a transition change neither the identity of the row nor its link.\<close>

definition keeps_workflow :: "(workflow \<Rightarrow> workflow) \<Rightarrow> bool" where
  "keeps_workflow f \<longleftrightarrow>
     (\<forall>y. ow_id (f y) = ow_id y \<and> ow_user_id (f y) = ow_user_id y \<and> ow_idempotency_key (f y) = ow_idempotency_key y \<and>
       ow_request_fingerprint (f y) = ow_request_fingerprint y)"

text \<open>What every stage of a creation needs of its workflow.\<close>

definition staged :: "identity_context \<Rightarrow> workflow \<Rightarrow> 'z orch_world_scheme \<Rightarrow> bool" where
  "staged i x w \<longleftrightarrow> orch_inv w \<and> holds w (ow_id x) (ic_user_id i) \<and> no_task_for (ow_id x) w"

lemma orch_grows_refl [simp]: "orch_grows w w"
  by (simp add: orch_grows_def)

lemma orch_grows_trans: "orch_grows w w1 \<Longrightarrow> orch_grows w1 w2 \<Longrightarrow> orch_grows w w2"
  unfolding orch_grows_def by (elim conjE, intro conjI) (auto intro: order_trans)

lemma orch_call_refl: "orch_inv w \<Longrightarrow> orch_call w w"
  by (simp add: orch_call_def)

lemma orch_call_trans: "orch_call w w1 \<Longrightarrow> orch_call w1 w2 \<Longrightarrow> orch_call w w2"
  using orch_grows_trans by (auto simp: orch_call_def)

lemma orch_call_inv: "orch_call w w' \<Longrightarrow> orch_inv w'"
  by (simp add: orch_call_def)

lemma tasks_kept_grows: "tasks_kept w w' \<Longrightarrow> orch_same w w' \<Longrightarrow> orch_grows w w'"
  by (simp add: tasks_kept_def orch_same_def orch_grows_def)

section \<open>Growth keeps what is established\<close>

lemma plan_of_grows: "orch_grows w w' \<Longrightarrow> plan_of w wid f a \<Longrightarrow> plan_of w' wid f a"
  by (auto simp: plan_of_def orch_grows_def)

lemma task_for_grows: "orch_grows w w' \<Longrightarrow> task_for w uid tid a \<Longrightarrow> task_for w' uid tid a"
  by (auto simp: task_for_def orch_grows_def)

lemma holds_grows: "orch_grows w w' \<Longrightarrow> holds w wid uid \<Longrightarrow> holds w' wid uid"
  by (auto simp: holds_def orch_grows_def)

lemma has_envelope_grows: "orch_grows w w' \<Longrightarrow> has_envelope w wid \<Longrightarrow> has_envelope w' wid"
  by (auto simp: has_envelope_def orch_grows_def)

lemma allow_for_grows: "orch_grows w w' \<Longrightarrow> allow_for (w_decisions w) did uid a \<Longrightarrow> allow_for (w_decisions w') did uid a"
  by (auto simp: allow_for_def orch_grows_def)

lemma linked_grows: "orch_grows w w' \<Longrightarrow> linked w x \<Longrightarrow> linked w' x"
  using plan_of_grows task_for_grows unfolding linked_def by blast

lemma envelope_ok_grows:
  assumes g: "orch_grows w w'" and e: "envelope_ok w e"
  shows "envelope_ok w' e"
proof -
  have "scope_digest w' s = scope_digest w s" for s using g by (simp add: scope_digest_def orch_grows_def)
  with e show ?thesis unfolding envelope_ok_def
    using plan_of_grows [OF g] task_for_grows [OF g] holds_grows [OF g] allow_for_grows [OF g] by metis
qed

lemma orch_grows_digest: "orch_grows w w' \<Longrightarrow> plan_fingerprint w' p = plan_fingerprint w p"
  by (simp add: plan_fingerprint_def orch_grows_def)

lemma workflow_ok_grows:
  "orch_grows w w' \<Longrightarrow> w_steps w' = w_steps w \<Longrightarrow> workflow_ok w x \<Longrightarrow> workflow_ok w' x"
  using linked_grows has_envelope_grows by (auto simp: workflow_ok_def orch_trail_def)

lemma orch_tables_same:
  assumes "orch_tables w" and g: "orch_grows w w'" and s: "orch_same w w'"
  shows "orch_tables w'"
proof -
  have n: "w_next w \<le> w_next w'" using g by (simp add: orch_grows_def)
  from s have "w_steps w' = w_steps w" by (simp add: orch_same_def)
  note ok = workflow_ok_grows [OF g this] envelope_ok_grows [OF g]
  have "keys_below ow_id (w_next w') (w_workflows w)" "keys_below os_workflow_id (w_next w') (w_steps w)"
    using assms(1) keys_below_mono [OF _ n] unfolding orch_tables_def by blast+
  with assms(1) s ok show ?thesis by (simp add: orch_tables_def orch_same_def)
qed

lemma unforeseen_mono:
  "unforeseen w \<Longrightarrow> w_next w \<le> w_next w' \<Longrightarrow>
   t_idempotency_key ` set (w_tasks w') = t_idempotency_key ` set (w_tasks w) \<Longrightarrow> unforeseen w'"
  by (simp add: unforeseen_def no_task_for_def)

text \<open>Calls of the other components.\<close>

lemma outer_call:
  fixes w :: "'z orch_world_scheme"
  assumes inv: "orch_inv w" and k: "tasks_kept w w'" and t: "task_inv w'" and s: "orch_same w w'"
    and keys: "t_idempotency_key ` set (w_tasks w') = t_idempotency_key ` set (w_tasks w)"
  shows "orch_call w w'"
proof -
  note g = tasks_kept_grows [OF k s]
  then have "w_next w \<le> w_next w'" by (simp add: orch_grows_def)
  with inv g t keys orch_tables_same [OF _ g s] unforeseen_mono [of w w'] show ?thesis
    by (simp add: orch_call_def orch_inv_def)
qed

lemma task_orch_call: "orch_inv w \<Longrightarrow> task_call w w' \<Longrightarrow> orch_call w w'"
  for w :: "'z orch_world_scheme"
  using outer_call task_more_orch by (auto simp: task_call_def)

lemma frame_orch_call:
  fixes w :: "'z orch_world_scheme"
  assumes inv: "orch_inv w" and f: "task_frame w w'" "w_now w' = w_now w" "w_sha256 w' = w_sha256 w" and s: "orch_same w w'"
  shows "orch_call w w'"
proof (rule outer_call [OF inv tasks_kept_frame [OF f] _ s])
  show "task_inv w'" using task_frame_inv [OF f(1)] inv by (simp add: orch_inv_def)
  show "t_idempotency_key ` set (w_tasks w') = t_idempotency_key ` set (w_tasks w)" using f(1) by (simp add: task_frame_def)
qed

lemma mem_orch_call: "orch_inv w \<Longrightarrow> mem_frame w w' \<Longrightarrow> orch_call w w'"
  for w :: "'z orch_world_scheme"
  using frame_orch_call mem_frame_orch by (auto simp: mem_frame_def)

lemma ai_orch_call: "orch_inv w \<Longrightarrow> ai_grows w w' \<Longrightarrow> orch_call w w'"
  for w :: "'z orch_world_scheme"
  using frame_orch_call ai_grows_orch ai_grows_frame by blast

lemma audit_orch_call: "orch_inv w \<Longrightarrow> record_audit q w = Inr w' \<Longrightarrow> orch_call w w'"
  for w :: "'z orch_world_scheme"
  by (rule task_orch_call [OF _ record_audit_call]) (auto simp: orch_inv_def)

section \<open>Transitions\<close>

lemma append_step_Inr:
  assumes "append_step x st from to reason actor m w = Inr w'"
  shows "\<exists>s. os_workflow_id s = ow_id x \<and> os_from_state s = from \<and> os_to_state s = to \<and> os_user_id s = ow_user_id x \<and>
    w' = (draw w)\<lparr>w_steps := row_add s (w_steps w)\<rparr>"
proof -
  from assms obtain sm where "w' = (draw w)\<lparr>w_steps := row_add (new_step x st from to reason actor sm w) (w_steps w)\<rparr>"
    unfolding append_step_def bindE_eq_Inr by (auto split: if_splits)
  then show ?thesis by (intro exI [of _ "new_step x st from to reason actor sm w"]) (simp add: new_step_def)
qed

lemma moved_row_simps [simp]:
  "ow_state (moved_row x target reason extra now row) = target"
  "ow_version (moved_row x target reason extra now row) = ow_version x + 1"
  "ow_id (moved_row x target reason extra now row) = ow_id (extra row)"
  "ow_user_id (moved_row x target reason extra now row) = ow_user_id (extra row)"
  "ow_idempotency_key (moved_row x target reason extra now row) = ow_idempotency_key (extra row)"
  "ow_task_id (moved_row x target reason extra now row) = ow_task_id (extra row)"
  "ow_plan_fingerprint (moved_row x target reason extra now row) = ow_plan_fingerprint (extra row)"
  by (simp_all add: moved_row_def)

lemma orch_transition_spec:
  assumes "orch_transition x target st reason extra m w = Inr (x', w')"
  shows "target \<in> orchestration_allowed (ow_state x) \<and> (\<exists>row s. row \<in> set (w_workflows w) \<and> ow_id row = ow_id x \<and>
    ow_state row = ow_state x \<and> ow_version row = ow_version x \<and> x' = moved_row x target reason extra (w_now w) row \<and>
    os_workflow_id s = ow_id x' \<and> os_from_state s = Some (ow_state x) \<and> os_to_state s = target \<and>
    w' = (draw w)\<lparr>w_workflows := row_put ow_id x' (w_workflows w), w_steps := row_add s (w_steps w)\<rparr>)"
proof -
  let ?rows = "filter (\<lambda>y. ow_id y = ow_id x \<and> ow_state y = ow_state x \<and> ow_version y = ow_version x) (w_workflows w)"
  from assms have t: "target \<in> orchestration_allowed (ow_state x)"
    by (simp add: orch_transition_def orchestration_require_def result_simps)
  from assms obtain row where r: "?rows = [row]"
    unfolding orch_transition_def bindE_eq_Inr by (auto split: list.splits)
  let ?x = "moved_row x target reason extra (w_now w) row"
  from assms r have "append_step ?x st (Some (ow_state x)) target reason OA_SYSTEM m
      (w\<lparr>w_workflows := row_put ow_id ?x (w_workflows w)\<rparr>) = Inr w'" and x': "x' = ?x"
    by (auto simp: orch_transition_def bindE_eq_Inr Let_def split: if_splits)
  from append_step_Inr [OF this(1)] obtain s where "os_workflow_id s = ow_id ?x" "os_from_state s = Some (ow_state x)"
    "os_to_state s = target"
    "w' = (draw w)\<lparr>w_workflows := row_put ow_id ?x (w_workflows w), w_steps := row_add s (w_steps w)\<rparr>"
    by (auto simp: draw_def)
  with filter_singleton [OF r] t x' show ?thesis by blast
qed

lemma orch_trail_add:
  "w_steps w' = row_add s (w_steps w) \<Longrightarrow> orch_trail wid w' =
     (if os_workflow_id s = wid then orch_trail wid w @ [(os_from_state s, os_to_state s)] else orch_trail wid w)"
  by (simp add: orch_trail_def row_add_def)

lemma holds_unique:
  assumes "orch_tables w" and "holds w (ow_id row) uid" and "row \<in> set (w_workflows w)"
  shows "ow_user_id row = uid"
proof -
  from assms(2) obtain y where "y \<in> set (w_workflows w)" "ow_id y = ow_id row" "ow_user_id y = uid" by (auto simp: holds_def)
  with assms unique_keys_eq [of ow_id "w_workflows w" y row] show ?thesis by (auto simp: orch_tables_def)
qed

lemma orch_transition_call:
  fixes w :: "'z orch_world_scheme"
  assumes tr: "orch_transition x target st reason extra m w = Inr (x', w')" and inv: "orch_inv w" and k: "keeps_workflow extra"
    and link: "\<And>row. row \<in> set (w_workflows w) \<Longrightarrow> ow_id row = ow_id x \<Longrightarrow> linked w row \<Longrightarrow> linked w (extra row)"
    and ready: "target = OS_READY_FOR_EXECUTION \<Longrightarrow> has_envelope w (ow_id x)"
  shows "orch_call w w'"
proof -
  from orch_transition_spec [OF tr] obtain row s where target: "target \<in> orchestration_allowed (ow_state x)"
    and row: "row \<in> set (w_workflows w)" "ow_id row = ow_id x" "ow_state row = ow_state x" "ow_version row = ow_version x"
    and x': "x' = moved_row x target reason extra (w_now w) row"
    and s: "os_workflow_id s = ow_id x'" "os_from_state s = Some (ow_state x)" "os_to_state s = target"
    and w': "w' = (draw w)\<lparr>w_workflows := row_put ow_id x' (w_workflows w), w_steps := row_add s (w_steps w)\<rparr>" by blast
  have id: "ow_id x' = ow_id row" "ow_user_id x' = ow_user_id row" "ow_idempotency_key x' = ow_idempotency_key row"
    using k by (simp_all add: x' keeps_workflow_def)
  have tab: "orch_tables w" and u: "unique_keys ow_id (w_workflows w)" using inv by (simp_all add: orch_inv_def orch_tables_def)
  have key: "f x' = f row \<Longrightarrow> map f (row_put ow_id x' (w_workflows w)) = map f (w_workflows w)" for f :: "workflow \<Rightarrow> 'b"
    by (rule map_row_put_same [OF u row(1) id(1) [symmetric]])
  have same: "w_tasks w' = w_tasks w" "w_decisions w' = w_decisions w" "w_plans w' = w_plans w" "w_envelopes w' = w_envelopes w"
    "w_sha256 w' = w_sha256 w" "w_next w' = Suc (w_next w)" "w_workflows w' = row_put ow_id x' (w_workflows w)"
    "w_steps w' = row_add s (w_steps w)" "w_attempts w' = w_attempts w" "w_task_events w' = w_task_events w"
    by (simp_all add: w' draw_def)
  have g: "orch_grows w w'"
    using arg_cong [OF key [of "\<lambda>x. (ow_id x, ow_user_id x)"], of set] id by (simp add: orch_grows_def same)
  have ti: "task_inv w'"
    using task_frame_inv [of w w'] inv by (simp add: task_frame_def same orch_inv_def)
  have "workflow_ok w row" using tab row(1) by (simp add: orch_tables_def)
  then have new: "workflow_ok w' x'"
    unfolding workflow_ok_def orch_trail_add [OF same(8)] s id
    using target link [OF row(1,2)] ready row(2-4) linked_grows [OF g, of x'] has_envelope_grows [OF g, of "ow_id x"]
    by (auto simp: x' trail_append trail_end_append linked_def)
  have old: "workflow_ok w' y" if "y \<in> set (w_workflows w)" "ow_id y \<noteq> ow_id x'" for y
    using that tab linked_grows [OF g, of y] has_envelope_grows [OF g, of "ow_id y"]
    by (auto simp: workflow_ok_def orch_trail_add [OF same(8)] s orch_tables_def)
  have "\<forall>y \<in> set (w_workflows w'). workflow_ok w' y" using row_put_mem new old same(7) by metis
  moreover have "\<forall>e \<in> set (w_envelopes w'). envelope_ok w' e"
    using tab envelope_ok_grows [OF g] by (simp add: same orch_tables_def)
  moreover have "distinct (map (\<lambda>x. (ow_user_id x, ow_idempotency_key x)) (w_workflows w'))"
    using key [of "\<lambda>x. (ow_user_id x, ow_idempotency_key x)"] id tab by (simp add: same orch_tables_def)
  moreover have "keys_below ow_id (w_next w') (w_workflows w')" "keys_below os_workflow_id (w_next w') (w_steps w')"
    using tab row s(1) id(1) keys_below_Suc [of ow_id "w_next w"] keys_below_Suc [of os_workflow_id "w_next w"]
    by (auto simp: same table_simps orch_tables_def) (auto simp: keys_below_def)
  ultimately have "orch_tables w'" using tab by (simp add: orch_tables_def same table_simps)
  moreover have "unforeseen w'" using inv unforeseen_mono [of w w'] by (simp add: same orch_inv_def)
  ultimately show ?thesis using g ti by (simp add: orch_call_def orch_inv_def same)
qed

text \<open>What the next stage knows of the row a transition returns.\<close>

lemma orch_transition_row:
  assumes "orch_transition x target st reason extra m w = Inr (x', w')" and "keeps_workflow extra"
  shows "ow_id x' = ow_id x" "x' \<in> set (w_workflows w')" "ow_state x' = target"
    "w_tasks w' = w_tasks w" "w_plans w' = w_plans w" "w_sha256 w' = w_sha256 w" "w_decisions w' = w_decisions w"
proof -
  from orch_transition_spec [OF assms(1)] obtain row s where
    "row \<in> set (w_workflows w)" "ow_id row = ow_id x" and x': "x' = moved_row x target reason extra (w_now w) row"
    and w': "w' = (draw w)\<lparr>w_workflows := row_put ow_id x' (w_workflows w), w_steps := row_add s (w_steps w)\<rparr>" by blast
  moreover have "ow_id x' = ow_id row" using assms(2) by (simp add: x' keeps_workflow_def)
  ultimately show "ow_id x' = ow_id x" "x' \<in> set (w_workflows w')" "ow_state x' = target"
    "w_tasks w' = w_tasks w" "w_plans w' = w_plans w" "w_sha256 w' = w_sha256 w" "w_decisions w' = w_decisions w"
    by (auto simp: draw_def intro: row_put_intro)
qed

lemma orch_tables_below:
  "orch_tables w \<Longrightarrow> keys_below ow_id (Suc (w_next w)) (w_workflows w) \<and> keys_below os_workflow_id (Suc (w_next w)) (w_steps w)"
  using keys_below_Suc unfolding orch_tables_def by blast

section \<open>The stored plan\<close>

lemma insert_plan_call:
  fixes w :: "'z orch_world_scheme"
  assumes ins: "insert_plan p (w_plans w) = Some rows" and inv: "orch_inv w" and w': "w' = (draw w)\<lparr>w_plans := rows\<rparr>"
    and p: "vp_workflow_id p = wid" "vp_fingerprint p = f" "vp_plan_payload p = plan_dump plan"
    and a: "cp_actions plan = [a]" "action_normal a"
  shows "orch_call w w' \<and> plan_of w' wid f a"
proof -
  from ins have rows: "rows = row_add p (w_plans w)" and free: "vp_workflow_id p \<notin> vp_workflow_id ` set (w_plans w)"
    by (auto simp: insert_plan_def row_find_None split: if_splits)
  have same: "w_tasks w' = w_tasks w" "w_decisions w' = w_decisions w" "w_envelopes w' = w_envelopes w"
    "w_sha256 w' = w_sha256 w" "w_next w' = Suc (w_next w)" "w_workflows w' = w_workflows w" "w_steps w' = w_steps w"
    "w_attempts w' = w_attempts w" "w_task_events w' = w_task_events w" "w_plans w' = row_add p (w_plans w)"
    by (simp_all add: w' rows draw_def)
  have g: "orch_grows w w'" by (auto simp: orch_grows_def same table_simps)
  have ti: "task_inv w'" using task_frame_inv [of w w'] inv by (simp add: task_frame_def same orch_inv_def)
  have tab: "orch_tables w" using inv by (simp add: orch_inv_def)
  have "\<forall>x \<in> set (w_workflows w'). workflow_ok w' x" "\<forall>e \<in> set (w_envelopes w'). envelope_ok w' e"
    using tab envelope_ok_grows [OF g] workflow_ok_grows [OF g same(7)] by (simp_all add: same(3,6) orch_tables_def)
  with tab free have "orch_tables w'"
    using orch_tables_below [OF tab] by (simp add: orch_tables_def same table_simps)
  moreover have "unforeseen w'" using inv unforeseen_mono [of w w'] by (simp add: same orch_inv_def)
  ultimately have "orch_call w w'" using g ti by (simp add: orch_call_def orch_inv_def same)
  moreover have "plan_of w' wid f a" using p a by (auto simp: plan_of_def same table_simps)
  ultimately show ?thesis by simp
qed

section \<open>The envelope\<close>

lemma create_envelope_call:
  fixes w :: "'z orch_world_scheme"
  assumes c: "create_envelope svc i x plan t d w = Inr w'" and inv: "orch_inv w"
    and h: "holds w (ow_id x) (ic_user_id i)" and plan: "plan_of w (ow_id x) (plan_fingerprint w plan) a"
    and b: "cp_actions plan = [b]" "same_action b a"
    and t: "task_for w (ic_user_id i) (t_id t) a" and al: "allow_for (w_decisions w) (dc_decision_id d) (ic_user_id i) a"
  shows "orch_call w w' \<and> has_envelope w' (ow_id x) \<and> w_workflows w' = w_workflows w \<and> w_tasks w' = w_tasks w"
proof -
  from c b obtain permission where cases: "dc_permission_id d = Some permission"
    "(w' = w \<and> row_find (\<lambda>e. en_workflow_id e = ow_id x) (w_envelopes w) \<noteq> None) \<or>
     (\<exists>rows. insert_envelope (new_envelope svc i x plan b t d permission w) (w_envelopes w) = Some rows \<and>
        w' = (draw w)\<lparr>w_envelopes := rows\<rparr>)"
    by (auto simp: create_envelope_def split: option.splits if_splits)
  let ?e = "new_envelope svc i x plan b t d permission w"
  from cases(2) show ?thesis
  proof (elim disjE conjE exE)
    assume "w' = w" "row_find (\<lambda>e. en_workflow_id e = ow_id x) (w_envelopes w) \<noteq> None"
    then obtain e where "row_find (\<lambda>e. en_workflow_id e = ow_id x) (w_envelopes w) = Some e" by blast
    from row_find_Some [OF this] have "has_envelope w (ow_id x)" by (force simp: has_envelope_def)
    with \<open>w' = w\<close> inv show ?thesis by (simp add: orch_call_refl)
  next
    fix rows assume ins: "insert_envelope ?e (w_envelopes w) = Some rows" and w': "w' = (draw w)\<lparr>w_envelopes := rows\<rparr>"
    from ins have rows: "rows = row_add ?e (w_envelopes w)" and free: "ow_id x \<notin> en_workflow_id ` set (w_envelopes w)"
      and mode: "en_safe_mode ?e = SM_NORMAL"
      by (auto simp: insert_envelope_def envelope_row_ok_def row_find_None new_envelope_def split: if_splits)
    have same: "w_tasks w' = w_tasks w" "w_decisions w' = w_decisions w" "w_plans w' = w_plans w"
      "w_sha256 w' = w_sha256 w" "w_next w' = Suc (w_next w)" "w_workflows w' = w_workflows w" "w_steps w' = w_steps w"
      "w_attempts w' = w_attempts w" "w_task_events w' = w_task_events w" "w_envelopes w' = row_add ?e (w_envelopes w)"
      by (simp_all add: w' rows draw_def)
    have g: "orch_grows w w'" by (auto simp: orch_grows_def same table_simps)
    have ti: "task_inv w'" using task_frame_inv [of w w'] inv by (simp add: task_frame_def same orch_inv_def)
    have tab: "orch_tables w" using inv by (simp add: orch_inv_def)
    have "envelope_ok w ?e"
      unfolding envelope_ok_def using mode h plan b(2) t al
      by (simp add: new_envelope_def same_action_def) metis
    then have "\<forall>e \<in> set (w_envelopes w'). envelope_ok w' e"
      using tab envelope_ok_grows [OF g] by (simp add: same(10) table_simps orch_tables_def)
    moreover have "\<forall>x \<in> set (w_workflows w'). workflow_ok w' x"
      using tab workflow_ok_grows [OF g same(7)] by (simp add: same(6) orch_tables_def)
    moreover have "en_workflow_id ?e \<notin> en_workflow_id ` set (w_envelopes w)" using free by (simp add: new_envelope_def)
    ultimately have "orch_tables w'"
      using tab orch_tables_below [OF tab] by (simp add: orch_tables_def same table_simps)
    moreover have "unforeseen w'" using inv unforeseen_mono [of w w'] by (simp add: same orch_inv_def)
    ultimately have "orch_call w w'" using g ti by (simp add: orch_call_def orch_inv_def same)
    moreover have "has_envelope w' (ow_id x)" by (simp add: has_envelope_def same table_simps) (simp add: new_envelope_def)
    ultimately show ?thesis by (simp add: same)
  qed
qed

section \<open>Stages of a creation\<close>

lemma keeps_workflow_simps [simp]:
  "keeps_workflow id" "keeps_workflow (decision_values d)" "keeps_workflow (link_values t did)"
  "keeps_workflow (resume_values t)" "keeps_workflow (\<lambda>y. y\<lparr>ow_plan_fingerprint := f\<rparr>)"
  "keeps_workflow (\<lambda>y. y\<lparr>ow_routing_decision_id := r\<rparr>)"
  by (simp_all add: keeps_workflow_def decision_values_def link_values_def resume_values_def)

lemma linked_cong:
  "ow_id y = ow_id x \<Longrightarrow> ow_user_id y = ow_user_id x \<Longrightarrow> ow_task_id y = ow_task_id x \<Longrightarrow> linked w y = linked w x"
  by (simp add: linked_def)

text \<open>A transition that neither links a task nor makes the workflow ready.\<close>

lemma plain_transition_call:
  fixes w :: "'z orch_world_scheme"
  assumes "orch_transition x target st reason extra m w = Inr (x', w')" and "orch_inv w" and "keeps_workflow extra"
    and "\<And>y. ow_task_id (extra y) = ow_task_id y" and "target \<noteq> OS_READY_FOR_EXECUTION"
  shows "orch_call w w'"
  by (rule orch_transition_call [OF assms(1-3)]) (use assms(3-5) in \<open>auto simp: keeps_workflow_def linked_def\<close>)

lemma orch_deny_call:
  fixes w :: "'z orch_world_scheme"
  assumes "orch_deny i x reason extra w = Inr (x', w')" and inv: "orch_inv w" and "keeps_workflow extra"
    and "\<And>y. ow_task_id (extra y) = ow_task_id y"
  shows "orch_call w w'"
proof -
  from assms(1) obtain w1 q where tr: "orch_transition x OS_DENIED OT_AUTHORITY_BLOCKED reason extra [] w = Inr (x', w1)"
    and au: "record_audit q w1 = Inr w'" by (auto simp: orch_deny_def bindE_eq_Inr)
  have c: "orch_call w w1" using plain_transition_call [OF tr inv assms(3,4)] by simp
  from orch_call_trans [OF c audit_orch_call [OF orch_call_inv [OF c] au]] show ?thesis .
qed

lemma orch_fail_call:
  fixes w :: "'z orch_world_scheme"
  assumes "orch_fail i x reason w = Inr (x', w')" and inv: "orch_inv w"
  shows "orch_call w w'"
proof -
  from assms(1) obtain w1 q where tr: "orch_transition x OS_FAILED OT_FAILED reason id [] w = Inr (x', w1)"
    and au: "record_audit q w1 = Inr w'" by (auto simp: orch_fail_def bindE_eq_Inr)
  have c: "orch_call w w1" using plain_transition_call [OF tr inv] by simp
  from orch_call_trans [OF c audit_orch_call [OF orch_call_inv [OF c] au]] show ?thesis .
qed

lemma denied_result_call:
  fixes w :: "'z orch_world_scheme"
  assumes "denied_result i x reason extra w = Inr (res, w')" and inv: "orch_inv w" and "extra = id \<or> extra = decision_values d"
  shows "orch_call w w'"
proof -
  from assms(1) obtain x1 where "orch_deny i x reason extra w = Inr (x1, w')" by (auto simp: denied_result_def bindE_eq_Inr)
  from orch_deny_call [OF this inv] assms(3) show ?thesis by (auto simp: decision_values_def)
qed

lemma failed_result_call: "failed_result i x reason w = Inr (res, w') \<Longrightarrow> orch_inv w \<Longrightarrow> orch_call w w'"
  for w :: "'z orch_world_scheme"
  using orch_fail_call by (auto simp: failed_result_def bindE_eq_Inr)

lemma state_for_task_ready: "state_for_task s = Inr OS_READY_FOR_EXECUTION \<longleftrightarrow> s = TS_QUEUED"
  by (cases s) simp_all

text \<open>The stored decision of a queued task allows its action.\<close>

lemma queued_allow_for:
  assumes inv: "task_inv w" and t: "t \<in> set (w_tasks w)" "t_status t = TS_QUEUED"
    and a: "t_capability_key t = ca_capability_key a" "t_action t = ca_action a" "t_scope t = ca_scope a"
  shows "allow_for (w_decisions w) (t_authorization_decision_id t) (t_user_id t) a"
proof -
  from inv t have "decision_allows (w_decisions w) t" by (auto simp: task_inv_def task_base_inv_def task_ok_def needs_authority_def)
  with a show ?thesis by (auto simp: decision_allows_def allow_for_def)
qed

lemma task_for_row:
  "t \<in> set (w_tasks w) \<Longrightarrow> t_capability_key t = ca_capability_key a \<Longrightarrow> t_action t = ca_action a \<Longrightarrow>
   t_scope t = ca_scope a \<Longrightarrow> task_for w (t_user_id t) (t_id t) a"
  by (force simp: task_for_def task_identity_def)

text \<open>
  Linking the task: at creation with the values of the new task, at resumption with those of the
  evaluated one. Both write the same envelope.
\<close>

lemma handoff_call:
  fixes w :: "'z orch_world_scheme"
  assumes env: "(if target = OS_READY_FOR_EXECUTION then create_envelope svc i x plan t d w else Inr w) = Inr w1"
    and tr: "orch_transition x target st reason extra m w1 = Inr (x1, w2)" and st: "state_for_task (t_status t) = Inr target"
    and inv: "orch_inv w" and h: "holds w (ow_id x) (ic_user_id i)" and pl: "plan_of w (ow_id x) (plan_fingerprint w plan) a"
    and b: "cp_actions plan = [b]" "same_action b a"
    and t: "t \<in> set (w_tasks w)" "t_user_id t = ic_user_id i" "t_capability_key t = ca_capability_key a"
      "t_action t = ca_action a" "t_scope t = ca_scope a"
    and d: "dc_decision_id d = t_authorization_decision_id t"
    and extra: "extra = link_values t (dc_decision_id d) \<or> extra = resume_values t"
  shows "orch_call w w2"
proof -
  note tf = task_for_row [OF t(1,3-5), unfolded t(2)]
  have al: "target = OS_READY_FOR_EXECUTION \<Longrightarrow> allow_for (w_decisions w) (dc_decision_id d) (ic_user_id i) a"
    using queued_allow_for [OF _ t(1) _ t(3-5)] inv st t(2) d by (auto simp: orch_inv_def state_for_task_ready)
  have c1: "orch_call w w1 \<and> (target = OS_READY_FOR_EXECUTION \<longrightarrow> has_envelope w1 (ow_id x)) \<and> w_workflows w1 = w_workflows w"
    using env create_envelope_call [OF _ inv h pl b tf al] inv by (auto simp: orch_call_refl split: if_splits)
  then have inv1: "orch_inv w1" and g: "orch_grows w w1" by (simp_all add: orch_call_def)
  have "orch_call w1 w2"
  proof (rule orch_transition_call [OF tr inv1])
    show "keeps_workflow extra" using extra by auto
    show "target = OS_READY_FOR_EXECUTION \<Longrightarrow> has_envelope w1 (ow_id x)" using c1 by simp
    fix row assume r: "row \<in> set (w_workflows w1)" "ow_id row = ow_id x" "linked w1 row"
    have "ow_user_id row = ic_user_id i"
      using holds_unique [of w1 row] holds_grows [OF g h] inv1 r(1,2) by (simp add: orch_inv_def)
    then have "linked w1 (link_values t (dc_decision_id d) row)"
      using r(2) plan_of_grows [OF g pl] task_for_grows [OF g tf] by (simp add: linked_def link_values_def) blast
    moreover have "linked w1 (resume_values t row)" using r(3) by (simp add: linked_def resume_values_def)
    ultimately show "linked w1 (extra row)" using extra by blast
  qed
  with c1 show ?thesis by (blast intro: orch_call_trans)
qed

lemma link_task_call:
  fixes w :: "'z orch_world_scheme"
  assumes l: "link_task svc i x plan a t d w = Inr (res, w')" and inv: "orch_inv w" and h: "holds w (ow_id x) (ic_user_id i)"
    and pl: "plan_of w (ow_id x) (plan_fingerprint w plan) a" and b: "cp_actions plan = [a]"
    and t: "t \<in> set (w_tasks w)" "t_user_id t = ic_user_id i" "t_capability_key t = ca_capability_key a"
      "t_action t = ca_action a" "t_scope t = ca_scope a" and d: "dc_decision_id d = t_authorization_decision_id t"
  shows "orch_call w w'"
proof -
  from l obtain target where st: "state_for_task (t_status t) = Inr target" by (auto simp: link_task_def bindE_eq_Inr)
  show ?thesis
  proof (cases "target = OS_READY_FOR_EXECUTION \<and> \<not> permits_execution_readiness (oc_policy svc)")
    case True
    with l st have "denied_result i x OR_SAFE_MODE_BLOCKED id w = Inr (res, w')" by (simp add: link_task_def)
    from denied_result_call [OF this inv] show ?thesis by simp
  next
    case False
    then have no: "(target = OS_READY_FOR_EXECUTION \<and> \<not> permits_execution_readiness (oc_policy svc)) = False" by blast
    from l obtain w1 x1 w2 where
      e: "(if target = OS_READY_FOR_EXECUTION then create_envelope svc i x plan t d w else Inr w) = Inr w1"
      and tr: "orch_transition x target OT_TASK_LINKED (reason_for_state target) (link_values t (dc_decision_id d)) [] w1 = Inr (x1, w2)"
      and au: "audit_outcome i x1 (ca_capability_key a) (ca_action a) (reason_for_state target) w2 = Inr w'"
      unfolding link_task_def st bindE_Inr no if_False bindE_eq_Inr by (auto simp: bindE_eq_Inr)
    have c: "orch_call w w2" by (rule handoff_call [OF e tr st inv h pl b _ t d]) (simp_all add: same_action_def)
    from orch_call_trans [OF c audit_orch_call [OF orch_call_inv [OF c] au [unfolded audit_outcome_def]]] show ?thesis .
  qed
qed

lemma created_orch_inv:
  fixes w :: "'z orch_world_scheme"
  assumes inv: "orch_inv w" and k: "tasks_kept w w1" and t: "task_inv w1" and m: "task_world.more w1 = task_world.more w"
    and keys: "t_idempotency_key ` set (w_tasks w1) \<subseteq> insert key (t_idempotency_key ` set (w_tasks w))"
    and key: "\<forall>n \<ge> w_next w. key \<noteq> orch_key n"
  shows "orch_inv w1 \<and> orch_grows w w1"
proof -
  note sm = task_more_orch [OF m]
  note g = tasks_kept_grows [OF k sm]
  then have n: "w_next w \<le> w_next w1" by (simp add: orch_grows_def)
  have "unforeseen w1"
    unfolding unforeseen_def no_task_for_def
  proof (intro allI impI notI)
    fix x assume x: "w_next w1 \<le> x" "orch_key x \<in> t_idempotency_key ` set (w_tasks w1)"
    have "w_next w \<le> x" using n x(1) by (rule order_trans)
    with inv key have "orch_key x \<notin> t_idempotency_key ` set (w_tasks w)" "key \<noteq> orch_key x"
      by (auto simp only: orch_inv_def unforeseen_def no_task_for_def)
    with keys x(2) show False by blast
  qed
  with t orch_tables_same [OF _ g sm] inv g show ?thesis by (simp add: orch_inv_def)
qed

lemma stage_task_inv:
  fixes w :: "'z orch_world_scheme"
  assumes s: "stage_task svc i r x plan a w = Inr (res, w')" and inv: "orch_inv w" and h: "holds w (ow_id x) (ic_user_id i)"
    and pl: "plan_of w (ow_id x) (plan_fingerprint w plan) a" and b: "cp_actions plan = [a]" and new: "no_task_for (ow_id x) w"
  shows "orch_inv w'"
proof -
  let ?rq = "orch_task_request i r x a"
  from s obtain created w1 where c: "create_task i ?rq w = Inr (created, w1)"
    by (auto simp: stage_task_def bindE_eq_Inr simp del: split_paired_Ex)
  with s have k: "(\<exists>d reason. denied_result i x reason (decision_values d) w1 = Inr (res, w')) \<or>
      (\<exists>t d. cr_task created = Some t \<and> cr_decision created = Some d \<and> link_task svc i x plan a t d w1 = Inr (res, w'))"
    by (cases "cr_task created"; cases "cr_decision created") (auto simp: stage_task_def split: if_splits)
  have key: "tc_idempotency_key ?rq = orch_key (ow_id x)" by (simp add: orch_task_request_def orch_key_def)
  have ti: "task_inv w" using inv by (simp add: orch_inv_def)
  from create_task_call [OF c ti] new key have cc: "tasks_kept w w1" "task_inv w1" "task_world.more w1 = task_world.more w"
    "t_idempotency_key ` set (w_tasks w1) \<subseteq> insert (orch_key (ow_id x)) (t_idempotency_key ` set (w_tasks w))"
    "\<And>t. cr_task created = Some t \<Longrightarrow> t \<in> set (w_tasks w1) \<and> t_user_id t = ic_user_id i \<and>
       t_capability_key t = ca_capability_key a \<and> t_action t = ca_action a \<and> t_scope t = ca_scope a \<and>
       (\<exists>d. cr_decision created = Some d \<and> dc_decision_id d = t_authorization_decision_id t)"
    by (auto simp: no_task_for_def orch_task_request_def)
  from h inv have low: "ow_id x < w_next w" by (auto simp: holds_def orch_inv_def orch_tables_def keys_below_def)
  then have "\<forall>n \<ge> w_next w. orch_key (ow_id x) \<noteq> orch_key n" by simp
  from created_orch_inv [OF inv cc(1-4) this] have inv1: "orch_inv w1" and g: "orch_grows w w1" by (rule conjunct1, rule conjunct2)
  have pl1: "plan_of w1 (ow_id x) (plan_fingerprint w1 plan) a"
    using plan_of_grows [OF g pl] orch_grows_digest [OF g] by simp
  from k show ?thesis
  proof (elim disjE exE conjE)
    fix d reason assume "denied_result i x reason (decision_values d) w1 = Inr (res, w')"
    from denied_result_call [OF this inv1] orch_call_inv show ?thesis by blast
  next
    fix t d assume t: "cr_task created = Some t" "cr_decision created = Some d"
      and l: "link_task svc i x plan a t d w1 = Inr (res, w')"
    from link_task_call [OF l inv1 holds_grows [OF g h] pl1 b] cc(5) [OF t(1)] t(2)
    show ?thesis by (simp add: orch_call_def)
  qed
qed

lemma staged_call: "staged i x w \<Longrightarrow> orch_call w w' \<Longrightarrow> ow_id x' = ow_id x \<Longrightarrow> staged i x' w'"
  using holds_grows by (auto simp: staged_def orch_call_def no_task_for_def)

lemma staged_transition:
  assumes tr: "orch_transition x target st reason extra m w = Inr (x', w')" and s: "staged i x w" and "keeps_workflow extra"
    and "\<And>y. ow_task_id (extra y) = ow_task_id y" and "target \<noteq> OS_READY_FOR_EXECUTION"
  shows "staged i x' w'"
  using staged_call [OF s plain_transition_call [OF tr _ assms(3-5)] orch_transition_row(1) [OF tr assms(3)]] s
  by (simp add: staged_def)

lemma staged_ends:
  assumes "staged i x w"
  shows "denied_result i x reason id w = Inr (res, w') \<Longrightarrow> orch_inv w'"
    and "failed_result i x reason w = Inr (res, w') \<Longrightarrow> orch_inv w'"
  using denied_result_call [of i x reason id w res w'] failed_result_call [of i x reason w res w'] assms
  by (auto simp: staged_def orch_call_def)

lemma stage_plan_inv:
  fixes w :: "'z orch_world_scheme"
  assumes s: "stage_plan svc i r x out w = Inr (res, w')" and st: "staged i x w"
  shows "orch_inv w'"
proof -
  have inv: "orch_inv w" using st by (simp add: staged_def)
  let ?parsed = "case oc_parse_json svc out of None \<Rightarrow> Inl PyValueError | Some v \<Rightarrow> validate_candidate_plan v"
  show ?thesis
  proof (cases ?parsed)
    case Inl
    with s have "failed_result i x OR_INVALID_MODEL_PROPOSAL w = Inr (res, w')" by (simp add: stage_plan_def)
    with staged_ends [OF st] show ?thesis by blast
  next
    case (Inr plan)
    then obtain v where v: "validate_candidate_plan v = Inr plan" by (auto split: option.splits)
    show ?thesis
    proof (cases "\<exists>a. cp_actions plan = [a] \<and> capability_allows (ca_capability_key a) (ca_action a) w")
      case False
      with s Inr have "failed_result i x OR_INVALID_MODEL_PROPOSAL w = Inr (res, w') \<or>
          denied_result i x OR_INVALID_CAPABILITY_ACTION id w = Inr (res, w')"
        by (auto simp: stage_plan_def split: list.splits)
      with staged_ends [OF st] show ?thesis by blast
    next
      case True
      then obtain a where a: "cp_actions plan = [a]" "capability_allows (ca_capability_key a) (ca_action a) w" by blast
      let ?p = "\<lparr>vp_id = w_next w, vp_workflow_id = ow_id x, vp_fingerprint = plan_fingerprint w plan,
                 vp_plan_payload = plan_dump plan, vp_created_at = w_now w\<rparr>"
      from s Inr a obtain rows x1 w1 where ins: "insert_plan ?p (w_plans w) = Some rows"
        and tr: "orch_transition x OS_PLAN_VALIDATED OT_PROPOSAL_VALIDATED OR_PLAN_VALID
           (\<lambda>y. y\<lparr>ow_plan_fingerprint := Some (plan_fingerprint w plan)\<rparr>) [] ((draw w)\<lparr>w_plans := rows\<rparr>) = Inr (x1, w1)"
        and tk: "stage_task svc i r x1 plan a w1 = Inr (res, w')"
        by (auto simp: stage_plan_def Let_def bindE_eq_Inr split: option.splits)
      have an: "action_normal a" using validate_plan_normal [OF v] a(1) by simp
      from insert_plan_call [OF ins inv refl, of "ow_id x" "plan_fingerprint w plan" plan a] a(1) an
      have c: "orch_call w ((draw w)\<lparr>w_plans := rows\<rparr>)"
        and pl: "plan_of ((draw w)\<lparr>w_plans := rows\<rparr>) (ow_id x) (plan_fingerprint w plan) a" by simp_all
      have st1: "staged i x1 w1" by (rule staged_transition [OF tr staged_call [OF st c refl]]) simp_all
      have same: "ow_id x1 = ow_id x" "w_plans w1 = rows" "w_sha256 w1 = w_sha256 w"
        using orch_transition_row [OF tr] by (simp_all add: draw_def)
      with pl have "plan_of w1 (ow_id x1) (plan_fingerprint w1 plan) a" by (simp add: plan_of_def plan_fingerprint_def)
      with stage_task_inv [OF tk _ _ _ a(1)] st1 show ?thesis by (simp add: staged_def)
    qed
  qed
qed

lemma stage_execution_inv:
  fixes w :: "'z orch_world_scheme"
  assumes s: "stage_execution svc i r x execution w = Inr (res, w')" and st: "staged i x w"
  shows "orch_inv w'"
proof -
  from s obtain x2 w3 x3 w4 where
    t2: "orch_transition x OS_ROUTED OT_AI_ROUTED OR_ROUTING_SELECTED
           (\<lambda>y. y\<lparr>ow_routing_decision_id := Some (rd_id (ax_routing_decision execution))\<rparr>) [] w = Inr (x2, w3)"
    and t3: "orch_transition x2 OS_PROPOSAL_GENERATED OT_PROPOSAL_VALIDATED OR_ROUTING_SELECTED id [] w3 = Inr (x3, w4)"
    and k: "(\<exists>x4. orch_transition x3 OS_COMPLETED_NO_ACTION OT_PROPOSAL_VALIDATED OR_INFORMATIONAL_COMPLETE id [] w4 = Inr (x4, w')) \<or>
        stage_plan svc i r x3 (ps_output_text (ax_response execution)) w4 = Inr (res, w')"
    by (auto simp: stage_execution_def bindE_eq_Inr split: if_splits)
  have "staged i x2 w3" by (rule staged_transition [OF t2 st]) simp_all
  then have st4: "staged i x3 w4" by (rule staged_transition [OF t3]) simp_all
  from k show ?thesis
  proof (elim disjE exE)
    fix x4 assume "orch_transition x3 OS_COMPLETED_NO_ACTION OT_PROPOSAL_VALIDATED OR_INFORMATIONAL_COMPLETE id [] w4 = Inr (x4, w')"
    from staged_transition [OF this st4] show ?thesis by (simp add: staged_def)
  qed (rule stage_plan_inv [OF _ st4])
qed

lemma stage_route_inv:
  fixes w :: "'z orch_world_scheme"
  assumes s: "stage_route svc i r pack x w = Inr (res, w')" and st: "staged i x w"
  shows "orch_inv w'"
proof -
  from s obtain meta x1 w1 routing request out w2 where
    t1: "orch_transition x OS_CONTEXT_PREPARED OT_CONTEXT_SELECTED OR_CONTEXT_READY id meta w = Inr (x1, w1)"
    and iv: "invoke (oc_router svc) i routing request [] \<lparr>cu_daily = 0, cu_monthly = 0\<rparr> w1 = Inr (out, w2)"
    and body: "(case out of
          Inl e \<Rightarrow>
            if e = AIRoutingDeniedError then denied_result i x1 OR_SENSITIVITY_ROUTING_DENIED id w2
            else if e = AIProviderExecutionError then failed_result i x1 OR_PROVIDER_FAILURE w2
            else Inl e
        | Inr execution \<Rightarrow> stage_execution svc i r x1 execution w2) = Inr (res, w')"
    unfolding stage_route_def Let_def bindE_eq_Inr by (auto simp: bindE_eq_Inr)
  have st1: "staged i x1 w1" by (rule staged_transition [OF t1 st]) simp_all
  then have st2: "staged i x1 w2"
    using staged_call [OF st1 ai_orch_call [OF _ conjunct1 [OF invoke_parts [OF iv]]] refl] by (simp add: staged_def)
  from body show ?thesis
  proof (cases out)
    case (Inl e)
    with body staged_ends [OF st2] show ?thesis by (auto split: if_splits)
  next
    case (Inr execution)
    with body stage_execution_inv [OF _ st2] show ?thesis by simp
  qed
qed

lemma stage_context_inv:
  fixes w :: "'z orch_world_scheme"
  assumes s: "stage_context svc i r x w = Inr (res, w')" and st: "staged i x w"
  shows "orch_inv w'"
proof -
  from s consider (denied) reason where "denied_result i x reason id w = Inr (res, w')"
    | (memory) m w1 where "build_context_pack i (oq_memory_items r) w = Inr (m, w1)"
        "denied_result i x OR_PERMISSION_REQUIRED id w1 = Inr (res, w') \<or> (\<exists>pack. stage_route svc i r (Some pack) x w1 = Inr (res, w'))"
    | (plain) "stage_route svc i r None x w = Inr (res, w')"
    by (auto simp: stage_context_def bindE_eq_Inr split: if_splits option.splits) blast
  then show ?thesis
  proof cases
    case denied
    with staged_ends [OF st] show ?thesis by blast
  next
    case memory
    have "orch_inv w" using st by (simp add: staged_def)
    from staged_call [OF st mem_orch_call [OF this build_context_pack_frame [OF memory(1)]] refl]
    have "staged i x w1" .
    with memory(2) staged_ends stage_route_inv show ?thesis by blast
  next
    case plain
    with stage_route_inv st show ?thesis by blast
  qed
qed

text \<open>A new workflow enters with its first step.\<close>

lemma new_workflow_staged:
  fixes w :: "'z orch_world_scheme"
  assumes ins: "insert_workflow (new_workflow svc i r w) (w_workflows w) = Some rows" and inv: "orch_inv w"
    and st: "append_step (new_workflow svc i r w) OT_RECEIVED None OS_RECEIVED OR_REQUEST_RECEIVED OA_USER []
               ((draw w)\<lparr>w_workflows := rows\<rparr>) = Inr w'"
  shows "staged i (new_workflow svc i r w) w'"
proof -
  let ?x = "new_workflow svc i r w"
  have x: "ow_id ?x = w_next w" "ow_user_id ?x = ic_user_id i" "ow_state ?x = OS_RECEIVED" "ow_version ?x = 1" "ow_task_id ?x = None"
    by (simp_all add: new_workflow_def)
  from ins have rows: "rows = row_add ?x (w_workflows w)"
    and free: "(ow_user_id ?x, ow_idempotency_key ?x) \<notin> (\<lambda>x. (ow_user_id x, ow_idempotency_key x)) ` set (w_workflows w)"
    by (auto simp: insert_workflow_def row_find_None split: if_splits)
  from append_step_Inr [OF st] obtain s where s: "os_workflow_id s = ow_id ?x" "os_from_state s = None" "os_to_state s = OS_RECEIVED"
    and w': "w' = (draw (draw w))\<lparr>w_workflows := rows, w_steps := row_add s (w_steps w)\<rparr>" by (auto simp: draw_def)
  have same: "w_tasks w' = w_tasks w" "w_decisions w' = w_decisions w" "w_plans w' = w_plans w" "w_envelopes w' = w_envelopes w"
    "w_sha256 w' = w_sha256 w" "w_next w' = Suc (Suc (w_next w))" "w_workflows w' = row_add ?x (w_workflows w)"
    "w_steps w' = row_add s (w_steps w)" "w_attempts w' = w_attempts w" "w_task_events w' = w_task_events w"
    by (simp_all add: w' rows draw_def)
  have tab: "orch_tables w" using inv by (simp add: orch_inv_def)
  have g: "orch_grows w w'" by (auto simp: orch_grows_def same table_simps)
  have ti: "task_inv w'" using task_frame_inv [of w w'] inv by (simp add: task_frame_def same orch_inv_def)
  have below: "keys_below ow_id (w_next w) (w_workflows w)" "keys_below os_workflow_id (w_next w) (w_steps w)"
    using tab by (simp_all add: orch_tables_def)
  have "filter (\<lambda>s. os_workflow_id s = w_next w) (w_steps w) = []" using below(2) by (auto simp: keys_below_def filter_empty_conv)
  then have "orch_trail (ow_id ?x) w' = [(None, OS_RECEIVED)]" by (simp add: orch_trail_add [OF same(8)] s x) (simp add: orch_trail_def)
  then have new: "workflow_ok w' ?x" by (simp add: workflow_ok_def x linked_def)
  have old: "workflow_ok w' y" if "y \<in> set (w_workflows w)" for y
  proof -
    have "ow_id y \<noteq> ow_id ?x" using that below(1) by (auto simp: x keys_below_def)
    with that tab linked_grows [OF g, of y] has_envelope_grows [OF g, of "ow_id y"] show ?thesis
      by (auto simp: workflow_ok_def orch_trail_add [OF same(8)] s orch_tables_def)
  qed
  have ids: "w_next w \<notin> ow_id ` set (w_workflows w)" using keys_below_fresh [OF below(1)] by simp
  have up: "keys_below ow_id (w_next w') (w_workflows w)" "keys_below os_workflow_id (w_next w') (w_steps w)"
    using keys_below_mono [OF below(1)] keys_below_mono [OF below(2)] by (simp_all add: same)
  have "orch_tables w'"
    using tab new old envelope_ok_grows [OF g] free ids up
    by (simp add: orch_tables_def same table_simps s x)
  moreover have "unforeseen w'" using inv unforeseen_mono [of w w'] by (simp add: same orch_inv_def)
  ultimately have "orch_inv w'" using ti by (simp add: orch_inv_def)
  moreover have "holds w' (ow_id ?x) (ic_user_id i)" by (auto simp: holds_def same table_simps x)
  moreover have "no_task_for (ow_id ?x) w'" using inv by (simp add: orch_inv_def unforeseen_def no_task_for_def same x)
  ultimately show ?thesis by (simp add: staged_def)
qed

lemma create_orchestration_inv:
  fixes w :: "'z orch_world_scheme"
  assumes c: "create_orchestration svc i r w = Inr (res, w')" and inv: "orch_inv w"
  shows "orch_inv w'"
proof -
  have d: "orch_inv (draw w)"
    using frame_orch_call [OF inv, of "draw w"] by (simp add: draw_def task_frame_def orch_same_def orch_call_def)
  from c consider "w' = w" | "w' = draw w"
    | rows w2 where "insert_workflow (new_workflow svc i r w) (w_workflows w) = Some rows"
        "append_step (new_workflow svc i r w) OT_RECEIVED None OS_RECEIVED OR_REQUEST_RECEIVED OA_USER []
               ((draw w)\<lparr>w_workflows := rows\<rparr>) = Inr w2"
        "stage_context svc i r (new_workflow svc i r w) w2 = Inr (res, w')"
    by (auto simp: create_orchestration_def bindE_eq_Inr Let_def draw_def split: option.splits if_splits)
  then show ?thesis
  proof cases
    case 3
    from stage_context_inv [OF 3(3) new_workflow_staged [OF 3(1) inv 3(2)]] show ?thesis .
  qed (use inv d in simp_all)
qed

section \<open>Reads, cancellation, resumption\<close>

lemma owned_workflow_Inr:
  "owned_workflow uid wid w = Inr x \<Longrightarrow> x \<in> set (w_workflows w) \<and> ow_id x = wid \<and> ow_user_id x = uid"
  by (auto simp: owned_workflow_def result_simps dest: row_find_Some)

lemma orch_expire_cases:
  assumes "orch_expire x w = Inr ((b, x'), w')"
  shows "x' = x \<and> w' = w \<and> b = (ow_state x = OS_EXPIRED) \<or>
    b \<and> orch_transition x OS_EXPIRED OT_EXPIRED OR_WORKFLOW_EXPIRED id [] w = Inr (x', w')"
  using assms by (auto simp: orch_expire_def bindE_eq_Inr split: if_splits option.splits)

lemma orch_expire_call:
  fixes w :: "'z orch_world_scheme"
  assumes "orch_expire x w = Inr ((b, x'), w')" and inv: "orch_inv w"
  shows "orch_call w w'"
  using orch_expire_cases [OF assms(1)]
proof (elim disjE conjE)
  assume "orch_transition x OS_EXPIRED OT_EXPIRED OR_WORKFLOW_EXPIRED id [] w = Inr (x', w')"
  from plain_transition_call [OF this inv] show ?thesis by simp
qed (use inv orch_call_refl in simp)

lemma orch_expire_all_call:
  "orch_expire_all xs w = Inr (ys, w') \<Longrightarrow> orch_inv w \<Longrightarrow> orch_call w w'"
  for w :: "'z orch_world_scheme"
proof (induction xs arbitrary: w ys)
  case (Cons x xs)
  from Cons.prems(1) obtain b x1 w1 zs where e: "orch_expire x w = Inr ((b, x1), w1)" "orch_expire_all xs w1 = Inr (zs, w')"
    by (auto simp: bindE_eq_Inr)
  have c: "orch_call w w1" by (rule orch_expire_call [OF e(1) Cons.prems(2)])
  from orch_call_trans [OF c Cons.IH [OF e(2) orch_call_inv [OF c]]] show ?case .
qed (simp add: orch_call_refl)

lemma list_orchestrations_call:
  "list_orchestrations i st limit offset w = Inr (ys, w') \<Longrightarrow> orch_inv w \<Longrightarrow> orch_call w w'"
  for w :: "'z orch_world_scheme"
  unfolding list_orchestrations_def by (rule orch_expire_all_call)

lemma get_orchestration_call:
  "get_orchestration i wid w = Inr (x, w') \<Longrightarrow> orch_inv w \<Longrightarrow> orch_call w w'"
  for w :: "'z orch_world_scheme"
  using orch_expire_call by (auto simp: get_orchestration_def bindE_eq_Inr)

lemma cancel_linked_task_call:
  fixes w :: "'z orch_world_scheme"
  assumes c: "cancel_linked_task i x w = Inr w'" and inv: "orch_inv w"
  shows "orch_call w w'"
proof (cases "ow_task_id x")
  case None
  with c inv show ?thesis by (simp add: cancel_linked_task_def orch_call_refl)
next
  case (Some tid)
  with c obtain t w1 where g: "get_owned_task i tid w = Inr (t, w1)"
    and k: "w' = w1 \<or> (\<exists>t1. cancel_task i (t_id t) (t_version t) w1 = Inr (t1, w'))"
    by (auto simp: cancel_linked_task_def bindE_eq_Inr split: if_splits)
  have ti: "task_inv w" using inv by (simp add: orch_inv_def)
  have c1: "orch_call w w1" using task_orch_call [OF inv] get_owned_task_call [OF g ti] by blast
  then have inv1: "orch_inv w1" "task_inv w1" by (simp_all add: orch_call_def orch_inv_def)
  from k show ?thesis
  proof (elim disjE exE)
    fix t1 assume "cancel_task i (t_id t) (t_version t) w1 = Inr (t1, w')"
    from orch_call_trans [OF c1 task_orch_call [OF inv1(1) cancel_task_call [OF this inv1(2)]]] show ?thesis .
  qed (use c1 in simp)
qed

lemma cancel_orchestration_call:
  fixes w :: "'z orch_world_scheme"
  assumes c: "cancel_orchestration i wid v w = Inr (x', w')" and inv: "orch_inv w"
  shows "orch_call w w'"
proof -
  from c obtain x b x1 w1 where e: "orch_expire x w = Inr ((b, x1), w1)"
    and k: "w' = w1 \<or> (\<exists>w2 x2 w3 q. cancel_linked_task i x1 w1 = Inr w2 \<and>
      orch_transition x1 OS_CANCELLED OT_CANCELLED OR_TASK_CANCELLED id [] w2 = Inr (x2, w3) \<and> record_audit q w3 = Inr w')"
    by (auto simp: cancel_orchestration_def bindE_eq_Inr split: if_splits) blast
  have c1: "orch_call w w1" by (rule orch_expire_call [OF e inv])
  from k show ?thesis
  proof (elim disjE exE conjE)
    fix w2 x2 w3 q assume s: "cancel_linked_task i x1 w1 = Inr w2"
      "orch_transition x1 OS_CANCELLED OT_CANCELLED OR_TASK_CANCELLED id [] w2 = Inr (x2, w3)" "record_audit q w3 = Inr w'"
    have c2: "orch_call w w2" by (rule orch_call_trans [OF c1 cancel_linked_task_call [OF s(1) orch_call_inv [OF c1]]])
    have c3: "orch_call w w3"
      using orch_call_trans [OF c2 plain_transition_call [OF s(2) orch_call_inv [OF c2]]] by simp
    from orch_call_trans [OF c3 audit_orch_call [OF orch_call_inv [OF c3] s(3)]] show ?thesis .
  qed (use c1 in simp)
qed

text \<open>The plan that resumption loads is the stored one.\<close>

lemma load_validated_plan_Some:
  assumes l: "load_validated_plan x w = Some plan" and tab: "orch_tables w" and p: "plan_of w (ow_id x) f a"
  shows "f = plan_fingerprint w plan \<and> (\<exists>b. cp_actions plan = [b] \<and> same_action b a)"
proof -
  from l obtain row where row: "row_find (\<lambda>p. vp_workflow_id p = ow_id x) (w_plans w) = Some row"
    "validate_candidate_plan (vp_plan_payload row) = Inr plan" "plan_fingerprint w plan = vp_fingerprint row"
    by (auto simp: load_validated_plan_def split: option.splits if_splits sum.splits)
  from p obtain row' plan' where row': "row' \<in> set (w_plans w)" "vp_workflow_id row' = ow_id x" "vp_fingerprint row' = f"
    "vp_plan_payload row' = plan_dump plan'" "cp_actions plan' = [a]" "action_normal a" by (auto simp: plan_of_def)
  have "row' = row"
    using unique_keys_eq [of vp_workflow_id "w_plans w" row' row] row_find_Some [OF row(1)] row'(1,2) tab
    by (simp add: orch_tables_def)
  with row row' validate_stored_plan [of plan' plan a] show ?thesis by simp
qed

lemma task_for_unique:
  assumes "task_inv w" and "task_for w uid tid a" and "t \<in> set (w_tasks w)" and "t_id t = tid"
  shows "t_user_id t = uid \<and> t_capability_key t = ca_capability_key a \<and> t_action t = ca_action a \<and> t_scope t = ca_scope a"
proof -
  from assms(2) obtain t' where t': "t' \<in> set (w_tasks w)" "task_identity t' = (tid, uid, ca_capability_key a, ca_action a, ca_scope a)"
    by (auto simp: task_for_def elim!: imageE)
  with assms unique_keys_eq [of t_id "w_tasks w" t' t] have "t' = t"
    by (simp add: task_identity_def task_inv_def task_base_inv_def)
  with t'(2) show ?thesis by (simp add: task_identity_def)
qed

lemma get_owned_decision_id: "get_owned_decision i did w = Inr (Some d) \<Longrightarrow> dc_decision_id d = did"
  unfolding get_owned_decision_def
  by (auto simp: bindE_eq_Inr Let_def split: option.splits if_splits dest: row_find_Some row_get_Some)

lemma resume_linked_inv:
  fixes w :: "'z orch_world_scheme"
  assumes l: "resume_linked svc i x plan t d w = Inr (res, w')" and inv: "orch_inv w" and h: "holds w (ow_id x) (ic_user_id i)"
    and pl: "plan_of w (ow_id x) (plan_fingerprint w plan) a" and b: "cp_actions plan = [b]" "same_action b a"
    and t: "t \<in> set (w_tasks w)" "t_user_id t = ic_user_id i" "t_capability_key t = ca_capability_key a"
      "t_action t = ca_action a" "t_scope t = ca_scope a" and d: "dc_decision_id d = t_authorization_decision_id t"
  shows "orch_inv w'"
proof -
  from l obtain target where st: "state_for_task (t_status t) = Inr target" by (auto simp: resume_linked_def bindE_eq_Inr)
  show ?thesis
  proof (cases "target = OS_READY_FOR_EXECUTION \<and> \<not> permits_execution_readiness (oc_policy svc)")
    case True
    with l st have "denied_result i x OR_SAFE_MODE_BLOCKED id w = Inr (res, w')" by (simp add: resume_linked_def)
    from denied_result_call [OF this inv] show ?thesis by (simp add: orch_call_def)
  next
    case False
    then have no: "(target = OS_READY_FOR_EXECUTION \<and> \<not> permits_execution_readiness (oc_policy svc)) = False" by blast
    from l obtain w1 x1 where
      e: "(if target = OS_READY_FOR_EXECUTION then create_envelope svc i x plan t d w else Inr w) = Inr w1"
      and tr: "orch_transition x target OT_TASK_LINKED (reason_for_state target) (resume_values t) [] w1 = Inr (x1, w')"
      unfolding resume_linked_def st bindE_Inr no if_False bindE_eq_Inr by (auto simp: bindE_eq_Inr)
    have "orch_call w w'" by (rule handoff_call [OF e tr st inv h pl b t d]) simp
    then show ?thesis by (rule orch_call_inv)
  qed
qed

lemma resume_task_parts:
  assumes "resume_task svc i x tid w = Inr (res, w')"
  shows "\<exists>t w1. get_owned_task i tid w = Inr (t, w1) \<and>
    ((\<exists>x1. orch_transition x OS_CANCELLED OT_CANCELLED OR_TASK_CANCELLED id [] w1 = Inr (x1, w')) \<or>
     denied_result i x OR_PLAN_INTEGRITY_FAILURE id w1 = Inr (res, w') \<or>
     (\<exists>plan t1 w2. load_validated_plan x w1 = Some plan \<and> reevaluate_task i tid (t_version t) w1 = Inr (t1, w2) \<and>
        (failed_result i x OR_AUTHORIZATION_DENIED w2 = Inr (res, w') \<or>
         (\<exists>d. get_owned_decision i (t_authorization_decision_id t1) w2 = Inr (Some d) \<and>
            ((\<exists>reason. denied_result i x reason (decision_values (Some d)) w2 = Inr (res, w')) \<or>
             resume_linked svc i x plan t1 d w2 = Inr (res, w'))))))"
proof -
  from assms obtain t w1 where g: "get_owned_task i tid w = Inr (t, w1)" by (auto simp: resume_task_def bindE_eq_Inr)
  from get_owned_task_parts [OF g] have "t_id t = tid" by (auto dest!: owned_task_Inr expire_if_due_cases)
  with assms g show ?thesis
    by (cases "t_status t = TS_CANCELLED"; cases "load_validated_plan x w1")
      (auto simp: resume_task_def bindE_eq_Inr split: option.splits if_splits)
qed

lemma resume_task_inv:
  fixes w :: "'z orch_world_scheme"
  assumes r: "resume_task svc i x tid w = Inr (res, w')" and inv: "orch_inv w" and x: "x \<in> set (w_workflows w)"
    "ow_task_id x = Some tid" "ow_user_id x = ic_user_id i"
  shows "orch_inv w'"
proof -
  from resume_task_parts [OF r] obtain t w1 where g: "get_owned_task i tid w = Inr (t, w1)"
    and k: "(\<exists>x1. orch_transition x OS_CANCELLED OT_CANCELLED OR_TASK_CANCELLED id [] w1 = Inr (x1, w')) \<or>
     denied_result i x OR_PLAN_INTEGRITY_FAILURE id w1 = Inr (res, w') \<or>
     (\<exists>plan t1 w2. load_validated_plan x w1 = Some plan \<and> reevaluate_task i tid (t_version t) w1 = Inr (t1, w2) \<and>
        (failed_result i x OR_AUTHORIZATION_DENIED w2 = Inr (res, w') \<or>
         (\<exists>d. get_owned_decision i (t_authorization_decision_id t1) w2 = Inr (Some d) \<and>
            ((\<exists>reason. denied_result i x reason (decision_values (Some d)) w2 = Inr (res, w')) \<or>
             resume_linked svc i x plan t1 d w2 = Inr (res, w')))))" by blast
  have ti: "task_inv w" using inv by (simp add: orch_inv_def)
  have c1: "orch_call w w1" using task_orch_call [OF inv] get_owned_task_call [OF g ti] by blast
  then have inv1: "orch_inv w1" and g1: "orch_grows w w1" by (simp_all add: orch_call_def)
  have hx: "holds w (ow_id x) (ic_user_id i)" using x(1) unfolding holds_def x(3) [symmetric] by (rule rev_image_eqI) simp
  have "linked w x" using inv x(1) by (simp add: orch_inv_def orch_tables_def workflow_ok_def)
  then obtain f a where fa: "plan_of w1 (ow_id x) f a" "task_for w1 (ic_user_id i) tid a"
    using x(2,3) plan_of_grows [OF g1] task_for_grows [OF g1] unfolding linked_def by metis
  from k show ?thesis
  proof (elim disjE exE conjE)
    fix x1 assume "orch_transition x OS_CANCELLED OT_CANCELLED OR_TASK_CANCELLED id [] w1 = Inr (x1, w')"
    from plain_transition_call [OF this inv1] show ?thesis by (simp add: orch_call_def)
  next
    assume "denied_result i x OR_PLAN_INTEGRITY_FAILURE id w1 = Inr (res, w')"
    from denied_result_call [OF this inv1] orch_call_inv show ?thesis by blast
  next
    fix plan t1 w2 assume re: "reevaluate_task i tid (t_version t) w1 = Inr (t1, w2)"
      and f: "failed_result i x OR_AUTHORIZATION_DENIED w2 = Inr (res, w')"
    have "task_call w1 w2" using reevaluate_task_call [OF re] inv1 by (simp add: orch_inv_def)
    from failed_result_call [OF f orch_call_inv [OF task_orch_call [OF inv1 this]]] show ?thesis by (rule orch_call_inv)
  next
    fix plan t1 w2 d reason assume re: "reevaluate_task i tid (t_version t) w1 = Inr (t1, w2)"
      and f: "denied_result i x reason (decision_values (Some d)) w2 = Inr (res, w')"
    have "task_call w1 w2" using reevaluate_task_call [OF re] inv1 by (simp add: orch_inv_def)
    from denied_result_call [OF f orch_call_inv [OF task_orch_call [OF inv1 this]]] orch_call_inv show ?thesis by blast
  next
    fix plan t1 w2 d assume lp: "load_validated_plan x w1 = Some plan"
      and re: "reevaluate_task i tid (t_version t) w1 = Inr (t1, w2)"
      and dec: "get_owned_decision i (t_authorization_decision_id t1) w2 = Inr (Some d)"
      and rl: "resume_linked svc i x plan t1 d w2 = Inr (res, w')"
    have rc: "task_call w1 w2" "t1 \<in> set (w_tasks w2)" "t_id t1 = tid"
      using reevaluate_task_call [OF re] inv1 by (simp_all add: orch_inv_def)
    have c2: "orch_call w1 w2" by (rule task_orch_call [OF inv1 rc(1)])
    then have inv2: "orch_inv w2" and g2: "orch_grows w1 w2" by (simp_all add: orch_call_def)
    from load_validated_plan_Some [OF lp _ fa(1)] inv1 obtain b where b: "f = plan_fingerprint w1 plan" "cp_actions plan = [b]" "same_action b a"
      by (auto simp: orch_inv_def)
    have pl: "plan_of w2 (ow_id x) (plan_fingerprint w2 plan) a"
      using plan_of_grows [OF g2 fa(1)] b(1) orch_grows_digest [OF g2] by simp
    have h: "holds w2 (ow_id x) (ic_user_id i)" by (rule holds_grows [OF g2 holds_grows [OF g1 hx]])
    have "task_inv w2" using inv2 by (simp add: orch_inv_def)
    from task_for_unique [OF this task_for_grows [OF g2 fa(2)] rc(2,3)]
      resume_linked_inv [OF rl inv2 h pl b(2,3) rc(2)] get_owned_decision_id [OF dec]
    show ?thesis by simp
  qed
qed

lemma resume_orchestration_inv:
  fixes w :: "'z orch_world_scheme"
  assumes r: "resume_orchestration svc i wid v w = Inr (res, w')" and inv: "orch_inv w"
  shows "orch_inv w'"
proof -
  from r obtain x b x1 w1 where o: "owned_workflow (ic_user_id i) wid w = Inr x" and e: "orch_expire x w = Inr ((b, x1), w1)"
    and k: "b \<and> w' = w1 \<or> \<not> b \<and> (\<exists>tid. ow_task_id x1 = Some tid \<and> resume_task svc i x1 tid w1 = Inr (res, w'))"
    by (auto simp: resume_orchestration_def bindE_eq_Inr split: if_splits option.splits)
  from k show ?thesis
  proof (elim disjE conjE exE)
    assume "w' = w1" with orch_expire_call [OF e inv] show ?thesis by (simp add: orch_call_def)
  next
    fix tid assume "\<not> b" "ow_task_id x1 = Some tid" "resume_task svc i x1 tid w1 = Inr (res, w')"
    with orch_expire_cases [OF e] owned_workflow_Inr [OF o] resume_task_inv [OF _ inv] show ?thesis by auto
  qed
qed

end
