(* ===== verification/Orch_Correct.thy ===== *)
theory Orch_Correct
  imports Orch_Writes
begin

text \<open>
  What the Orchestrator guarantees over every sequence of its own operations and those of the task
  engine, the memory engine and the AI Router.
\<close>

section \<open>Steps of the system\<close>

text \<open>
  A task created outside the Orchestrator does not carry the key of a workflow that is still to be
  created (keys of workflows hold their random identifier).
\<close>

inductive orch_step :: "'z orch_world_scheme \<Rightarrow> 'z orch_world_scheme \<Rightarrow> bool" where
  create: "create_orchestration svc i r w = Inr (res, w') \<Longrightarrow> orch_step w w'"
| list: "list_orchestrations i st limit offset w = Inr (xs, w') \<Longrightarrow> orch_step w w'"
| get: "get_orchestration i wid w = Inr (x, w') \<Longrightarrow> orch_step w w'"
| cancel: "cancel_orchestration i wid v w = Inr (x, w') \<Longrightarrow> orch_step w w'"
| resume: "resume_orchestration svc i wid v w = Inr (res, w') \<Longrightarrow> orch_step w w'"
| create_task: "create_task i rq w = Inr (cres, w') \<Longrightarrow> \<forall>n \<ge> w_next w. tc_idempotency_key rq \<noteq> orch_key n \<Longrightarrow> orch_step w w'"
| list_tasks: "list_owned_tasks i ts k limit offset w = Inr (found, w') \<Longrightarrow> orch_step w w'"
| get_task: "get_owned_task i tid w = Inr (t, w') \<Longrightarrow> orch_step w w'"
| cancel_task: "cancel_task i tid v w = Inr (t, w') \<Longrightarrow> orch_step w w'"
| reevaluate_task: "reevaluate_task i tid v w = Inr (t, w') \<Longrightarrow> orch_step w w'"
| claim_task: "claim_task tid c w = Inr ((t, a), w') \<Longrightarrow> orch_step w w'"
| complete_task: "complete_task tid q w = Inr (t, w') \<Longrightarrow> orch_step w w'"
| fail_task: "fail_task tid f w = Inr (t, w') \<Longrightarrow> orch_step w w'"
| authority: "authorize i arq w = Inr (d, w') \<Longrightarrow> orch_step w w'"
| memory: "memory_call i w w' \<Longrightarrow> memory_inv w \<Longrightarrow> orch_step w w'"
| route: "route R i rr health u w = Inr (rd, w') \<Longrightarrow> orch_step w w'"
| invoke: "invoke R i rr pq health u w = Inr (out, w') \<Longrightarrow> orch_step w w'"
| tick: "w_now w \<le> n \<Longrightarrow> orch_step w (w\<lparr>w_now := n\<rparr>)"

definition workflow_tags :: "'z orch_world_scheme \<Rightarrow> (string \<Rightarrow> string) \<times> (uuid \<times> uuid \<times> string \<times> string) set" where
  "workflow_tags w =
     (w_sha256 w, (\<lambda>x. (ow_id x, ow_user_id x, ow_idempotency_key x, ow_request_fingerprint x)) ` set (w_workflows w))"

text \<open>A stage returns the row of its workflow as it is stored at the end.\<close>

definition ends_at :: "workflow \<Rightarrow> 'z orch_world_scheme \<Rightarrow> orchestration_result \<Rightarrow> 'z orch_world_scheme \<Rightarrow> bool" where
  "ends_at x w res w' \<longleftrightarrow>
     workflow_tags w' = workflow_tags w \<and>
     (\<exists>x' reply env. res = orch_result x' reply env \<and> x' \<in> set (w_workflows w') \<and> ow_id x' = ow_id x)"


definition sample_plan :: json where
  "sample_plan = JObj [(''summary'', JStr ''n''), (''actions'', JList [JObj
     [(''capability_key'', JStr ''notes.write''), (''action'', JStr ''write''), (''scope'', scope_dump sample_scope),
      (''arguments'', JObj []), (''side_effect_class'', JStr ''EXTERNAL'')]])]"

definition sample_orchestrator :: "safe_mode \<Rightarrow> orchestrator" where
  "sample_orchestrator mode =
     \<lparr>oc_router = sample_router ''plan'',
      oc_policy = \<lparr>op_safe_mode = mode, op_ai_enabled = True, op_action_workflows_enabled = True\<rparr>,
      oc_parse_json = (\<lambda>s. if s = ''plan'' then Some sample_plan else None)\<rparr>"

definition sample_intent :: "intent_category \<Rightarrow> orchestration_request" where
  "sample_intent c = \<lparr>oq_category = c, oq_label = ''n'', oq_input_text = ''hi'', oq_idempotency_key = ''request-0001'',
     oq_use_memory_context = False, oq_memory_items = 1, oq_requested_output_tokens = 50, oq_expires_at = None\<rparr>"

definition sample_orch_world :: "permission list \<Rightarrow> orch_world" where
  "sample_orch_world ps = ai_world.extend (memory_world.extend (task_world.extend
     ((sample_task_world [] [] [])\<lparr>w_permissions := ps\<rparr>) (memory_world.fields (\<lambda>s. s) py_lower [] [] []))
     (ai_world.fields [] [])) (orch_world.fields [] [] [] [])"

definition sample_planned :: orch_world where
  "sample_planned = (let w = sample_orch_world [sample_permission CP_NEVER] in
     world_after (create_orchestration (sample_orchestrator SM_NORMAL) sample_identity (sample_intent IC_ACTION) w) w)"

definition sample_asked :: "intent_category \<Rightarrow> app_error + orchestration_result \<times> orch_world" where
  "sample_asked c = create_orchestration (sample_orchestrator SM_NORMAL) sample_identity (sample_intent c) (sample_orch_world [])"




section \<open>The remaining operations of the task engine\<close>

lemma expire_all_call: "expire_all ts w = Inr (ts', w') \<Longrightarrow> task_inv w \<Longrightarrow> task_call w w'"
proof (induction ts arbitrary: w ts')
  case (Cons t ts)
  from Cons.prems(1) obtain b t1 w1 us where e: "expire_if_due t w = Inr ((b, t1), w1)" "expire_all ts w1 = Inr (us, w')"
    by (auto simp: bindE_eq_Inr)
  have c: "task_call w w1" by (rule expire_if_due_call [OF e(1) Cons.prems(2)])
  then have "task_inv w1" by (simp add: task_call_def)
  from task_call_trans [OF c Cons.IH [OF e(2) this]] show ?case .
qed (simp add: task_call_refl)

text \<open>A transition followed by writes that leave the task rows alone.\<close>

lemma task_call_run:
  assumes tr: "task_transition t target v ev reason actor aid m extra w = Inr (t', w1)" and keep: "keeps_row extra"
    and inv: "task_inv w" and inv': "task_inv w'" and same: "tasks_kept w1 w'" "w_tasks w' = w_tasks w1"
      "task_world.more w' = task_world.more w1"
  shows "task_call w w'"
proof -
  from task_transition_kept [OF tr keep inv] have k: "tasks_kept w w1" "task_world.more w1 = task_world.more w"
    "t_idempotency_key ` set (w_tasks w1) = t_idempotency_key ` set (w_tasks w)" by (metis list.set_map)+
  with same inv' tasks_kept_trans [OF k(1) same(1)] show ?thesis by (simp add: task_call_def)
qed

lemma finish_attempt_kept:
  "finish_attempt tid f w = Inr w' \<Longrightarrow> tasks_kept w w' \<and> w_tasks w' = w_tasks w \<and> task_world.more w' = task_world.more w"
  by (auto simp: tasks_kept_def dest!: finish_attempt_Inr)

lemma complete_task_call:
  assumes c: "complete_task tid r w = Inr (t', w')" and inv: "task_inv w"
  shows "task_call w w'"
proof -
  from c obtain t t1 w1 f where
    tr: "task_transition t TS_COMPLETED (tf_expected_version r) TE_COMPLETED TR_EXECUTION_COMPLETED TK_WORKER
              None (tf_result_metadata r) (\<lambda>x. x\<lparr>t_result_metadata := tf_result_metadata r\<rparr>) w = Inr (t1, w1)"
    and fa: "finish_attempt (t_id t1) f w1 = Inr w'"
    unfolding complete_task_def bindE_eq_Inr by (auto split: prod.splits simp: bindE_eq_Inr)
  from finish_attempt_kept [OF fa] task_call_run [OF tr _ inv complete_task_inv [OF c inv]] show ?thesis
    by (simp add: keeps_row_def)
qed

lemma fail_task_call:
  assumes c: "fail_task tid r w = Inr (t', w')" and inv: "task_inv w"
  shows "task_call w w'"
proof -
  from c obtain t t1 w1 f where
    tr: "task_transition t TS_FAILED (tx_expected_version r) TE_FAILED TR_EXECUTION_FAILED TK_WORKER
              None (tx_metadata r) (\<lambda>x. x\<lparr>t_last_error_code := Some (tx_error_code r),
                     t_last_error_message := Some (tx_safe_error_message r)\<rparr>) w = Inr (t1, w1)"
    and fa: "finish_attempt (t_id t1) f w1 = Inr w'"
    unfolding fail_task_def bindE_eq_Inr by (auto split: prod.splits simp: bindE_eq_Inr)
  from finish_attempt_kept [OF fa] task_call_run [OF tr _ inv fail_task_inv [OF c inv]] show ?thesis
    by (simp add: keeps_row_def)
qed

lemma claim_task_call:
  fixes w :: "'z task_world_scheme"
  assumes c: "claim_task tid r w = Inr ((t', a), w')" and inv: "task_inv w"
  shows "task_call w w'"
proof -
  from claim_task_parts [OF c] obtain t b t1 w1 where e: "expire_if_due t w = Inr ((b, t1), w1)"
    and k: "w' = w1 \<or> (\<exists>w2 q. 
        task_transition t1 TS_RUNNING (tq_expected_version r) TE_CLAIMED TR_WORKER_CLAIMED TK_WORKER
          (Some (tq_worker_id r)) (tq_metadata r) id w1 = Inr (t', w2) \<and>
        record_audit q ((draw (draw w2))\<lparr>w_attempts := row_add (new_attempt t' r w2) (w_attempts w2)\<rparr>) = Inr w')" by blast
  have c1: "task_call w w1" by (rule expire_if_due_call [OF e inv])
  then have inv1: "task_inv w1" by (simp add: task_call_def)
  from k show ?thesis
  proof (elim disjE exE conjE)
    fix w2 :: "'z task_world_scheme" and q
    let ?w3 = "(draw (draw w2))\<lparr>w_attempts := row_add (new_attempt t' r w2) (w_attempts w2)\<rparr>"
    assume tr: "task_transition t1 TS_RUNNING (tq_expected_version r) TE_CLAIMED TR_WORKER_CLAIMED TK_WORKER
          (Some (tq_worker_id r)) (tq_metadata r) id w1 = Inr (t', w2)"
      and au: "record_audit q ?w3 = Inr w'"
    have m: "auth_world.more w' = auth_world.more ?w3" using au by (auto simp: record_audit_Inr)
    have "tasks_kept w2 ?w3" by (simp add: tasks_kept_def draw_def)
    with record_audit_kept [OF au] have "tasks_kept w2 w'" by (blast intro: tasks_kept_trans)
    with task_call_run [OF tr keeps_row_id inv1 claim_task_inv [OF c inv]] frame_more [OF m]
    have "task_call w1 w'" by (simp add: draw_def)
    with c1 show ?thesis by (rule task_call_trans)
  qed (use c1 in simp)
qed

section \<open>Steps keep the invariant\<close>

lemma create_task_kept:
  assumes c: "create_task i r w = Inr (res, w')" and inv: "task_inv w"
  shows "tasks_kept w w' \<and> task_inv w' \<and> task_world.more w' = task_world.more w \<and>
    t_idempotency_key ` set (w_tasks w') \<subseteq> insert (tc_idempotency_key r) (t_idempotency_key ` set (w_tasks w))"
proof -
  from create_task_parts [OF c] consider "w' = w" | i' d where "authorize i' (task_authorization_request r) w = Inr (d, w')"
    | dev i' d w1 st reason where "authorize i' (task_authorization_request r) w = Inr (d, w1)"
      "persist_task i r dev d st reason w1 = Inr (res, w')"
    by (elim disjE exE conjE) ((simp; fail) | blast)+
  then show ?thesis
  proof cases
    case 1
    with inv show ?thesis by auto
  next
    case 2
    from authorize_call [OF 2 inv] show ?thesis by (auto simp: task_call_def)
  next
    case 3
    have m: "task_world.more w1 = task_world.more w" "w_tasks w1 = w_tasks w"
      using authorize_effects [OF 3(1)] frame_more [of w1 w] by simp_all
    from persist_task_parts [OF 3(2)] have "tasks_kept w1 w' \<and> task_world.more w' = task_world.more w1 \<and>
      t_idempotency_key ` set (w_tasks w') \<subseteq> insert (tc_idempotency_key r) (t_idempotency_key ` set (w_tasks w1))"
    proof (elim disjE exE conjE)
      assume "w' = draw w1"
      then show ?thesis by (auto simp: tasks_kept_def draw_def)
    next
      fix t e q assume t: "t = new_task i r dev d st w1" and
        au: "record_audit q ((draw (draw w1))\<lparr>w_tasks := row_add t (w_tasks w1), w_task_events := row_add e (w_task_events w1)\<rparr>) = Inr w'"
      let ?w2 = "(draw (draw w1))\<lparr>w_tasks := row_add t (w_tasks w1), w_task_events := row_add e (w_task_events w1)\<rparr>"
      have au': "auth_world.more w' = auth_world.more ?w2" using au by (auto simp: record_audit_Inr)
      have "w_tasks w' = row_add t (w_tasks w1)" "task_world.more w' = task_world.more w1" using frame_more [OF au'] by simp_all
      moreover have "tasks_kept w1 ?w2" by (auto simp: tasks_kept_def table_simps)
      ultimately show ?thesis using record_audit_kept [OF au] t by (auto simp: table_simps intro: tasks_kept_trans)
    qed
    with authorize_kept [OF 3(1)] create_task_inv [OF c inv] m show ?thesis by (auto intro: tasks_kept_trans)
  qed
qed

lemma memory_writes_frame: "memory_writes uid w w' \<Longrightarrow> mem_frame w w'"
proof (induction rule: rtranclp_induct)
  case (step y z)
  have "mem_frame y z" using step(2) by cases
  with step(3) show ?case by (rule mem_frame_trans)
qed (rule mem_frame_refl)

lemma route_grows: "route R i r health u w = Inr (d, w') \<Longrightarrow> ai_grows w w'"
proof -
  assume "route R i r health u w = Inr (d, w')"
  from route_parts [OF this] obtain au n where "w_next w < w_next w'"
    "w' = w\<lparr>w_next := n, w_audit := w_audit w @ au, w_routings := w_routings w @ [decision_record d r]\<rparr>" by blast
  then show ?thesis unfolding ai_grows_def
    by (intro exI [of _ n] exI [of _ au] exI [of _ "[decision_record d r]"] exI [of _ "[]"]) simp
qed

lemma tick_inv:
  fixes w :: "'z orch_world_scheme"
  assumes inv: "orch_inv w"
  shows "orch_inv (w\<lparr>w_now := n\<rparr>)"
proof -
  let ?w = "w\<lparr>w_now := n\<rparr>"
  have "orch_grows w ?w" "orch_same w ?w" by (simp_all add: orch_grows_def orch_same_def)
  with orch_tables_same [of w ?w] inv have "orch_tables ?w" by (simp add: orch_inv_def)
  moreover have "task_inv ?w" using task_frame_inv [of w ?w] inv by (simp add: task_frame_def orch_inv_def)
  moreover have "unforeseen ?w" using unforeseen_mono [of w ?w] inv by (simp add: orch_inv_def)
  ultimately show ?thesis by (simp add: orch_inv_def)
qed

section \<open>Steps keep the invariant\<close>

lemma orch_step_inv:
  fixes w :: "'z orch_world_scheme"
  assumes step: "orch_step w w'" and inv: "orch_inv w"
  shows "orch_inv w'"
proof -
  have ti: "task_inv w" using inv by (simp add: orch_inv_def)
  have call: "orch_inv w'" if "task_call w w'" using task_orch_call [OF inv that] by (rule orch_call_inv)
  have grow: "orch_inv w'" if "ai_grows w w'" using ai_orch_call [OF inv that] by (rule orch_call_inv)
  from step show ?thesis
  proof cases
    case (create_task i rq cres)
    from create_task_kept [OF create_task(1) ti] created_orch_inv [OF inv _ _ _ _ create_task(2)] show ?thesis by blast
  next
    case (memory i)
    from mem_orch_call [OF inv memory_writes_frame [OF memory_call_writes [OF memory]]] show ?thesis by (rule orch_call_inv)
  next
    case (tick n)
    with tick_inv [OF inv] show ?thesis by simp
  next
    case (list_tasks i ts k limit offset found)
    from call [OF expire_all_call [OF this [unfolded list_owned_tasks_def] ti]] show ?thesis .
  next
    case (create svc i r res)
    from create_orchestration_inv [OF this inv] show ?thesis .
  next
    case (resume svc i wid v res)
    from resume_orchestration_inv [OF this inv] show ?thesis .
  next
    case (list i st limit offset xs)
    from orch_call_inv [OF list_orchestrations_call [OF this inv]] show ?thesis .
  next
    case (get i wid x)
    from orch_call_inv [OF get_orchestration_call [OF this inv]] show ?thesis .
  next
    case (cancel i wid v x)
    from orch_call_inv [OF cancel_orchestration_call [OF this inv]] show ?thesis .
  next
    case (get_task i tid t)
    from get_owned_task_call [OF this ti] call show ?thesis by blast
  next
    case (cancel_task i tid v t)
    from call [OF cancel_task_call [OF this ti]] show ?thesis .
  next
    case (reevaluate_task i tid v t)
    from reevaluate_task_call [OF this ti] call show ?thesis by blast
  next
    case (claim_task tid c t a)
    from call [OF claim_task_call [OF this ti]] show ?thesis .
  next
    case (complete_task tid q t)
    from call [OF complete_task_call [OF this ti]] show ?thesis .
  next
    case (fail_task tid f t)
    from call [OF fail_task_call [OF this ti]] show ?thesis .
  next
    case (authority i arq d)
    from call [OF authorize_call [OF this ti]] show ?thesis .
  next
    case (route R i rr health u rd)
    from grow [OF route_grows [OF this]] show ?thesis .
  next
    case (invoke R i rr pq health u out)
    from grow [OF conjunct1 [OF invoke_parts [OF this]]] show ?thesis .
  qed
qed

lemma orch_steps_inv: "orch_step\<^sup>*\<^sup>* w w' \<Longrightarrow> orch_inv w \<Longrightarrow> orch_inv w'"
  by (induction rule: rtranclp_induct) (blast intro: orch_step_inv)+

section \<open>What a call returns\<close>

lemma orch_same_tags: "orch_same w w' \<Longrightarrow> w_sha256 w' = w_sha256 w \<Longrightarrow> workflow_tags w' = workflow_tags w"
  by (simp add: workflow_tags_def orch_same_def)

lemma record_audit_same: "record_audit q w = Inr w' \<Longrightarrow> orch_same w w' \<and> w_tasks w' = w_tasks w \<and> w_sha256 w' = w_sha256 w"
  for w :: "'z orch_world_scheme"
  using frame_more [of w' w] task_more_orch [of w' w] by (auto simp: record_audit_Inr)

lemma transition_tags:
  fixes w :: "'z orch_world_scheme"
  assumes tr: "orch_transition x target st reason extra m w = Inr (x', w')" and k: "keeps_workflow extra" and u: "unique_keys ow_id (w_workflows w)"
  shows "workflow_tags w' = workflow_tags w"
proof -
  from orch_transition_spec [OF tr] obtain row s where row: "row \<in> set (w_workflows w)"
    and x': "x' = moved_row x target reason extra (w_now w) row"
    and w': "w' = (draw w)\<lparr>w_workflows := row_put ow_id x' (w_workflows w), w_steps := row_add s (w_steps w)\<rparr>" by blast
  have id: "ow_id row = ow_id x'" using k by (simp add: x' keeps_workflow_def)
  have "ow_request_fingerprint x' = ow_request_fingerprint row" using k by (simp add: x' keeps_workflow_def moved_row_def)
  then have "(ow_id x', ow_user_id x', ow_idempotency_key x', ow_request_fingerprint x') =
      (ow_id row, ow_user_id row, ow_idempotency_key row, ow_request_fingerprint row)"
    using k by (simp add: x' keeps_workflow_def)
  from arg_cong [OF map_row_put_same [where f = "\<lambda>x. (ow_id x, ow_user_id x, ow_idempotency_key x, ow_request_fingerprint x)",
        OF u row id this], of set]
  show ?thesis by (simp add: workflow_tags_def w' draw_def)
qed

lemma ends_after:
  "ends_at x1 w1 res w' \<Longrightarrow> workflow_tags w1 = workflow_tags w \<Longrightarrow> ow_id x1 = ow_id x \<Longrightarrow> ends_at x w res w'"
  by (simp add: ends_at_def)

lemma ends_transition:
  fixes w :: "'z orch_world_scheme"
  assumes tr: "orch_transition x target st reason extra m w = Inr (x1, w1)" and k: "keeps_workflow extra" and u: "unique_keys ow_id (w_workflows w)"
    and same: "orch_same w1 w'" "w_sha256 w' = w_sha256 w1"
  shows "ends_at x w (orch_result x1 reply env) w'"
  using orch_transition_row(1,2) [OF tr k] transition_tags [OF tr k u] orch_same_tags [OF same] same(1)
  by (auto simp: ends_at_def orch_same_def)

lemma orch_same_refl [simp]: "orch_same w w"
  by (simp add: orch_same_def)

lemma denied_result_ends:
  fixes w :: "'z orch_world_scheme"
  assumes d: "denied_result i x reason extra w = Inr (res, w')" and u: "unique_keys ow_id (w_workflows w)" and k: "keeps_workflow extra"
  shows "ends_at x w res w' \<and> ors_state (or_workflow res) = OS_DENIED \<and> w_tasks w' = w_tasks w \<and> w_plans w' = w_plans w"
proof -
  from d obtain x1 w1 q where tr: "orch_transition x OS_DENIED OT_AUTHORITY_BLOCKED reason extra [] w = Inr (x1, w1)"
    and au: "record_audit q w1 = Inr w'" and res: "res = orch_result x1 None False"
    by (auto simp: denied_result_def orch_deny_def bindE_eq_Inr)
  from ends_transition [OF tr k u] record_audit_same [OF au] orch_transition_row(3-5) [OF tr k] show ?thesis
    by (simp add: res orch_result_def response_of_def orch_same_def)
qed

lemma failed_result_ends:
  fixes w :: "'z orch_world_scheme"
  assumes d: "failed_result i x reason w = Inr (res, w')" and u: "unique_keys ow_id (w_workflows w)"
  shows "ends_at x w res w' \<and> w_tasks w' = w_tasks w \<and> w_plans w' = w_plans w"
proof -
  from d obtain x1 w1 q where tr: "orch_transition x OS_FAILED OT_FAILED reason id [] w = Inr (x1, w1)"
    and au: "record_audit q w1 = Inr w'" and res: "res = orch_result x1 None False"
    by (auto simp: failed_result_def orch_fail_def bindE_eq_Inr)
  from ends_transition [OF tr _ u] record_audit_same [OF au] orch_transition_row(4-5) [OF tr] show ?thesis
    by (simp add: res orch_same_def)
qed

lemma create_envelope_same:
  "create_envelope svc i x plan t d w = Inr w' \<Longrightarrow> w_workflows w' = w_workflows w \<and> w_sha256 w' = w_sha256 w"
  by (auto simp: create_envelope_def draw_def split: option.splits if_splits list.splits)

lemma link_task_ends:
  fixes w :: "'z orch_world_scheme"
  assumes l: "link_task svc i x plan a t d w = Inr (res, w')" and u: "unique_keys ow_id (w_workflows w)"
  shows "ends_at x w res w'"
proof -
  from l obtain target where st: "state_for_task (t_status t) = Inr target" by (auto simp: link_task_def bindE_eq_Inr)
  show ?thesis
  proof (cases "target = OS_READY_FOR_EXECUTION \<and> \<not> permits_execution_readiness (oc_policy svc)")
    case True
    with l st have "denied_result i x OR_SAFE_MODE_BLOCKED id w = Inr (res, w')" by (simp add: link_task_def)
    from denied_result_ends [OF this u] show ?thesis by simp
  next
    case False
    then have no: "(target = OS_READY_FOR_EXECUTION \<and> \<not> permits_execution_readiness (oc_policy svc)) = False" by blast
    from l obtain w1 x1 w2 where
      e: "(if target = OS_READY_FOR_EXECUTION then create_envelope svc i x plan t d w else Inr w) = Inr w1"
      and tr: "orch_transition x target OT_TASK_LINKED (reason_for_state target) (link_values t (dc_decision_id d)) [] w1 = Inr (x1, w2)"
      and au: "audit_outcome i x1 (ca_capability_key a) (ca_action a) (reason_for_state target) w2 = Inr w'"
      and res: "res = orch_result x1 None (target = OS_READY_FOR_EXECUTION)"
      unfolding link_task_def st bindE_Inr no if_False bindE_eq_Inr by (auto simp: bindE_eq_Inr)
    have w1: "w_workflows w1 = w_workflows w" "w_sha256 w1 = w_sha256 w" using e create_envelope_same [of svc i x plan t d w w1] by (auto split: if_splits)
    have "ends_at x w1 res w'"
      unfolding res using ends_transition [OF tr, of w'] record_audit_same [OF au [unfolded audit_outcome_def]] u w1 by simp
    with w1 show ?thesis by (simp add: ends_at_def workflow_tags_def)
  qed
qed

lemma transition_unique:
  "orch_transition x target st reason extra m w = Inr (x1, w1) \<Longrightarrow>
   unique_keys ow_id (w_workflows w1) = unique_keys ow_id (w_workflows w)"
  by (drule orch_transition_spec) (auto simp: table_simps draw_def)

lemma ends_before:
  assumes "ends_at x1 w1 res w'" and "orch_transition x target st reason extra m w = Inr (x1, w1)"
    and "keeps_workflow extra" and "unique_keys ow_id (w_workflows w)"
  shows "ends_at x w res w'"
  using ends_after [OF assms(1) transition_tags [OF assms(2-4)] orch_transition_row(1) [OF assms(2,3)]] .

lemma same_workflows_ends:
  "ends_at x w1 res w' \<Longrightarrow> w_workflows w1 = w_workflows w \<Longrightarrow> w_sha256 w1 = w_sha256 w \<Longrightarrow> ends_at x w res w'"
  by (simp add: ends_at_def workflow_tags_def)

lemma create_task_same:
  fixes w :: "'z orch_world_scheme"
  assumes "create_task i r w = Inr (res, w')" and "task_inv w"
  shows "w_workflows w' = w_workflows w" "w_sha256 w' = w_sha256 w"
  using create_task_kept [OF assms] task_more_orch [of w' w] by (auto simp: tasks_kept_def orch_same_def)

lemma stage_task_ends:
  fixes w :: "'z orch_world_scheme"
  assumes s: "stage_task svc i r x plan a w = Inr (res, w')" and inv: "task_inv w" and u: "unique_keys ow_id (w_workflows w)"
  shows "ends_at x w res w'"
proof -
  let ?rq = "orch_task_request i r x a"
  from s obtain created w1 where c: "create_task i ?rq w = Inr (created, w1)"
    by (auto simp: stage_task_def bindE_eq_Inr simp del: split_paired_Ex)
  with s have k: "(\<exists>d reason. denied_result i x reason (decision_values d) w1 = Inr (res, w')) \<or>
      (\<exists>t d. link_task svc i x plan a t d w1 = Inr (res, w'))"
    by (cases "cr_task created"; cases "cr_decision created") (auto simp: stage_task_def split: if_splits)
  note same = create_task_same [OF c inv]
  from k show ?thesis
  proof (elim disjE exE)
    fix d reason assume "denied_result i x reason (decision_values d) w1 = Inr (res, w')"
    from denied_result_ends [OF this] u same same_workflows_ends [OF _ same] show ?thesis by simp
  next
    fix t d assume "link_task svc i x plan a t d w1 = Inr (res, w')"
    from link_task_ends [OF this] u same same_workflows_ends [OF _ same] show ?thesis by simp
  qed
qed

lemma stage_plan_ends:
  fixes w :: "'z orch_world_scheme"
  assumes s: "stage_plan svc i r x out w = Inr (res, w')" and inv: "task_inv w" and u: "unique_keys ow_id (w_workflows w)"
  shows "ends_at x w res w'"
proof -
  from s consider reason where "failed_result i x reason w = Inr (res, w')" | reason where "denied_result i x reason id w = Inr (res, w')"
    | p rows x1 w1 plan a where "orch_transition x OS_PLAN_VALIDATED OT_PROPOSAL_VALIDATED OR_PLAN_VALID
           (\<lambda>y. y\<lparr>ow_plan_fingerprint := p\<rparr>) [] ((draw w)\<lparr>w_plans := rows\<rparr>) = Inr (x1, w1)"
        "stage_task svc i r x1 plan a w1 = Inr (res, w')"
    by (auto simp: stage_plan_def Let_def bindE_eq_Inr split: sum.splits list.splits option.splits if_splits)
  then show ?thesis
  proof cases
    case (1 reason)
    from failed_result_ends [OF this u] show ?thesis by blast
  next
    case (2 reason)
    from denied_result_ends [OF this u] show ?thesis by simp
  next
    case 3
    let ?w = "(draw w)\<lparr>w_plans := rows\<rparr>"
    have u1: "unique_keys ow_id (w_workflows ?w)" using u by (simp add: draw_def)
    have tab: "w_tasks w1 = w_tasks w \<and> w_attempts w1 = w_attempts w \<and> w_task_events w1 = w_task_events w \<and> w_decisions w1 = w_decisions w \<and>
        w_next w \<le> w_next w1"
      using orch_transition_spec [OF 3(1)] by (auto simp: draw_def)
    then have "task_inv w1" using task_frame_inv [of w w1] inv by (simp add: task_frame_def)
    then have "ends_at x1 w1 res w'" using stage_task_ends [OF 3(2)] u1 transition_unique [OF 3(1)] by simp
    from ends_before [OF this 3(1) _ u1] show ?thesis by (rule same_workflows_ends) (simp_all add: draw_def)
  qed
qed

lemma staged_facts: "staged i x w \<Longrightarrow> task_inv w \<and> unique_keys ow_id (w_workflows w)"
  by (simp add: staged_def orch_inv_def orch_tables_def)

lemma stage_execution_ends:
  fixes w :: "'z orch_world_scheme"
  assumes s: "stage_execution svc i r x execution w = Inr (res, w')" and st: "staged i x w"
  shows "ends_at x w res w' \<and>
    (\<not> is_action_intent (oq_category r) \<longrightarrow> w_tasks w' = w_tasks w \<and> w_plans w' = w_plans w)"
proof -
  from s obtain x2 w3 x3 w4 where
    t2: "orch_transition x OS_ROUTED OT_AI_ROUTED OR_ROUTING_SELECTED
           (\<lambda>y. y\<lparr>ow_routing_decision_id := Some (rd_id (ax_routing_decision execution))\<rparr>) [] w = Inr (x2, w3)"
    and t3: "orch_transition x2 OS_PROPOSAL_GENERATED OT_PROPOSAL_VALIDATED OR_ROUTING_SELECTED id [] w3 = Inr (x3, w4)"
    and k: "\<not> is_action_intent (oq_category r) \<and> (\<exists>x4 reply. orch_transition x3 OS_COMPLETED_NO_ACTION OT_PROPOSAL_VALIDATED
          OR_INFORMATIONAL_COMPLETE id [] w4 = Inr (x4, w') \<and> res = orch_result x4 reply False) \<or>
        is_action_intent (oq_category r) \<and> stage_plan svc i r x3 (ps_output_text (ax_response execution)) w4 = Inr (res, w')"
    by (auto simp: stage_execution_def bindE_eq_Inr split: if_splits) blast+
  have st3: "staged i x2 w3" by (rule staged_transition [OF t2 st]) simp_all
  have st4: "staged i x3 w4" by (rule staged_transition [OF t3 st3]) simp_all
  have up: "ends_at x w res w'" if "ends_at x3 w4 res w'"
    using ends_before [OF ends_before [OF that t3] t2] staged_facts [OF st] staged_facts [OF st3] by simp
  from k show ?thesis
  proof (elim disjE conjE exE)
    fix x4 reply assume t4: "orch_transition x3 OS_COMPLETED_NO_ACTION OT_PROPOSAL_VALIDATED OR_INFORMATIONAL_COMPLETE id [] w4 = Inr (x4, w')"
      and res: "res = orch_result x4 reply False"
    have "ends_at x3 w4 res w'" unfolding res using ends_transition [OF t4 _ _ orch_same_refl refl] staged_facts [OF st4] by simp
    with up orch_transition_row(4,5) [OF t2] orch_transition_row(4,5) [OF t3] orch_transition_row(4,5) [OF t4] show ?thesis by simp
  next
    assume "is_action_intent (oq_category r)" "stage_plan svc i r x3 (ps_output_text (ax_response execution)) w4 = Inr (res, w')"
    with stage_plan_ends [OF this(2)] staged_facts [OF st4] up show ?thesis by simp
  qed
qed

lemma stage_route_ends:
  fixes w :: "'z orch_world_scheme"
  assumes s: "stage_route svc i r pack x w = Inr (res, w')" and st: "staged i x w"
  shows "ends_at x w res w' \<and>
    (\<not> is_action_intent (oq_category r) \<longrightarrow> w_tasks w' = w_tasks w \<and> w_plans w' = w_plans w)"
proof -
  from s obtain meta x1 w1 routing request out w2 where
    t1: "orch_transition x OS_CONTEXT_PREPARED OT_CONTEXT_SELECTED OR_CONTEXT_READY id meta w = Inr (x1, w1)"
    and iv: "invoke (oc_router svc) i routing request [] \<lparr>cu_daily = 0, cu_monthly = 0\<rparr> w1 = Inr (out, w2)"
    and body: "(case out of
          Inl e \<Rightarrow>
            if e = AIRoutingDeniedError then denied_result i x1 OR_SENSITIVITY_ROUTING_DENIED id w2
            else if e = AIProviderExecutionError then failed_result i x1 OR_PROVIDER_FAILURE w2
            else Inl e
        | Inr execution \<Rightarrow> stage_execution svc i r x1 execution w2) = Inr (res, w')"
    unfolding stage_route_def Let_def bindE_eq_Inr by (auto simp: bindE_eq_Inr)
  have g: "ai_grows w1 w2" using invoke_parts [OF iv] by blast
  have st1: "staged i x1 w1" by (rule staged_transition [OF t1 st]) simp_all
  then have st2: "staged i x1 w2" using staged_call [OF st1 ai_orch_call [OF _ g] refl] by (simp add: staged_def)
  have same: "w_workflows w2 = w_workflows w1" "w_sha256 w2 = w_sha256 w1" "w_plans w2 = w_plans w1" "w_tasks w2 = w_tasks w1"
    using ai_grows_orch [OF g] ai_grows_frame [OF g] by (simp_all add: orch_same_def task_frame_def)
  have k: "ends_at x1 w2 res w' \<and> (\<not> is_action_intent (oq_category r) \<longrightarrow> w_tasks w' = w_tasks w2 \<and> w_plans w' = w_plans w2)"
  proof (cases out)
    case (Inl e)
    with body denied_result_ends [of i x1 _ id w2 res w'] failed_result_ends [of i x1 _ w2 res w'] staged_facts [OF st2]
    show ?thesis by (auto split: if_splits)
  next
    case (Inr execution)
    with body stage_execution_ends [OF _ st2] show ?thesis by simp
  qed
  then have "ends_at x1 w1 res w'" using same_workflows_ends [OF _ same(1,2)] by blast
  from ends_before [OF this t1] staged_facts [OF st] k same(3,4) orch_transition_row(4,5) [OF t1] show ?thesis by simp
qed

lemma stage_context_ends:
  fixes w :: "'z orch_world_scheme"
  assumes s: "stage_context svc i r x w = Inr (res, w')" and st: "staged i x w"
  shows "ends_at x w res w' \<and>
    (\<not> is_action_intent (oq_category r) \<longrightarrow> w_tasks w' = w_tasks w \<and> w_plans w' = w_plans w)"
proof -
  from s consider (denied) reason where "denied_result i x reason id w = Inr (res, w')"
    | (memory) m w1 where "build_context_pack i (oq_memory_items r) w = Inr (m, w1)"
        "denied_result i x OR_PERMISSION_REQUIRED id w1 = Inr (res, w') \<or> (\<exists>pack. stage_route svc i r (Some pack) x w1 = Inr (res, w'))"
    | (plain) "stage_route svc i r None x w = Inr (res, w')"
    by (auto simp: stage_context_def bindE_eq_Inr split: if_splits option.splits) blast
  then show ?thesis
  proof cases
    case denied
    from denied_result_ends [OF this] staged_facts [OF st] show ?thesis by simp
  next
    case memory
    have "orch_inv w" using st by (simp add: staged_def)
    note fr = build_context_pack_frame [OF memory(1)]
    from staged_call [OF st mem_orch_call [OF \<open>orch_inv w\<close> fr] refl] have st1: "staged i x w1" .
    have same: "w_workflows w1 = w_workflows w" "w_sha256 w1 = w_sha256 w" "w_plans w1 = w_plans w" "w_tasks w1 = w_tasks w"
      using mem_frame_orch [OF fr] fr by (simp_all add: orch_same_def mem_frame_def task_frame_def)
    have "ends_at x w1 res w' \<and> (\<not> is_action_intent (oq_category r) \<longrightarrow> w_tasks w' = w_tasks w1 \<and> w_plans w' = w_plans w1)"
      using memory(2) denied_result_ends [of i x _ id w1 res w'] staged_facts [OF st1] stage_route_ends [OF _ st1] by auto
    with same same_workflows_ends [OF _ same(1,2)] show ?thesis by simp
  next
    case plain
    with stage_route_ends [OF _ st] show ?thesis by blast
  qed
qed

lemma create_orchestration_parts:
  assumes c: "create_orchestration svc i r w = Inr (res, w')"
  shows "(\<exists>x. orch_existing (ic_user_id i) (oq_idempotency_key r) (orchestration_fingerprint w r) w = Inr (Some x) \<and>
      w' = w \<and> res = orch_result x None False) \<or>
    orch_existing (ic_user_id i) (oq_idempotency_key r) (orchestration_fingerprint w r) w = Inr None \<and>
    (\<exists>rows w2. insert_workflow (new_workflow svc i r w) (w_workflows w) = Some rows \<and>
        append_step (new_workflow svc i r w) OT_RECEIVED None OS_RECEIVED OR_REQUEST_RECEIVED OA_USER []
               ((draw w)\<lparr>w_workflows := rows\<rparr>) = Inr w2 \<and>
        stage_context svc i r (new_workflow svc i r w) w2 = Inr (res, w'))"
  using c by (auto simp: create_orchestration_def bindE_eq_Inr Let_def draw_def orch_existing_def split: option.splits if_splits)

section \<open>Theorems\<close>

text \<open>
  C31: In every reachable state the recorded steps of a workflow form a path of the lifecycle from
  RECEIVED to its stored state, and its version counts them.
\<close>

theorem orchestration_history_is_path:
  fixes w :: "'z orch_world_scheme"
  assumes "orch_inv w" and "orch_step\<^sup>*\<^sup>* w w'" and "x \<in> set (w_workflows w')"
  shows "trail orchestration_allowed None (orch_trail (ow_id x) w') \<and>
    trail_end None (orch_trail (ow_id x) w') = Some (ow_state x) \<and>
    ow_version x = int (length (orch_trail (ow_id x) w'))"
  using orch_steps_inv [OF assms(2,1)] assms(3) by (simp add: orch_inv_def orch_tables_def workflow_ok_def)


text \<open>
  C32: A new request whose intent the policy blocks ends DENIED with the reason of the policy,
  without answer or envelope, and leaves tasks, decisions, memories, routing decisions, AI usage,
  plans and envelopes untouched.
\<close>

theorem blocked_intent_touches_nothing:
  fixes w :: "'z orch_world_scheme"
  assumes c: "create_orchestration svc i r w = Inr (res, w')" and p: "\<not> permits_intent (oc_policy svc) (oq_category r)"
    and new: "orch_existing (ic_user_id i) (oq_idempotency_key r) (orchestration_fingerprint w r) w = Inr None"
  shows "ors_state (or_workflow res) = OS_DENIED \<and>
    ors_failure_reason (or_workflow res) =
      Some (orchestration_reason_value (blocked_reason (oc_policy svc) (oq_category r))) \<and>
    or_answer res = None \<and> \<not> or_envelope_created res \<and> w_tasks w' = w_tasks w \<and> w_decisions w' = w_decisions w \<and>
    w_memories w' = w_memories w \<and> w_routings w' = w_routings w \<and> w_usages w' = w_usages w \<and>
    w_plans w' = w_plans w \<and> w_envelopes w' = w_envelopes w"
proof -
  let ?x = "new_workflow svc i r w" and ?reason = "blocked_reason (oc_policy svc) (oq_category r)"
  from create_orchestration_parts [OF c] new obtain rows w2 where
    a: "append_step ?x OT_RECEIVED None OS_RECEIVED OR_REQUEST_RECEIVED OA_USER [] ((draw w)\<lparr>w_workflows := rows\<rparr>) = Inr w2"
    and s: "stage_context svc i r ?x w2 = Inr (res, w')" by auto
  from s p obtain x1 w3 q where tr: "orch_transition ?x OS_DENIED OT_AUTHORITY_BLOCKED ?reason id [] w2 = Inr (x1, w3)"
    and au: "record_audit q w3 = Inr w'" and res: "res = orch_result x1 None False"
    by (auto simp: stage_context_def denied_result_def orch_deny_def bindE_eq_Inr)
  from orch_transition_spec [OF tr] obtain row st where x1: "x1 = moved_row ?x OS_DENIED ?reason id (w_now w2) row"
    and w3: "w3 = (draw w2)\<lparr>w_workflows := row_put ow_id x1 (w_workflows w2), w_steps := row_add st (w_steps w2)\<rparr>" by blast
  from append_step_Inr [OF a] obtain st0 where w2: "w2 = (draw ((draw w)\<lparr>w_workflows := rows\<rparr>))\<lparr>w_steps := row_add st0 (w_steps w)\<rparr>"
    by (auto simp: draw_def)
  have "ors_state (or_workflow res) = OS_DENIED" "ors_failure_reason (or_workflow res) = Some (orchestration_reason_value ?reason)"
    by (simp_all add: res orch_result_def response_of_def x1 moved_row_def)
  with au show ?thesis by (auto simp: res orch_result_def record_audit_Inr audit_append_def w3 w2 draw_def)
qed

text \<open>
  A request that is neither ACTION nor DESTRUCTIVE creates no task and stores no plan,
  whatever the model answers.
\<close>

theorem informational_intent_creates_no_task:
  fixes w :: "'z orch_world_scheme"
  assumes inv: "orch_inv w" and c: "create_orchestration svc i r w = Inr (res, w')" and "oq_category r \<notin> {IC_ACTION, IC_DESTRUCTIVE}"
  shows "w_tasks w' = w_tasks w \<and> w_plans w' = w_plans w"
  using create_orchestration_parts [OF c]
proof (elim disjE exE conjE)
  fix rows w2 assume ins: "insert_workflow (new_workflow svc i r w) (w_workflows w) = Some rows"
    and a: "append_step (new_workflow svc i r w) OT_RECEIVED None OS_RECEIVED OR_REQUEST_RECEIVED OA_USER []
               ((draw w)\<lparr>w_workflows := rows\<rparr>) = Inr w2"
    and s: "stage_context svc i r (new_workflow svc i r w) w2 = Inr (res, w')"
  have "w_tasks w2 = w_tasks w \<and> w_plans w2 = w_plans w" using append_step_Inr [OF a] by (auto simp: draw_def)
  with stage_context_ends [OF s new_workflow_staged [OF ins inv a]] assms(3) show ?thesis by (simp add: is_action_intent_def)
qed simp

text \<open>
  C33: Repeating a request that returned answers with the same workflow, without the model output
  and without a new envelope, and writes nothing.
\<close>

theorem repeated_request_returns_the_workflow:
  fixes w :: "'z orch_world_scheme"
  assumes inv: "orch_inv w" and c: "create_orchestration svc i r w = Inr (res, w')"
  shows "create_orchestration svc i r w' = Inr (res\<lparr>or_answer := None, or_envelope_created := False\<rparr>, w')"
  using create_orchestration_parts [OF c]
proof (elim disjE exE conjE)
  fix x assume "orch_existing (ic_user_id i) (oq_idempotency_key r) (orchestration_fingerprint w r) w = Inr (Some x)"
    "w' = w" "res = orch_result x None False"
  then show ?thesis by (simp add: create_orchestration_def orch_result_def)
next
  let ?x = "new_workflow svc i r w"
  fix rows w2 assume ins: "insert_workflow ?x (w_workflows w) = Some rows"
    and a: "append_step ?x OT_RECEIVED None OS_RECEIVED OR_REQUEST_RECEIVED OA_USER [] ((draw w)\<lparr>w_workflows := rows\<rparr>) = Inr w2"
    and s: "stage_context svc i r ?x w2 = Inr (res, w')"
  have rows: "rows = row_add ?x (w_workflows w)" using ins by (auto simp: insert_workflow_def split: if_splits)
  have w2: "w_workflows w2 = rows" "w_sha256 w2 = w_sha256 w" using append_step_Inr [OF a] by (auto simp: draw_def)
  from stage_context_ends [OF s new_workflow_staged [OF ins inv a]] obtain x' reply env where
    tags: "workflow_tags w' = workflow_tags w2" and x': "res = orch_result x' reply env" "x' \<in> set (w_workflows w')" "ow_id x' = ow_id ?x"
    by (auto simp: ends_at_def)
  have inv': "orch_inv w'" by (rule create_orchestration_inv [OF c inv])
  have sha: "w_sha256 w' = w_sha256 w" using tags w2 by (simp add: workflow_tags_def)
  have "(ow_id ?x, ow_user_id ?x, ow_idempotency_key ?x, ow_request_fingerprint ?x) \<in>
      (\<lambda>x. (ow_id x, ow_user_id x, ow_idempotency_key x, ow_request_fingerprint x)) ` set (w_workflows w')"
    using tags w2(1) by (simp add: workflow_tags_def rows table_simps)
  then obtain y where y: "y \<in> set (w_workflows w')" "ow_id y = ow_id ?x" "ow_user_id y = ow_user_id ?x"
    "ow_idempotency_key y = ow_idempotency_key ?x" "ow_request_fingerprint y = ow_request_fingerprint ?x" by auto
  have u: "unique_keys ow_id (w_workflows w')" and nk: "distinct (map (\<lambda>x. (ow_user_id x, ow_idempotency_key x)) (w_workflows w'))"
    using inv' by (simp_all add: orch_inv_def orch_tables_def)
  have "y = x'" using unique_keys_eq [OF u y(1) x'(2)] y(2) x'(3) by simp
  with y have x'f: "ow_user_id x' = ic_user_id i" "ow_idempotency_key x' = oq_idempotency_key r"
    "ow_request_fingerprint x' = orchestration_fingerprint w r" by (simp_all add: new_workflow_def)
  from row_find_natural_key [OF nk x'(2)] x'f
  have "row_find (\<lambda>x. ow_user_id x = ic_user_id i \<and> ow_idempotency_key x = oq_idempotency_key r) (w_workflows w') = Some x'" by simp
  moreover have "orchestration_fingerprint w' r = orchestration_fingerprint w r" using sha by (simp add: orchestration_fingerprint_def)
  ultimately show ?thesis using x'f(3) x'(1) by (simp add: create_orchestration_def orch_existing_def orch_result_def)
qed







theorem disabled_resume_leaves_task_queued:
  fixes w :: "'z orch_world_scheme"
  assumes "resume_linked svc i x plan t d w = Inr (res, w')" and "t \<in> set (w_tasks w)" and "t_status t = TS_QUEUED"
    and "\<not> permits_execution_readiness (oc_policy svc)" and u: "unique_keys ow_id (w_workflows w)"
  shows "ors_state (or_workflow res) = OS_DENIED \<and> t \<in> set (w_tasks w')"
proof -
  from assms have "denied_result i x OR_SAFE_MODE_BLOCKED id w = Inr (res, w')" by (simp add: resume_linked_def)
  from denied_result_ends [OF this u] assms(2) show ?thesis by simp
qed

section \<open>Witnesses\<close>

lemma sample_planned_ready: "map (\<lambda>x. (ow_id x, ow_state x)) (w_workflows sample_planned) = [(40, OS_READY_FOR_EXECUTION)]"
  by code_simp

lemma sample_orch_tables [simp]:
  "w_tasks (sample_orch_world ps) = []" "w_workflows (sample_orch_world ps) = []" "w_steps (sample_orch_world ps) = []"
  "w_plans (sample_orch_world ps) = []" "w_envelopes (sample_orch_world ps) = []" "w_attempts (sample_orch_world ps) = []"
  "w_task_events (sample_orch_world ps) = []"
  by (simp_all add: sample_orch_world_def sample_task_world_def auth_world.defs task_world.defs memory_world.defs
      ai_world.defs orch_world.defs)

lemma sample_orch_world_inv: "orch_inv (sample_orch_world ps)"
  by (simp add: orch_inv_def task_inv_def task_base_inv_def orch_tables_def unforeseen_def no_task_for_def
      unique_keys_def keys_below_def)

lemma sample_planned_run:
  "\<exists>res. create_orchestration (sample_orchestrator SM_NORMAL) sample_identity (sample_intent IC_ACTION)
     (sample_orch_world [sample_permission CP_NEVER]) = Inr (res, sample_planned)"
proof (cases "create_orchestration (sample_orchestrator SM_NORMAL) sample_identity (sample_intent IC_ACTION)
     (sample_orch_world [sample_permission CP_NEVER])")
  case (Inl e)
  then have "sample_planned = sample_orch_world [sample_permission CP_NEVER]"
    by (simp add: sample_planned_def world_after_def)
  from arg_cong [OF this, of w_workflows] have "w_workflows sample_planned = []" unfolding sample_orch_tables .
  with sample_planned_ready show ?thesis by simp
qed (auto simp: sample_planned_def world_after_def)

lemma sample_planned_step: "orch_step\<^sup>*\<^sup>* (sample_orch_world [sample_permission CP_NEVER]) sample_planned"
  using sample_planned_run by (blast intro: orch_step.create)

lemma sample_planned_row:
  "hd (w_workflows sample_planned) \<in> set (w_workflows sample_planned)" "ow_id (hd (w_workflows sample_planned)) = 40"
  "ow_state (hd (w_workflows sample_planned)) = OS_READY_FOR_EXECUTION"
  using sample_planned_ready by (cases "w_workflows sample_planned"; simp)+

theorem orchestration_history_is_path_witness:
  "trail orchestration_allowed None (orch_trail 40 sample_planned) \<and>
   trail_end None (orch_trail 40 sample_planned) = Some OS_READY_FOR_EXECUTION"
  using orchestration_history_is_path [OF sample_orch_world_inv sample_planned_step sample_planned_row(1)]
  by (simp add: sample_planned_row)


theorem repeated_request_returns_the_workflow_witness:
  "world_after (create_orchestration (sample_orchestrator SM_NORMAL) sample_identity (sample_intent IC_ACTION) sample_planned)
     (sample_orch_world []) = sample_planned"
proof -
  from sample_planned_run obtain res where "create_orchestration (sample_orchestrator SM_NORMAL) sample_identity
      (sample_intent IC_ACTION) (sample_orch_world [sample_permission CP_NEVER]) = Inr (res, sample_planned)" by blast
  from repeated_request_returns_the_workflow [OF sample_orch_world_inv this] show ?thesis by (simp add: world_after_def)
qed

lemma sample_asked_returns: "list_all (\<lambda>c. \<not> isl (sample_asked c)) [IC_UNSUPPORTED, IC_INFORMATIONAL]"
  by code_simp

lemma sample_asked_run:
  "c \<in> {IC_UNSUPPORTED, IC_INFORMATIONAL} \<Longrightarrow> create_orchestration (sample_orchestrator SM_NORMAL) sample_identity
     (sample_intent c) (sample_orch_world []) = Inr (returned (sample_asked c), world_after (sample_asked c) (sample_orch_world []))"
  using sample_asked_returns returned_world [of "sample_asked c" "sample_orch_world []"] by (auto simp: sample_asked_def)

theorem blocked_intent_touches_nothing_witness:
  "ors_state (or_workflow (returned (sample_asked IC_UNSUPPORTED))) = OS_DENIED \<and>
   w_usages (world_after (sample_asked IC_UNSUPPORTED) (sample_orch_world [])) = w_usages (sample_orch_world [])"
proof -
  have c: "create_orchestration (sample_orchestrator SM_NORMAL) sample_identity (sample_intent IC_UNSUPPORTED) (sample_orch_world []) =
    Inr (returned (sample_asked IC_UNSUPPORTED), world_after (sample_asked IC_UNSUPPORTED) (sample_orch_world []))"
    by (rule sample_asked_run) simp
  have p: "\<not> permits_intent (oc_policy (sample_orchestrator SM_NORMAL)) (oq_category (sample_intent IC_UNSUPPORTED))"
    by (simp add: permits_intent_def sample_intent_def)
  have "orch_existing u k f (sample_orch_world []) = Inr None" for u k f by (simp add: orch_existing_def row_find_def)
  from blocked_intent_touches_nothing [OF c p this] show ?thesis by simp
qed

theorem informational_intent_creates_no_task_witness:
  "w_tasks (world_after (sample_asked IC_INFORMATIONAL) (sample_orch_world [])) = []"
proof -
  have c: "create_orchestration (sample_orchestrator SM_NORMAL) sample_identity (sample_intent IC_INFORMATIONAL) (sample_orch_world []) =
    Inr (returned (sample_asked IC_INFORMATIONAL), world_after (sample_asked IC_INFORMATIONAL) (sample_orch_world []))"
    by (rule sample_asked_run) simp
  from informational_intent_creates_no_task [OF sample_orch_world_inv c] show ?thesis by (simp add: sample_intent_def)
qed



end
