(* ===== verification/Research_Model.thy ===== *)
theory Research_Model
  imports Net_Library Orch_Correct
begin

text \<open>
  \<^verbatim>\<open>research/enums.py\<close>, \<^verbatim>\<open>errors.py\<close>, \<^verbatim>\<open>schemas.py\<close>, \<^verbatim>\<open>cache.py\<close> and
  \<^verbatim>\<open>policy.py\<close>: the vocabulary of Web Research, its validated values, the bounded cache of
  fetched documents, and the policy that chooses a mode, decides whether the web may be contacted and
  takes personal data out of a query. The state of the component extends the state of the Orchestrator by
  the calls that left the process and the cache of the running service.
\<close>

section \<open>Vocabulary and failures\<close>

datatype research_mode = RM_NO_RESEARCH | RM_SEARCH | RM_FETCH | RM_MULTI_SOURCE_RESEARCH

primrec research_mode_value :: "research_mode \<Rightarrow> string" where
  "research_mode_value RM_NO_RESEARCH = ''NO_RESEARCH''"
| "research_mode_value RM_SEARCH = ''SEARCH''"
| "research_mode_value RM_FETCH = ''FETCH''"
| "research_mode_value RM_MULTI_SOURCE_RESEARCH = ''MULTI_SOURCE_RESEARCH''"

datatype research_code =
    RC_DISABLED | RC_POLICY_DENIED | RC_PERMISSION_REQUIRED | RC_CONFIRMATION_REQUIRED | RC_PROVIDER_UNAVAILABLE
  | RC_RATE_LIMITED | RC_SEARCH_TIMEOUT | RC_FETCH_TIMEOUT | RC_BLOCKED_URL | RC_DNS_REBINDING
  | RC_UNSUPPORTED_CONTENT | RC_CONTENT_TOO_LARGE | RC_EXTRACTION_FAILED | RC_INSUFFICIENT_EVIDENCE
  | RC_CITATION_INTEGRITY | RC_MALFORMED_SYNTHESIS

primrec research_code_value :: "research_code \<Rightarrow> string" where
  "research_code_value RC_DISABLED = ''RESEARCH_DISABLED''"
| "research_code_value RC_POLICY_DENIED = ''RESEARCH_POLICY_DENIED''"
| "research_code_value RC_PERMISSION_REQUIRED = ''RESEARCH_PERMISSION_REQUIRED''"
| "research_code_value RC_CONFIRMATION_REQUIRED = ''RESEARCH_CONFIRMATION_REQUIRED''"
| "research_code_value RC_PROVIDER_UNAVAILABLE = ''RESEARCH_PROVIDER_UNAVAILABLE''"
| "research_code_value RC_RATE_LIMITED = ''RESEARCH_RATE_LIMITED''"
| "research_code_value RC_SEARCH_TIMEOUT = ''RESEARCH_SEARCH_TIMEOUT''"
| "research_code_value RC_FETCH_TIMEOUT = ''RESEARCH_FETCH_TIMEOUT''"
| "research_code_value RC_BLOCKED_URL = ''RESEARCH_BLOCKED_URL''"
| "research_code_value RC_DNS_REBINDING = ''RESEARCH_DNS_REBINDING''"
| "research_code_value RC_UNSUPPORTED_CONTENT = ''RESEARCH_UNSUPPORTED_CONTENT''"
| "research_code_value RC_CONTENT_TOO_LARGE = ''RESEARCH_CONTENT_TOO_LARGE''"
| "research_code_value RC_EXTRACTION_FAILED = ''RESEARCH_EXTRACTION_FAILED''"
| "research_code_value RC_INSUFFICIENT_EVIDENCE = ''RESEARCH_INSUFFICIENT_EVIDENCE''"
| "research_code_value RC_CITATION_INTEGRITY = ''RESEARCH_CITATION_INTEGRITY''"
| "research_code_value RC_MALFORMED_SYNTHESIS = ''RESEARCH_MALFORMED_SYNTHESIS''"

text \<open>
  \<^verbatim>\<open>ResearchError\<close> with its code and confirmation. Inside the pipeline two more exceptions travel:
  \<open>WR_Value\<close> is a \<^verbatim>\<open>ValueError\<close> that no handler of the component catches, \<open>WR_Deadline\<close> the
  cancellation by the total timeout, which strikes while a call of the network is awaited.
\<close>

type_synonym research_failure = "research_code \<times> uuid option"

datatype web_raise = WR_Research research_code | WR_Value | WR_Deadline

section \<open>Validated values\<close>

record search_result =
  sr_url :: string
  sr_title :: string
  sr_snippet :: string
  sr_rank :: int

definition make_search_result :: "search_result \<Rightarrow> web_raise + search_result" where
  "make_search_result r =
     (let url = py_strip (sr_url r); title = py_strip (sr_title r)
      in if bounded 1 4096 url \<and> bounded 1 500 title \<and> length (sr_snippet r) \<le> 4000 \<and> 1 \<le> sr_rank r \<and> sr_rank r \<le> 1000
         then Inr (r\<lparr>sr_url := url, sr_title := title\<rparr>) else Inl WR_Value)"

record fetched_document =
  fd_canonical_url :: string
  fd_title :: string
  fd_text :: string
  fd_retrieved_at :: timestamp

definition make_document :: "fetched_document \<Rightarrow> web_raise + fetched_document" where
  "make_document d =
     (if bounded 1 4096 (fd_canonical_url d) \<and> bounded 1 500 (fd_title d) \<and> bounded 1 200000 (fd_text d)
      then Inr d else Inl WR_Value)"

record evidence_item =
  ei_evidence_id :: string
  ei_canonical_url :: string
  ei_title :: string
  ei_passage :: string
  ei_content_sha256 :: string
  ei_locator :: string
  ei_retrieved_at :: timestamp
  ei_quality_score :: int

definition hex_text :: "nat \<Rightarrow> string \<Rightarrow> bool" where
  "hex_text n s \<longleftrightarrow> length s = n \<and> list_all (\<lambda>c. c \<in> set ''0123456789abcdef'') s"

definition tagged_id :: "string \<Rightarrow> string \<Rightarrow> bool" where
  "tagged_id tag s \<longleftrightarrow> is_prefix tag s \<and> hex_text 16 (drop (length tag) s)"

definition make_evidence :: "evidence_item \<Rightarrow> web_raise + evidence_item" where
  "make_evidence e =
     (if tagged_id ''ev_'' (ei_evidence_id e) \<and> bounded 1 4096 (ei_canonical_url e) \<and> bounded 1 500 (ei_title e) \<and>
         bounded 1 4000 (ei_passage e) \<and> hex_text 64 (ei_content_sha256 e) \<and> bounded 1 128 (ei_locator e) \<and>
         0 \<le> ei_quality_score e \<and> ei_quality_score e \<le> 100
      then Inr e else Inl WR_Value)"

record research_citation =
  cn_citation_id :: string
  cn_evidence_id :: string
  cn_url :: string
  cn_title :: string
  cn_retrieved_at :: timestamp
  cn_locator :: string

definition make_citation :: "research_citation \<Rightarrow> web_raise + research_citation" where
  "make_citation c =
     (if tagged_id ''cit_'' (cn_citation_id c) \<and> tagged_id ''ev_'' (cn_evidence_id c) \<and> bounded 1 4096 (cn_url c) \<and>
         bounded 1 500 (cn_title c) \<and> bounded 1 128 (cn_locator c) \<and>
         (is_prefix ''https://'' (cn_url c) \<or> is_prefix ''http://'' (cn_url c))
      then Inr c else Inl WR_Value)"

record synthesis_claim =
  sy_text :: string
  sy_evidence_ids :: "string list"

definition validate_claim :: "json \<Rightarrow> app_error + synthesis_claim" where
  "validate_claim v =
     bindE (json_obj v) (\<lambda>fs.
     bindE (known_fields [''text'', ''evidence_ids''] fs) (\<lambda>_.
     bindE (bindE (required_field ''text'' fs) json_str) (\<lambda>t.
     bindE (requireE PyValueError (bounded 1 5000 t)) (\<lambda>_.
     bindE (bindE (bindE (required_field ''evidence_ids'' fs) json_list) (parse_all json_str)) (\<lambda>ids.
     bindE (requireE PyValueError (1 \<le> length ids \<and> length ids \<le> 5)) (\<lambda>_.
     Inr \<lparr>sy_text = t, sy_evidence_ids = ids\<rparr>))))))"

definition validate_envelope :: "json \<Rightarrow> app_error + synthesis_claim list" where
  "validate_envelope v =
     bindE (json_obj v) (\<lambda>fs.
     bindE (known_fields [''claims''] fs) (\<lambda>_.
     bindE (bindE (required_field ''claims'' fs) json_list) (\<lambda>items.
     bindE (requireE PyValueError (1 \<le> length items \<and> length items \<le> 12)) (\<lambda>_.
     parse_all validate_claim items))))"

record research_answer =
  an_mode :: research_mode
  an_content :: string
  an_citations :: "research_citation list"
  an_routing_decision_id :: "uuid option"

definition make_answer :: "research_answer \<Rightarrow> web_raise + research_answer" where
  "make_answer a =
     (if bounded 1 100000 (an_content a) \<and> 1 \<le> length (an_citations a) \<and> length (an_citations a) \<le> 12
      then Inr a else Inl WR_Value)"

section \<open>State\<close>

datatype html_event =
    HE_START string "(string \<times> string option) list"
  | HE_END string
  | HE_DATA string

record resolved_target =
  rg_canonical_url :: string
  rg_scheme :: string
  rg_host :: string
  rg_port :: nat
  rg_path_and_query :: string
  rg_addresses :: "string list"
  rg_pinned_ip :: string

text \<open>What leaves the process: a query to a search provider, a name resolution, an HTTP request.\<close>

datatype web_call =
    WC_SEARCH string nat
  | WC_RESOLVE string nat
  | WC_REQUEST resolved_target

text \<open>
  The tables of the runtime that \<open>Net_Library\<close> takes as parameters, the byte codecs (\<open>w_decode\<close>) and the
  tokenizer of \<^verbatim>\<open>html.parser\<close> (\<open>w_html\<close>, \<open>None\<close> when it raises) are functions of the world, as the
  digest is. A cache entry is its key, the time of its creation and the document.
\<close>

record web_world = orch_world +
  w_to_ascii :: "string \<Rightarrow> string option"
  w_unescape :: "string \<Rightarrow> string"
  w_decode :: "string \<Rightarrow> string \<Rightarrow> string"
  w_html :: "string \<Rightarrow> html_event list option"
  w_parse_ip :: "string \<Rightarrow> ip_address option"
  w_show_ip :: "ip_address \<Rightarrow> string"
  w_web_calls :: "web_call list"
  w_documents :: "(string \<times> timestamp \<times> fetched_document) list"

section \<open>The cache of documents\<close>

text \<open>\<^verbatim>\<open>BoundedTTLCache\<close> with its default bounds; \<^verbatim>\<open>monotonic\<close> is the clock of the world.\<close>

type_synonym 'a cache = "(string \<times> timestamp \<times> 'a) list"

definition CACHE_ENTRIES :: nat where
  "CACHE_ENTRIES = 128"

definition CACHE_TTL :: int where
  "CACHE_TTL = 300000000"

definition cache_without :: "string \<Rightarrow> 'a cache \<Rightarrow> 'a cache" where
  "cache_without key items = filter (\<lambda>(k, _). k \<noteq> key) items"

definition cache_get :: "string \<Rightarrow> timestamp \<Rightarrow> 'a cache \<Rightarrow> 'a option \<times> 'a cache" where
  "cache_get key now items =
     (case map_of items key of
        None \<Rightarrow> (None, items)
      | Some (created, v) \<Rightarrow>
          if now - created > CACHE_TTL then (None, cache_without key items)
          else (Some v, cache_without key items @ [(key, created, v)]))"

definition cache_put :: "string \<Rightarrow> 'a \<Rightarrow> timestamp \<Rightarrow> 'a cache \<Rightarrow> 'a cache" where
  "cache_put key v now items =
     (let items1 = cache_without key items @ [(key, now, v)] in drop (length items1 - CACHE_ENTRIES) items1)"

section \<open>Policy\<close>

record research_budget =
  rb_max_fetches :: nat
  rb_max_sources :: nat
  rb_max_redirects :: nat
  rb_max_response_bytes :: nat
  rb_max_total_bytes :: nat
  rb_max_extracted_chars :: nat
  rb_max_evidence_items :: nat
  rb_max_provider_attempts :: nat

definition DEFAULT_BUDGET :: research_budget where
  "DEFAULT_BUDGET =
     \<lparr>rb_max_fetches = 5, rb_max_sources = 5, rb_max_redirects = 3, rb_max_response_bytes = 1000000,
      rb_max_total_bytes = 3000000, rb_max_extracted_chars = 200000, rb_max_evidence_items = 8,
      rb_max_provider_attempts = 2\<rparr>"

record research_policy =
  rp_enabled :: bool
  rp_safe_mode :: safe_mode
  rp_budget :: research_budget

definition RESEARCH_POLICY_VERSION :: string where
  "RESEARCH_POLICY_VERSION = ''web-research-v1''"

definition permits_external_access :: "research_policy \<Rightarrow> data_sensitivity \<Rightarrow> bool" where
  "permits_external_access p s \<longleftrightarrow>
     rp_enabled p \<and> rp_safe_mode p = SM_NORMAL \<and> sensitivity_rank s < sensitivity_rank SENSITIVE"

text \<open>The patterns of \<^verbatim>\<open>policy.py\<close>; \<^verbatim>\<open>re.IGNORECASE\<close> on the letters of a literal is \<open>lit_rx\<close>.\<close>

definition repeat_rx :: "nat \<Rightarrow> (char \<Rightarrow> bool) \<Rightarrow> regex" where
  "repeat_rx n P = foldr (\<lambda>_ r. Seq (Cls P) r) [0..<n] (Star P)"

definition url_char :: "char \<Rightarrow> bool" where
  "url_char c \<longleftrightarrow> \<not> py_isspace c \<and> c \<notin> set ''<>{}[]'' \<and> c \<noteq> CHR 0x22 \<and> c \<noteq> CHR 0x27"

definition url_pattern :: regex where
  "url_pattern = Seq (word_rx ''http'') (Seq (Opt (lit_rx (CHR ''s''))) (Seq (word_rx ''://'') (repeat_rx 1 url_char)))"

definition email_pattern :: regex where
  "email_pattern =
     Seq WordB
       (Seq (repeat_rx 1 (\<lambda>c. is_alpha_char c \<or> is_digit_char c \<or> c \<in> set ''._%+-''))
       (Seq (lit_rx (CHR ''@''))
       (Seq (repeat_rx 1 (\<lambda>c. is_alpha_char c \<or> is_digit_char c \<or> c \<in> set ''.-''))
       (Seq (lit_rx (CHR ''.'')) (Seq (repeat_rx 2 is_alpha_char) WordB)))))"

definition phone_pattern :: regex where
  "phone_pattern =
     Seq (NotBehind re_isword)
       (Seq (Opt (lit_rx (CHR ''+'')))
       (Seq (Cls is_digit_char)
       (Seq (repeat_rx 7 (\<lambda>c. is_digit_char c \<or> c \<in> set '' .()-''))
       (Seq (Cls is_digit_char) (NotAhead re_isword)))))"

definition token_pattern :: regex where
  "token_pattern =
     Seq WordB (Seq (repeat_rx 32 (\<lambda>c. is_alpha_char c \<or> is_digit_char c \<or> c \<in> set ''_-'')) WordB)"

definition leading_pattern :: regex where
  "leading_pattern =
     Seq (Alt (Seq (word_rx ''search'') (Opt (word_rx '' for'')))
         (Alt (word_rx ''research'') (Alt (word_rx ''look up'') (Alt (word_rx ''find online'')
         (Alt (word_rx ''busca'') (Alt (word_rx ''investiga'')
           (Seq (word_rx ''consulta en '') (Seq (Opt (word_rx ''la '')) (word_rx ''web'')))))))))
       (repeat_rx 1 py_isspace)"

text \<open>\<^verbatim>\<open>pattern.search\<close> and \<^verbatim>\<open>pattern.findall\<close>, the text of the matches.\<close>

fun re_search :: "regex \<Rightarrow> char option \<Rightarrow> string \<Rightarrow> string option" where
  "re_search r p s =
     (case rx r ([], p, s) of
        (_, _, rest) # _ \<Rightarrow> Some (consumed s rest)
      | [] \<Rightarrow> (case s of [] \<Rightarrow> None | c # s' \<Rightarrow> re_search r (Some c) s'))"

declare re_search.simps [simp del]

function re_findall :: "regex \<Rightarrow> char option \<Rightarrow> string \<Rightarrow> string list" where
  "re_findall r p s =
     (case s of
        [] \<Rightarrow> []
      | c # s' \<Rightarrow>
          (case rx r ([], p, s) of
             [] \<Rightarrow> re_findall r (Some c) s'
           | (_, p', rest) # _ \<Rightarrow>
               if length rest < length s then consumed s rest # re_findall r p' rest else re_findall r (Some c) s'))"
  by pat_completeness auto
termination
  by (relation "measure (\<lambda>(r, p, s). length s)") auto

declare re_findall.simps [simp del]

definition read_markers :: "string list" where
  "read_markers = [''read '', ''fetch '', ''open '', ''lee '', ''abre '', ''resume '']"

definition multi_source_markers :: "string list" where
  "multi_source_markers =
     [''research '', ''investiga '', ''compare sources'', ''multiple sources'', ''varias fuentes'', ''fuentes distintas'']"

definition search_markers :: "string list" where
  "search_markers =
     [''search '', ''look up '', ''find online '', ''busca '', ''consulta en la web'', ''latest '', ''current '',
      ''today '', CHR 0xFA # ''ltim'', ''actual'', ''hoy '', ''news '', ''noticias '']"

definition select_mode :: "(string \<Rightarrow> string) \<Rightarrow> string \<Rightarrow> research_mode" where
  "select_mode casefold content =
     (let normalized = join_words (casefold content);
          marked = (\<lambda>markers. list_ex (\<lambda>m. py_in m normalized) markers)
      in if re_findall url_pattern None content \<noteq> [] \<and> marked read_markers then RM_FETCH
         else if marked multi_source_markers then RM_MULTI_SOURCE_RESEARCH
         else if marked search_markers then RM_SEARCH
         else RM_NO_RESEARCH)"

definition direct_url :: "string \<Rightarrow> string option" where
  "direct_url content =
     map_option (rstrip_chars (\<lambda>c. c \<in> set ''.,;:!?)'')) (re_search url_pattern None content)"

definition host_of_match ::
  "'z memory_world_scheme \<Rightarrow> (string \<Rightarrow> ip_address option) \<Rightarrow> string \<Rightarrow> string option" where
  "host_of_match w parse_ip url =
     map_option (\<lambda>u. case url_hostname u of None \<Rightarrow> ''[url]'' | Some h \<Rightarrow> if h = [] then ''[url]'' else h)
       (urlsplit (w_nfkc w) parse_ip [] url)"

definition strip_leading :: "string \<Rightarrow> string" where
  "strip_leading s = (case rx leading_pattern ([], None, s) of [] \<Rightarrow> s | (_, _, rest) # _ \<Rightarrow> rest)"

definition minimize_query :: "'z web_world_scheme \<Rightarrow> string \<Rightarrow> web_raise + string" where
  "minimize_query w content =
     (let value0 = py_strip (strip_leading (join_words content));
          host = host_of_match w (w_parse_ip w)
      in if list_ex (\<lambda>url. host url = None) (re_findall url_pattern None value0) then Inl WR_Value
         else
           (let value1 = re_sub (Grp 0 url_pattern) (\<lambda>g. the (host (rx_group g 0))) None value0;
                value2 = re_sub email_pattern (\<lambda>_. ''[email]'') None value1;
                value3 = re_sub phone_pattern (\<lambda>_. ''[phone]'') None value2;
                value4 = re_sub token_pattern (\<lambda>_. ''[token]'') None value3
            in Inr (py_strip (take 500 value4))))"

end
