(* ===== verification/Research_Service.thy ===== *)
theory Research_Service
  imports Research_Engine
begin

text \<open>
  \<^verbatim>\<open>research/service.py\<close>: the authority checks, the retrieval of the sources, the grounded synthesis
  and the audit of a rejection. Its caller catches \<^verbatim>\<open>ResearchError\<close> and the transaction goes on, so
  \<open>research\<close> returns the failure or the answer together with the world; an exception that no handler
  catches is \<open>Inl\<close>. The deadline of the whole request is seen at the calls of the network, not while the
  model is called.
\<close>

section \<open>Search\<close>

fun search_loop ::
  "search_adapter \<Rightarrow> string \<Rightarrow> nat \<Rightarrow> nat \<Rightarrow> research_code \<Rightarrow> web_call list \<Rightarrow> search_result list net" where
  "search_loop a query limit 0 last_error calls = (raise_code last_error, calls)"
| "search_loop a query limit (Suc n) last_error calls =
     (let calls1 = calls @ [WC_SEARCH query limit]
      in case sa_search a (length calls) query limit of
           SO_RESULTS results \<Rightarrow> (Inr results, calls1)
         | SO_TIMEOUT \<Rightarrow> search_loop a query limit n RC_SEARCH_TIMEOUT calls1
         | SO_DEADLINE \<Rightarrow> (Inl WR_Deadline, calls1)
         | SO_RAISE c \<Rightarrow>
             if c \<in> {RC_PROVIDER_UNAVAILABLE, RC_SEARCH_TIMEOUT} then search_loop a query limit n c calls1
             else (raise_code c, calls1))"

definition search_web :: "research_service \<Rightarrow> string \<Rightarrow> nat \<Rightarrow> web_call list \<Rightarrow> search_result list net" where
  "search_web svc query limit calls =
     (case default_adapter (rs_adapters svc) of
        Inl e \<Rightarrow> (Inl e, calls)
      | Inr a \<Rightarrow>
          search_loop a query limit (rb_max_provider_attempts (rp_budget (rs_policy svc))) RC_PROVIDER_UNAVAILABLE calls)"

section \<open>Retrieval of the sources\<close>

record visit_state =
  vs_documents :: "fetched_document list"
  vs_seen :: "string list"
  vs_total_bytes :: nat
  vs_calls :: "web_call list"
  vs_cache :: "fetched_document cache"

text \<open>
  One round of the loop over the results: \<open>Inr True\<close> when a document was fetched, \<open>Inr False\<close> where the
  code goes on to the next result.
\<close>

definition visit_result ::
  "research_service \<Rightarrow> 'z web_world_scheme \<Rightarrow> search_result \<Rightarrow> visit_state \<Rightarrow> (web_raise + bool) \<times> visit_state" where
  "visit_result svc w r st =
     (let budget = rp_budget (rs_policy svc)
      in case canonicalize w (sr_url r) of
           Inl e \<Rightarrow> (Inl e, st)
         | Inr canonical \<Rightarrow>
             if canonical \<in> set (vs_seen st) then (Inr False, st)
             else
               (let key = w_sha256 w canonical;
                    (cached, cache1) = cache_get key (w_now w) (vs_cache st);
                    st1 = st\<lparr>vs_seen := canonical # vs_seen st, vs_cache := cache1\<rparr>
                in case cached of
                     Some d \<Rightarrow> (Inr False, st1\<lparr>vs_documents := vs_documents st @ [d]\<rparr>)
                   | None \<Rightarrow>
                       (case fetch_url svc w canonical (vs_calls st) of
                          (Inl e, calls) \<Rightarrow> (Inl e, st1\<lparr>vs_calls := calls\<rparr>)
                        | (Inr (final_url, content_type, body), calls) \<Rightarrow>
                            (let total = vs_total_bytes st + length body;
                                 st2 = st1\<lparr>vs_calls := calls, vs_total_bytes := total\<rparr>
                             in if total > rb_max_total_bytes budget then (raise_code RC_CONTENT_TOO_LARGE, st2)
                                else
                                  (case bindE (extract_document w body content_type (rb_max_extracted_chars budget))
                                          (\<lambda>(title, t). make_document
                                             \<lparr>fd_canonical_url = final_url,
                                              fd_title = (if title \<noteq> ''Untitled source'' then title else sr_title r),
                                              fd_text = t, fd_retrieved_at = w_now w\<rparr>) of
                                     Inl e \<Rightarrow> (Inl e, st2)
                                   | Inr d \<Rightarrow>
                                       (Inr True,
                                        st2\<lparr>vs_cache := cache_put key d (w_now w) cache1,
                                            vs_documents := vs_documents st @ [d]\<rparr>))))))"

fun visit_results ::
  "research_service \<Rightarrow> 'z web_world_scheme \<Rightarrow> research_mode \<Rightarrow> search_result list \<Rightarrow> visit_state \<Rightarrow>
     (web_raise + unit) \<times> visit_state" where
  "visit_results svc w mode [] st = (Inr (), st)"
| "visit_results svc w mode (r # rs) st =
     (case visit_result svc w r st of
        (Inl (WR_Research c), st1) \<Rightarrow>
          if mode = RM_FETCH then (raise_code c, st1) else visit_results svc w mode rs st1
      | (Inl e, st1) \<Rightarrow> (Inl e, st1)
      | (Inr fetched, st1) \<Rightarrow>
          if fetched \<and> length (vs_documents st1) \<ge> rb_max_sources (rp_budget (rs_policy svc)) then (Inr (), st1)
          else visit_results svc w mode rs st1)"

definition find_sources ::
  "research_service \<Rightarrow> research_mode \<Rightarrow> string \<Rightarrow> string \<Rightarrow> web_call list \<Rightarrow> search_result list net" where
  "find_sources svc mode content query calls =
     (if mode = RM_FETCH
      then (case direct_url content of
              None \<Rightarrow> (raise_code RC_BLOCKED_URL, calls)
            | Some url \<Rightarrow>
                (map_sum id (\<lambda>r. [r])
                   (make_search_result \<lparr>sr_url = url, sr_title = ''Direct source'', sr_snippet = [], sr_rank = 1\<rparr>), calls))
      else search_web svc query
             (if mode = RM_SEARCH then 3 else rb_max_sources (rp_budget (rs_policy svc))) calls)"

definition gather_documents ::
  "research_service \<Rightarrow> research_mode \<Rightarrow> string \<Rightarrow> string \<Rightarrow> 'z web_world_scheme \<Rightarrow>
     (web_raise + fetched_document list) \<times> 'z web_world_scheme" where
  "gather_documents svc mode content query w =
     (case find_sources svc mode content query (w_web_calls w) of
        (Inl e, calls) \<Rightarrow> (Inl e, w\<lparr>w_web_calls := calls\<rparr>)
      | (Inr results, calls) \<Rightarrow>
          (let (outcome, st) =
                 visit_results svc w mode (take (rb_max_fetches (rp_budget (rs_policy svc))) results)
                   \<lparr>vs_documents = [], vs_seen = [], vs_total_bytes = 0, vs_calls = calls, vs_cache = w_documents w\<rparr>
           in (map_sum id (\<lambda>_. vs_documents st) outcome,
               w\<lparr>w_web_calls := vs_calls st, w_documents := vs_cache st\<rparr>)))"

section \<open>Synthesis\<close>

definition research_routing ::
  "research_mode \<Rightarrow> data_sensitivity \<Rightarrow> string \<Rightarrow> int \<Rightarrow> routing_request" where
  "research_routing mode sensitivity prompt tokens =
     \<lparr>rt_task_type = ''text_assistant.web_research'', rt_task_id = None,
      rt_complexity = (if mode = RM_MULTI_SOURCE_RESEARCH then CX_HIGH else CX_MEDIUM),
      rt_required_capabilities = {TEXT_GENERATION, STRUCTURED_OUTPUT},
      rt_sensitivity = sensitivity, rt_context_sensitivities = [],
      rt_estimated_input_tokens = int (max 1 ((length prompt + 3) div 4)), rt_requested_output_tokens = tokens,
      rt_realtime_required = False, rt_embedding_required = False, rt_structured_output_required = True,
      rt_tool_calling_required = False, rt_local_only = False\<rparr>"

definition raised :: "web_raise \<Rightarrow> 'w \<Rightarrow> app_error + (web_raise + 'a) \<times> 'w" where
  "raised e w = (if e = WR_Value then Inl PyValueError else Inr (Inl e, w))"

definition read_synthesis ::
  "research_service \<Rightarrow> research_mode \<Rightarrow> evidence_item list \<Rightarrow> ai_execution \<Rightarrow> 'z web_world_scheme \<Rightarrow>
     web_raise + research_answer" where
  "read_synthesis svc mode evidence execution w =
     (case (case rs_parse_json svc (ps_output_text (ax_response execution)) of
              None \<Rightarrow> Inl PyValueError | Some v \<Rightarrow> validate_envelope v) of
        Inl _ \<Rightarrow> raise_code RC_MALFORMED_SYNTHESIS
      | Inr claims \<Rightarrow>
          bindE (validate_synthesis w claims evidence) (\<lambda>(t, cited).
          make_answer \<lparr>an_mode = mode, an_content = t, an_citations = cited,
                       an_routing_decision_id = Some (rd_id (ax_routing_decision execution))\<rparr>))"

definition synthesize ::
  "research_service \<Rightarrow> identity_context \<Rightarrow> research_mode \<Rightarrow> string \<Rightarrow> evidence_item list \<Rightarrow> data_sensitivity \<Rightarrow> int \<Rightarrow>
     'z web_world_scheme \<Rightarrow> app_error + (web_raise + research_answer) \<times> 'z web_world_scheme" where
  "synthesize svc i mode query evidence sensitivity tokens w =
     (let prompt = synthesis_prompt query evidence
      in bindE (make_routing_request (research_routing mode sensitivity prompt tokens)) (\<lambda>routing.
         bindE (make_provider_request
                  \<lparr>pq_input_text = prompt, pq_output_token_budget = tokens, pq_structured_output_required = True,
                   pq_tool_calling_required = False\<rparr>) (\<lambda>request.
         bindE (invoke (rs_router svc) i routing request [] \<lparr>cu_daily = 0, cu_monthly = 0\<rparr> w) (\<lambda>(res, w1).
         case res of
           Inl e \<Rightarrow>
             if e \<in> {AIProviderExecutionError, AIRoutingDeniedError}
             then raised (WR_Research RC_PROVIDER_UNAVAILABLE) w1 else Inl e
         | Inr execution \<Rightarrow>
             (case read_synthesis svc mode evidence execution w1 of
                Inl e \<Rightarrow> raised e w1
              | Inr reply \<Rightarrow> Inr (Inr reply, w1))))))"

definition execute_research ::
  "research_service \<Rightarrow> identity_context \<Rightarrow> research_mode \<Rightarrow> string \<Rightarrow> data_sensitivity \<Rightarrow> int \<Rightarrow>
     'z web_world_scheme \<Rightarrow> app_error + (web_raise + research_answer) \<times> 'z web_world_scheme" where
  "execute_research svc i mode content sensitivity tokens w =
     (case minimize_query w content of
        Inl e \<Rightarrow> raised e w
      | Inr query \<Rightarrow>
          if query = [] then raised (WR_Research RC_INSUFFICIENT_EVIDENCE) w
          else
            (case gather_documents svc mode content query w of
               (Inl e, w1) \<Rightarrow> raised e w1
             | (Inr documents, w1) \<Rightarrow>
                 (case build_evidence w1 documents query (rb_max_evidence_items (rp_budget (rs_policy svc))) of
                    Inl e \<Rightarrow> raised e w1
                  | Inr evidence \<Rightarrow>
                      if evidence = [] then raised (WR_Research RC_INSUFFICIENT_EVIDENCE) w1
                      else synthesize svc i mode query evidence sensitivity tokens w1)))"

section \<open>The service\<close>

primrec research_action :: "research_mode \<Rightarrow> string" where
  "research_action RM_SEARCH = ''search''"
| "research_action RM_FETCH = ''fetch''"
| "research_action RM_MULTI_SOURCE_RESEARCH = ''multi_source''"
| "research_action RM_NO_RESEARCH = ''''"

definition research_context :: "research_mode \<Rightarrow> metadata" where
  "research_context mode =
     [(''mode'', JStr (research_mode_value mode)), (''policy_version'', JStr RESEARCH_POLICY_VERSION)]"

definition rejection_record :: "identity_context \<Rightarrow> research_mode \<Rightarrow> research_code \<Rightarrow> audit_record" where
  "rejection_record i mode c =
     (blank_audit (ic_user_id i) (ic_device_id i) (ic_session_id i) AT_SYSTEM AE_ORCHESTRATION_SECURITY_REJECTED AR_DENIED)
       \<lparr>aq_capability_key := Some ''web.research'', aq_action := Some (research_action mode),
        aq_resource_type := Some ''web'', aq_reason_codes := [research_code_value c],
        aq_metadata := research_context mode\<rparr>"

text \<open>\<^verbatim>\<open>_audit_rejection\<close> followed by the raise of the same code.\<close>

definition reject_research ::
  "identity_context \<Rightarrow> research_mode \<Rightarrow> research_code \<Rightarrow> 'z web_world_scheme \<Rightarrow>
     app_error + (research_failure + research_answer) \<times> 'z web_world_scheme" where
  "reject_research i mode c w =
     bindE (record_audit (rejection_record i mode c) w) (\<lambda>w1. Inr (Inl (c, None), w1))"

definition research_authorization :: "research_mode \<Rightarrow> uuid option \<Rightarrow> authorization_request" where
  "research_authorization mode confirmation_id =
     \<lparr>rq_capability_key = ''web.research'', rq_action = research_action mode,
      rq_scope = \<lparr>sc_resource_type = ''web'', sc_resource_ids = [], sc_operations = [research_action mode]\<rparr>,
      rq_resource = None, rq_context = research_context mode, rq_confirmation_id = confirmation_id\<rparr>"

definition research_permitted ::
  "research_service \<Rightarrow> identity_context \<Rightarrow> research_mode \<Rightarrow> string \<Rightarrow> data_sensitivity \<Rightarrow> int \<Rightarrow>
     'z web_world_scheme \<Rightarrow> app_error + (research_failure + research_answer) \<times> 'z web_world_scheme" where
  "research_permitted svc i mode content sensitivity tokens w =
     bindE (execute_research svc i mode content sensitivity tokens w) (\<lambda>(res, w1).
     case res of
       Inr reply \<Rightarrow> Inr (Inr reply, w1)
     | Inl (WR_Research c) \<Rightarrow> reject_research i mode c w1
     | Inl WR_Deadline \<Rightarrow> reject_research i mode RC_FETCH_TIMEOUT w1
     | Inl WR_Value \<Rightarrow> Inl PyValueError)"

definition research ::
  "research_service \<Rightarrow> identity_context \<Rightarrow> string \<Rightarrow> data_sensitivity \<Rightarrow> int \<Rightarrow> uuid option \<Rightarrow>
     'z web_world_scheme \<Rightarrow> app_error + (research_failure + research_answer) \<times> 'z web_world_scheme" where
  "research svc i content sensitivity tokens confirmation_id w =
     (let mode = select_mode (w_casefold w) content
      in if mode = RM_NO_RESEARCH then Inr (Inl (RC_POLICY_DENIED, None), w)
         else if \<not> rp_enabled (rs_policy svc) then reject_research i mode RC_DISABLED w
         else if \<not> permits_external_access (rs_policy svc) sensitivity then reject_research i mode RC_POLICY_DENIED w
         else
           bindE (authorize i (research_authorization mode confirmation_id) w) (\<lambda>(d, w1).
           if dc_decision d = REQUIRE_CONFIRMATION
           then Inr (Inl (RC_CONFIRMATION_REQUIRED, dc_confirmation_id d), w1)
           else if dc_decision d \<noteq> ALLOW then Inr (Inl (RC_PERMISSION_REQUIRED, None), w1)
           else research_permitted svc i mode content sensitivity tokens w1))"

text \<open>\<^verbatim>\<open>OrchestratorService.research\<close>: the delegation, for a service that may be absent.\<close>

definition orchestrator_research ::
  "research_service option \<Rightarrow> identity_context \<Rightarrow> string \<Rightarrow> data_sensitivity \<Rightarrow> int \<Rightarrow> uuid option \<Rightarrow>
     'z web_world_scheme \<Rightarrow> app_error + (research_failure + research_answer) \<times> 'z web_world_scheme" where
  "orchestrator_research service i content sensitivity tokens confirmation_id w =
     (case service of
        None \<Rightarrow> Inr (Inl (RC_DISABLED, None), w)
      | Some svc \<Rightarrow> research svc i content sensitivity tokens confirmation_id w)"

end
