(* ===== verification/Research_Correct.thy ===== *)
theory Research_Correct
  imports Research_Service
begin

text \<open>
  What holds of Web Research: the requests it makes reach public addresses only and are bounded in number,
  the web is used only under the policy and a stored ALLOW of the user, an answer cites what was fetched and
  every claim of it is supported by what it cites, the text of a page is its visible text, and the cache
  returns what was put while it is fresh.
\<close>

section \<open>Sorted sets and sequences of calls\<close>

lemma set_insert_by [simp]: "set (insert_by le x xs) = insert x (set xs)"
  by (induction xs) auto

lemma set_sort_by [simp]: "set (sort_by le xs) = set xs"
  by (induction xs) (simp_all add: sort_by_def)

lemma set_sorted_set [simp]: "set (sorted_set xs) = set xs"
  by (simp add: sorted_set_def)

lemma sorted_set_empty [simp]: "sorted_set xs = [] \<longleftrightarrow> xs = []"
  by (metis set_empty set_sorted_set)

lemma parse_all_Inr_ex: "parse_all f xs = Inr ys \<Longrightarrow> x \<in> set xs \<Longrightarrow> \<exists>y \<in> set ys. f x = Inr y"
  by (induction xs arbitrary: ys) (auto simp: bindE_eq_Inr)

lemma parse_all_Inr_from: "parse_all f xs = Inr ys \<Longrightarrow> y \<in> set ys \<Longrightarrow> \<exists>x \<in> set xs. f x = Inr y"
  by (induction xs arbitrary: ys) (auto simp: bindE_eq_Inr)

lemma bindN_simps [simp]:
  "bindN (Inl e, c) f = (Inl e, c)"
  "bindN (Inr x, c) f = f x c"
  by (simp_all add: bindN_def)

section \<open>Addresses\<close>

text \<open>
  The addresses of the machine and of the networks around it, written as ranges: loopback, private use,
  shared, link local (where the metadata services of the clouds live), unspecified, multicast, reserved.
\<close>

fun internal_address :: "ip_address \<Rightarrow> bool" where
  "internal_address (IPv4 n) =
     (n \<le> v4 0 255 255 255 \<or>
      v4 10 0 0 0 \<le> n \<and> n \<le> v4 10 255 255 255 \<or>
      v4 100 64 0 0 \<le> n \<and> n \<le> v4 100 127 255 255 \<or>
      v4 127 0 0 0 \<le> n \<and> n \<le> v4 127 255 255 255 \<or>
      v4 169 254 0 0 \<le> n \<and> n \<le> v4 169 254 255 255 \<or>
      v4 172 16 0 0 \<le> n \<and> n \<le> v4 172 31 255 255 \<or>
      v4 192 168 0 0 \<le> n \<and> n \<le> v4 192 168 255 255 \<or>
      v4 224 0 0 0 \<le> n \<and> n \<le> v4 255 255 255 255)"
| "internal_address (IPv6 n) =
     (n \<le> 1 \<or>
      0xfc00 * 2 ^ 112 \<le> n \<and> n < 0xfe00 * 2 ^ 112 \<or>
      0xfe80 * 2 ^ 112 \<le> n \<and> n < 0xfec0 * 2 ^ 112 \<or>
      0xff00 * 2 ^ 112 \<le> n \<and> n < 0x10000 * 2 ^ 112)"

lemma in_net_range:
  assumes "base mod 2 ^ (width - p) = 0" and "base \<le> a" and "a < base + 2 ^ (width - p)"
  shows "in_net width a (base, p)"
proof -
  define m :: nat where "m = 2 ^ (width - p)"
  obtain k where k: "base = m * k" using assms(1) unfolding m_def by auto
  have "a div m = k"
    by (rule div_nat_eqI) (use assms k in \<open>auto simp: m_def mult.commute\<close>)
  moreover have "base div m = k" using k by (simp add: m_def)
  ultimately show ?thesis by (simp add: in_net_def m_def)
qed

lemma in_netsI: "net \<in> set nets \<Longrightarrow> in_net width a net \<Longrightarrow> in_nets width a nets"
  by (auto simp: in_nets_def list_ex_iff)

lemma in_v4_exceptions: "in_nets 32 n V4_EXCEPTIONS \<longleftrightarrow> n = v4 192 0 0 9 \<or> n = v4 192 0 0 10"
  by (simp add: in_nets_def V4_EXCEPTIONS_def in_net_def)

lemma v4_range:
  assumes "v4 a b c d \<le> n" and "n < v4 a b c d + 2 ^ (32 - p)" and "v4 a b c d mod 2 ^ (32 - p) = 0"
  shows "in_net 32 n (v4 a b c d, p)"
  by (rule in_net_range) (fact assms)+

lemma internal_v4_not_global:
  assumes "internal_address (IPv4 n)"
  shows "\<not> is_global (IPv4 n) \<or> is_multicast (IPv4 n)"
proof -
  consider
      (zero) "v4 0 0 0 0 \<le> n" "n < v4 0 0 0 0 + 2 ^ (32 - 8)"
    | (ten) "v4 10 0 0 0 \<le> n" "n < v4 10 0 0 0 + 2 ^ (32 - 8)"
    | (shared) "v4 100 64 0 0 \<le> n" "n < v4 100 64 0 0 + 2 ^ (32 - 10)"
    | (loop) "v4 127 0 0 0 \<le> n" "n < v4 127 0 0 0 + 2 ^ (32 - 8)"
    | (link) "v4 169 254 0 0 \<le> n" "n < v4 169 254 0 0 + 2 ^ (32 - 16)"
    | (site) "v4 172 16 0 0 \<le> n" "n < v4 172 16 0 0 + 2 ^ (32 - 12)"
    | (home) "v4 192 168 0 0 \<le> n" "n < v4 192 168 0 0 + 2 ^ (32 - 16)"
    | (multicast) "v4 224 0 0 0 \<le> n" "n < v4 224 0 0 0 + 2 ^ (32 - 4)"
    | (reserved) "v4 240 0 0 0 \<le> n" "n < v4 240 0 0 0 + 2 ^ (32 - 4)"
    using assms by (simp add: v4_def) linarith
  then have "list_ex (in_net 32 n) [(v4 0 0 0 0, 8), (v4 10 0 0 0, 8), (v4 100 64 0 0, 10), (v4 127 0 0 0, 8), (v4 169 254 0 0, 16), (v4 172 16 0 0, 12), (v4 192 168 0 0, 16), (v4 224 0 0 0, 4), (v4 240 0 0 0, 4)]"
    by cases (drule (1) v4_range, simp add: v4_def, simp)+
  moreover have "\<not> in_nets 32 n V4_EXCEPTIONS"
    using assms by (auto simp: in_v4_exceptions v4_def)
  ultimately show ?thesis
    by (auto simp: v4_is_private_def in_nets_def V4_PRIVATE_def)
qed

lemma in_net_below: "in_net width a (base, p) \<Longrightarrow> a < base + 2 ^ (width - p)"
proof -
  assume "in_net width a (base, p)"
  then have "a div 2 ^ (width - p) = base div 2 ^ (width - p)" by (simp add: in_net_def)
  then have "a < 2 ^ (width - p) * (base div 2 ^ (width - p)) + 2 ^ (width - p)"
    by (metis mod_less_divisor mult_div_mod_eq nat_add_left_cancel_less zero_less_numeral zero_less_power)
  also have "\<dots> \<le> base + 2 ^ (width - p)" by (simp add: times_div_less_eq_dividend)
  finally show ?thesis .
qed

lemma v6_values:
  "v6 [0, 0, 0, 0, 0, 0xffff] = 0xffff00000000"
  "v6 [0x64, 0xff9b, 1] = 0x64ff9b000100000000000000000000"
  "v6 [0x100] = 0x1000000000000000000000000000000"
  "v6 [0x2001] = 0x20010000000000000000000000000000"
  "v6 [0x2001, 0xdb8] = 0x20010db8000000000000000000000000"
  "v6 [0x2002] = 0x20020000000000000000000000000000"
  "v6 [0xfc00] = 0xfc000000000000000000000000000000"
  "v6 [0xfe80] = 0xfe800000000000000000000000000000"
  "v6 [0x2001, 1] = 0x20010001000000000000000000000000"
  "v6 [0x2001, 3] = 0x20010003000000000000000000000000"
  "v6 [0x2001, 4, 0x112] = 0x20010004011200000000000000000000"
  "v6 [0x2001, 0x20] = 0x20010020000000000000000000000000"
  "v6 [0x2001, 0x30] = 0x20010030000000000000000000000000"
  "v6 [0xff00] = 0xff000000000000000000000000000000"
  by code_simp+

lemmas v6_nets = v6_values v6_values[unfolded One_nat_def]

lemma not_v6_exception:
  assumes "0xfc00 * 2 ^ 112 \<le> n"
  shows "\<not> in_nets 128 n V6_EXCEPTIONS"
proof
  assume "in_nets 128 n V6_EXCEPTIONS"
  then obtain base p where "(base, p) \<in> set V6_EXCEPTIONS" and net: "in_net 128 n (base, p)"
    by (auto simp: in_nets_def list_ex_iff)
  then have "base + 2 ^ (128 - p) \<le> 0xfc00 * 2 ^ 112"
    by (auto simp: V6_EXCEPTIONS_def v6_nets)
  with in_net_below[OF net] assms show False by linarith
qed

lemma internal_v6_not_global:
  assumes "internal_address (IPv6 n)"
  shows "\<not> is_global (IPv6 n) \<or> is_multicast (IPv6 n)"
proof (cases "n \<le> 1")
  case True
  then consider "n = 0" | "n = 1" by linarith
  then show ?thesis
    by cases (simp_all add: in_nets_def V6_PRIVATE_def V6_EXCEPTIONS_def in_net_def v6_nets)
next
  case False
  then have big: "0xfc00 * 2 ^ 112 \<le> n" using assms by auto
  note net = in_net_range[of _ 128 _ n]
  consider "in_net 128 n (v6 [0xfc00], 7)" | "in_net 128 n (v6 [0xfe80], 10)" | "in_net 128 n (v6 [0xff00], 8)"
    using assms False net[of "v6 [0xfc00]" 7] net[of "v6 [0xfe80]" 10] net[of "v6 [0xff00]" 8]
    by (simp add: v6_values) linarith
  moreover have "n div 2 ^ 32 \<noteq> 0xffff"
  proof
    assume "n div 2 ^ 32 = 0xffff"
    then have "n < 2 ^ 48" using dividend_less_div_times[of "2 ^ 32" n] by simp
    with big show False by simp
  qed
  ultimately show ?thesis
    using not_v6_exception[OF big] by cases (simp_all add: in_nets_def V6_PRIVATE_def)
qed

lemma public_not_internal: "public_address a \<Longrightarrow> \<not> internal_address a"
  using internal_v4_not_global internal_v6_not_global by (cases a) (auto simp: public_address_def)

section \<open>What a request is allowed to reach\<close>

text \<open>
  A request is guarded when its host was resolved by the service, every address of the answer is the text of
  an address that may be contacted, the connection is pinned to one of them, and the scheme fixes the port.
\<close>

definition unmapped :: "ip_address \<Rightarrow> ip_address" where
  "unmapped a = (case ipv4_mapped a of None \<Rightarrow> a | Some m \<Rightarrow> m)"

definition resolved_public :: "'z web_world_scheme \<Rightarrow> string \<Rightarrow> string \<Rightarrow> bool" where
  "resolved_public w raw shown \<longleftrightarrow>
     (\<exists>a. w_parse_ip w raw = Some a \<and> \<not> internal_address (unmapped a) \<and> shown = w_show_ip w (unmapped a))"

definition guarded_request :: "research_service \<Rightarrow> 'z web_world_scheme \<Rightarrow> resolved_target \<Rightarrow> bool" where
  "guarded_request svc w t \<longleftrightarrow>
     rg_scheme t \<in> {''http'', ''https''} \<and> rg_port t = (if rg_scheme t = ''https'' then 443 else 80) \<and>
     rg_pinned_ip t \<in> set (rg_addresses t) \<and>
     (\<exists>n raws. rs_getaddrinfo svc n (rg_host t) (rg_port t) = Some raws \<and>
        (\<forall>raw \<in> set raws. \<exists>shown \<in> set (rg_addresses t). resolved_public w raw shown) \<and>
        (\<forall>shown \<in> set (rg_addresses t). \<exists>raw \<in> set raws. resolved_public w raw shown))"

fun guarded_call :: "research_service \<Rightarrow> 'z web_world_scheme \<Rightarrow> web_call \<Rightarrow> bool" where
  "guarded_call svc w (WC_REQUEST t) = guarded_request svc w t"
| "guarded_call svc w c = True"

lemma normal_address_unmapped:
  "normal_address w raw =
     (case w_parse_ip w raw of
        None \<Rightarrow> raise_code RC_BLOCKED_URL
      | Some a \<Rightarrow> if public_address (unmapped a) then Inr (w_show_ip w (unmapped a)) else raise_code RC_BLOCKED_URL)"
  unfolding normal_address_def unmapped_def Let_def by (rule refl)

lemma normal_address_Inr: "normal_address w raw = Inr shown \<Longrightarrow> resolved_public w raw shown"
  by (auto simp: normal_address_unmapped resolved_public_def dest: public_not_internal split: option.splits if_splits)

lemma partition_scheme:
  assumes "s \<in> {''http'', ''https''}"
  shows "split_scheme d (s @ '':'' @ r) = (s, r)"
  using assms by (auto simp: split_scheme_def str_partition_def is_alpha_char_def scheme_char_def py_lower_def py_lower_char_def)

lemma urlsplit_scheme:
  assumes "s \<in> {''http'', ''https''}" and "urlsplit nfkc pip d (s @ '':'' @ r) = Some u"
  shows "su_scheme u = s"
proof -
  have "filter (\<lambda>c. c \<notin> {CHR 0x09, CHR 0x0A, CHR 0x0D}) (lstrip_chars (\<lambda>c. (of_char c :: nat) \<le> 32) (s @ '':'' @ r)) =
        s @ '':'' @ filter (\<lambda>c. c \<notin> {CHR 0x09, CHR 0x0A, CHR 0x0D}) r"
    using assms(1) by (auto simp: lstrip_chars_def)
  then show ?thesis
    using assms(2) partition_scheme[OF assms(1)] by (auto simp: urlsplit_def Let_def split: prod.splits if_splits)
qed

lemma urlunsplit_scheme:
  "su_fragment u = [] \<Longrightarrow> su_scheme u \<noteq> [] \<Longrightarrow> \<exists>r. urlunsplit u = su_scheme u @ '':'' @ r"
  by (simp add: urlunsplit_def Let_def)

lemma canonicalize_scheme:
  assumes "canonicalize w raw = Inr url"
  obtains s r where "s \<in> {''http'', ''https''}" and "url = s @ '':'' @ r"
proof -
  obtain s netloc p q where s: "s \<in> {''http'', ''https''}" and
    url: "url = urlunsplit \<lparr>su_scheme = s, su_netloc = netloc, su_path = p, su_query = q, su_fragment = []\<rparr>"
    using assms unfolding canonicalize_def
    by (auto simp: Let_def split: option.splits if_splits simp del: insert_iff)
  moreover have "s \<noteq> []" using s by auto
  ultimately show thesis
    using urlunsplit_scheme[of "\<lparr>su_scheme = s, su_netloc = netloc, su_path = p, su_query = q, su_fragment = []\<rparr>"] that
    by force
qed

section \<open>The calls of one fetch\<close>

lemma resolve_target_parts:
  assumes "resolve_target svc w raw history calls = (res, calls1)"
  shows "(calls1 = calls \<or> (\<exists>h p. calls1 = calls @ [WC_RESOLVE h p])) \<and>
         (\<forall>t history1. res = Inr (t, history1) \<longrightarrow> guarded_request svc w t)"
proof (intro conjI allI impI)
  show "calls1 = calls \<or> (\<exists>h p. calls1 = calls @ [WC_RESOLVE h p])"
    using assms by (auto simp: resolve_target_def Let_def split: sum.splits option.splits if_splits)
next
  fix t history1
  assume "res = Inr (t, history1)"
  with assms obtain canonical u host raws normalized where
    c: "canonicalize w raw = Inr canonical" and
    u: "urlsplit (w_nfkc w) (w_parse_ip w) [] canonical = Some u" and
    r: "rs_getaddrinfo svc (length calls) host (if su_scheme u = ''https'' then 443 else 80) = Some raws" and
    raws: "raws \<noteq> []" and
    n: "parse_all (normal_address w) (sorted_set raws) = Inr normalized" and
    t: "rg_scheme t = su_scheme u" "rg_host t = host" "rg_port t = (if su_scheme u = ''https'' then 443 else 80)"
       "rg_addresses t = sorted_set normalized" "rg_pinned_ip t = hd (sorted_set normalized)"
    by (auto simp: resolve_target_def Let_def split: sum.splits option.splits if_splits)
  have scheme: "su_scheme u \<in> {''http'', ''https''}"
    using canonicalize_scheme[OF c] urlsplit_scheme u by metis
  have "normalized \<noteq> []"
    using n raws parse_all_Inr_ex[OF n] by (cases raws) fastforce+
  then have "hd (sorted_set normalized) \<in> set (sorted_set normalized)"
    by (intro hd_in_set) simp
  moreover have "\<forall>raw \<in> set raws. \<exists>shown \<in> set normalized. resolved_public w raw shown"
    using parse_all_Inr_ex[OF n] normal_address_Inr[of w] by (metis set_sorted_set)
  moreover have "\<forall>shown \<in> set normalized. \<exists>raw \<in> set raws. resolved_public w raw shown"
    using parse_all_Inr_from[OF n] normal_address_Inr[of w] by (metis set_sorted_set)
  ultimately show "guarded_request svc w t"
    unfolding guarded_request_def t
    by (intro conjI exI[of _ "length calls"] exI[of _ raws]) (use scheme r in simp_all)
qed

text \<open>What one step of the pipeline adds to the calls: guarded ones, within a bound.\<close>

definition adds_calls :: "(web_call \<Rightarrow> bool) \<Rightarrow> nat \<Rightarrow> web_call list \<Rightarrow> web_call list \<Rightarrow> bool" where
  "adds_calls P n calls calls1 \<longleftrightarrow> (\<exists>more. calls1 = calls @ more \<and> list_all P more \<and> length more \<le> n)"

lemma adds_calls_refl [simp, intro]: "adds_calls P n calls calls"
  by (simp add: adds_calls_def)

lemma adds_calls_trans:
  "adds_calls P m a b \<Longrightarrow> adds_calls P n b c \<Longrightarrow> adds_calls P (m + n) a c"
  by (fastforce simp: adds_calls_def)

lemma adds_calls_mono: "adds_calls P m a b \<Longrightarrow> m \<le> n \<Longrightarrow> adds_calls P n a b"
  by (fastforce simp: adds_calls_def)

lemma adds_calls_one: "P c \<Longrightarrow> 1 \<le> n \<Longrightarrow> adds_calls P n calls (calls @ [c])"
  by (simp add: adds_calls_def)

lemma adds_calls_mem: "adds_calls P n a b \<Longrightarrow> set a \<subseteq> set b"
  by (auto simp: adds_calls_def)

lemma resolve_target_calls:
  "resolve_target svc w raw history calls = (res, calls1) \<Longrightarrow> adds_calls (guarded_call svc w) 1 calls calls1"
  by (drule resolve_target_parts) (auto intro: adds_calls_one)

lemma request_sync_calls: "snd (request_sync svc w t n calls) = calls @ [WC_REQUEST t]"
  by (simp add: request_sync_def Let_def split: http_outcome.split option.split)

definition requested :: "string \<Rightarrow> web_call list \<Rightarrow> web_call list \<Rightarrow> bool" where
  "requested url calls calls1 \<longleftrightarrow> (\<exists>t. WC_REQUEST t \<in> set (drop (length calls) calls1) \<and> rg_canonical_url t = url)"

lemma requested_earlier: "requested url b c \<Longrightarrow> length a \<le> length b \<Longrightarrow> requested url a c"
  unfolding requested_def by (blast dest: subsetD[OF set_drop_subset_set_drop])

lemma requested_later: "requested url a b \<Longrightarrow> adds_calls P n b c \<Longrightarrow> requested url a c"
  by (fastforce simp: requested_def adds_calls_def)

lemma adds_calls_length: "adds_calls P n a b \<Longrightarrow> length a \<le> length b"
  by (auto simp: adds_calls_def)

text \<open>One round: it ends with the answer of the address it asked, or goes on with one redirect less.\<close>

lemma fetch_loop_step:
  assumes "fetch_loop svc w n current history calls = (res, calls1)"
  obtains (ends) "adds_calls (guarded_call svc w) 2 calls calls1"
      and "\<And>url ct body. res = Inr (url, ct, body) \<Longrightarrow> requested url calls calls1"
    | (redirects) m next_url history1 calls2 where "n = Suc m" and "adds_calls (guarded_call svc w) 2 calls calls2"
      and "fetch_loop svc w m next_url history1 calls2 = (res, calls1)"
proof (cases "resolve_target svc w current history calls")
  case (Pair target c1)
  note resolved = resolve_target_calls[OF Pair]
  show thesis
  proof (cases target)
    case (Inl e)
    with assms Pair have "res = Inl e" "calls1 = c1" by (simp_all add: fetch_loop.simps[of svc w n])
    with resolved show thesis by (intro ends) (auto intro: adds_calls_mono)
  next
    case (Inr p)
    then obtain t history1 where target: "target = Inr (t, history1)" by (cases p) auto
    with resolve_target_parts[OF Pair] have "guarded_call svc w (WC_REQUEST t)" by simp
    then have "adds_calls (guarded_call svc w) 1 c1 (c1 @ [WC_REQUEST t])" by (rule adds_calls_one) simp
    from adds_calls_trans[OF resolved this]
    have asked: "adds_calls (guarded_call svc w) 2 calls (c1 @ [WC_REQUEST t])" by (simp add: numeral_2_eq_2)
    have here: "requested (rg_canonical_url t) calls (c1 @ [WC_REQUEST t])"
      using adds_calls_length[OF resolved] by (auto simp: requested_def)
    let ?answer = "request_sync svc w t (rb_max_response_bytes (rp_budget (rs_policy svc))) c1"
    have calls2: "snd ?answer = c1 @ [WC_REQUEST t]" by (rule request_sync_calls)
    show thesis
    proof (cases "fst ?answer")
      case (Inl e)
      with calls2 have "?answer = (Inl e, c1 @ [WC_REQUEST t])" by (simp add: prod_eq_iff)
      with assms Pair target have "res = Inl e" "calls1 = c1 @ [WC_REQUEST t]"
        by (simp_all add: fetch_loop.simps[of svc w n])
      with asked show thesis by (intro ends) auto
    next
      case (Inr resp)
      with calls2 have "?answer = (Inr resp, c1 @ [WC_REQUEST t])" by (simp add: prod_eq_iff)
      with assms Pair target
      have "(calls1 = c1 @ [WC_REQUEST t] \<and> (\<forall>url ct body. res = Inr (url, ct, body) \<longrightarrow> url = rg_canonical_url t)) \<or>
            (\<exists>m next_url. n = Suc m \<and> fetch_loop svc w m next_url history1 (c1 @ [WC_REQUEST t]) = (res, calls1))"
        by (auto simp: fetch_loop.simps[of svc w n] Let_def split: if_splits option.splits list.splits nat.splits)
      with asked here show thesis by (metis ends redirects)
    qed
  qed
qed

lemma fetch_loop_calls:
  assumes "fetch_loop svc w n current history calls = (res, calls1)"
  shows "adds_calls (guarded_call svc w) (2 * (n + 1)) calls calls1 \<and>
         (\<forall>url ct body. res = Inr (url, ct, body) \<longrightarrow> requested url calls calls1)"
  using assms
proof (induction n arbitrary: current history calls)
  case 0
  then show ?case by (cases rule: fetch_loop_step) auto
next
  case (Suc n)
  from Suc.prems show ?case
  proof (cases rule: fetch_loop_step)
    case ends
    then show ?thesis by (auto intro: adds_calls_mono)
  next
    case (redirects m next_url history1 calls2)
    with Suc.IH have "adds_calls (guarded_call svc w) (2 * (n + 1)) calls2 calls1"
      and "\<forall>url ct body. res = Inr (url, ct, body) \<longrightarrow> requested url calls2 calls1"
      by auto
    with redirects(2) show ?thesis
      using requested_earlier adds_calls_length by (fastforce dest: adds_calls_trans)
  qed
qed

definition fetch_budget :: "research_budget \<Rightarrow> nat" where
  "fetch_budget b = 2 * (rb_max_redirects b + 1)"

lemma fetch_url_calls:
  assumes "fetch_url svc w url0 calls = (res, calls1)"
  shows "adds_calls (guarded_call svc w) (fetch_budget (rp_budget (rs_policy svc))) calls calls1"
    and "res = Inr (url, ct, body) \<Longrightarrow> requested url calls calls1"
  using fetch_loop_calls assms unfolding fetch_url_def fetch_budget_def by blast+

section \<open>The sources of a request\<close>

text \<open>
  A document is sourced when it comes from an address that was asked in this request, or from the cache,
  where it has been for no longer than the lifetime of an entry.
\<close>

definition fresh_entry :: "'z web_world_scheme \<Rightarrow> fetched_document \<Rightarrow> bool" where
  "fresh_entry w d \<longleftrightarrow> (\<exists>k created. (k, created, d) \<in> set (w_documents w) \<and> w_now w - created \<le> CACHE_TTL)"

definition sourced :: "'z web_world_scheme \<Rightarrow> web_call list \<Rightarrow> fetched_document \<Rightarrow> bool" where
  "sourced w calls d \<longleftrightarrow> requested (fd_canonical_url d) (w_web_calls w) calls \<or> fresh_entry w d"

definition sourced_entry :: "'z web_world_scheme \<Rightarrow> web_call list \<Rightarrow> string \<times> timestamp \<times> fetched_document \<Rightarrow> bool" where
  "sourced_entry w calls e \<longleftrightarrow>
     e \<in> set (w_documents w) \<or> requested (fd_canonical_url (snd (snd e))) (w_web_calls w) calls"

text \<open>The state of the loop over the results, with the calls bounded by the rounds made.\<close>

definition visit_ok :: "research_service \<Rightarrow> 'z web_world_scheme \<Rightarrow> nat \<Rightarrow> visit_state \<Rightarrow> bool" where
  "visit_ok svc w n st \<longleftrightarrow>
     adds_calls (guarded_call svc w) n (w_web_calls w) (vs_calls st) \<and>
     (\<forall>d \<in> set (vs_documents st). sourced w (vs_calls st) d) \<and>
     (\<forall>e \<in> set (vs_cache st). sourced_entry w (vs_calls st) e)"

lemma sourced_later: "sourced w a d \<Longrightarrow> adds_calls P n a b \<Longrightarrow> sourced w b d"
  by (auto simp: sourced_def dest: requested_later)

lemma sourced_entry_later: "sourced_entry w a e \<Longrightarrow> adds_calls P n a b \<Longrightarrow> sourced_entry w b e"
  by (auto simp: sourced_entry_def dest: requested_later)

lemma visit_ok_calls:
  assumes "visit_ok svc w m st" and "adds_calls (guarded_call svc w) n (vs_calls st) calls1"
  shows "visit_ok svc w (m + n) (st\<lparr>vs_calls := calls1\<rparr>)"
  using assms sourced_later[OF _ assms(2), of w] sourced_entry_later[OF _ assms(2), of w]
  by (auto simp: visit_ok_def intro: adds_calls_trans)

lemma set_cache_without: "set (cache_without key items) \<subseteq> set items"
  by (auto simp: cache_without_def)

lemma cache_get_subset: "set (snd (cache_get key now items)) \<subseteq> set items"
  by (auto simp: cache_get_def cache_without_def dest: map_of_SomeD split: option.splits)

lemma cache_get_fresh:
  "fst (cache_get key now items) = Some v \<Longrightarrow> \<exists>created. (key, created, v) \<in> set items \<and> now - created \<le> CACHE_TTL"
  by (force simp: cache_get_def dest: map_of_SomeD split: option.splits if_splits)

lemma cache_put_subset: "set (cache_put key v now items) \<subseteq> insert (key, now, v) (set items)"
  unfolding cache_put_def Let_def using set_drop_subset set_cache_without by fastforce

lemma make_document_Inr: "make_document d = Inr d' \<Longrightarrow> d' = d"
  by (simp add: make_document_def split: if_splits)

lemma visit_ok_mono: "visit_ok svc w m st \<Longrightarrow> m \<le> n \<Longrightarrow> visit_ok svc w n st"
  by (auto simp: visit_ok_def intro: adds_calls_mono)

lemma visit_ok_cached:
  assumes "visit_ok svc w m st" and "fst (cache_get key (w_now w) (vs_cache st)) = Some d"
  shows "sourced w (vs_calls st) d"
  using assms cache_get_fresh[OF assms(2)] unfolding visit_ok_def sourced_def fresh_entry_def sourced_entry_def by force

text \<open>The state after a fetch: the calls of the fetch, then possibly the new document.\<close>

lemma visit_ok_fetched:
  assumes ok: "visit_ok svc w m st"
    and fetch: "fetch_url svc w url0 (vs_calls st) = (Inr (url, ct, body), calls)"
    and cache: "set cache1 \<subseteq> set (vs_cache st)"
    and d: "fd_canonical_url d = url"
  shows "visit_ok svc w (m + fetch_budget (rp_budget (rs_policy svc)))
           (st\<lparr>vs_seen := seen, vs_calls := calls, vs_total_bytes := bytes,
               vs_cache := cache_put key d (w_now w) cache1, vs_documents := vs_documents st @ [d]\<rparr>)"
proof -
  note calls = fetch_url_calls(1)[OF fetch]
  have "adds_calls (guarded_call svc w) m (w_web_calls w) (vs_calls st)" using ok by (simp add: visit_ok_def)
  then have asked: "requested url (w_web_calls w) calls"
    using fetch_url_calls(2)[OF fetch refl] requested_earlier adds_calls_length by blast
  have "visit_ok svc w (m + fetch_budget (rp_budget (rs_policy svc))) (st\<lparr>vs_calls := calls\<rparr>)"
    using visit_ok_calls[OF ok calls] .
  moreover have "sourced w calls d" using asked d by (simp add: sourced_def)
  moreover have "sourced_entry w calls e" if "e \<in> set (cache_put key d (w_now w) cache1)" for e
  proof -
    from that have "e = (key, w_now w, d) \<or> e \<in> set (vs_cache st)"
      using cache_put_subset[of key d "w_now w" cache1] cache by blast
    then show ?thesis
      using \<open>visit_ok svc w _ (st\<lparr>vs_calls := calls\<rparr>)\<close> asked d by (auto simp: visit_ok_def sourced_entry_def)
  qed
  ultimately show ?thesis by (auto simp: visit_ok_def)
qed

lemma extracted_url:
  "bindE m (\<lambda>(title, t). make_document \<lparr>fd_canonical_url = url, fd_title = f title, fd_text = t, fd_retrieved_at = now\<rparr>) =
     Inr d \<Longrightarrow> fd_canonical_url d = url"
  by (auto simp: bindE_eq_Inr dest: make_document_Inr)

lemma visit_result_ok:
  assumes ok: "visit_ok svc w m st" and run: "visit_result svc w r st = (res, st1)"
  shows "visit_ok svc w (m + fetch_budget (rp_budget (rs_policy svc))) st1"
proof (cases "canonicalize w (sr_url r)")
  case (Inl e)
  with run ok show ?thesis by (auto simp: visit_result_def Let_def intro: visit_ok_mono)
next
  case (Inr canonical)
  define key where "key = w_sha256 w canonical"
  obtain cached cache1 where get: "cache_get key (w_now w) (vs_cache st) = (cached, cache1)" by fastforce
  then have sub: "set cache1 \<subseteq> set (vs_cache st)" using cache_get_subset by (metis snd_conv)
  have kept: "visit_ok svc w m (st\<lparr>vs_seen := seen, vs_cache := cache1\<rparr>)" for seen
    using ok sub by (auto simp: visit_ok_def)
  show ?thesis
  proof (cases "canonical \<in> set (vs_seen st)")
    case True
    with run Inr ok show ?thesis by (auto simp: visit_result_def Let_def intro: visit_ok_mono)
  next
    case False
    show ?thesis
    proof (cases cached)
      case (Some d)
      have "sourced w (vs_calls st) d" using visit_ok_cached[OF ok, of key d] get Some by simp
      with kept have "visit_ok svc w m (st\<lparr>vs_seen := canonical # vs_seen st, vs_cache := cache1,
                        vs_documents := vs_documents st @ [d]\<rparr>)"
        by (auto simp: visit_ok_def)
      moreover have "st1 = st\<lparr>vs_seen := canonical # vs_seen st, vs_cache := cache1, vs_documents := vs_documents st @ [d]\<rparr>"
        using run Inr False get Some by (simp add: visit_result_def Let_def key_def)
      ultimately show ?thesis by (auto intro: visit_ok_mono)
    next
      case None
      obtain out calls where fetch: "fetch_url svc w canonical (vs_calls st) = (out, calls)" by fastforce
      have called: "visit_ok svc w (m + fetch_budget (rp_budget (rs_policy svc)))
                      (st\<lparr>vs_seen := canonical # vs_seen st, vs_cache := cache1, vs_calls := calls\<rparr>)"
        using visit_ok_calls[OF kept[of "canonical # vs_seen st"]] fetch_url_calls(1)[OF fetch] by simp
      show ?thesis
      proof (cases out)
        case (Inl e)
        with run Inr False get None fetch called show ?thesis
          by (auto simp: visit_result_def Let_def key_def)
      next
        case (Inr p)
        obtain url ct body where out: "out = Inr (url, ct, body)" using Inr by (cases p) auto
        let ?doc = "bindE (extract_document w body ct (rb_max_extracted_chars (rp_budget (rs_policy svc))))
                      (\<lambda>(title, t). make_document
                         \<lparr>fd_canonical_url = url, fd_title = (if title \<noteq> ''Untitled source'' then title else sr_title r),
                          fd_text = t, fd_retrieved_at = w_now w\<rparr>)"
        let ?bytes = "vs_total_bytes st + length body"
        consider (short) "st1 = st\<lparr>vs_seen := canonical # vs_seen st, vs_cache := cache1, vs_calls := calls, vs_total_bytes := ?bytes\<rparr>"
          | (stored) d where "?doc = Inr d" and "st1 = st\<lparr>vs_seen := canonical # vs_seen st, vs_calls := calls, vs_total_bytes := ?bytes,
                vs_cache := cache_put key d (w_now w) cache1, vs_documents := vs_documents st @ [d]\<rparr>"
          using run \<open>canonicalize w (sr_url r) = Inr canonical\<close> False get None fetch out
          by (simp add: visit_result_def Let_def key_def split: if_splits sum.splits)
        then show ?thesis
        proof cases
          case short
          with called show ?thesis by (simp add: visit_ok_def)
        next
          case (stored d)
          show ?thesis
            unfolding stored(2) by (rule visit_ok_fetched[OF ok _ sub extracted_url[OF stored(1)]]) (use fetch out in simp)
        qed
      qed
    qed
  qed
qed

lemma visit_results_ok:
  assumes "visit_ok svc w m st" and "visit_results svc w mode rs st = (res, st1)"
  shows "visit_ok svc w (m + length rs * fetch_budget (rp_budget (rs_policy svc))) st1"
  using assms
proof (induction rs arbitrary: m st)
  case Nil
  then show ?case by simp
next
  case (Cons r rs)
  obtain out st2 where step: "visit_result svc w r st = (out, st2)" by fastforce
  have ok2: "visit_ok svc w (m + fetch_budget (rp_budget (rs_policy svc))) st2" by (rule visit_result_ok[OF Cons.prems(1) step])
  have "st1 = st2 \<or> visit_results svc w mode rs st2 = (res, st1)"
    using Cons.prems(2) step by (auto split: sum.splits web_raise.splits if_splits)
  then show ?case
  proof
    assume "st1 = st2"
    with ok2 show ?thesis by (auto intro: visit_ok_mono)
  next
    assume "visit_results svc w mode rs st2 = (res, st1)"
    from Cons.IH[OF ok2 this] show ?thesis by (simp add: add.assoc)
  qed
qed

section \<open>The calls of a request\<close>

lemma search_loop_calls:
  "search_loop a query limit n last_error calls = (res, calls1) \<Longrightarrow> adds_calls (guarded_call svc w) n calls calls1"
proof (induction n arbitrary: last_error calls)
  case 0
  then show ?case by simp
next
  case (Suc n)
  let ?calls = "calls @ [WC_SEARCH query limit]"
  have one: "adds_calls (guarded_call svc w) 1 calls ?calls" by (rule adds_calls_one) simp_all
  have "calls1 = ?calls \<or> (\<exists>c. search_loop a query limit n c ?calls = (res, calls1))"
    using Suc.prems by (auto simp: Let_def split: search_outcome.splits if_splits)
  with one Suc.IH show ?case by (metis Suc_eq_plus1_left adds_calls_mono adds_calls_trans le_add1 plus_1_eq_Suc)
qed

definition call_budget :: "research_budget \<Rightarrow> nat" where
  "call_budget b = rb_max_provider_attempts b + rb_max_fetches b * fetch_budget b"

lemma find_sources_calls:
  "find_sources svc mode content query calls = (res, calls1) \<Longrightarrow>
     adds_calls (guarded_call svc w) (rb_max_provider_attempts (rp_budget (rs_policy svc))) calls calls1"
  by (auto simp: find_sources_def search_web_def intro: search_loop_calls split: if_splits option.splits sum.splits)

definition sources_ok :: "research_service \<Rightarrow> 'z web_world_scheme \<Rightarrow> 'z web_world_scheme \<Rightarrow> bool" where
  "sources_ok svc w w1 \<longleftrightarrow>
     adds_calls (guarded_call svc w) (call_budget (rp_budget (rs_policy svc))) (w_web_calls w) (w_web_calls w1) \<and>
     (\<forall>e \<in> set (w_documents w1). sourced_entry w (w_web_calls w1) e)"

lemma gather_documents_ok:
  assumes "gather_documents svc mode content query w = (res, w1)"
  shows "sources_ok svc w w1 \<and> w1 = w\<lparr>w_web_calls := w_web_calls w1, w_documents := w_documents w1\<rparr> \<and>
         (\<forall>ds d. res = Inr ds \<longrightarrow> d \<in> set ds \<longrightarrow> sourced w (w_web_calls w1) d)"
proof -
  let ?b = "rp_budget (rs_policy svc)"
  obtain found calls where find: "find_sources svc mode content query (w_web_calls w) = (found, calls)" by fastforce
  note first = find_sources_calls[OF find, of w]
  show ?thesis
  proof (cases found)
    case (Inl e)
    with assms find have "w1 = w\<lparr>w_web_calls := calls\<rparr>" "res = Inl e" by (simp_all add: gather_documents_def)
    with first show ?thesis
      by (auto simp: sources_ok_def call_budget_def sourced_entry_def intro: adds_calls_mono)
  next
    case (Inr results)
    let ?st = "\<lparr>vs_documents = [], vs_seen = [], vs_total_bytes = 0, vs_calls = calls, vs_cache = w_documents w\<rparr>"
    let ?rs = "take (rb_max_fetches ?b) results"
    obtain out st where run: "visit_results svc w mode ?rs ?st = (out, st)" by fastforce
    have "visit_ok svc w (rb_max_provider_attempts ?b) ?st"
      using first by (auto simp: visit_ok_def sourced_entry_def)
    from visit_results_ok[OF this run]
    have "visit_ok svc w (call_budget ?b) st"
      by (rule visit_ok_mono) (simp add: call_budget_def mult_le_mono1)
    then show ?thesis
      using assms find Inr run
      by (cases out) (auto simp: gather_documents_def sources_ok_def visit_ok_def Let_def)
  qed
qed

section \<open>Evidence and citations\<close>

definition evidence_from :: "'z web_world_scheme \<Rightarrow> fetched_document \<Rightarrow> evidence_item \<Rightarrow> bool" where
  "evidence_from w d e \<longleftrightarrow>
     ei_canonical_url e = fd_canonical_url d \<and> ei_title e = fd_title d \<and> ei_retrieved_at e = fd_retrieved_at d \<and>
     ei_content_sha256 e = w_sha256 w (ei_passage e) \<and>
     (\<exists>query_terms. ei_passage e = select_passage (w_casefold w) query_terms (fd_text d))"

lemma make_evidence_Inr: "make_evidence e = Inr e' \<Longrightarrow> e' = e"
  by (simp add: make_evidence_def split: if_splits)

lemma make_citation_Inr: "make_citation c = Inr c' \<Longrightarrow> c' = c"
  by (simp add: make_citation_def split: if_splits)

lemma evidence_loop_from:
  "evidence_loop w q limit ds seen acc = Inr evidence \<Longrightarrow> e \<in> set evidence \<Longrightarrow>
     e \<in> set acc \<or> (\<exists>d \<in> set ds. evidence_from w d e)"
proof (induction ds arbitrary: seen acc)
  case Nil
  then show ?case by simp
next
  case (Cons d ds)
  let ?passage = "select_passage (w_casefold w) q (fd_text d)"
  consider (skip) seen1 where "evidence_loop w q limit ds seen1 acc = Inr evidence"
    | (new) x where "new_evidence w q d ?passage (length acc) = Inr x"
        and "evidence = acc @ [x] \<or> (\<exists>seen1. evidence_loop w q limit ds seen1 (acc @ [x]) = Inr evidence)"
    using Cons.prems(1) by (auto simp: Let_def bindE_eq_Inr split: if_splits)
  then show ?case
  proof cases
    case skip
    from Cons.IH[OF this Cons.prems(2)] show ?thesis by auto
  next
    case (new x)
    have "evidence_from w d x"
      using make_evidence_Inr[OF new(1)[unfolded new_evidence_def Let_def]] by (auto simp: evidence_from_def)
    with new(2) Cons.IH Cons.prems(2) show ?thesis by fastforce
  qed
qed

lemma build_evidence_from:
  "build_evidence w ds q limit = Inr evidence \<Longrightarrow> e \<in> set evidence \<Longrightarrow> \<exists>d \<in> set ds. evidence_from w d e"
  unfolding build_evidence_def by (drule (1) evidence_loop_from) simp

text \<open>The citation that the identifier of an item stands for.\<close>

definition citation_for :: "'z web_world_scheme \<Rightarrow> evidence_item \<Rightarrow> research_citation" where
  "citation_for w e =
     \<lparr>cn_citation_id = ''cit_'' @ take 16 (w_sha256 w (ei_evidence_id e)), cn_evidence_id = ei_evidence_id e,
      cn_url = ei_canonical_url e, cn_title = ei_title e, cn_retrieved_at = ei_retrieved_at e, cn_locator = ei_locator e\<rparr>"

lemma citation_for_url: "cn_url (citation_for w e) = ei_canonical_url e"
  by (simp add: citation_for_def)

lemma evidence_by_id_Some: "evidence_by_id evidence eid = Some e \<Longrightarrow> e \<in> set evidence \<and> ei_evidence_id e = eid"
  by (auto simp: evidence_by_id_def dest!: map_of_SomeD)

text \<open>The dictionary of the citations made so far: one per identifier, each for an item of the evidence.\<close>

definition cited_ok :: "'z web_world_scheme \<Rightarrow> evidence_item list \<Rightarrow> citations \<Rightarrow> bool" where
  "cited_ok w evidence cited \<longleftrightarrow>
     distinct (map fst cited) \<and>
     (\<forall>(eid, c) \<in> set cited. \<exists>e. evidence_by_id evidence eid = Some e \<and> c = citation_for w e)"

definition cites :: "'z web_world_scheme \<Rightarrow> evidence_item list \<Rightarrow> citations \<Rightarrow> string \<Rightarrow> string \<Rightarrow> bool" where
  "cites w evidence cited t eid \<longleftrightarrow>
     (\<exists>e \<in> set evidence. ei_evidence_id e = eid \<and> supported (w_casefold w) t (ei_passage e) \<and>
        citation_for w e \<in> snd ` set cited)"

lemma cites_later: "cites w evidence cited t eid \<Longrightarrow> set cited \<subseteq> set cited1 \<Longrightarrow> cites w evidence cited1 t eid"
  unfolding cites_def by blast

definition citation_id :: "'z web_world_scheme \<Rightarrow> string \<Rightarrow> string" where
  "citation_id w eid = ''cit_'' @ take 16 (w_sha256 w eid)"

lemma cite_ids_ok:
  "cite_ids w evidence t eids cited referenced = Inr (cited1, referenced1) \<Longrightarrow> cited_ok w evidence cited \<Longrightarrow>
     cited_ok w evidence cited1 \<and> set cited \<subseteq> set cited1 \<and> (\<forall>eid \<in> set eids. cites w evidence cited1 t eid) \<and>
     referenced1 = referenced @ map (citation_id w) eids"
proof (induction eids arbitrary: cited referenced)
  case Nil
  then show ?case by simp
next
  case (Cons eid eids)
  then obtain e where e: "evidence_by_id evidence eid = Some e" and s: "supported (w_casefold w) t (ei_passage e)"
    by (auto split: option.splits if_splits)
  note mem = evidence_by_id_Some[OF e]
  obtain cited0 where go: "cite_ids w evidence t eids cited0 (referenced @ [citation_id w eid]) = Inr (cited1, referenced1)"
    and ok: "cited_ok w evidence cited0" and sub: "set cited \<subseteq> set cited0" and c: "citation_for w e \<in> snd ` set cited0"
  proof (cases "map_of cited eid")
    case None
    with Cons.prems e s obtain c where c: "new_citation w e eid = Inr c"
      and go: "cite_ids w evidence t eids (cited @ [(eid, c)]) (referenced @ [cn_citation_id c]) = Inr (cited1, referenced1)"
      by (auto simp: bindE_eq_Inr)
    have c': "c = citation_for w e"
      using make_citation_Inr[OF c[unfolded new_citation_def]] mem by (simp add: citation_for_def)
    show thesis
    proof (rule that)
      show "cite_ids w evidence t eids (cited @ [(eid, c)]) (referenced @ [citation_id w eid]) = Inr (cited1, referenced1)"
        using go c' mem by (simp add: citation_for_def citation_id_def)
      show "cited_ok w evidence (cited @ [(eid, c)])"
        using Cons.prems(2) None e c' by (auto simp: cited_ok_def map_of_eq_None_iff)
    qed (use c' in auto)
  next
    case (Some c)
    then have "(eid, c) \<in> set cited" by (rule map_of_SomeD)
    with Cons.prems(2) e have c': "c = citation_for w e" by (fastforce simp: cited_ok_def)
    show thesis
    proof (rule that)
      show "cite_ids w evidence t eids cited (referenced @ [citation_id w eid]) = Inr (cited1, referenced1)"
        using Cons.prems(1) e s Some c' mem by (simp add: citation_for_def citation_id_def)
      show "citation_for w e \<in> snd ` set cited" using \<open>(eid, c) \<in> set cited\<close> c' by force
    qed (use Cons.prems(2) in auto)
  qed
  from Cons.IH[OF go ok] have ih: "cited_ok w evidence cited1" "set cited0 \<subseteq> set cited1"
    "\<forall>eid \<in> set eids. cites w evidence cited1 t eid" "referenced1 = referenced @ map (citation_id w) (eid # eids)"
    by simp_all
  moreover have "cites w evidence cited1 t eid"
    using mem s c ih(2) unfolding cites_def by blast
  ultimately show ?case using sub by auto
qed

lemma cite_claims_ok:
  "cite_claims w evidence claims cited rendered = Inr (cited1, rendered1) \<Longrightarrow> cited_ok w evidence cited \<Longrightarrow>
     cited_ok w evidence cited1 \<and> set cited \<subseteq> set cited1 \<and>
     (\<forall>c \<in> set claims. \<forall>eid \<in> set (sy_evidence_ids c). cites w evidence cited1 (sy_text c) eid) \<and>
     rendered1 = rendered @ map (\<lambda>c. render_claim (sy_text c) (map (citation_id w) (sy_evidence_ids c))) claims"
proof (induction claims arbitrary: cited rendered)
  case Nil
  then show ?case by simp
next
  case (Cons c cs)
  then obtain cited0 referenced where
    ids: "cite_ids w evidence (sy_text c) (sy_evidence_ids c) cited [] = Inr (cited0, referenced)" and
    go: "cite_claims w evidence cs cited0 (rendered @ [render_claim (sy_text c) referenced]) = Inr (cited1, rendered1)"
    by (auto simp: bindE_eq_Inr)
  note first = cite_ids_ok[OF ids Cons.prems(2)]
  note rest = Cons.IH[OF go conjunct1[OF first]]
  have "\<forall>eid \<in> set (sy_evidence_ids c). cites w evidence cited1 (sy_text c) eid"
    using first rest cites_later by blast
  with first rest show ?case by auto
qed

text \<open>
  What an accepted synthesis is: every claim cites items of the evidence that support it, every such item
  has its citation, nothing else is cited, and the text is the claims with their citations.
\<close>

lemma synthesis_parts:
  assumes "validate_synthesis w claims evidence = Inr (t, cited)"
  shows "(\<forall>c \<in> set claims. \<forall>eid \<in> set (sy_evidence_ids c). \<exists>e \<in> set evidence.
            ei_evidence_id e = eid \<and> supported (w_casefold w) (sy_text c) (ei_passage e) \<and> citation_for w e \<in> set cited) \<and>
         set cited \<subseteq> citation_for w ` set evidence \<and> distinct (map cn_evidence_id cited) \<and> cited \<noteq> [] \<and>
         t = join_with [CHR 0x0A, CHR 0x0A]
               (map (\<lambda>c. render_claim (sy_text c) (map (citation_id w) (sy_evidence_ids c))) claims)"
proof -
  obtain pairs rendered where run: "cite_claims w evidence claims [] [] = Inr (pairs, rendered)"
    and out: "pairs \<noteq> []" "t = join_with [CHR 0x0A, CHR 0x0A] rendered" "cited = map snd pairs"
    using assms by (auto simp: validate_synthesis_def bindE_eq_Inr split: if_splits)
  have "cited_ok w evidence ([] :: citations)" by (simp add: cited_ok_def)
  note ok = cite_claims_ok[OF run this]
  then have keys: "\<forall>p \<in> set pairs. \<exists>e \<in> set evidence. ei_evidence_id e = fst p \<and> snd p = citation_for w e"
    using evidence_by_id_Some by (fastforce simp: cited_ok_def)
  then have "map cn_evidence_id cited = map fst pairs"
    using out(3) by (auto simp: citation_for_def)
  with ok have "distinct (map cn_evidence_id cited)" by (simp add: cited_ok_def)
  moreover have "set cited \<subseteq> citation_for w ` set evidence" using keys out(3) by auto
  ultimately show ?thesis using ok out by (auto simp: cites_def)
qed

lemmas synthesis_cites = synthesis_parts[THEN conjunct2, THEN conjunct1]

section \<open>A request\<close>

text \<open>What research leaves alone, and what the rest of the world sees of it.\<close>

definition web_same :: "'z web_world_scheme \<Rightarrow> 'z web_world_scheme \<Rightarrow> bool" where
  "web_same w w' \<longleftrightarrow>
     w_now w' = w_now w \<and> w_sha256 w' = w_sha256 w \<and> w_next w \<le> w_next w' \<and> w_users w' = w_users w \<and>
     w_devices w' = w_devices w \<and> w_sessions w' = w_sessions w \<and> w_capabilities w' = w_capabilities w \<and>
     set (w_decisions w) \<subseteq> set (w_decisions w') \<and>
     w_casefold w' = w_casefold w \<and> w_nfkc w' = w_nfkc w \<and> w_parse_ip w' = w_parse_ip w \<and> w_show_ip w' = w_show_ip w \<and>
     web_world.more w' = web_world.more w"

lemma web_same_refl [simp]: "web_same w w"
  by (simp add: web_same_def)

lemma web_same_trans: "web_same a b \<Longrightarrow> web_same b c \<Longrightarrow> web_same a c"
  by (auto simp: web_same_def)

lemma auth_more_web:
  fixes w w' :: "'z web_world_scheme"
  assumes "auth_world.more w' = auth_world.more w"
  shows "w_web_calls w' = w_web_calls w" "w_documents w' = w_documents w" "w_casefold w' = w_casefold w"
    "w_nfkc w' = w_nfkc w" "w_parse_ip w' = w_parse_ip w" "w_show_ip w' = w_show_ip w"
    "web_world.more w' = web_world.more w"
  using assms by (cases w; cases w'; simp)+

lemma authorize_web:
  fixes w w' :: "'z web_world_scheme"
  assumes "authorize i r w = Inr (d, w')"
  shows "web_same w w' \<and> w_web_calls w' = w_web_calls w \<and> w_documents w' = w_documents w"
  using authorize_effects[OF assms] auth_more_web[of w' w] by (auto simp: web_same_def row_add_def)

lemma record_audit_web:
  fixes w w' :: "'z web_world_scheme"
  assumes "record_audit r w = Inr w'"
  shows "web_same w w' \<and> w_web_calls w' = w_web_calls w \<and> w_documents w' = w_documents w"
  using assms auth_more_web[of w' w] by (auto simp: record_audit_Inr web_same_def audit_append_def)

lemma ai_grows_web:
  fixes w w' :: "'z web_world_scheme"
  assumes "ai_grows w w'"
  shows "web_same w w' \<and> w_web_calls w' = w_web_calls w \<and> w_documents w' = w_documents w"
  using assms by (auto simp: ai_grows_def web_same_def)

lemma gather_documents_web:
  assumes "gather_documents svc mode content query w = (res, w1)"
  shows "web_same w w1"
proof -
  obtain calls ds where "w1 = w\<lparr>w_web_calls := calls, w_documents := ds\<rparr>"
    using gather_documents_ok[OF assms] by blast
  then show ?thesis by (simp add: web_same_def)
qed

text \<open>An answer cites addresses that were asked in this request, or pages still fresh in the cache.\<close>

definition grounded :: "'z web_world_scheme \<Rightarrow> 'z web_world_scheme \<Rightarrow> research_answer \<Rightarrow> bool" where
  "grounded w w' a \<longleftrightarrow>
     1 \<le> length (an_citations a) \<and> length (an_citations a) \<le> 12 \<and>
     (\<forall>c \<in> set (an_citations a). \<exists>d. fd_canonical_url d = cn_url c \<and> sourced w (w_web_calls w') d)"

lemma raised_Inr: "raised e w = Inr (res, w') \<longleftrightarrow> e \<noteq> WR_Value \<and> res = Inl e \<and> w' = w"
  by (auto simp: raised_def)

lemma synthesize_ok:
  assumes "synthesize svc i mode query evidence s tokens w = Inr (res, w')"
  shows "web_same w w' \<and> w_web_calls w' = w_web_calls w \<and> w_documents w' = w_documents w \<and>
         (\<forall>a. res = Inr a \<longrightarrow> 1 \<le> length (an_citations a) \<and> length (an_citations a) \<le> 12 \<and>
            (\<forall>c \<in> set (an_citations a). \<exists>e \<in> set evidence. cn_url c = ei_canonical_url e))"
proof -
  obtain routing request out w1 where iv: "invoke (rs_router svc) i routing request [] \<lparr>cu_daily = 0, cu_monthly = 0\<rparr> w = Inr (out, w1)"
    and go: "(case out of
                Inl e \<Rightarrow> if e \<in> {AIProviderExecutionError, AIRoutingDeniedError}
                         then raised (WR_Research RC_PROVIDER_UNAVAILABLE) w1 else Inl e
              | Inr execution \<Rightarrow> (case read_synthesis svc mode evidence execution w1 of
                                    Inl e \<Rightarrow> raised e w1 | Inr reply \<Rightarrow> Inr (Inr reply, w1))) = Inr (res, w')"
    using assms unfolding synthesize_def Let_def bindE_eq_Inr by (auto simp del: sum.case)
  have res: "w' = w1 \<and> (\<forall>a. res = Inr a \<longrightarrow> (\<exists>execution. read_synthesis svc mode evidence execution w1 = Inr a))"
  proof (cases out)
    case (Inl e)
    with go show ?thesis by (auto simp: raised_Inr split: if_splits)
  next
    case (Inr execution)
    with go show ?thesis
      by (cases "read_synthesis svc mode evidence execution w1") (auto simp: raised_Inr)
  qed
  have "ai_grows w w1" using invoke_parts[OF iv] by blast
  note same = ai_grows_web[OF this]
  have "1 \<le> length (an_citations a) \<and> length (an_citations a) \<le> 12 \<and>
        (\<forall>c \<in> set (an_citations a). \<exists>e \<in> set evidence. cn_url c = ei_canonical_url e)" if a: "res = Inr a" for a
  proof -
    obtain execution where "read_synthesis svc mode evidence execution w1 = Inr a" using res a by blast
    then obtain claims t where v: "validate_synthesis w1 claims evidence = Inr (t, an_citations a)"
      and "1 \<le> length (an_citations a)" "length (an_citations a) \<le> 12"
      by (auto simp: read_synthesis_def make_answer_def bindE_eq_Inr split: sum.splits if_splits)
    moreover have "set (an_citations a) \<subseteq> citation_for w1 ` set evidence"
      using synthesis_cites[OF v] .
    ultimately show ?thesis using citation_for_url[of w1] by fastforce
  qed
  with same res show ?thesis by blast
qed

lemma execute_research_ok:
  assumes "execute_research svc i mode content s tokens w = Inr (res, w')"
  shows "sources_ok svc w w' \<and> web_same w w' \<and> (\<forall>a. res = Inr a \<longrightarrow> grounded w w' a)"
proof -
  have none: "sources_ok svc w w \<and> web_same w w"
    by (auto simp: sources_ok_def sourced_entry_def)
  consider (early) "w' = w" "\<And>a. res \<noteq> Inr a"
    | (gathered) query out w1 where "gather_documents svc mode content query w = (out, w1)"
        "w' = w1 \<and> (\<forall>a. res \<noteq> Inr a) \<or>
         (\<exists>ds evidence limit. out = Inr ds \<and> build_evidence w1 ds query limit = Inr evidence \<and>
            synthesize svc i mode query evidence s tokens w1 = Inr (res, w'))"
  proof (cases "minimize_query w content")
    case (Inl e)
    with assms show thesis by (intro early) (auto simp: execute_research_def raised_Inr)
  next
    case (Inr query)
    show thesis
    proof (cases "query = []")
      case True
      with assms Inr show thesis by (intro early) (auto simp: execute_research_def raised_Inr)
    next
      case False
      obtain out w1 where g: "gather_documents svc mode content query w = (out, w1)" by fastforce
      show thesis
      proof (rule gathered[OF g], cases out)
        case (Inl e)
        with assms Inr False g show "w' = w1 \<and> (\<forall>a. res \<noteq> Inr a) \<or>
         (\<exists>ds evidence limit. out = Inr ds \<and> build_evidence w1 ds query limit = Inr evidence \<and>
            synthesize svc i mode query evidence s tokens w1 = Inr (res, w'))"
          by (auto simp: execute_research_def raised_Inr)
      next
        case out: (Inr ds)
        show "w' = w1 \<and> (\<forall>a. res \<noteq> Inr a) \<or>
         (\<exists>ds evidence limit. out = Inr ds \<and> build_evidence w1 ds query limit = Inr evidence \<and>
            synthesize svc i mode query evidence s tokens w1 = Inr (res, w'))"
          using assms Inr False g out
          by (cases "build_evidence w1 ds query (rb_max_evidence_items (rp_budget (rs_policy svc)))")
            (auto simp: execute_research_def raised_Inr split: if_splits)
      qed
    qed
  qed
  then show ?thesis
  proof cases
    case early
    with none show ?thesis by auto
  next
    case (gathered query out w1)
    note g = gather_documents_ok[OF gathered(1)] gather_documents_web[OF gathered(1)]
    from gathered(2) show ?thesis
    proof (elim disjE exE conjE)
      assume "w' = w1" "\<forall>a. res \<noteq> Inr a"
      with g show ?thesis by auto
    next
      fix ds evidence limit
      assume out: "out = Inr ds" and ev: "build_evidence w1 ds query limit = Inr evidence"
        and syn: "synthesize svc i mode query evidence s tokens w1 = Inr (res, w')"
      note sy = synthesize_ok[OF syn]
      have "grounded w w' a" if "res = Inr a" for a
        unfolding grounded_def
        using sy that build_evidence_from[OF ev] g(1) out by (fastforce simp: evidence_from_def)
      with g sy show ?thesis
        by (auto simp: sources_ok_def intro: web_same_trans)
    qed
  qed
qed

definition web_idle :: "'z web_world_scheme \<Rightarrow> 'z web_world_scheme \<Rightarrow> bool" where
  "web_idle w w' \<longleftrightarrow> web_same w w' \<and> w_web_calls w' = w_web_calls w \<and> w_documents w' = w_documents w"

lemma guarded_call_idle: "web_idle w w1 \<Longrightarrow> guarded_call svc w1 = guarded_call svc w"
  by (rule ext, case_tac x) (auto simp: web_idle_def web_same_def guarded_request_def resolved_public_def)

lemma sources_ok_from: "web_idle w w1 \<Longrightarrow> sources_ok svc w1 w' \<Longrightarrow> sources_ok svc w w'"
  using guarded_call_idle[of w w1 svc] by (auto simp: sources_ok_def sourced_entry_def web_idle_def)

lemma sources_ok_to: "sources_ok svc w w1 \<Longrightarrow> web_idle w1 w' \<Longrightarrow> sources_ok svc w w'"
  by (simp add: sources_ok_def web_idle_def)

lemma sources_ok_idle: "web_idle w w' \<Longrightarrow> sources_ok svc w w'"
  by (auto simp: sources_ok_def web_idle_def sourced_entry_def)

lemma grounded_from: "web_idle w w1 \<Longrightarrow> grounded w1 w' a \<Longrightarrow> grounded w w' a"
  by (simp add: grounded_def sourced_def fresh_entry_def web_idle_def web_same_def)

lemma reject_research_idle: "reject_research i mode c w = Inr (res, w') \<Longrightarrow> web_idle w w' \<and> res = Inl (c, None)"
  using record_audit_web by (auto simp: reject_research_def bindE_eq_Inr web_idle_def)

text \<open>The external access of a request: what the policy and a stored decision of its user allow.\<close>

definition web_allowed :: "research_service \<Rightarrow> identity_context \<Rightarrow> string \<Rightarrow> data_sensitivity \<Rightarrow> 'z web_world_scheme \<Rightarrow>
    'z web_world_scheme \<Rightarrow> bool" where
  "web_allowed svc i content s w w' \<longleftrightarrow>
     rp_enabled (rs_policy svc) \<and> rp_safe_mode (rs_policy svc) = SM_NORMAL \<and>
     s \<notin> {SENSITIVE, CRITICAL_DATA} \<and>
     (\<exists>d \<in> set (w_decisions w'). ad_decision d = ALLOW \<and> ad_user_id d = ic_user_id i \<and>
        ad_capability_key d = ''web.research'' \<and> ad_action d = research_action (select_mode (w_casefold w) content))"

lemma permits_sensitivity: "permits_external_access p s \<Longrightarrow> rp_enabled p \<and> rp_safe_mode p = SM_NORMAL \<and> s \<notin> {SENSITIVE, CRITICAL_DATA}"
  by (cases s) (auto simp: permits_external_access_def)

lemma research_permitted_ok:
  assumes "research_permitted svc i mode content s tokens w = Inr (res, w')"
  shows "sources_ok svc w w' \<and> web_same w w' \<and> (\<forall>a. res = Inr a \<longrightarrow> grounded w w' a)"
proof -
  obtain out w1 where ex: "execute_research svc i mode content s tokens w = Inr (out, w1)"
    and go: "(\<exists>a. out = Inr a \<and> res = Inr a \<and> w' = w1) \<or> (\<exists>c. reject_research i mode c w1 = Inr (res, w'))"
  proof -
    obtain out w1 where ex: "execute_research svc i mode content s tokens w = Inr (out, w1)"
      using assms by (auto simp: research_permitted_def bindE_eq_Inr)
    show thesis
      using assms ex
      by (intro that[OF ex])
        (cases out rule: sum.exhaust[case_product web_raise.exhaust], auto simp: research_permitted_def split: web_raise.splits)
  qed
  note ok = execute_research_ok[OF ex]
  from go show ?thesis
  proof (elim disjE exE conjE)
    fix a assume "out = Inr a" "res = Inr a" "w' = w1"
    with ok show ?thesis by auto
  next
    fix c assume "reject_research i mode c w1 = Inr (res, w')"
    from reject_research_idle[OF this] ok show ?thesis
      by (auto simp: web_idle_def intro: web_same_trans sources_ok_to)
  qed
qed

lemma research_parts:
  assumes "research svc i content s tokens confirmation w = Inr (res, w')"
  shows "sources_ok svc w w' \<and> web_same w w' \<and> (\<forall>a. res = Inr a \<longrightarrow> grounded w w' a \<and> web_allowed svc i content s w w') \<and>
         (w_web_calls w' \<noteq> w_web_calls w \<longrightarrow> web_allowed svc i content s w w')"
proof -
  let ?mode = "select_mode (w_casefold w) content"
  consider (idle) "web_idle w w'" "\<And>a. res \<noteq> Inr a"
    | (allowed) d w1 where "permits_external_access (rs_policy svc) s"
        "authorize i (research_authorization ?mode confirmation) w = Inr (d, w1)" "dc_decision d = ALLOW"
        "research_permitted svc i ?mode content s tokens w1 = Inr (res, w')"
    using assms authorize_web reject_research_idle
    by (auto simp: research_def Let_def bindE_eq_Inr web_idle_def split: if_splits) blast+
  then show ?thesis
  proof cases
    case idle
    then show ?thesis using sources_ok_idle by (auto simp: web_idle_def)
  next
    case (allowed d w1)
    have w1: "web_idle w w1" using authorize_web[OF allowed(2)] by (simp add: web_idle_def)
    note go = research_permitted_ok[OF allowed(4)]
    obtain a where "a \<in> set (w_decisions w1)" "ad_decision a = ALLOW" "ad_user_id a = ic_user_id i"
      "ad_capability_key a = ''web.research''" "ad_action a = research_action ?mode"
      using authorize_effects[OF allowed(2)] allowed(3) by (fastforce simp: row_add_def research_authorization_def)
    moreover have "set (w_decisions w1) \<subseteq> set (w_decisions w')" using go by (simp add: web_same_def)
    ultimately have "web_allowed svc i content s w w'"
      using permits_sensitivity[OF allowed(1)] by (auto simp: web_allowed_def)
    with go w1 show ?thesis
      by (auto simp: web_idle_def intro: web_same_trans sources_ok_from grounded_from)
  qed
qed

section \<open>The visible text of a page\<close>

text \<open>
  A well-formed page as a tree, its events, and what a reader of the page sees: the texts outside the
  ignored and the hidden elements, each marked when it belongs to the title.
\<close>

datatype html_node = Html_Text string | Html_Element string "(string \<times> string option) list" "html_node list"

fun node_events :: "html_node \<Rightarrow> html_event list" where
  "node_events (Html_Text s) = [HE_DATA s]"
| "node_events (Html_Element tag attrs kids) = HE_START tag attrs # concat (map node_events kids) @ [HE_END tag]"

fun visible_texts :: "(string \<Rightarrow> string) \<Rightarrow> bool \<Rightarrow> html_node \<Rightarrow> (bool \<times> string) list" where
  "visible_texts casefold titled (Html_Text s) = (if join_words s = [] then [] else [(titled, join_words s)])"
| "visible_texts casefold titled (Html_Element tag attrs kids) =
     (if casefold tag \<in> set IGNORED_TAGS \<or> hidden_attributes casefold attrs then []
      else concat (map (visible_texts casefold (titled \<or> casefold tag = ''title'')) kids))"

text \<open>Texts are taken as long as the limit is not reached before them.\<close>

definition within_limit :: "nat \<Rightarrow> string list \<Rightarrow> string list" where
  "within_limit n vs = fold (\<lambda>v acc. if sum_list (map length acc) < n then acc @ [v] else acc) vs []"

definition take_text :: "nat \<Rightarrow> bool \<times> string \<Rightarrow> visible_text \<Rightarrow> visible_text" where
  "take_text n tv p =
     p\<lparr>vt_title_parts := (if fst tv then vt_title_parts p @ [snd tv] else vt_title_parts p),
       vt_parts := (if sum_list (map length (vt_parts p)) < n then vt_parts p @ [snd tv] else vt_parts p)\<rparr>"

lemma take_text_depths [simp]:
  "vt_ignored_depth (take_text n tv p) = vt_ignored_depth p" "vt_hidden_depth (take_text n tv p) = vt_hidden_depth p"
  "vt_title_depth (take_text n tv p) = vt_title_depth p" "vt_hidden_stack (take_text n tv p) = vt_hidden_stack p"
  by (simp_all add: take_text_def)

lemma fold_take_text_depths [simp]:
  "vt_ignored_depth (fold (take_text n) vs p) = vt_ignored_depth p"
  "vt_hidden_depth (fold (take_text n) vs p) = vt_hidden_depth p"
  "vt_title_depth (fold (take_text n) vs p) = vt_title_depth p"
  "vt_hidden_stack (fold (take_text n) vs p) = vt_hidden_stack p"
  by (induction vs arbitrary: p) simp_all

definition invisible :: "visible_text \<Rightarrow> bool" where
  "invisible p \<longleftrightarrow> vt_ignored_depth p > 0 \<or> vt_hidden_depth p > 0"

definition reads_node :: "(string \<Rightarrow> string) \<Rightarrow> nat \<Rightarrow> html_node \<Rightarrow> bool" where
  "reads_node casefold n node \<longleftrightarrow>
     (\<forall>p. fold (handle_event casefold n) (node_events node) p =
          (if invisible p then p else fold (take_text n) (visible_texts casefold (vt_title_depth p > 0) node) p))"

lemma reads_nodes:
  "\<forall>k \<in> set kids. reads_node casefold n k \<Longrightarrow>
   fold (handle_event casefold n) (concat (map node_events kids)) p =
     (if invisible p then p
      else fold (take_text n) (concat (map (visible_texts casefold (vt_title_depth p > 0)) kids)) p)"
  by (induction kids arbitrary: p) (auto simp: reads_node_def invisible_def)

lemma end_restores:
  "handle_endtag casefold tag (fold (take_text n) vs (handle_starttag casefold tag attrs p)) = fold (take_text n) vs p"
proof (induction vs arbitrary: p rule: rev_induct)
  case Nil
  then show ?case by (simp add: handle_starttag_def handle_endtag_def Let_def)
next
  case (snoc v vs)
  have "handle_endtag casefold tag (take_text n v q) = take_text n v (handle_endtag casefold tag q)" for q
    by (simp add: handle_endtag_def take_text_def Let_def)
  with snoc show ?case by simp
qed

lemma reads_every_node: "reads_node casefold n node"
proof (induction node)
  case (Html_Text s)
  then show ?case
    by (auto simp: reads_node_def invisible_def handle_data_def take_text_def Let_def)
next
  case (Html_Element tag attrs kids)
  note kids = reads_nodes[of kids casefold n]
  show ?case
    unfolding reads_node_def
  proof
    fix p
    let ?p = "handle_starttag casefold tag attrs p"
    have depth: "vt_title_depth ?p > 0 \<longleftrightarrow> vt_title_depth p > 0 \<or> casefold tag = ''title''"
      by (simp add: handle_starttag_def Let_def)
    have seen: "invisible ?p \<longleftrightarrow> invisible p \<or> casefold tag \<in> set IGNORED_TAGS \<or> hidden_attributes casefold attrs"
      by (auto simp: handle_starttag_def invisible_def Let_def)
    have run: "fold (handle_event casefold n) (node_events (Html_Element tag attrs kids)) p =
        handle_endtag casefold tag
          (if invisible ?p then ?p
           else fold (take_text n) (concat (map (visible_texts casefold (vt_title_depth ?p > 0)) kids)) ?p)"
      using kids Html_Element.IH by simp
    show "fold (handle_event casefold n) (node_events (Html_Element tag attrs kids)) p =
        (if invisible p then p
         else fold (take_text n) (visible_texts casefold (vt_title_depth p > 0) (Html_Element tag attrs kids)) p)"
      unfolding run seen depth using end_restores[of casefold tag n "[]" attrs p]
      by (auto simp: end_restores)
  qed
qed

lemma take_text_parts:
  "vt_parts (fold (take_text n) tvs p) =
     fold (\<lambda>v acc. if sum_list (map length acc) < n then acc @ [v] else acc) (map snd tvs) (vt_parts p)"
  "vt_title_parts (fold (take_text n) tvs p) = vt_title_parts p @ map snd (filter fst tvs)"
  by (induction tvs arbitrary: p) (auto simp: take_text_def)

text \<open>
  On the events of a well-formed page the parser keeps the visible texts in order, up to the limit, and the
  title is the visible text of the title elements.
\<close>

text \<open>
  C39: On the events of a well-formed page (a tree whose elements are all closed) the stack-driven
  extractor keeps exactly the texts that lie outside hidden elements of the tree, in order and up
  to the limit, and takes the title from the visible title elements.
\<close>

theorem extraction_is_visible_text:
  "vt_parts (run_parser casefold n (concat (map node_events page))) =
     within_limit n (map snd (concat (map (visible_texts casefold False) page))) \<and>
   vt_title_parts (run_parser casefold n (concat (map node_events page))) =
     map snd (filter fst (concat (map (visible_texts casefold False) page)))"
proof -
  have "fold (handle_event casefold n) (concat (map node_events page)) empty_text =
        fold (take_text n) (concat (map (visible_texts casefold False) page)) empty_text"
    using reads_nodes[of page casefold n empty_text] reads_every_node by (auto simp: invisible_def empty_text_def)
  then show ?thesis
    by (simp add: run_parser_def take_text_parts within_limit_def empty_text_def)
qed

text \<open>
  An element without an end tag, which \<^verbatim>\<open>html.parser\<close> reports as a start alone, leaves its entry on
  the stack: after a hidden element that holds a line break the rest of the page counts as hidden, and a
  stray end tag inside a hidden element reveals the text after it.
\<close>

lemma void_element_hides_the_rest:
  "vt_parts (run_parser py_lower n
     ([HE_START ''div'' [(''hidden'', None)], HE_START ''br'' [], HE_END ''div''] @ map HE_DATA texts)) = []"
proof -
  let ?p = "fold (handle_event py_lower n) [HE_START ''div'' [(''hidden'', None)], HE_START ''br'' [], HE_END ''div''] empty_text"
  have hidden: "vt_hidden_depth ?p = 1 \<and> vt_parts ?p = []" by code_simp
  have "vt_parts (fold (handle_event py_lower n) (map HE_DATA texts) p) = vt_parts p" if "vt_hidden_depth p = 1" for p
    using that by (induction texts) (simp_all add: handle_data_def)
  with hidden show ?thesis by (simp add: run_parser_def)
qed

lemma stray_end_tag_reveals_text:
  "vt_parts (run_parser py_lower 100 [HE_START ''div'' [(''hidden'', None)], HE_END ''p'', HE_DATA ''secret'', HE_END ''div'']) =
     [''secret'']"
  by code_simp

section \<open>The cache\<close>

lemma map_of_without [simp]: "map_of (cache_without k items) k = None"
  by (auto simp: cache_without_def map_of_eq_None_iff)

text \<open>
  A page that was put is returned while it is fresh, and never later; the cache keeps its bound.
\<close>

text \<open>
  C40: A page put into the cache is returned by the next lookup of its address while it is fresh
  and not afterwards, and the cache holds at most its capacity after every put.
\<close>

theorem cached_page_is_returned:
  "fst (cache_get key now (cache_put key v t items)) = (if now - t \<le> CACHE_TTL then Some v else None) \<and>
   length (cache_put key v t items) \<le> CACHE_ENTRIES"
proof
  obtain n where n: "cache_put key v t items = drop n (cache_without key items) @ [(key, t, v)]"
    by (simp add: cache_put_def CACHE_ENTRIES_def)
  have "map_of (drop n (cache_without key items)) key = None"
    using set_drop_subset[of n "cache_without key items"] by (auto simp: map_of_eq_None_iff cache_without_def)
  then show "fst (cache_get key now (cache_put key v t items)) = (if now - t \<le> CACHE_TTL then Some v else None)"
    unfolding n cache_get_def by (simp add: map_add_def)
  show "length (cache_put key v t items) \<le> CACHE_ENTRIES"
    by (simp add: cache_put_def Let_def)
qed

section \<open>A sample request\<close>

definition sample_web_world :: web_world where
  "sample_web_world = orch_world.extend
     ((sample_orch_world [])\<lparr>
        w_sha256 := (\<lambda>s. replicate 64 (CHR ''a'')),
        w_capabilities := [sample_capability\<lparr>cap_key := ''web.research'', cap_allowed_actions := JList [JStr ''fetch'']\<rparr>],
        w_permissions := [(sample_permission CP_NEVER)
          \<lparr>p_scope := \<lparr>sc_resource_type = ''web'', sc_resource_ids = [], sc_operations = [''fetch'']\<rparr>\<rparr>]\<rparr>)
     (web_world.fields Some id (\<lambda>charset body. body) (\<lambda>_. None) (\<lambda>_. Some (IPv4 134744072)) (\<lambda>_. ''8.8.8.8'') [] [])"

definition sample_research_service :: research_service where
  "sample_research_service =
     \<lparr>rs_router = sample_router [], rs_policy = \<lparr>rp_enabled = True, rp_safe_mode = SM_NORMAL, rp_budget = DEFAULT_BUDGET\<rparr>,
      rs_adapters = [], rs_getaddrinfo = (\<lambda>n host port. Some [''8.8.8.8'']),
      rs_http = (\<lambda>n target. if n = 1 then HT_RESPONSE 302 [(''Location'', ''/b'')] []
                             else HT_RESPONSE 200 [(''Content-Type'', ''text/plain'')] ''hot tea''),
      rs_parse_json = (\<lambda>_. Some (JObj [(''claims'', JList [JObj [(''text'', JStr ''hot tea''),
         (''evidence_ids'', JList [JStr (''ev_'' @ replicate 16 (CHR ''a''))])]])]))\<rparr>"

definition sample_research :: "app_error + (research_failure + research_answer) \<times> web_world" where
  "sample_research = research sample_research_service sample_identity ''read http://a.io/ tea'' PRIVATE 50 None sample_web_world"

section \<open>Properties of a request\<close>

text \<open>
  C35: Every page request of a research run goes to an http(s) address whose host was resolved by
  the service, whose resolved addresses are all public (never private, loopback, link-local or
  mapped to such) and pinned; and a run makes at most call_budget network calls.
\<close>

theorem web_requests_stay_public:
  assumes "research svc i content s tokens confirmation w = Inr (res, w')"
  shows "\<exists>more. w_web_calls w' = w_web_calls w @ more \<and> length more \<le> call_budget (rp_budget (rs_policy svc)) \<and>
           list_all (guarded_call svc w) more"
  using research_parts[OF assms] by (auto simp: sources_ok_def adds_calls_def)

text \<open>
  C36: Research reaches the network only when the policy is enabled, the mode is NORMAL, the
  request is below SENSITIVE and a stored ALLOW decision for web.research exists.
\<close>

theorem web_access_is_authorized:
  assumes "research svc i content s tokens confirmation w = Inr (res, w')" and "w_web_calls w' \<noteq> w_web_calls w"
  shows "rp_enabled (rs_policy svc) \<and> rp_safe_mode (rs_policy svc) = SM_NORMAL \<and> s \<notin> {SENSITIVE, CRITICAL_DATA} \<and>
         (\<exists>d \<in> set (w_decisions w'). ad_decision d = ALLOW \<and> ad_user_id d = ic_user_id i \<and>
            ad_capability_key d = ''web.research'' \<and> ad_action d = research_action (select_mode (w_casefold w) content))"
  using research_parts[OF assms(1)] assms(2) by (simp add: web_allowed_def)

text \<open>
  C37: Every citation of a research answer is an address that was requested during this request or
  a fresh cache entry.
\<close>

theorem answers_cite_their_sources:
  assumes "research svc i content s tokens confirmation w = Inr (Inr a, w')"
  shows "1 \<le> length (an_citations a) \<and> length (an_citations a) \<le> 12 \<and>
         (\<forall>c \<in> set (an_citations a).
            (\<exists>t. WC_REQUEST t \<in> set (drop (length (w_web_calls w)) (w_web_calls w')) \<and> rg_canonical_url t = cn_url c) \<or>
            (\<exists>k created d. (k, created, d) \<in> set (w_documents w) \<and> fd_canonical_url d = cn_url c \<and>
               w_now w - created \<le> CACHE_TTL))"
proof -
  have g: "grounded w w' a" using research_parts[OF assms] by blast
  show ?thesis
  proof (intro conjI ballI)
    fix c assume "c \<in> set (an_citations a)"
    with g obtain d where "fd_canonical_url d = cn_url c" and "sourced w (w_web_calls w') d"
      by (auto simp: grounded_def)
    then show "(\<exists>t. WC_REQUEST t \<in> set (drop (length (w_web_calls w)) (w_web_calls w')) \<and> rg_canonical_url t = cn_url c) \<or>
        (\<exists>k created d. (k, created, d) \<in> set (w_documents w) \<and> fd_canonical_url d = cn_url c \<and> w_now w - created \<le> CACHE_TTL)"
      unfolding sourced_def requested_def fresh_entry_def by metis
  qed (use g in \<open>simp_all add: grounded_def\<close>)
qed

text \<open>
  C38: When validate_synthesis accepts a model answer, every evidence id of every claim names an
  item of the gathered evidence that supports the claim's text and is cited, the citations are
  distinct and come from the evidence, and the answer is the claims rendered with their citation
  numbers.
\<close>

theorem synthesis_is_supported:
  assumes "validate_synthesis w claims evidence = Inr (t, cited)"
  shows "(\<forall>c \<in> set claims. \<forall>eid \<in> set (sy_evidence_ids c). \<exists>e \<in> set evidence.
            ei_evidence_id e = eid \<and> supported (w_casefold w) (sy_text c) (ei_passage e) \<and> citation_for w e \<in> set cited) \<and>
         set cited \<subseteq> citation_for w ` set evidence \<and> distinct (map cn_evidence_id cited) \<and> cited \<noteq> [] \<and>
         t = join_with [CHR 0x0A, CHR 0x0A]
               (map (\<lambda>c. render_claim (sy_text c) (map (citation_id w) (sy_evidence_ids c))) claims)"
  by (rule synthesis_parts[OF assms])

section \<open>Witnesses\<close>

definition answered_calls :: "app_error + (research_failure + research_answer) \<times> web_world \<Rightarrow> nat option" where
  "answered_calls r =
     (case r of Inl e \<Rightarrow> None | Inr (out, w) \<Rightarrow> (case out of Inl e \<Rightarrow> None | Inr a \<Rightarrow> Some (length (w_web_calls w))))"

lemma sample_research_run:
  "\<exists>a w'. sample_research = Inr (Inr a, w') \<and> w_web_calls w' \<noteq> w_web_calls sample_web_world"
proof -
  have calls: "answered_calls sample_research = Some 4" and none: "w_web_calls sample_web_world = []" by code_simp+
  from calls obtain a w' where run: "sample_research = Inr (Inr a, w')" and "length (w_web_calls w') = 4"
    by (auto simp: answered_calls_def split: sum.splits)
  then have "w_web_calls w' \<noteq> w_web_calls sample_web_world" using none by auto
  with run show ?thesis by (intro exI conjI)
qed

theorem web_requests_stay_public_witness:
  "\<exists>a w' more. sample_research = Inr (Inr a, w') \<and> w_web_calls w' = w_web_calls sample_web_world @ more \<and>
     length more \<le> 42 \<and> list_all (guarded_call sample_research_service sample_web_world) more"
proof -
  obtain a w' where run: "sample_research = Inr (Inr a, w')" using sample_research_run by blast
  have "call_budget (rp_budget (rs_policy sample_research_service)) = 42" by code_simp
  with web_requests_stay_public[OF run[unfolded sample_research_def]] run show ?thesis by auto
qed

theorem web_access_is_authorized_witness:
  "\<exists>a w' d. sample_research = Inr (Inr a, w') \<and> d \<in> set (w_decisions w') \<and> ad_decision d = ALLOW \<and>
     ad_capability_key d = ''web.research''"
proof -
  obtain a w' where run: "sample_research = Inr (Inr a, w')" and calls: "w_web_calls w' \<noteq> w_web_calls sample_web_world"
    using sample_research_run by blast
  from web_access_is_authorized[OF run[unfolded sample_research_def] calls] run show ?thesis by blast
qed

theorem answers_cite_their_sources_witness:
  "\<exists>a w'. sample_research = Inr (Inr a, w') \<and> 1 \<le> length (an_citations a) \<and> length (an_citations a) \<le> 12"
proof -
  obtain a w' where run: "sample_research = Inr (Inr a, w')" using sample_research_run by blast
  from answers_cite_their_sources[OF run[unfolded sample_research_def]] run show ?thesis by blast
qed

definition sample_evidence :: evidence_item where
  "sample_evidence =
     \<lparr>ei_evidence_id = ''ev_'' @ replicate 16 (CHR ''a''), ei_canonical_url = ''http://a.io/'', ei_title = ''t'',
      ei_passage = ''hot tea'', ei_content_sha256 = replicate 64 (CHR ''a''), ei_locator = ''passage-1'',
      ei_retrieved_at = 0, ei_quality_score = 48\<rparr>"

definition sample_claim_text :: synthesis_claim where
  "sample_claim_text = \<lparr>sy_text = ''Tea is hot'', sy_evidence_ids = [''ev_'' @ replicate 16 (CHR ''a'')]\<rparr>"

theorem synthesis_is_supported_witness:
  "\<exists>t cited. validate_synthesis sample_web_world [sample_claim_text] [sample_evidence] = Inr (t, cited) \<and>
     set cited \<subseteq> citation_for sample_web_world ` set [sample_evidence]"
proof -
  have "(case validate_synthesis sample_web_world [sample_claim_text] [sample_evidence] of Inl e \<Rightarrow> False | Inr p \<Rightarrow> True)"
    by code_simp
  then obtain t cited where run: "validate_synthesis sample_web_world [sample_claim_text] [sample_evidence] = Inr (t, cited)"
    by (auto split: sum.splits)
  from synthesis_is_supported[OF run] run show ?thesis by blast
qed

end
