(* ===== verification/Text_Engine.thy ===== *)
theory Text_Engine
  imports Text_Model
begin

text \<open>
  \<^verbatim>\<open>text_assistant/service.py\<close>: a message of the user reserves two places of its conversation, is
  classified and handed to the component that answers it (Memory, Orchestrator, Research, or a model through
  the AI Router); the reply is stored beside the message. Repeating a message returns the stored pair. The
  observer and the log carry no state.
\<close>

section \<open>Service and material\<close>

record text_assistant =
  ta_router :: ai_router
  ta_orchestrator :: orchestrator
  ta_research :: "research_service option"

record assistant_material =
  am_content :: string
  am_status :: message_status
  am_outcome :: assistant_outcome
  am_sensitivity :: data_sensitivity
  am_reason_code :: "string option"
  am_routing_decision_id :: "uuid option"
  am_orchestration_id :: "uuid option"
  am_confirmation_request_id :: "uuid option"
  am_memory_id :: "uuid option"
  am_citations :: "research_citation list"

definition completed_material :: "string \<Rightarrow> assistant_outcome \<Rightarrow> data_sensitivity \<Rightarrow> assistant_material" where
  "completed_material content outcome sensitivity =
     \<lparr>am_content = content, am_status = MT_COMPLETED, am_outcome = outcome, am_sensitivity = sensitivity,
      am_reason_code = None, am_routing_decision_id = None, am_orchestration_id = None,
      am_confirmation_request_id = None, am_memory_id = None, am_citations = []\<rparr>"

definition failed_material :: "string \<Rightarrow> string \<Rightarrow> data_sensitivity \<Rightarrow> assistant_material" where
  "failed_material content reason sensitivity =
     (completed_material content AO_FAILED sensitivity)\<lparr>am_status := MT_FAILED, am_reason_code := Some reason\<rparr>"

definition action_material ::
  "string \<Rightarrow> assistant_outcome \<Rightarrow> uuid \<Rightarrow> string option \<Rightarrow> uuid option \<Rightarrow> assistant_material" where
  "action_material content outcome workflow_id reason confirmation_request_id =
     (completed_material content outcome PRIVATE)
       \<lparr>am_orchestration_id := Some workflow_id, am_confirmation_request_id := confirmation_request_id,
        am_reason_code := reason\<rparr>"

section \<open>Conversations\<close>

definition create_conversation ::
  "identity_context \<Rightarrow> string option \<Rightarrow> 'z text_world_scheme \<Rightarrow> app_error + conversation \<times> 'z text_world_scheme" where
  "create_conversation i title w =
     (let c = \<lparr>cv_id = w_next w, cv_user_id = ic_user_id i, cv_device_id = ic_device_id i, cv_title = title, cv_version = 1,
               cv_next_sequence = 1, cv_created_at = w_now w, cv_updated_at = w_now w, cv_last_message_at = None\<rparr>
      in if \<not> conversation_row_ok c then Inl PyIntegrityError
         else Inr (c, (draw w)\<lparr>w_conversations := row_add c (w_conversations w)\<rparr>))"

definition list_conversations :: "identity_context \<Rightarrow> nat \<Rightarrow> nat \<Rightarrow> 'z text_world_scheme \<Rightarrow> conversation list" where
  "list_conversations i limit offset w =
     take limit (drop offset (rev (sort_key (\<lambda>c. (cv_updated_at c, cv_id c))
       (filter (\<lambda>c. cv_user_id c = ic_user_id i) (w_conversations w)))))"

definition owned_conversation ::
  "identity_context \<Rightarrow> uuid \<Rightarrow> 'z text_world_scheme \<Rightarrow> app_error + conversation" where
  "owned_conversation i cid w =
     someE ConversationNotFoundError
       (row_find (\<lambda>c. cv_id c = cid \<and> cv_user_id c = ic_user_id i) (w_conversations w))"

definition list_messages ::
  "identity_context \<Rightarrow> uuid \<Rightarrow> nat \<Rightarrow> nat \<Rightarrow> 'z text_world_scheme \<Rightarrow> app_error + message list" where
  "list_messages i cid limit offset w =
     bindE (owned_conversation i cid w) (\<lambda>_.
     Inr (take limit (drop offset (sort_key ms_sequence
       (filter (\<lambda>m. ms_conversation_id m = cid \<and> ms_user_id m = ic_user_id i) (w_messages w))))))"

section \<open>Memory commands\<close>

definition save_memory ::
  "identity_context \<Rightarrow> classified_intent \<Rightarrow> data_sensitivity \<Rightarrow> 'z text_world_scheme \<Rightarrow>
     app_error + assistant_material \<times> 'z text_world_scheme" where
  "save_memory i intent sensitivity w =
     (case ci_payload intent of
        None \<Rightarrow> Inr (failed_material (''Dime exactamente qu'' @ CHR 0xE9 # '' quieres que recuerde.'') ''MEMORY_CONTENT_REQUIRED'' PRIVATE, w)
      | Some payload \<Rightarrow>
          bindE (create_explicit i
                   \<lparr>mq_class = MC_PERSISTENT_PREFERENCE, mq_content = payload, mq_summary = None, mq_subject = None,
                    mq_source_reference = None, mq_source_device_id = None, mq_importance = 50,
                    mq_sensitivity = sensitivity, mq_expires_at = None, mq_metadata = [], mq_confirmation_id = None\<rparr> w)
            (\<lambda>(result, w1).
             let d = mv_decision result
             in case (dc_decision d = ALLOW, mv_value result) of
                  (True, Some m) \<Rightarrow>
                    Inr ((completed_material (''Lo recordar'' @ CHR 0xE9 # ''.'') AO_MEMORY_SAVED sensitivity)
                           \<lparr>am_memory_id := Some (m_id m)\<rparr>, w1)
                | _ \<Rightarrow>
                    if dc_decision d = REQUIRE_CONFIRMATION
                    then Inr ((completed_material (''Necesito tu confirmaci'' @ CHR 0xF3 # ''n antes de guardar ese recuerdo.'')
                                 AO_MEMORY_CONFIRMATION_REQUIRED sensitivity)
                                \<lparr>am_reason_code := Some ''CONFIRMATION_REQUIRED'',
                                 am_confirmation_request_id := dc_confirmation_id d\<rparr>, w1)
                    else Inr ((completed_material (''No tengo autorizaci'' @ CHR 0xF3 # ''n para guardar ese recuerdo.'')
                                 AO_MEMORY_PERMISSION_REQUIRED sensitivity)
                                \<lparr>am_reason_code := Some ''PERMISSION_REQUIRED''\<rparr>, w1)))"

definition recalled_items :: "(string \<Rightarrow> string) \<Rightarrow> string \<Rightarrow> memory_context_item list \<Rightarrow> memory_context_item list" where
  "recalled_items casefold query items =
     take 8 (filter (\<lambda>m. query = [] \<or> py_in query (casefold (mi_text m))) items)"

definition recall_memory ::
  "identity_context \<Rightarrow> classified_intent \<Rightarrow> int \<Rightarrow> 'z text_world_scheme \<Rightarrow>
     app_error + assistant_material \<times> 'z text_world_scheme" where
  "recall_memory i intent limit w =
     bindE (build_context_pack i limit w) (\<lambda>(result, w1).
     case mv_value result of
       None \<Rightarrow>
         Inr ((completed_material (''No tengo autorizaci'' @ CHR 0xF3 # ''n para consultar tus recuerdos.'') AO_MEMORY_PERMISSION_REQUIRED
                 PRIVATE)\<lparr>am_reason_code := Some ''PERMISSION_REQUIRED''\<rparr>, w1)
     | Some pack \<Rightarrow>
         (let query = w_casefold w1 (case ci_payload intent of None \<Rightarrow> [] | Some p \<Rightarrow> p);
              selected = recalled_items (w_casefold w1) query (memory_items (Some pack))
          in if selected = []
             then Inr (completed_material (''No encontr'' @ CHR 0xE9 # '' un recuerdo activo sobre eso.'') AO_MEMORY_RECALLED PRIVATE, w1)
             else
               bindE (highest_sensitivity (map mi_sensitivity selected)) (\<lambda>s.
               Inr (completed_material
                      (''Esto es lo que recuerdo:'' @ CHR 0x0A #
                         join_with [CHR 0x0A] (map (\<lambda>m. ''- '' @ take 1000 (mi_text m)) selected))
                      AO_MEMORY_RECALLED s, w1))))"

definition delete_memory ::
  "identity_context \<Rightarrow> assistant_request \<Rightarrow> 'z text_world_scheme \<Rightarrow>
     app_error + assistant_material \<times> 'z text_world_scheme" where
  "delete_memory i r w =
     (case ar_memory_target r of
        None \<Rightarrow>
          Inr ((completed_material (''Necesito la referencia exacta del recuerdo que quieres eliminar.'')
                  AO_MEMORY_TARGET_REQUIRED PRIVATE)\<lparr>am_reason_code := Some ''MEMORY_TARGET_REQUIRED''\<rparr>, w)
      | Some target \<Rightarrow>
          bindE (delete_owned i (mg_memory_id target) (mg_expected_version target) (mg_confirmation_id target) w)
            (\<lambda>(result, w1).
             let d = mv_decision result
             in if dc_decision d = REQUIRE_CONFIRMATION
                then Inr ((completed_material (''Necesito tu confirmaci'' @ CHR 0xF3 # ''n antes de eliminar ese recuerdo.'')
                             AO_MEMORY_CONFIRMATION_REQUIRED PRIVATE)
                            \<lparr>am_reason_code := Some ''CONFIRMATION_REQUIRED'',
                             am_confirmation_request_id := dc_confirmation_id d\<rparr>, w1)
                else if dc_decision d \<noteq> ALLOW
                then Inr ((completed_material (''No tengo autorizaci'' @ CHR 0xF3 # ''n para eliminar ese recuerdo.'')
                             AO_MEMORY_PERMISSION_REQUIRED PRIVATE)
                            \<lparr>am_reason_code := Some ''PERMISSION_REQUIRED''\<rparr>, w1)
                else
                  (case mv_value result of
                     None \<Rightarrow>
                       Inr ((completed_material (''Ese recuerdo no est'' @ CHR 0xE1 # '' disponible.'') AO_MEMORY_DELETED PRIVATE)
                              \<lparr>am_reason_code := Some ''MEMORY_NOT_AVAILABLE''\<rparr>, w1)
                   | Some m \<Rightarrow>
                       Inr ((completed_material (''El recuerdo fue eliminado.'') AO_MEMORY_DELETED PRIVATE)
                              \<lparr>am_memory_id := Some (m_id m)\<rparr>, w1))))"

section \<open>Actions\<close>

definition destructive_words :: "string list" where
  "destructive_words =
     [''delete'', ''elimina'', ''buy'', ''sell'', ''transfer'', ''withdraw'', ''compra'', ''vende'']"

definition action_request :: "'z memory_world_scheme \<Rightarrow> assistant_request \<Rightarrow> orchestration_request" where
  "action_request w r =
     \<lparr>oq_category = (if mentions destructive_words (w_casefold w (ar_content r)) then IC_DESTRUCTIVE else IC_ACTION),
      oq_label = ''text_assistant.action'', oq_input_text = ar_content r,
      oq_idempotency_key = ''text:'' @ w_sha256 w (ar_idempotency_key r),
      oq_use_memory_context = ar_use_memory_context r, oq_memory_items = ar_memory_items r,
      oq_requested_output_tokens = ar_output_tokens r, oq_expires_at = None\<rparr>"

definition action_reply :: "orchestration_response \<Rightarrow> assistant_material" where
  "action_reply x =
     (if ors_state x = OS_WAITING_PERMISSION
      then action_material (''Necesito permiso antes de poder preparar esa acci'' @ CHR 0xF3 # ''n.'') AO_ACTION_WAITING_PERMISSION
             (ors_id x) (ors_failure_reason x) None
      else if ors_state x = OS_WAITING_CONFIRMATION
      then action_material (''Necesito tu confirmaci'' @ CHR 0xF3 # ''n antes de continuar con esa acci'' @ CHR 0xF3 # ''n.'')
             AO_ACTION_WAITING_CONFIRMATION (ors_id x) (Some (orchestration_reason_value OR_CONFIRMATION_REQUIRED))
             (ors_confirmation_request_id x)
      else if ors_state x = OS_READY_FOR_EXECUTION
      then action_material
             (''La acci'' @ CHR 0xF3 # ''n qued'' @ CHR 0xF3 # '' autorizada y preparada, pero todav'' @ CHR 0xED # ''a no existe un ejecutor; no se realiz'' @ CHR 0xF3 # ''.'')
             AO_ACTION_READY_FOR_FUTURE_EXECUTION (ors_id x) (Some ''EXECUTOR_UNAVAILABLE'') None
      else if ors_failure_reason x = Some (orchestration_reason_value OR_FINANCIAL_EXECUTION_PROHIBITED)
      then action_material (''No puedo ejecutar operaciones financieras.'') AO_ACTION_DENIED (ors_id x)
             (ors_failure_reason x) None
      else if ors_state x \<in> {OS_DENIED, OS_FAILED}
      then action_material (''No pude autorizar ni ejecutar esa solicitud.'') AO_ACTION_DENIED (ors_id x)
             (Some (case ors_failure_reason x of
                      None \<Rightarrow> ''ORCHESTRATION_DENIED''
                    | Some reason \<Rightarrow> if reason = [] then ''ORCHESTRATION_DENIED'' else reason)) None
      else action_material (''La solicitud no produjo ninguna acci'' @ CHR 0xF3 # ''n externa.'') AO_ACTION_UNSUPPORTED (ors_id x)
             (ors_failure_reason x) None)"

definition coordinate_action ::
  "text_assistant \<Rightarrow> identity_context \<Rightarrow> assistant_request \<Rightarrow> 'z text_world_scheme \<Rightarrow>
     app_error + assistant_material \<times> 'z text_world_scheme" where
  "coordinate_action svc i r w =
     bindE (make_orchestration_request (action_request w r) None) (\<lambda>q.
     bindE (create_orchestration (ta_orchestrator svc) i q w) (\<lambda>(result, w1).
     Inr (action_reply (or_workflow result), w1)))"

section \<open>Research\<close>

fun research_reply :: "research_code \<Rightarrow> string \<times> assistant_outcome" where
  "research_reply RC_PERMISSION_REQUIRED =
     (''Necesito permiso para consultar fuentes web.'', AO_RESEARCH_PERMISSION_REQUIRED)"
| "research_reply RC_CONFIRMATION_REQUIRED =
     (''Necesito tu confirmaci'' @ CHR 0xF3 # ''n antes de consultar fuentes web.'', AO_RESEARCH_CONFIRMATION_REQUIRED)"
| "research_reply RC_POLICY_DENIED =
     (''La pol'' @ CHR 0xED # ''tica de seguridad no permite investigar esa solicitud en la web.'', AO_RESEARCH_POLICY_DENIED)"
| "research_reply RC_INSUFFICIENT_EVIDENCE =
     (''No encontr'' @ CHR 0xE9 # '' evidencia suficiente para responder con citas verificables.'', AO_RESEARCH_INSUFFICIENT_EVIDENCE)"
| "research_reply RC_CITATION_INTEGRITY =
     (''La evidencia recuperada no super'' @ CHR 0xF3 # '' la validaci'' @ CHR 0xF3 # ''n de integridad.'', AO_RESEARCH_INSUFFICIENT_EVIDENCE)"
| "research_reply _ =
     (''La investigaci'' @ CHR 0xF3 # ''n web no est'' @ CHR 0xE1 # '' disponible de forma segura en este momento.'', AO_RESEARCH_UNAVAILABLE)"

definition research_message ::
  "text_assistant \<Rightarrow> identity_context \<Rightarrow> assistant_request \<Rightarrow> data_sensitivity \<Rightarrow> 'z text_world_scheme \<Rightarrow>
     app_error + assistant_material \<times> 'z text_world_scheme" where
  "research_message svc i r sensitivity w =
     bindE (orchestrator_research (ta_research svc) i (ar_content r) sensitivity (ar_output_tokens r)
              (ar_research_confirmation_id r) w) (\<lambda>(res, w1).
     case res of
       Inl (c, confirmation) \<Rightarrow>
         Inr ((completed_material (fst (research_reply c)) (snd (research_reply c)) sensitivity)
                \<lparr>am_reason_code := Some (research_code_value c), am_confirmation_request_id := confirmation\<rparr>, w1)
     | Inr reply \<Rightarrow>
         Inr ((completed_material (an_content reply) AO_RESEARCH_ANSWERED sensitivity)
                \<lparr>am_routing_decision_id := an_routing_decision_id reply, am_citations := an_citations reply\<rparr>, w1))"

section \<open>Chat\<close>

definition chat_routing :: "task_profile \<Rightarrow> context_pack_of_chat \<Rightarrow> string \<Rightarrow> routing_request" where
  "chat_routing p context prompt =
     \<lparr>rt_task_type = ''text_assistant.conversation'', rt_task_id = None, rt_complexity = tp_complexity p,
      rt_required_capabilities = {TEXT_GENERATION}, rt_sensitivity = xp_effective_sensitivity context,
      rt_context_sensitivities = map mi_sensitivity (xp_memory_items context),
      rt_estimated_input_tokens = int (max 1 ((length prompt + 3) div 4)),
      rt_requested_output_tokens = tp_output_token_budget p, rt_realtime_required = False,
      rt_embedding_required = False, rt_structured_output_required = False, rt_tool_calling_required = False,
      rt_local_only = False\<rparr>"

definition chat_reply :: "data_sensitivity \<Rightarrow> app_error + ai_execution \<Rightarrow> app_error + assistant_material" where
  "chat_reply s res =
     (case res of
        Inl e \<Rightarrow>
          if e = AIRoutingDeniedError
          then Inr (failed_material (''No puedo enviar este contexto a un modelo permitido de forma segura.'') ''AI_ROUTING_DENIED'' s)
          else if e = AIProviderExecutionError
          then Inr (failed_material (''No pude generar una respuesta de forma segura en este momento.'') ''PROVIDER_FAILURE'' s)
          else Inl e
      | Inr execution \<Rightarrow>
          (let output = py_strip (ps_output_text (ax_response execution))
           in if output = [] \<or> length output > 100000
              then Inr (failed_material (''La respuesta del modelo no fue v'' @ CHR 0xE1 # ''lida.'') ''PROVIDER_FAILURE'' s)
              else Inr ((completed_material output AO_ANSWERED s)
                          \<lparr>am_routing_decision_id := Some (rd_id (ax_routing_decision execution))\<rparr>)))"

definition chat_with ::
  "text_assistant \<Rightarrow> identity_context \<Rightarrow> assistant_request \<Rightarrow> task_profile \<Rightarrow> context_pack_of_chat \<Rightarrow>
     'z text_world_scheme \<Rightarrow> app_error + assistant_material \<times> 'z text_world_scheme" where
  "chat_with svc i r p context w =
     (let prompt = chat_prompt context (ar_content r)
      in bindE (make_routing_request (chat_routing p context prompt)) (\<lambda>routing.
         bindE (make_provider_request
                  \<lparr>pq_input_text = prompt, pq_output_token_budget = tp_output_token_budget p,
                   pq_structured_output_required = False, pq_tool_calling_required = False\<rparr>) (\<lambda>request.
         bindE (invoke (ta_router svc) i routing request [] \<lparr>cu_daily = 0, cu_monthly = 0\<rparr> w) (\<lambda>(res, w1).
         bindE (chat_reply (xp_effective_sensitivity context) res) (\<lambda>material. Inr (material, w1))))))"

definition chat ::
  "text_assistant \<Rightarrow> identity_context \<Rightarrow> assistant_request \<Rightarrow> message list \<Rightarrow> data_sensitivity \<Rightarrow>
     'z text_world_scheme \<Rightarrow> app_error + assistant_material \<times> 'z text_world_scheme" where
  "chat svc i r history sensitivity w =
     (let p = profile_chat_task (w_casefold w) (ar_content r) (ar_output_tokens r)
      in bindE (if ar_use_memory_context r \<and> tp_memory_dependency p = MD_NEEDED
                then bindE (build_context_pack i (ar_memory_items r) w) (\<lambda>(result, w1). Inr (mv_value result, w1))
                else Inr (None, w)) (\<lambda>(pack, w1).
         bindE (build_context history pack sensitivity (Some p)) (\<lambda>context.
         chat_with svc i r p context w1)))"

section \<open>Messages\<close>

definition dispatch ::
  "text_assistant \<Rightarrow> identity_context \<Rightarrow> assistant_request \<Rightarrow> classified_intent \<Rightarrow> message list \<Rightarrow> data_sensitivity \<Rightarrow>
     'z text_world_scheme \<Rightarrow> app_error + assistant_material \<times> 'z text_world_scheme" where
  "dispatch svc i r intent history sensitivity w =
     (case ci_kind intent of
        AI_MEMORY_SAVE \<Rightarrow> save_memory i intent sensitivity w
      | AI_MEMORY_RECALL \<Rightarrow> recall_memory i intent (ar_memory_items r) w
      | AI_MEMORY_DELETE \<Rightarrow> delete_memory i r w
      | AI_ACTION \<Rightarrow> coordinate_action svc i r w
      | AI_RESEARCH \<Rightarrow> research_message svc i r sensitivity w
      | AI_CHAT \<Rightarrow> chat svc i r history sensitivity w)"

definition message_existing :: "uuid \<Rightarrow> string \<Rightarrow> 'z text_world_scheme \<Rightarrow> message option" where
  "message_existing user_id key w =
     row_find (\<lambda>m. ms_user_id m = user_id \<and> ms_role m = MR_USER \<and> ms_idempotency_key m = Some key) (w_messages w)"

definition response_pair :: "conversation \<Rightarrow> message \<Rightarrow> message \<Rightarrow> assistant_response" where
  "response_pair c m reply =
     \<lparr>as_conversation = conversation_view c, as_user_message = message_view m, as_assistant_message = message_view reply\<rparr>"

definition existing_response ::
  "identity_context \<Rightarrow> message \<Rightarrow> 'z text_world_scheme \<Rightarrow> app_error + assistant_response" where
  "existing_response i m w =
     bindE (owned_conversation i (ms_conversation_id m) w) (\<lambda>c.
     bindE (someE ConversationConcurrentModificationError
              (row_find (\<lambda>x. ms_reply_to_message_id x = Some (ms_id m) \<and> ms_user_id x = ic_user_id i \<and>
                             ms_role x = MR_ASSISTANT) (w_messages w))) (\<lambda>reply.
     Inr (response_pair c m reply)))"

text \<open>The answer to a message whose key is already stored.\<close>

definition replay_message ::
  "identity_context \<Rightarrow> string \<Rightarrow> message \<Rightarrow> 'z text_world_scheme \<Rightarrow>
     app_error + assistant_response \<times> 'z text_world_scheme" where
  "replay_message i fp m w =
     (if ms_request_fingerprint m \<noteq> Some fp then Inl MessageIdempotencyConflictError
      else bindE (existing_response i m w) (\<lambda>response. Inr (response, w)))"

definition reserved_row :: "int \<Rightarrow> int \<Rightarrow> timestamp \<Rightarrow> conversation \<Rightarrow> conversation" where
  "reserved_row expected_version sequence now c =
     c\<lparr>cv_version := expected_version + 1, cv_next_sequence := sequence + 2, cv_updated_at := now\<rparr>"

definition reserve_pair ::
  "conversation \<Rightarrow> int \<Rightarrow> 'z text_world_scheme \<Rightarrow> (conversation \<times> 'z text_world_scheme) option" where
  "reserve_pair c expected_version w =
     (case filter (\<lambda>x. cv_id x = cv_id c \<and> cv_user_id x = cv_user_id c \<and> cv_version x = expected_version)
             (w_conversations w) of
        [row] \<Rightarrow>
          (let row1 = reserved_row expected_version (cv_next_sequence c) (w_now w) row
           in Some (row1, w\<lparr>w_conversations := row_put cv_id row1 (w_conversations w)\<rparr>))
      | _ \<Rightarrow> None)"

definition new_user_message ::
  "identity_context \<Rightarrow> conversation \<Rightarrow> assistant_request \<Rightarrow> string \<Rightarrow> int \<Rightarrow> data_sensitivity \<Rightarrow> 'z core_world_scheme \<Rightarrow>
     message" where
  "new_user_message i c r fp sequence sensitivity w =
     \<lparr>ms_id = w_next w, ms_conversation_id = cv_id c, ms_user_id = ic_user_id i, ms_role = MR_USER,
      ms_status = MT_COMPLETED, ms_outcome = None, ms_sequence = sequence, ms_content = ar_content r,
      ms_sensitivity = sensitivity, ms_idempotency_key = Some (ar_idempotency_key r),
      ms_request_fingerprint = Some fp, ms_reply_to_message_id = None, ms_routing_decision_id = None,
      ms_orchestration_id = None, ms_confirmation_request_id = None, ms_memory_id = None, ms_reason_code = None,
      ms_research_citations = [], ms_created_at = w_now w\<rparr>"

definition new_reply ::
  "identity_context \<Rightarrow> conversation \<Rightarrow> message \<Rightarrow> assistant_material \<Rightarrow> 'z core_world_scheme \<Rightarrow> message" where
  "new_reply i c m material w =
     \<lparr>ms_id = w_next w, ms_conversation_id = cv_id c, ms_user_id = ic_user_id i, ms_role = MR_ASSISTANT,
      ms_status = am_status material, ms_outcome = Some (am_outcome material), ms_sequence = ms_sequence m + 1,
      ms_content = am_content material, ms_sensitivity = am_sensitivity material, ms_idempotency_key = None,
      ms_request_fingerprint = None, ms_reply_to_message_id = Some (ms_id m),
      ms_routing_decision_id = am_routing_decision_id material, ms_orchestration_id = am_orchestration_id material,
      ms_confirmation_request_id = am_confirmation_request_id material, ms_memory_id = am_memory_id material,
      ms_reason_code = am_reason_code material, ms_research_citations = am_citations material,
      ms_created_at = w_now w\<rparr>"

definition touched_row :: "timestamp \<Rightarrow> conversation \<Rightarrow> conversation" where
  "touched_row now c = c\<lparr>cv_last_message_at := Some now, cv_updated_at := now\<rparr>"

text \<open>The reply is stored, the conversation is stamped and read again.\<close>

definition store_reply ::
  "identity_context \<Rightarrow> conversation \<Rightarrow> message \<Rightarrow> assistant_material \<Rightarrow> 'z text_world_scheme \<Rightarrow>
     app_error + assistant_response \<times> 'z text_world_scheme" where
  "store_reply i c m material w =
     (let reply = new_reply i c m material w
      in case insert_message reply (w_messages w) of
           None \<Rightarrow> Inl PyIntegrityError
         | Some rows \<Rightarrow>
             (let w1 = (draw w)\<lparr>w_messages := rows,
                          w_conversations :=
                            map (\<lambda>x. if cv_id x = cv_id c \<and> cv_user_id x = ic_user_id i then touched_row (w_now w) x else x)
                              (w_conversations w)\<rparr>
              in bindE (someE PyRuntimeError (row_get cv_id (cv_id c) (w_conversations w1))) (\<lambda>c1.
                 Inr (response_pair c1 m reply, w1))))"

definition answer_message ::
  "text_assistant \<Rightarrow> identity_context \<Rightarrow> assistant_request \<Rightarrow> conversation \<Rightarrow> message list \<Rightarrow> message \<Rightarrow>
     'z text_world_scheme \<Rightarrow> app_error + assistant_response \<times> 'z text_world_scheme" where
  "answer_message svc i r c history m w =
     bindE (dispatch svc i r (classify_intent (w_casefold w) (ar_content r)) history (ms_sensitivity m) w)
       (\<lambda>(material, w1). store_reply i c m material w1)"

definition message_history :: "identity_context \<Rightarrow> conversation \<Rightarrow> 'z text_world_scheme \<Rightarrow> message list" where
  "message_history i c w =
     sort_key ms_sequence
       (filter (\<lambda>m. ms_conversation_id m = cv_id c \<and> ms_user_id m = ic_user_id i \<and> ms_status m = MT_COMPLETED)
         (w_messages w))"

definition submit ::
  "text_assistant \<Rightarrow> identity_context \<Rightarrow> uuid \<Rightarrow> assistant_request \<Rightarrow> 'z text_world_scheme \<Rightarrow>
     app_error + assistant_response \<times> 'z text_world_scheme" where
  "submit svc i cid r w =
     (let fp = message_fingerprint w r cid; existing = message_existing (ic_user_id i) (ar_idempotency_key r)
      in case existing w of
           Some m \<Rightarrow> replay_message i fp m w
         | None \<Rightarrow>
             bindE (owned_conversation i cid w) (\<lambda>c.
             if cv_version c \<noteq> ar_expected_version r then Inl ConversationConcurrentModificationError
             else
               (case reserve_pair c (ar_expected_version r) w of
                  None \<Rightarrow>
                    (case existing w of
                       None \<Rightarrow> Inl ConversationConcurrentModificationError
                     | Some m \<Rightarrow> replay_message i fp m w)
                | Some (c1, w1) \<Rightarrow>
                    (let m = new_user_message i c1 r fp (cv_next_sequence c)
                               (classify_text_sensitivity (w_casefold w) (ar_content r)) w1
                     in case insert_message m (w_messages w1) of
                          None \<Rightarrow>
                            (case existing w1 of
                               None \<Rightarrow> Inl ConversationConcurrentModificationError
                             | Some x \<Rightarrow> replay_message i fp x w1)
                        | Some rows \<Rightarrow>
                            answer_message svc i r c1 (message_history i c w) m ((draw w1)\<lparr>w_messages := rows\<rparr>)))))"

end
