(* ===== verification/Voice_Model.thy ===== *)
theory Voice_Model
  imports Text_Engine
begin

text \<open>
  \<^verbatim>\<open>voice/enums.py\<close>, \<^verbatim>\<open>state_machine.py\<close>, \<^verbatim>\<open>models.py\<close> and \<^verbatim>\<open>schemas.py\<close>: the state
  machine of voice sessions with its interpretation as a lifecycle, the two tables with their constraints,
  the policy of the service and the validated events of the wire.
\<close>

section \<open>The state machine\<close>

datatype voice_state =
    VS_IDLE | VS_CONNECTING | VS_LISTENING | VS_PROCESSING | VS_SPEAKING | VS_INTERRUPTING | VS_RECONNECTING
  | VS_ENDED | VS_FAILED

datatype voice_turn_status = VT_PROCESSING | VT_COMPLETED | VT_INTERRUPTED | VT_FAILED

datatype transcript_kind = TK_PARTIAL | TK_FINAL

datatype voice_error_code =
    VE_MIC_PERMISSION_DENIED | VE_AUDIO_DEVICE_UNAVAILABLE | VE_NETWORK_UNAVAILABLE | VE_VOICE_SESSION_AUTH_FAILED
  | VE_PROVIDER_UNAVAILABLE | VE_REALTIME_MODEL_UNAVAILABLE | VE_SENSITIVITY_DENIED | VE_CONTEXT_LIMIT
  | VE_AUDIO_INPUT_FAILURE | VE_AUDIO_OUTPUT_FAILURE | VE_SESSION_TIMEOUT | VE_RECONNECT_EXHAUSTED
  | VE_MALFORMED_EVENT | VE_CANCELLED | VE_INTERNAL_ERROR

primrec voice_allowed :: "voice_state \<Rightarrow> voice_state set" where
  "voice_allowed VS_IDLE = {VS_CONNECTING, VS_ENDED, VS_FAILED}"
| "voice_allowed VS_CONNECTING = {VS_LISTENING, VS_ENDED, VS_FAILED}"
| "voice_allowed VS_LISTENING = {VS_PROCESSING, VS_RECONNECTING, VS_ENDED, VS_FAILED}"
| "voice_allowed VS_PROCESSING = {VS_SPEAKING, VS_LISTENING, VS_RECONNECTING, VS_ENDED, VS_FAILED}"
| "voice_allowed VS_SPEAKING = {VS_INTERRUPTING, VS_LISTENING, VS_RECONNECTING, VS_ENDED, VS_FAILED}"
| "voice_allowed VS_INTERRUPTING = {VS_LISTENING, VS_PROCESSING, VS_RECONNECTING, VS_ENDED, VS_FAILED}"
| "voice_allowed VS_RECONNECTING = {VS_CONNECTING, VS_LISTENING, VS_ENDED, VS_FAILED}"
| "voice_allowed VS_ENDED = {}"
| "voice_allowed VS_FAILED = {}"

definition voice_is_terminal :: "voice_state \<Rightarrow> bool" where
  "voice_is_terminal s \<longleftrightarrow> s \<in> {VS_ENDED, VS_FAILED}"

definition require_voice_transition :: "voice_state \<Rightarrow> voice_state \<Rightarrow> app_error + voice_state" where
  "require_voice_transition current target =
     (if target = current then Inr current
      else if target \<notin> voice_allowed current then Inl InvalidVoiceTransitionApplicationError
      else Inr target)"

interpretation voice_machine: lifecycle voice_allowed voice_is_terminal
proof
  show "voice_is_terminal s = (voice_allowed s = {})" for s
    by (cases s) (simp_all add: voice_is_terminal_def)
qed

section \<open>Tables\<close>

record voice_session =
  vs_id :: uuid
  vs_user_id :: uuid
  vs_device_id :: uuid
  vs_auth_session_id :: uuid
  vs_conversation_id :: uuid
  vs_state :: voice_state
  vs_authentication_level :: authentication_level
  vs_credential_hash :: string
  vs_credential_expires_at :: timestamp
  vs_routing_decision_id :: uuid
  vs_provider_key :: string
  vs_model_id :: string
  vs_voice_profile :: string
  vs_effective_sensitivity :: data_sensitivity
  vs_reconnect_count :: int
  vs_connection_id :: "uuid option"
  vs_version :: int
  vs_started_at :: timestamp
  vs_last_activity_at :: timestamp
  vs_connected_at :: "timestamp option"
  vs_disconnected_at :: "timestamp option"
  vs_ended_at :: "timestamp option"
  vs_created_at :: timestamp
  vs_updated_at :: timestamp

record voice_turn =
  vt_id :: uuid
  vt_session_id :: uuid
  vt_user_id :: uuid
  vt_conversation_id :: uuid
  vt_logical_turn_id :: string
  vt_idempotency_key :: string
  vt_transcript_sha256 :: string
  vt_confidence :: "int option"
  vt_status :: voice_turn_status
  vt_user_message_id :: "uuid option"
  vt_assistant_message_id :: "uuid option"
  vt_completed_at :: "timestamp option"
  vt_interrupted_at :: "timestamp option"
  vt_created_at :: timestamp

text \<open>\<^verbatim>\<open>secrets.token_urlsafe(48)\<close> draws a new credential: the function of the world, by the number drawn.\<close>

record voice_world = text_world +
  w_token :: "nat \<Rightarrow> string"
  w_voice_sessions :: "voice_session list"
  w_voice_turns :: "voice_turn list"

definition voice_session_row_ok :: "voice_session \<Rightarrow> bool" where
  "voice_session_row_ok x \<longleftrightarrow>
     length (vs_credential_hash x) = 64 \<and> 0 \<le> vs_reconnect_count x \<and> vs_reconnect_count x \<le> 3 \<and> 1 \<le> vs_version x \<and>
     bounded 2 128 (vs_provider_key x) \<and> bounded 2 128 (vs_model_id x) \<and> bounded 2 64 (vs_voice_profile x)"

definition voice_turn_row_ok :: "voice_turn \<Rightarrow> bool" where
  "voice_turn_row_ok t \<longleftrightarrow>
     bounded 8 128 (vt_logical_turn_id t) \<and> bounded 8 128 (vt_idempotency_key t) \<and>
     length (vt_transcript_sha256 t) = 64 \<and>
     (case vt_confidence t of None \<Rightarrow> True | Some c \<Rightarrow> 0 \<le> c \<and> c \<le> 10000)"

definition insert_turn :: "voice_turn \<Rightarrow> voice_turn list \<Rightarrow> voice_turn list option" where
  "insert_turn t rows =
     (if voice_turn_row_ok t \<and>
         row_find (\<lambda>x. vt_session_id x = vt_session_id t \<and> vt_logical_turn_id x = vt_logical_turn_id t \<or>
                       vt_user_id x = vt_user_id t \<and> vt_idempotency_key x = vt_idempotency_key t) rows = None
      then Some (row_add t rows) else None)"

section \<open>Policy and schemas\<close>

definition MAX_RECONNECT_ATTEMPTS :: int where
  "MAX_RECONNECT_ATTEMPTS = 3"

definition MAX_VOICE_FRAME_BYTES :: nat where
  "MAX_VOICE_FRAME_BYTES = 3840"

record voice_policy =
  vp_credential_ttl_seconds :: int
  vp_connection_timeout_seconds :: int
  vp_idle_timeout_seconds :: int
  vp_max_session_seconds :: int
  vp_max_reconnect_attempts :: int
  vp_voice_profile :: string

definition voice_profile_pattern :: "string \<Rightarrow> bool" where
  "voice_profile_pattern s =
     (case s of [] \<Rightarrow> False
      | c # cs \<Rightarrow> is_lower_alpha c \<and> bounded 1 63 cs \<and>
          list_all (\<lambda>x. is_lower_alpha x \<or> is_digit_char x \<or> x = CHR ''-'') cs)"

definition make_voice_policy :: "voice_policy \<Rightarrow> app_error + voice_policy" where
  "make_voice_policy p =
     (if \<not> (30 \<le> vp_credential_ttl_seconds p \<and> vp_credential_ttl_seconds p \<le> 300) then Inl PyValueError
      else if \<not> (5 \<le> vp_connection_timeout_seconds p \<and> vp_connection_timeout_seconds p \<le> 30) then Inl PyValueError
      else if \<not> (15 \<le> vp_idle_timeout_seconds p \<and> vp_idle_timeout_seconds p \<le> 300) then Inl PyValueError
      else if \<not> (60 \<le> vp_max_session_seconds p \<and> vp_max_session_seconds p \<le> 3600) then Inl PyValueError
      else if \<not> (0 \<le> vp_max_reconnect_attempts p \<and> vp_max_reconnect_attempts p \<le> MAX_RECONNECT_ATTEMPTS)
      then Inl PyValueError
      else if \<not> voice_profile_pattern (vp_voice_profile p) then Inl PyValueError
      else Inr p)"

definition logical_turn_pattern :: "string \<Rightarrow> bool" where
  "logical_turn_pattern s =
     (case s of [] \<Rightarrow> False
      | c # cs \<Rightarrow> (is_alpha_char c \<or> is_digit_char c) \<and>
          list_all (\<lambda>x. is_alpha_char x \<or> is_digit_char x \<or> x \<in> set ''._:-'') cs)"

definition parse_turn_id :: "string \<Rightarrow> app_error + string" where
  "parse_turn_id raw =
     (let s = py_strip raw
      in bindE (requireE PyValueError (bounded 8 128 s \<and> logical_turn_pattern s)) (\<lambda>_. Inr s))"

text \<open>\<^verbatim>\<open>base64.b64decode(text, validate=True)\<close> and \<^verbatim>\<open>b64encode\<close>.\<close>

definition b64_value :: "char \<Rightarrow> nat option" where
  "b64_value c =
     (let n = of_char c :: nat
      in if 65 \<le> n \<and> n \<le> 90 then Some (n - 65)
         else if 97 \<le> n \<and> n \<le> 122 then Some (n - 71)
         else if 48 \<le> n \<and> n \<le> 57 then Some (n + 4)
         else if n = 43 then Some 62 else if n = 47 then Some 63 else None)"

fun b64_decode :: "string \<Rightarrow> string option" where
  "b64_decode [] = Some []"
| "b64_decode (a # b # c # d # s) =
     (case (b64_value a, b64_value b, b64_value c, b64_value d) of
        (Some w, Some x, Some y, Some z) \<Rightarrow>
          map_option
            (\<lambda>rest. char_of (w * 4 + x div 16) # char_of (x mod 16 * 16 + y div 4) # char_of (y mod 4 * 64 + z) # rest)
            (b64_decode s)
      | (Some w, Some x, Some y, None) \<Rightarrow>
          if d = CHR ''='' \<and> s = [] then Some [char_of (w * 4 + x div 16), char_of (x mod 16 * 16 + y div 4)] else None
      | (Some w, Some x, None, _) \<Rightarrow>
          if c = CHR ''='' \<and> d = CHR ''='' \<and> s = [] then Some [char_of (w * 4 + x div 16)] else None
      | _ \<Rightarrow> None)"
| "b64_decode _ = None"

definition b64_char :: "nat \<Rightarrow> char" where
  "b64_char n =
     char_of (if n < 26 then n + 65 else if n < 52 then n + 71 else if n < 62 then n - 4 else if n = 62 then 43 else 47)"

fun b64_encode :: "string \<Rightarrow> string" where
  "b64_encode [] = []"
| "b64_encode [a] =
     (let x = of_char a in [b64_char (x div 4), b64_char (x mod 4 * 16), CHR ''='', CHR ''=''])"
| "b64_encode [a, b] =
     (let x = of_char a; y = of_char b
      in [b64_char (x div 4), b64_char (x mod 4 * 16 + y div 16), b64_char (y mod 16 * 4), CHR ''=''])"
| "b64_encode (a # b # c # s) =
     (let x = of_char a; y = of_char b; z = of_char c
      in b64_char (x div 4) # b64_char (x mod 4 * 16 + y div 16) # b64_char (y mod 16 * 4 + z div 64) #
         b64_char (z mod 64) # b64_encode s)"

datatype voice_client_event =
    CE_AUDIO_FRAME string int string
  | CE_INTERRUPT string
  | CE_END_SESSION
  | CE_PLAYBACK_COMPLETED string

definition make_client_event :: "voice_client_event \<Rightarrow> app_error + voice_client_event" where
  "make_client_event e =
     (case e of
        CE_AUDIO_FRAME turn_id sequence audio \<Rightarrow>
          bindE (parse_turn_id turn_id) (\<lambda>t.
          bindE (requireE PyValueError
                   (0 \<le> sequence \<and> sequence \<le> 10000000 \<and> bounded 4 (MAX_VOICE_FRAME_BYTES * 2) audio)) (\<lambda>_.
          Inr (CE_AUDIO_FRAME t sequence audio)))
      | CE_INTERRUPT turn_id \<Rightarrow> bindE (parse_turn_id turn_id) (\<lambda>t. Inr (CE_INTERRUPT t))
      | CE_END_SESSION \<Rightarrow> Inr CE_END_SESSION
      | CE_PLAYBACK_COMPLETED turn_id \<Rightarrow> bindE (parse_turn_id turn_id) (\<lambda>t. Inr (CE_PLAYBACK_COMPLETED t)))"

definition audio_bytes :: "string \<Rightarrow> app_error + string" where
  "audio_bytes audio_b64 =
     bindE (someE PyValueError (b64_decode audio_b64)) (\<lambda>decoded.
     if decoded = [] \<or> length decoded > MAX_VOICE_FRAME_BYTES \<or> odd (length decoded) then Inl PyValueError
     else Inr decoded)"

text \<open>
  What a realtime adapter delivers. \<open>te_confidence\<close> is \<^verbatim>\<open>round(confidence * 10000)\<close>, the value the
  service stores.
\<close>

record transcript_event =
  te_turn_id :: string
  te_kind :: transcript_kind
  te_text :: string
  te_confidence :: "int option"

definition make_transcript_event :: "transcript_event \<Rightarrow> app_error + transcript_event" where
  "make_transcript_event e =
     bindE (parse_turn_id (te_turn_id e)) (\<lambda>t.
     bindE (requireE PyValueError
              (bounded 1 50000 (te_text e) \<and>
               (case te_confidence e of None \<Rightarrow> True | Some c \<Rightarrow> 0 \<le> c \<and> c \<le> 10000))) (\<lambda>_.
     bindE (requireE PyValueError (join_words (te_text e) \<noteq> [])) (\<lambda>_.
     Inr (e\<lparr>te_turn_id := t, te_text := join_words (te_text e)\<rparr>))))"

record audio_event =
  ae_turn_id :: string
  ae_sequence :: int
  ae_audio :: string
  ae_final :: bool

datatype provider_event = PE_TRANSCRIPT transcript_event | PE_AUDIO audio_event

record voice_access =
  xs_session_id :: uuid
  xs_connection_id :: uuid
  xs_user_id :: uuid
  xs_device_id :: uuid
  xs_conversation_id :: uuid
  xs_provider_key :: string
  xs_model_id :: string
  xs_voice_profile :: string

record voice_turn_result =
  vr_turn_id :: string
  vr_response :: assistant_response
  vr_replayed :: bool

record voice_credential =
  cd_session_id :: uuid
  cd_credential :: string
  cd_expires_at :: timestamp

record voice_session_response =
  wr_id :: uuid
  wr_conversation_id :: uuid
  wr_state :: voice_state
  wr_stream_path :: string
  wr_credential :: string
  wr_credential_expires_at :: timestamp
  wr_idle_timeout_seconds :: int
  wr_max_session_seconds :: int
  wr_max_reconnect_attempts :: int
  wr_started_at :: timestamp

datatype voice_server_event =
    SV_SESSION_STATE voice_state
  | SV_TRANSCRIPT string transcript_kind string "int option"
  | SV_ASSISTANT_TEXT string string "assistant_outcome option" "uuid option"
  | SV_ASSISTANT_AUDIO string string int bool
  | SV_TURN_INTERRUPTED string
  | SV_ERROR voice_error_code

end
