(* ===== verification/Voice_Engine.thy ===== *)
theory Voice_Engine
  imports Voice_Model
begin

text \<open>
  \<^verbatim>\<open>voice/service.py\<close>, \<^verbatim>\<open>protocol.py\<close> and the WebSocket handler of \<^verbatim>\<open>api.py\<close>. The handler
  commits what a timed out or exhausted session wrote before it raised and rolls back after every other
  error, so an operation of the service returns its error or its value beside the state of the open
  transaction; \<open>http_call\<close> and \<open>stream_event\<close> decide what is stored. The realtime adapters are
  parameters that answer the n-th call of a connection.
\<close>

section \<open>Service\<close>

record realtime_adapter =
  va_key :: string
  va_connects :: "nat \<Rightarrow> bool"
  va_send_audio :: "nat \<Rightarrow> string \<Rightarrow> int \<Rightarrow> string \<Rightarrow> provider_event list option"
  va_synthesize :: "nat \<Rightarrow> string \<Rightarrow> string \<Rightarrow> audio_event list option"

record voice_service =
  vc_text :: text_assistant
  vc_router :: ai_router
  vc_adapters :: "realtime_adapter list"
  vc_policy :: voice_policy
  vc_parse_event :: "string \<Rightarrow> voice_client_event option"

type_synonym ('a, 'w) voice_result = "(app_error + 'a) \<times> 'w"

definition bindV :: "('a, 'w) voice_result \<Rightarrow> ('a \<Rightarrow> 'w \<Rightarrow> ('b, 'w) voice_result) \<Rightarrow> ('b, 'w) voice_result" where
  "bindV m f = (case m of (Inl e, w) \<Rightarrow> (Inl e, w) | (Inr x, w) \<Rightarrow> f x w)"

text \<open>A call of another service, which gives no state back when it raises.\<close>

definition callV :: "app_error + 'a \<times> 'w \<Rightarrow> 'w \<Rightarrow> ('a, 'w) voice_result" where
  "callV r w = (case r of Inl e \<Rightarrow> (Inl e, w) | Inr (x, w1) \<Rightarrow> (Inr x, w1))"

definition checkV :: "app_error + 'a \<Rightarrow> 'w \<Rightarrow> ('a, 'w) voice_result" where
  "checkV r w = (r, w)"

definition seconds :: "int \<Rightarrow> int" where
  "seconds n = n * 1000000"

text \<open>A changed session is the row that is written back.\<close>

definition put_session :: "voice_session \<Rightarrow> 'z voice_world_scheme \<Rightarrow> 'z voice_world_scheme" where
  "put_session x w = w\<lparr>w_voice_sessions := row_put vs_id x (w_voice_sessions w)\<rparr>"

text \<open>The flush checks the constraints of the row.\<close>

definition flush_session :: "voice_session \<Rightarrow> 'z voice_world_scheme \<Rightarrow> (unit, 'z voice_world_scheme) voice_result" where
  "flush_session x w = (if voice_session_row_ok x then (Inr (), put_session x w) else (Inl PyIntegrityError, w))"

definition move_session :: "voice_session \<Rightarrow> voice_state \<Rightarrow> app_error + voice_session" where
  "move_session x target = bindE (require_voice_transition (vs_state x) target) (\<lambda>s. Inr (x\<lparr>vs_state := s\<rparr>))"

definition touch_session :: "timestamp \<Rightarrow> voice_session \<Rightarrow> voice_session" where
  "touch_session now x = x\<lparr>vs_last_activity_at := now, vs_updated_at := now, vs_version := vs_version x + 1\<rparr>"

definition dropped_session :: "timestamp \<Rightarrow> voice_session \<Rightarrow> voice_session" where
  "dropped_session now x = (touch_session now x)\<lparr>vs_connection_id := None, vs_disconnected_at := Some now\<rparr>"

section \<open>Guards\<close>

definition owned_session :: "identity_context \<Rightarrow> uuid \<Rightarrow> 'z voice_world_scheme \<Rightarrow> app_error + voice_session" where
  "owned_session i sid w =
     someE VoiceSessionNotFoundError
       (row_find (\<lambda>x. vs_id x = sid \<and> vs_user_id x = ic_user_id i) (w_voice_sessions w))"

definition active_device :: "uuid \<Rightarrow> uuid \<Rightarrow> 'z id_world_scheme \<Rightarrow> app_error + device" where
  "active_device user_id device_id w =
     bindE (someE DeviceNotFoundError (row_find (\<lambda>d. d_id d = device_id \<and> d_user_id d = user_id) (w_devices w))) (\<lambda>d.
     if d_revoked_at d \<noteq> None then Inl DeviceRevokedError else Inr d)"

definition session_identity :: "voice_session \<Rightarrow> 'z voice_world_scheme \<Rightarrow> app_error + identity_context" where
  "session_identity x w =
     bindE (active_device (vs_user_id x) (vs_device_id x) w) (\<lambda>d.
     case row_get u_id (vs_user_id x) (w_users w) of
       None \<Rightarrow> Inl UserDisabledError
     | Some u \<Rightarrow>
         if u_status u = US_DISABLED then Inl UserDisabledError
         else
           (case row_get s_id (vs_auth_session_id x) (w_sessions w) of
              None \<Rightarrow> Inl SessionRevokedError
            | Some s \<Rightarrow>
                if s_user_id s \<noteq> u_id u \<or> s_device_id s \<noteq> Some (d_id d) \<or> s_revoked_at s \<noteq> None \<or> s_expires_at s \<le> w_now w
                then Inl SessionRevokedError
                else Inr \<lparr>ic_user_id = u_id u, ic_auth_user_id = u_auth_user_id u, ic_device_id = Some (d_id d),
                          ic_session_id = Some (s_id s), ic_display_name = u_display_name u,
                          ic_authentication_level = vs_authentication_level x, ic_token_expiry = s_expires_at s\<rparr>))"

text \<open>\<^verbatim>\<open>_require_not_terminal_or_timed_out\<close>: a session past its time is marked before the raise.\<close>

definition require_live ::
  "voice_service \<Rightarrow> voice_session \<Rightarrow> 'z voice_world_scheme \<Rightarrow> (unit, 'z voice_world_scheme) voice_result" where
  "require_live svc x w =
     (if voice_is_terminal (vs_state x) then (Inl VoiceSessionExpiredError, w)
      else if vs_started_at x + seconds (vp_max_session_seconds (vc_policy svc)) \<le> w_now w
      then (case move_session x VS_FAILED of
              Inl e \<Rightarrow> (Inl e, w)
            | Inr x1 \<Rightarrow> (Inl VoiceSessionExpiredError, put_session (x1\<lparr>vs_ended_at := Some (w_now w)\<rparr>) w))
      else (Inr (), w))"

definition require_connection ::
  "voice_service \<Rightarrow> voice_access \<Rightarrow> 'z voice_world_scheme \<Rightarrow> (voice_session, 'z voice_world_scheme) voice_result" where
  "require_connection svc a w =
     (case row_find (\<lambda>x. vs_id x = xs_session_id a \<and> vs_connection_id x = Some (xs_connection_id a) \<and>
                         vs_user_id x = xs_user_id a \<and> vs_device_id x = xs_device_id a \<and>
                         vs_conversation_id x = xs_conversation_id a) (w_voice_sessions w) of
        None \<Rightarrow> (Inl VoiceSessionAuthFailedError, w)
      | Some x \<Rightarrow> bindV (require_live svc x w) (\<lambda>_ w1. (Inr x, w1)))"

section \<open>Sessions\<close>

definition voice_routing :: routing_request where
  "voice_routing =
     \<lparr>rt_task_type = ''voice.realtime_session'', rt_task_id = None, rt_complexity = CX_HIGH,
      rt_required_capabilities = {AUDIO_REALTIME, TEXT_GENERATION}, rt_sensitivity = CRITICAL_DATA,
      rt_context_sensitivities = [], rt_estimated_input_tokens = 1, rt_requested_output_tokens = 4096,
      rt_realtime_required = True, rt_embedding_required = False, rt_structured_output_required = False,
      rt_tool_calling_required = False, rt_local_only = True\<rparr>"

definition credential_expiry :: "voice_service \<Rightarrow> identity_context \<Rightarrow> timestamp \<Rightarrow> timestamp" where
  "credential_expiry svc i now =
     min (now + seconds (vp_credential_ttl_seconds (vc_policy svc))) (ic_token_expiry i)"

definition new_voice_session ::
  "voice_service \<Rightarrow> identity_context \<Rightarrow> device \<Rightarrow> uuid \<Rightarrow> conversation \<Rightarrow> routing_decision \<Rightarrow> model_reference \<Rightarrow> string \<Rightarrow>
     'z core_world_scheme \<Rightarrow> voice_session" where
  "new_voice_session svc i d auth_session c decision selected token w =
     \<lparr>vs_id = w_next w, vs_user_id = ic_user_id i, vs_device_id = d_id d, vs_auth_session_id = auth_session,
      vs_conversation_id = cv_id c, vs_state = VS_CONNECTING, vs_authentication_level = ic_authentication_level i,
      vs_credential_hash = w_sha256 w token, vs_credential_expires_at = credential_expiry svc i (w_now w),
      vs_routing_decision_id = rd_id decision, vs_provider_key = mf_provider_key selected,
      vs_model_id = mf_model_id selected, vs_voice_profile = vp_voice_profile (vc_policy svc),
      vs_effective_sensitivity = CRITICAL_DATA, vs_reconnect_count = 0, vs_connection_id = None, vs_version = 1,
      vs_started_at = w_now w, vs_last_activity_at = w_now w, vs_connected_at = None, vs_disconnected_at = None,
      vs_ended_at = None, vs_created_at = w_now w, vs_updated_at = w_now w\<rparr>"

definition session_view :: "voice_service \<Rightarrow> voice_session \<Rightarrow> string \<Rightarrow> voice_session_response" where
  "session_view svc x token =
     \<lparr>wr_id = vs_id x, wr_conversation_id = vs_conversation_id x, wr_state = vs_state x,
      wr_stream_path = ''/api/v1/voice/sessions/'' @ uuid_text (vs_id x) @ ''/stream'', wr_credential = token,
      wr_credential_expires_at = vs_credential_expires_at x,
      wr_idle_timeout_seconds = vp_idle_timeout_seconds (vc_policy svc),
      wr_max_session_seconds = vp_max_session_seconds (vc_policy svc),
      wr_max_reconnect_attempts = MAX_RECONNECT_ATTEMPTS, wr_started_at = vs_started_at x\<rparr>"

text \<open>The model is chosen before anything is stored; every refusal of the router is the same error.\<close>

definition select_realtime ::
  "voice_service \<Rightarrow> identity_context \<Rightarrow> 'z voice_world_scheme \<Rightarrow>
     app_error + (routing_decision \<times> model_reference) \<times> 'z voice_world_scheme" where
  "select_realtime svc i w =
     bindE (make_routing_request voice_routing) (\<lambda>request.
     case route (vc_router svc) i request [] \<lparr>cu_daily = 0, cu_monthly = 0\<rparr> w of
       Inl e \<Rightarrow> Inl (if e = AIRoutingDeniedError then RealtimeModelUnavailableError else e)
     | Inr (decision, w1) \<Rightarrow>
         (case rd_selected_model decision of
            None \<Rightarrow> Inl RealtimeModelUnavailableError
          | Some selected \<Rightarrow>
              if rd_outcome decision \<noteq> RO_SELECTED \<or> mf_provider_key selected \<notin> va_key ` set (vc_adapters svc)
              then Inl RealtimeModelUnavailableError
              else Inr ((decision, selected), w1)))"

definition start_session ::
  "voice_service \<Rightarrow> identity_context \<Rightarrow> uuid \<Rightarrow> 'z voice_world_scheme \<Rightarrow>
     app_error + voice_session_response \<times> 'z voice_world_scheme" where
  "start_session svc i cid w =
     bindE (someE DeviceNotFoundError (ic_device_id i)) (\<lambda>device_id.
     bindE (someE VoiceSessionAuthFailedError (ic_session_id i)) (\<lambda>auth_session.
     bindE (active_device (ic_user_id i) device_id w) (\<lambda>d.
     if map_of (d_capabilities d) ''microphone'' \<noteq> Some True then Inl CapabilityDisabledError
     else
       bindE (owned_conversation i cid w) (\<lambda>c.
       bindE (select_realtime svc i w) (\<lambda>((decision, selected), w1).
       let token = w_token w1 (w_next w1); w2 = draw w1;
           x = new_voice_session svc i d auth_session c decision selected token w2
       in if credential_expiry svc i (w_now w2) \<le> w_now w2 then Inl VoiceSessionAuthFailedError
          else if \<not> voice_session_row_ok x then Inl PyIntegrityError
          else Inr (session_view svc x token,
                    (draw w2)\<lparr>w_voice_sessions := row_add x (w_voice_sessions w2)\<rparr>))))))"

definition refresh_credential ::
  "voice_service \<Rightarrow> identity_context \<Rightarrow> uuid \<Rightarrow> 'z voice_world_scheme \<Rightarrow> (voice_credential, 'z voice_world_scheme) voice_result" where
  "refresh_credential svc i sid w =
     bindV (checkV (owned_session i sid w) w) (\<lambda>x w0.
     if ic_device_id i \<noteq> Some (vs_device_id x) \<or> ic_session_id i \<noteq> Some (vs_auth_session_id x)
     then (Inl VoiceSessionAuthFailedError, w0)
     else
       bindV (require_live svc x w0) (\<lambda>_ w1.
       let token = w_token w1 (w_next w1); w2 = draw w1; expiry = credential_expiry svc i (w_now w2);
           x1 = x\<lparr>vs_credential_hash := w_sha256 w2 token, vs_credential_expires_at := expiry,
                  vs_updated_at := w_now w2, vs_version := vs_version x + 1\<rparr>
       in if expiry \<le> w_now w2 then (Inl VoiceSessionAuthFailedError, w2)
          else bindV (flush_session x1 w2) (\<lambda>_ w3.
               (Inr \<lparr>cd_session_id = vs_id x1, cd_credential = token, cd_expires_at = expiry\<rparr>, w3))))"

text \<open>A connection that went silent is taken over; a live one is not.\<close>

definition release_stale ::
  "voice_service \<Rightarrow> voice_session \<Rightarrow> timestamp \<Rightarrow> app_error + voice_session" where
  "release_stale svc x now =
     (if vs_connection_id x = None then Inr x
      else if vs_last_activity_at x + seconds (vp_idle_timeout_seconds (vc_policy svc)) > now
      then Inl VoiceSessionConflictError
      else move_session (x\<lparr>vs_connection_id := None, vs_disconnected_at := Some now\<rparr>) VS_RECONNECTING)"

text \<open>Counting the reconnection: \<open>Inl x\<close> is the exhausted session with its final row.\<close>

definition count_reconnect ::
  "voice_service \<Rightarrow> voice_session \<Rightarrow> timestamp \<Rightarrow> app_error + (voice_session + voice_session)" where
  "count_reconnect svc x now =
     (if vs_connected_at x = None then Inr (Inr x)
      else if vs_reconnect_count x \<ge> vp_max_reconnect_attempts (vc_policy svc)
      then bindE (move_session x VS_FAILED) (\<lambda>x1. Inr (Inl (x1\<lparr>vs_ended_at := Some now\<rparr>)))
      else bindE (move_session (x\<lparr>vs_reconnect_count := vs_reconnect_count x + 1\<rparr>) VS_RECONNECTING) (\<lambda>x1. Inr (Inr x1)))"

definition listening_session :: "voice_session \<Rightarrow> app_error + voice_session" where
  "listening_session x =
     bindE (if vs_state x = VS_RECONNECTING then move_session x VS_CONNECTING else Inr x) (\<lambda>x1.
     move_session x1 VS_LISTENING)"

definition access_of :: "voice_session \<Rightarrow> uuid \<Rightarrow> voice_access" where
  "access_of x connection =
     \<lparr>xs_session_id = vs_id x, xs_connection_id = connection, xs_user_id = vs_user_id x, xs_device_id = vs_device_id x,
      xs_conversation_id = vs_conversation_id x, xs_provider_key = vs_provider_key x, xs_model_id = vs_model_id x,
      xs_voice_profile = vs_voice_profile x\<rparr>"

definition connect_session ::
  "voice_session \<Rightarrow> 'z voice_world_scheme \<Rightarrow> (voice_access, 'z voice_world_scheme) voice_result" where
  "connect_session x w =
     bindV (checkV (listening_session x) w) (\<lambda>x1 w1.
     let connection = w_next w1; w2 = draw w1;
         x2 = (touch_session (w_now w2) x1)\<lparr>vs_connection_id := Some connection, vs_connected_at := Some (w_now w2),
                 vs_disconnected_at := None\<rparr>
     in bindV (flush_session x2 w2) (\<lambda>_ w3. (Inr (access_of x2 connection), w3)))"

definition open_connection ::
  "voice_service \<Rightarrow> uuid \<Rightarrow> string \<Rightarrow> 'z voice_world_scheme \<Rightarrow> (voice_access, 'z voice_world_scheme) voice_result" where
  "open_connection svc sid credential w =
     bindV (checkV (someE VoiceSessionAuthFailedError (row_get vs_id sid (w_voice_sessions w))) w) (\<lambda>x w0.
     if vs_credential_hash x \<noteq> w_sha256 w0 credential then (Inl VoiceSessionAuthFailedError, w0)
     else if vs_credential_expires_at x \<le> w_now w0 then (Inl VoiceSessionExpiredError, w0)
     else
       bindV (checkV (session_identity x w0) w0) (\<lambda>_ w1.
       bindV (require_live svc x w1) (\<lambda>_ w2.
       bindV (checkV (release_stale svc x (w_now w2)) w2) (\<lambda>x1 w3.
       bindV (checkV (count_reconnect svc x1 (w_now w3)) w3) (\<lambda>counted w4.
       case counted of
         Inl failed \<Rightarrow> (Inl VoiceReconnectExhaustedError, put_session failed w4)
       | Inr x2 \<Rightarrow> connect_session x2 w4)))))"

definition identity_for_connection ::
  "voice_service \<Rightarrow> voice_access \<Rightarrow> 'z voice_world_scheme \<Rightarrow> (identity_context, 'z voice_world_scheme) voice_result" where
  "identity_for_connection svc a w =
     bindV (require_connection svc a w) (\<lambda>x w1. checkV (session_identity x w1) w1)"

definition state_for_connection ::
  "voice_service \<Rightarrow> voice_access \<Rightarrow> 'z voice_world_scheme \<Rightarrow> (voice_state, 'z voice_world_scheme) voice_result" where
  "state_for_connection svc a w = bindV (require_connection svc a w) (\<lambda>x w1. (Inr (vs_state x), w1))"

section \<open>Turns\<close>

definition turn_key :: "'z core_world_scheme \<Rightarrow> uuid \<Rightarrow> string \<Rightarrow> string" where
  "turn_key w sid turn_id = ''voice:'' @ w_sha256 w (uuid_text sid @ '':'' @ turn_id)"

definition new_turn ::
  "voice_session \<Rightarrow> string \<Rightarrow> string \<Rightarrow> int option \<Rightarrow> 'z core_world_scheme \<Rightarrow> voice_turn" where
  "new_turn x turn_id transcript confidence w =
     \<lparr>vt_id = w_next w, vt_session_id = vs_id x, vt_user_id = vs_user_id x, vt_conversation_id = vs_conversation_id x,
      vt_logical_turn_id = turn_id, vt_idempotency_key = turn_key w (vs_id x) turn_id,
      vt_transcript_sha256 = w_sha256 w transcript, vt_confidence = confidence, vt_status = VT_PROCESSING,
      vt_user_message_id = None, vt_assistant_message_id = None, vt_completed_at = None, vt_interrupted_at = None,
      vt_created_at = w_now w\<rparr>"

definition open_turn ::
  "voice_session \<Rightarrow> string \<Rightarrow> string \<Rightarrow> int option \<Rightarrow> 'z voice_world_scheme \<Rightarrow>
     (voice_session \<times> voice_turn, 'z voice_world_scheme) voice_result" where
  "open_turn x turn_id transcript confidence w =
     bindV (checkV (move_session x VS_PROCESSING) w) (\<lambda>x1 w1.
     let t = new_turn x1 turn_id transcript confidence w1
     in case insert_turn t (w_voice_turns w1) of
          None \<Rightarrow> (Inl PyIntegrityError, w1)
        | Some rows \<Rightarrow> (Inr (x1, t), put_session x1 ((draw w1)\<lparr>w_voice_turns := rows\<rparr>)))"

definition completed_turn :: "assistant_response \<Rightarrow> timestamp \<Rightarrow> voice_turn \<Rightarrow> voice_turn" where
  "completed_turn response now t =
     t\<lparr>vt_user_message_id := Some (mv_id (as_user_message response)),
       vt_assistant_message_id := Some (mv_id (as_assistant_message response)), vt_status := VT_COMPLETED,
       vt_completed_at := Some now\<rparr>"

definition voice_request :: "string \<Rightarrow> string \<Rightarrow> int \<Rightarrow> assistant_request" where
  "voice_request transcript key version =
     \<lparr>ar_content = transcript, ar_idempotency_key = key, ar_expected_version = version, ar_use_memory_context = True,
      ar_memory_items = 3, ar_output_tokens = 1024, ar_memory_target = None, ar_research_confirmation_id = None\<rparr>"

definition complete_turn ::
  "voice_service \<Rightarrow> identity_context \<Rightarrow> conversation \<Rightarrow> string \<Rightarrow> bool \<Rightarrow> voice_session \<Rightarrow> voice_turn \<Rightarrow>
     'z voice_world_scheme \<Rightarrow> (voice_turn_result, 'z voice_world_scheme) voice_result" where
  "complete_turn svc i c transcript replayed x t w =
     bindV (checkV (make_assistant_request
                      (voice_request transcript (turn_key w (vs_id x) (vt_logical_turn_id t)) (cv_version c))) w) (\<lambda>r w1.
     bindV (callV (submit (vc_text svc) i (vs_conversation_id x) r w1) w1) (\<lambda>response w2.
     bindV (checkV (if vs_state x = VS_PROCESSING then move_session x VS_SPEAKING else Inr x) w2) (\<lambda>x1 w3.
     bindV (flush_session (touch_session (w_now w3) x1)
              (w3\<lparr>w_voice_turns := row_put vt_id (completed_turn response (w_now w3) t) (w_voice_turns w3)\<rparr>)) (\<lambda>_ w4.
     (Inr \<lparr>vr_turn_id = vt_logical_turn_id t, vr_response = response, vr_replayed = replayed\<rparr>, w4)))))"

definition finalize_turn ::
  "voice_service \<Rightarrow> voice_access \<Rightarrow> string \<Rightarrow> string \<Rightarrow> int option \<Rightarrow> 'z voice_world_scheme \<Rightarrow>
     (voice_turn_result, 'z voice_world_scheme) voice_result" where
  "finalize_turn svc a turn_id transcript confidence w =
     bindV (require_connection svc a w) (\<lambda>x w1.
     bindV (checkV (session_identity x w1) w1) (\<lambda>i w2.
     let existing = row_find (\<lambda>t. vt_session_id t = vs_id x \<and> vt_logical_turn_id t = turn_id) (w_voice_turns w2)
     in if (case existing of None \<Rightarrow> False | Some t \<Rightarrow> vt_transcript_sha256 t \<noteq> w_sha256 w2 transcript)
        then (Inl VoiceTurnIdempotencyConflictError, w2)
        else
          (case row_find (\<lambda>c. cv_id c = vs_conversation_id x \<and> cv_user_id c = vs_user_id x) (w_conversations w2) of
             None \<Rightarrow> (Inl VoiceSessionNotFoundError, w2)
           | Some c \<Rightarrow>
               (case existing of
                  None \<Rightarrow>
                    bindV (open_turn x turn_id transcript confidence w2) (\<lambda>(x1, t) w3.
                    complete_turn svc i c transcript False x1 t w3)
                | Some t \<Rightarrow> complete_turn svc i c transcript (vt_status t = VT_COMPLETED) x t w2))))"

definition interrupted_state :: "voice_session \<Rightarrow> app_error + voice_session" where
  "interrupted_state x =
     (if vs_state x = VS_SPEAKING
      then bindE (move_session x VS_INTERRUPTING) (\<lambda>x1. move_session x1 VS_LISTENING)
      else if vs_state x = VS_PROCESSING then move_session x VS_LISTENING
      else if vs_state x \<noteq> VS_LISTENING then Inl InvalidVoiceTransitionApplicationError
      else Inr x)"

definition interrupted_turn :: "timestamp \<Rightarrow> voice_turn \<Rightarrow> voice_turn" where
  "interrupted_turn now t = t\<lparr>vt_status := VT_INTERRUPTED, vt_interrupted_at := Some now\<rparr>"

definition interrupt_turn ::
  "voice_service \<Rightarrow> voice_access \<Rightarrow> string \<Rightarrow> 'z voice_world_scheme \<Rightarrow> (voice_state, 'z voice_world_scheme) voice_result" where
  "interrupt_turn svc a turn_id w =
     bindV (require_connection svc a w) (\<lambda>x w1.
     bindV (checkV (interrupted_state x) w1) (\<lambda>x1 w2.
     let turns = w_voice_turns w2;
         marked = (case row_find (\<lambda>t. vt_session_id t = vs_id x \<and> vt_logical_turn_id t = turn_id \<and>
                                      vt_status t = VT_PROCESSING) turns of
                     None \<Rightarrow> turns | Some t \<Rightarrow> row_put vt_id (interrupted_turn (w_now w2) t) turns)
     in bindV (flush_session (touch_session (w_now w2) x1) (w2\<lparr>w_voice_turns := marked\<rparr>)) (\<lambda>_ w3.
        (Inr (vs_state x1), w3))))"

definition playback_completed ::
  "voice_service \<Rightarrow> voice_access \<Rightarrow> 'z voice_world_scheme \<Rightarrow> (voice_state, 'z voice_world_scheme) voice_result" where
  "playback_completed svc a w =
     bindV (require_connection svc a w) (\<lambda>x w1.
     bindV (checkV (if vs_state x = VS_SPEAKING then move_session x VS_LISTENING
                    else if vs_state x \<noteq> VS_LISTENING then Inl InvalidVoiceTransitionApplicationError
                    else Inr x) w1) (\<lambda>x1 w2.
     bindV (flush_session (touch_session (w_now w2) x1) w2) (\<lambda>_ w3. (Inr (vs_state x1), w3))))"

section \<open>The end of a connection\<close>

definition connected_session :: "voice_access \<Rightarrow> 'z voice_world_scheme \<Rightarrow> voice_session option" where
  "connected_session a w =
     row_find (\<lambda>x. vs_id x = xs_session_id a \<and> vs_connection_id x = Some (xs_connection_id a)) (w_voice_sessions w)"

definition drop_connection ::
  "voice_state \<Rightarrow> bool \<Rightarrow> voice_access \<Rightarrow> 'z voice_world_scheme \<Rightarrow> (unit, 'z voice_world_scheme) voice_result" where
  "drop_connection target ends a w =
     (case connected_session a w of
        None \<Rightarrow> (Inr (), w)
      | Some x \<Rightarrow>
          (let x1 = dropped_session (w_now w) x
           in if voice_is_terminal (vs_state x1) then flush_session x1 w
              else bindV (checkV (move_session x1 target) w) (\<lambda>x2 w1.
                   flush_session (if ends then x2\<lparr>vs_ended_at := Some (w_now w1)\<rparr> else x2) w1)))"

definition disconnect ::
  "voice_access \<Rightarrow> bool \<Rightarrow> 'z voice_world_scheme \<Rightarrow> (unit, 'z voice_world_scheme) voice_result" where
  "disconnect a ends w = drop_connection (if ends then VS_ENDED else VS_RECONNECTING) ends a w"

definition fail_connection ::
  "voice_access \<Rightarrow> 'z voice_world_scheme \<Rightarrow> (unit, 'z voice_world_scheme) voice_result" where
  "fail_connection a w = drop_connection VS_FAILED True a w"

definition end_owned ::
  "identity_context \<Rightarrow> uuid \<Rightarrow> 'z voice_world_scheme \<Rightarrow> (voice_state, 'z voice_world_scheme) voice_result" where
  "end_owned i sid w =
     bindV (checkV (owned_session i sid w) w) (\<lambda>x w1.
     if voice_is_terminal (vs_state x) then (Inr (vs_state x), w1)
     else
       bindV (checkV (move_session x VS_ENDED) w1) (\<lambda>x1 w2.
       let x2 = x1\<lparr>vs_connection_id := None, vs_ended_at := Some (w_now w2), vs_updated_at := w_now w2,
                   vs_version := vs_version x1 + 1\<rparr>
       in bindV (flush_session x2 w2) (\<lambda>_ w3. (Inr (vs_state x2), w3))))"

text \<open>A route that returns commits, a route that raises rolls back.\<close>

definition http_call :: "('a, 'w) voice_result \<Rightarrow> app_error + 'a \<times> 'w" where
  "http_call r = (case r of (Inl e, _) \<Rightarrow> Inl e | (Inr x, w) \<Rightarrow> Inr (x, w))"

end
