(* ===== verification/Voice_Protocol.thy ===== *)
theory Voice_Protocol
  imports Voice_Engine
begin

text \<open>
  \<^verbatim>\<open>voice/protocol.py\<close> and the WebSocket handler of \<^verbatim>\<open>voice/api.py\<close>: the order of audio
  frames, the single final transcript that becomes a turn, the order of the assistant's audio, and the
  transaction of each event of the stream.
\<close>

section \<open>The coordinator\<close>

text \<open>\<open>pc_calls\<close> counts the calls of the realtime adapter, whose answers are numbered by it.\<close>

record coordinator =
  pc_last_audio :: "(string \<times> int) list"
  pc_assistant_turn :: "string option"
  pc_ended :: bool
  pc_calls :: nat

definition new_coordinator :: coordinator where
  "new_coordinator = \<lparr>pc_last_audio = [], pc_assistant_turn = None, pc_ended = False, pc_calls = 0\<rparr>"

text \<open>\<^verbatim>\<open>MalformedVoiceEventError\<close>, or an error of the service.\<close>

datatype stream_raise = SR_MALFORMED | SR_ERROR app_error

type_synonym ('a, 'w) stream = "(stream_raise + 'a) \<times> 'w"

definition bindS :: "('a, 'w) stream \<Rightarrow> ('a \<Rightarrow> 'w \<Rightarrow> ('b, 'w) stream) \<Rightarrow> ('b, 'w) stream" where
  "bindS m f = (case m of (Inl e, w) \<Rightarrow> (Inl e, w) | (Inr x, w) \<Rightarrow> f x w)"

definition serviceS :: "('a, 'w) voice_result \<Rightarrow> ('a, 'w) stream" where
  "serviceS r = (map_sum SR_ERROR id (fst r), snd r)"

definition adapter_of :: "voice_service \<Rightarrow> voice_access \<Rightarrow> realtime_adapter option" where
  "adapter_of svc a = find (\<lambda>p. va_key p = xs_provider_key a) (vc_adapters svc)"

definition transcript_of :: "transcript_event \<Rightarrow> voice_server_event" where
  "transcript_of e = SV_TRANSCRIPT (te_turn_id e) (te_kind e) (te_text e) (te_confidence e)"

text \<open>\<^verbatim>\<open>_validated_audio_events\<close>: the events of the turn, numbered from 0, the last one and only it final.\<close>

fun audio_in_order :: "string \<Rightarrow> int \<Rightarrow> bool \<Rightarrow> audio_event list \<Rightarrow> bool" where
  "audio_in_order turn_id expected final_seen [] = final_seen"
| "audio_in_order turn_id expected final_seen (e # es) =
     (ae_turn_id e = turn_id \<and> ae_sequence e = expected \<and> \<not> final_seen \<and>
      audio_in_order turn_id (expected + 1) (ae_final e) es)"

definition validated_audio :: "string \<Rightarrow> audio_event list \<Rightarrow> bool" where
  "validated_audio turn_id es \<longleftrightarrow> es \<noteq> [] \<and> audio_in_order turn_id 0 False es"

definition audio_of :: "string \<Rightarrow> audio_event \<Rightarrow> voice_server_event" where
  "audio_of turn_id e = SV_ASSISTANT_AUDIO turn_id (b64_encode (ae_audio e)) (ae_sequence e) (ae_final e)"

text \<open>The answer to a final transcript: its text, the state, and the audio unless the turn was replayed.\<close>

definition speak_turn ::
  "voice_service \<Rightarrow> voice_access \<Rightarrow> string \<Rightarrow> transcript_event \<Rightarrow> coordinator \<Rightarrow> 'z voice_world_scheme \<Rightarrow>
     (voice_server_event list \<times> coordinator, 'z voice_world_scheme) stream" where
  "speak_turn svc a turn_id e pc w =
     bindS (serviceS (finalize_turn svc a (te_turn_id e) (te_text e) (te_confidence e) w)) (\<lambda>turn w1.
     let reply = as_assistant_message (vr_response turn);
         said = SV_ASSISTANT_TEXT turn_id (mv_content reply) (mv_outcome reply) (mv_confirmation_request_id reply)
     in if vr_replayed turn
        then bindS (serviceS (state_for_connection svc a w1)) (\<lambda>s w2. (Inr ([said, SV_SESSION_STATE s], pc), w2))
        else
          (case (case adapter_of svc a of None \<Rightarrow> None
                 | Some p \<Rightarrow> va_synthesize p (pc_calls pc) turn_id (mv_content reply)) of
             None \<Rightarrow> (Inl SR_MALFORMED, w1)
           | Some audio \<Rightarrow>
               if \<not> validated_audio turn_id audio then (Inl SR_MALFORMED, w1)
               else
                 bindS (serviceS (state_for_connection svc a w1)) (\<lambda>s w2.
                 (Inr (said # SV_SESSION_STATE s # map (audio_of turn_id) audio,
                       pc\<lparr>pc_assistant_turn := Some turn_id, pc_calls := pc_calls pc + 1\<rparr>), w2))))"

fun provider_events ::
  "voice_service \<Rightarrow> voice_access \<Rightarrow> string \<Rightarrow> bool \<Rightarrow> provider_event list \<Rightarrow> coordinator \<Rightarrow> 'z voice_world_scheme \<Rightarrow>
     (voice_server_event list \<times> coordinator, 'z voice_world_scheme) stream" where
  "provider_events svc a turn_id final_seen [] pc w = (Inr ([], pc), w)"
| "provider_events svc a turn_id final_seen (PE_AUDIO x # es) pc w = (Inl SR_MALFORMED, w)"
| "provider_events svc a turn_id final_seen (PE_TRANSCRIPT e # es) pc w =
     (if te_turn_id e \<noteq> turn_id then (Inl SR_MALFORMED, w)
      else if te_kind e = TK_PARTIAL then
        bindS (provider_events svc a turn_id final_seen es pc w) (\<lambda>(events, pc1) w1.
        (Inr (transcript_of e # events, pc1), w1))
      else if final_seen then (Inl SR_MALFORMED, w)
      else
        bindS (speak_turn svc a turn_id e pc w) (\<lambda>(said, pc1) w1.
        bindS (provider_events svc a turn_id True es pc1 w1) (\<lambda>(events, pc2) w2.
        (Inr (transcript_of e # said @ events, pc2), w2))))"

definition last_sequence :: "coordinator \<Rightarrow> string \<Rightarrow> int" where
  "last_sequence pc turn_id = (case map_of (pc_last_audio pc) turn_id of None \<Rightarrow> - 1 | Some n \<Rightarrow> n)"

definition audio_frame ::
  "voice_service \<Rightarrow> voice_access \<Rightarrow> string \<Rightarrow> int \<Rightarrow> string \<Rightarrow> coordinator \<Rightarrow> 'z voice_world_scheme \<Rightarrow>
     (voice_server_event list \<times> coordinator, 'z voice_world_scheme) stream" where
  "audio_frame svc a turn_id sequence audio pc w =
     (if sequence \<noteq> last_sequence pc turn_id + 1 then (Inl SR_MALFORMED, w)
      else
        (let pc1 = pc\<lparr>pc_last_audio := (turn_id, sequence) # pc_last_audio pc, pc_calls := pc_calls pc + 1\<rparr>
         in case (audio_bytes audio, adapter_of svc a) of
              (Inr bytes, Some p) \<Rightarrow>
                (case va_send_audio p (pc_calls pc) turn_id sequence bytes of
                   None \<Rightarrow> (Inl SR_MALFORMED, w)
                 | Some events \<Rightarrow> provider_events svc a turn_id False events pc1 w)
            | _ \<Rightarrow> (Inl SR_MALFORMED, w)))"

definition handle_client_event ::
  "voice_service \<Rightarrow> voice_access \<Rightarrow> voice_client_event \<Rightarrow> coordinator \<Rightarrow> 'z voice_world_scheme \<Rightarrow>
     (voice_server_event list \<times> coordinator, 'z voice_world_scheme) stream" where
  "handle_client_event svc a event pc w =
     (if pc_ended pc then (Inl SR_MALFORMED, w)
      else
        (case event of
           CE_AUDIO_FRAME turn_id sequence audio \<Rightarrow> audio_frame svc a turn_id sequence audio pc w
         | CE_INTERRUPT turn_id \<Rightarrow>
             if Some turn_id \<noteq> pc_assistant_turn pc then (Inl SR_MALFORMED, w)
             else
               bindS (serviceS (interrupt_turn svc a turn_id w)) (\<lambda>s w1.
               (Inr ([SV_TURN_INTERRUPTED turn_id, SV_SESSION_STATE s], pc\<lparr>pc_assistant_turn := None\<rparr>), w1))
         | CE_PLAYBACK_COMPLETED turn_id \<Rightarrow>
             if Some turn_id \<noteq> pc_assistant_turn pc then (Inl SR_MALFORMED, w)
             else
               bindS (serviceS (playback_completed svc a w)) (\<lambda>s w1.
               (Inr ([SV_SESSION_STATE s], pc\<lparr>pc_assistant_turn := None\<rparr>), w1))
         | CE_END_SESSION \<Rightarrow>
             bindS (serviceS (disconnect a True w)) (\<lambda>_ w1.
             (Inr ([SV_SESSION_STATE VS_ENDED], pc\<lparr>pc_ended := True\<rparr>), w1))))"

section \<open>The stream\<close>

text \<open>
  The handler of the socket. \<open>SC_OPEN\<close> goes on with the coordinator, \<open>SC_CLOSED\<close> has closed the socket after
  sending the events. The world is the committed one.
\<close>

datatype stream_control = SC_OPEN "voice_server_event list" coordinator | SC_CLOSED "voice_server_event list"

definition after_rollback ::
  "(unit, 'w) voice_result \<Rightarrow> voice_server_event list \<Rightarrow> 'w \<Rightarrow> stream_control \<times> 'w" where
  "after_rollback r events w = (case r of (Inl e, _) \<Rightarrow> (SC_CLOSED [], w) | (Inr _, w1) \<Rightarrow> (SC_CLOSED events, w1))"

primrec is_application_error :: "app_error \<Rightarrow> bool" where
  "is_application_error (Auth_Error e) = True"
| "is_application_error (Authority_Error e) = True"
| "is_application_error (Task_Error e) = True"
| "is_application_error (Memory_Error e) = True"
| "is_application_error (Orchestration_Error e) = True"
| "is_application_error (Conversation_Error e) = True"
| "is_application_error (Python_Error e) = False"

definition stream_failure ::
  "voice_access \<Rightarrow> stream_raise \<Rightarrow> 'z voice_world_scheme \<Rightarrow> 'z voice_world_scheme \<Rightarrow>
     stream_control \<times> 'z voice_world_scheme" where
  "stream_failure a failure w dirty =
     (case failure of
        SR_MALFORMED \<Rightarrow> after_rollback (disconnect a False w) [SV_ERROR VE_MALFORMED_EVENT] w
      | SR_ERROR e \<Rightarrow>
          if e \<in> {VoiceReconnectExhaustedError, VoiceSessionExpiredError} then (SC_CLOSED [], dirty)
          else if is_application_error e then after_rollback (fail_connection a w) [] w
          else (SC_CLOSED [], w))"

definition parse_client_event :: "voice_service \<Rightarrow> string \<Rightarrow> stream_raise + voice_client_event" where
  "parse_client_event svc payload =
     (if sum_list (map (\<lambda>c. length (utf8_char c)) payload) > 12000 then Inl SR_MALFORMED
      else case vc_parse_event svc payload of
             None \<Rightarrow> Inl SR_MALFORMED
           | Some raw \<Rightarrow> (case make_client_event raw of Inl _ \<Rightarrow> Inl SR_MALFORMED | Inr e \<Rightarrow> Inr e))"

definition stream_event ::
  "voice_service \<Rightarrow> voice_access \<Rightarrow> string \<Rightarrow> coordinator \<Rightarrow> 'z voice_world_scheme \<Rightarrow>
     stream_control \<times> 'z voice_world_scheme" where
  "stream_event svc a payload pc w =
     (case parse_client_event svc payload of
        Inl failure \<Rightarrow> stream_failure a failure w w
      | Inr event \<Rightarrow>
          (case handle_client_event svc a event pc w of
             (Inl failure, w1) \<Rightarrow> stream_failure a failure w w1
           | (Inr (events, pc1), w1) \<Rightarrow>
               ((if pc_ended pc1 then SC_CLOSED events else SC_OPEN events pc1), w1)))"

definition stream_idle :: "voice_access \<Rightarrow> 'z voice_world_scheme \<Rightarrow> stream_control \<times> 'z voice_world_scheme" where
  "stream_idle a w =
     (case disconnect a True w of
        (Inr _, w1) \<Rightarrow> (SC_CLOSED [SV_ERROR VE_SESSION_TIMEOUT], w1)
      | (Inl e, _) \<Rightarrow> stream_failure a (SR_ERROR e) w w)"

definition stream_disconnected :: "voice_access \<Rightarrow> 'z voice_world_scheme \<Rightarrow> stream_control \<times> 'z voice_world_scheme" where
  "stream_disconnected a w = after_rollback (disconnect a False w) [] w"

text \<open>The first part of the handler: authentication, the connection of the adapter, the first state.\<close>

definition open_stream ::
  "voice_service \<Rightarrow> uuid \<Rightarrow> string option \<Rightarrow> nat \<Rightarrow> 'z voice_world_scheme \<Rightarrow>
     (voice_access option \<times> stream_control) \<times> 'z voice_world_scheme" where
  "open_stream svc sid credential attempt w =
     (case credential of
        None \<Rightarrow> ((None, SC_CLOSED []), w)
      | Some token \<Rightarrow>
          if \<not> bounded 32 256 token then ((None, SC_CLOSED []), w)
          else
            (case open_connection svc sid token w of
               (Inl e, w1) \<Rightarrow>
                 ((None, SC_CLOSED []),
                  if e \<in> {VoiceReconnectExhaustedError, VoiceSessionExpiredError} then w1 else w)
             | (Inr a, w1) \<Rightarrow>
                 (case adapter_of svc a of
                    None \<Rightarrow> ((None, SC_CLOSED []), w)
                  | Some p \<Rightarrow>
                      if \<not> va_connects p attempt then ((None, SC_CLOSED []), w)
                      else
                        (case state_for_connection svc a w1 of
                           (Inr s, w2) \<Rightarrow> ((Some a, SC_OPEN [SV_SESSION_STATE s] new_coordinator), w2)
                         | (Inl e, w2) \<Rightarrow> (let (control, w3) = stream_failure a (SR_ERROR e) w1 w2 in ((Some a, control), w3))))))"

end
