(* ===== verification/Spec2Isabelle.thy ===== *)
theory Spec2Isabelle
  imports Voice_Protocol
begin

section \<open>A verification development of the personal assistant backend\<close>

text \<open>
  \<^bold>\<open>The program.\<close> \<^verbatim>\<open>src/backend/app\<close> is the Python (FastAPI, SQLAlchemy, pydantic) backend
  of a personal assistant. Every HTTP request runs in one database transaction
  (\<^verbatim>\<open>core/database.py:get_db_session\<close>): the route calls one method of a service, the
  transaction is committed when the method returns and rolled back when it raises. An operation of
  the model is therefore a function \<^verbatim>\<open>world \<Rightarrow> error + (result \<times> world)\<close>: \<^verbatim>\<open>Inl\<close> is a
  raise, which leaves the stored state as it was; \<^verbatim>\<open>Inr\<close> carries the result and the new state.
  Where the code catches an error of a callee and goes on, the callee answers with the error as a value.
  The theorems about sequences of calls are stated over step relations whose steps are the operations
  that return.

  \<^bold>\<open>State.\<close> The tables are lists of rows, one record type per ORM class, in order of insertion;
  a query is a filter, a join or a search of these lists with the order of the statement's
  \<^verbatim>\<open>ORDER BY\<close>. The state is a chain of extensible records: \<^verbatim>\<open>id_world\<close> (users, devices,
  sessions), \<^verbatim>\<open>auth_world\<close> (capabilities, permissions, confirmations, decisions, audit),
  \<^verbatim>\<open>task_world\<close>, \<^verbatim>\<open>memory_world\<close>, \<^verbatim>\<open>ai_world\<close> and \<^verbatim>\<open>orch_world\<close>, each
  extending the previous one, so that an operation of one component is an operation on the state of all
  later ones, and lemmas about it hold there. Primary keys are naturals drawn from a counter of the
  world (\<^verbatim>\<open>uuid4\<close> never repeats a key), the clock is the field \<^verbatim>\<open>w_now\<close> that steps of the
  relations move forward, SHA-256, case folding and Unicode normalization are functions of the world.
  Strings are lists of code points below 256. Unique indexes and CHECK constraints are tested where the
  code flushes; a violated one is the error the code maps it to.

  \<^bold>\<open>Theories\<close>, in the order of import, with the files under \<^verbatim>\<open>src/backend/app\<close> they
  model:
  \<^item> \<^verbatim>\<open>Prelude\<close>: identifiers, instants (\<^verbatim>\<open>core/time.py\<close>), sequencing of calls, tables
    (locale \<^verbatim>\<open>keyed_table\<close>), automation.
  \<^item> \<^verbatim>\<open>Core_Errors\<close>: \<^verbatim>\<open>core/errors.py\<close>, every application error with code and status.
  \<^item> \<^verbatim>\<open>Metadata\<close>: \<^verbatim>\<open>core/metadata.py\<close>, \<^verbatim>\<open>core/redaction.py\<close>, with a backtracking matcher
    for the two regular expressions.
  \<^item> \<^verbatim>\<open>Identity\<close>: \<^verbatim>\<open>identity/\<close> and the verified claims of \<^verbatim>\<open>auth/claims.py\<close>.
  \<^item> \<^verbatim>\<open>Authority_Model\<close>, \<^verbatim>\<open>Authority_Engine\<close>, \<^verbatim>\<open>Authority_Admin\<close>: \<^verbatim>\<open>permissions/\<close> and
    \<^verbatim>\<open>audit/\<close>; the data and the risk engine, the decision pipeline \<^verbatim>\<open>authorize\<close>, the grants,
    revocations and confirmations with the histories of all of them.
  \<^item> \<^verbatim>\<open>Lifecycle\<close>: the locale of the state machines, interpreted by tasks, memories and
    workflows.
  \<^item> \<^verbatim>\<open>Task_Model\<close>, \<^verbatim>\<open>Task_Engine\<close>, \<^verbatim>\<open>Task_Correct\<close>: \<^verbatim>\<open>tasks/\<close>.
  \<^item> \<^verbatim>\<open>Classification\<close>: \<^verbatim>\<open>security/classification.py\<close>.
  \<^item> \<^verbatim>\<open>Memory_Model\<close>, \<^verbatim>\<open>Memory_Engine\<close>, \<^verbatim>\<open>Memory_Writes\<close>, \<^verbatim>\<open>Memory_Correct\<close>:
    \<^verbatim>\<open>memory/\<close>.
  \<^item> \<^verbatim>\<open>AI_Model\<close>, \<^verbatim>\<open>AI_Policy\<close>, \<^verbatim>\<open>AI_Router\<close>, \<^verbatim>\<open>AI_Correct\<close>: \<^verbatim>\<open>ai_router/\<close>
    (catalog, policy, service).
  \<^item> \<^verbatim>\<open>Orch_Model\<close>, \<^verbatim>\<open>Orch_Engine\<close>, \<^verbatim>\<open>Orch_Frames\<close>, \<^verbatim>\<open>Orch_Writes\<close>,
    \<^verbatim>\<open>Orch_Correct\<close>: \<^verbatim>\<open>orchestrator/\<close>, which calls all of the above.
  \<^bold>\<open>What the lemmas show.\<close>
  \<^item> Permissions: \<^verbatim>\<open>authorize\<close> refines a write-free specification, its ALLOW is characterized
    exactly, confirmations are spent once, revoked permissions are never used again, a financial capability
    with external effect is never allowed, every decision is audited and can be read back.
  \<^item> Identity: a resolved identity is live in all three tables and a revoked device never
    resolves again; the tables keep their keys.
  \<^item> Tasks: histories are paths of the transition table and versions count them, queued work holds
    a stored ALLOW, running tasks have one running attempt, terminal tasks never change, stale versions
    conflict, creation is idempotent.
  \<^item> Memory: deletion leaves no content in rows or revisions, users do not see or touch one
    another's rows, active rows have no duplicates, historical decisions never change, updates keep the
    previous version, the context pack is bounded.
  \<^item> AI Router: the cascade of filters picks the eligible model with the least key, critical data
    never reaches a provider that is not local, attempts are bounded and numbered, and an answer is reached
    when a provider of the tried prefix gives one.
  \<^item> Orchestrator: an invariant over all operations of all components gives that a workflow that
    is ready for execution has an envelope with a stored ALLOW for its own plan; blocked intents touch
    nothing; repeated requests return the same workflow.
  \<^bold>\<open>Bounds and termination.\<close> All definitions are total functions. Loops over rows are structural
  recursions; the loops of the code that are not structural (the work list of the metadata validation, the
  substitution of a regular expression) are functions with a termination proof, and the bounded ones
  (\<^verbatim>\<open>max_attempts\<close> of the router) recurse on the list of candidates. No definition uses
  fuel.

  \<^bold>\<open>Parameters.\<close> What is not under \<^verbatim>\<open>src/\<close> is an argument or a field of the world: the
  hash, case folding and Unicode normalization, the provider adapters' answers (one answer per call, by the
  number of the call), the JSON parser of pydantic, generated keys, the clock.

  \<^bold>\<open>Not modelled.\<close> HTTP routes and dependency injection (\<^verbatim>\<open>api.py\<close>,
  \<^verbatim>\<open>dependencies.py\<close>, \<^verbatim>\<open>main.py\<close>: glue over the services), verification of token
  signatures (\<^verbatim>\<open>auth/jwt.py\<close>: the jwt library), configuration, engine set-up and logging
  (no state of the program), network clients and process wiring of the AI providers, the offline
  evaluation and benchmark tools, the Alembic migrations (the constraints they install are modelled from
  the ORM declarations), the empty packages reserved for later phases, and the clients, scripts and
  deployment files in other languages. The text assistant, voice and research services are not
  modelled. Concurrent transactions are modelled at the granularity of
  operations: the guarded updates (\<^verbatim>\<open>WHERE version = ...\<close>) are matches on the stored row, and
  interleavings are sequences of operations of the step relations.
\<close>

end
